(* ===== verification/Prelude.thy ===== *)
theory Prelude
  imports Main "HOL-Library.Word" "HOL-Library.AList"
begin

unbundle bit_operations_syntax

text \<open>
  Shared ground of the development: the machine integer types of the Go sources, Go's wrapping
  64-bit signed arithmetic, the first-match operations on slices that the models package repeats
  for every list of records, the result type of operations that may fail, and the \<open>named_theorems\<close>
  collections the component theories feed.
\<close>

section \<open>Machine integers\<close>

type_synonym byte = "8 word"
type_synonym u8 = "8 word"
type_synonym u16 = "16 word"
type_synonym u32 = "32 word"
type_synonym u64 = "64 word"
type_synonym i32 = "32 word"

text \<open>A Go \<open>int\<close> or \<open>int64\<close> result reduced to its 64-bit two's complement value.\<close>

definition wrap64 :: "int \<Rightarrow> int" where
  "wrap64 n = sint (word_of_int n :: 64 word)"

lemma wrap64_id: "- (2 ^ 63) \<le> n \<Longrightarrow> n < 2 ^ 63 \<Longrightarrow> wrap64 n = n"
  by (simp add: wrap64_def sint_sbintrunc' signed_take_bit_int_eq_self)

text \<open>
  A point in time counts nanoseconds from Go's zero \<open>time.Time\<close> (year 1), so that \<open>IsZero\<close> is
  equality with 0 and \<open>Before\<close> is \<open><\<close>; the few seconds of the model are far from the ends of
  Go's range. A \<open>time.Duration\<close> is an int64 count of nanoseconds.
\<close>

type_synonym time = int

definition zero_time :: time where
  "zero_time = 0"

definition second :: int where
  "second = 1000000000"

text \<open>\<open>time.Sub\<close> saturates at the ends of \<open>Duration\<close>.\<close>

definition time_sub :: "time \<Rightarrow> time \<Rightarrow> int" where
  "time_sub a b = max (- (2 ^ 63)) (min (2 ^ 63 - 1) (a - b))"

section \<open>Collections of facts\<close>

named_theorems wire_simps \<open>evaluation of the wire encoders and decoders\<close>
named_theorems io_simps \<open>evaluation of fallible state-passing programs\<close>
named_theorems service_defs \<open>definitions of the service operations\<close>
named_theorems keyed \<open>facts on first-match list operations\<close>

section \<open>First-match operations on slices\<close>

text \<open>
  The loops \<open>for _, x := range xs { if x.Key == k { return x, true } }\<close>,
  \<open>xs = append(xs[:i:i], xs[i+1:]...)\<close> at the first match, and the in-place update at the
  first match, for a key function.
\<close>

fun lookup_by :: "('a \<Rightarrow> 'k) \<Rightarrow> 'k \<Rightarrow> 'a list \<Rightarrow> 'a option" where
  "lookup_by key k [] = None"
| "lookup_by key k (x # xs) = (if key x = k then Some x else lookup_by key k xs)"

fun remove_by :: "('a \<Rightarrow> 'k) \<Rightarrow> 'k \<Rightarrow> 'a list \<Rightarrow> 'a list" where
  "remove_by key k [] = []"
| "remove_by key k (x # xs) = (if key x = k then xs else x # remove_by key k xs)"

fun update_by :: "('a \<Rightarrow> 'k) \<Rightarrow> 'k \<Rightarrow> ('a \<Rightarrow> 'a) \<Rightarrow> 'a list \<Rightarrow> 'a list" where
  "update_by key k f [] = []"
| "update_by key k f (x # xs) = (if key x = k then f x # xs else x # update_by key k f xs)"

lemma lookup_by_None [keyed]: "lookup_by key k xs = None \<longleftrightarrow> k \<notin> key ` set xs"
  by (induction xs) auto

lemma lookup_by_SomeD: "lookup_by key k xs = Some x \<Longrightarrow> x \<in> set xs \<and> key x = k"
  by (induction xs) (auto split: if_splits)

lemma lookup_by_in [keyed]: "k \<in> key ` set xs \<Longrightarrow> \<exists>x. lookup_by key k xs = Some x"
  using lookup_by_None [of key k xs] by (cases "lookup_by key k xs") simp_all

lemma lookup_by_distinct:
  "distinct (map key xs) \<Longrightarrow> x \<in> set xs \<Longrightarrow> lookup_by key (key x) xs = Some x"
  by (induction xs) (auto simp: rev_image_eqI)

lemma lookup_by_append [keyed]:
  "lookup_by key k (xs @ ys) = (case lookup_by key k xs of None \<Rightarrow> lookup_by key k ys | Some x \<Rightarrow> Some x)"
  by (induction xs) auto

lemma remove_by_absent [keyed]: "k \<notin> key ` set xs \<Longrightarrow> remove_by key k xs = xs"
  by (induction xs) auto

lemma set_remove_by_subset: "set (remove_by key k xs) \<subseteq> set xs"
  by (induction xs) auto

lemma remove_by_distinct_map: "distinct (map f xs) \<Longrightarrow> distinct (map f (remove_by key k xs))"
proof (induction xs)
  case (Cons x xs)
  then show ?case using set_remove_by_subset [of key k xs] by (auto dest: subsetD)
qed simp

lemma set_remove_by_distinct [keyed]:
  "distinct (map key xs) \<Longrightarrow> set (remove_by key k xs) = {x \<in> set xs. key x \<noteq> k}"
  by (induction xs) (auto simp: image_iff)

lemma remove_by_filter:
  "distinct (map key xs) \<Longrightarrow> remove_by key k xs = filter (\<lambda>x. key x \<noteq> k) xs"
proof (induction xs)
  case (Cons x xs)
  then have "key x = k \<Longrightarrow> filter (\<lambda>x. key x \<noteq> k) xs = xs"
    by (intro filter_True) (auto simp: image_iff)
  with Cons show ?case by auto
qed simp

lemma length_remove_by:
  "length (remove_by key k xs) = (if k \<in> key ` set xs then length xs - 1 else length xs)"
proof (induction xs)
  case (Cons x xs)
  have "k \<in> key ` set xs \<Longrightarrow> xs \<noteq> []" by auto
  with Cons show ?case by (cases xs) auto
qed simp

lemma lookup_by_remove_other [keyed]:
  "k' \<noteq> k \<Longrightarrow> lookup_by key k' (remove_by key k xs) = lookup_by key k' xs"
  by (induction xs) auto

lemma lookup_by_remove_same [keyed]:
  "distinct (map key xs) \<Longrightarrow> lookup_by key k (remove_by key k xs) = None"
  by (auto simp: lookup_by_None set_remove_by_distinct)

lemma length_update_by [simp]: "length (update_by key k f xs) = length xs"
  by (induction xs) auto

lemma map_update_by [keyed]:
  "(\<And>x. g (f x) = g x) \<Longrightarrow> map g (update_by key k f xs) = map g xs"
  by (induction xs) auto

lemma update_by_absent [keyed]: "k \<notin> key ` set xs \<Longrightarrow> update_by key k f xs = xs"
  by (induction xs) auto

lemma lookup_by_update [keyed]:
  assumes "\<And>x. key (f x) = key x"
  shows "lookup_by key k' (update_by key k f xs) =
    (if k' = k then map_option f (lookup_by key k xs) else lookup_by key k' xs)"
  by (induction xs) (auto simp: assms)

lemma update_by_distinct [keyed]:
  "distinct (map key xs) \<Longrightarrow> update_by key k f xs = map (\<lambda>x. if key x = k then f x else x) xs"
proof (induction xs)
  case (Cons x xs)
  then have "key x = k \<Longrightarrow> map (\<lambda>x. if key x = k then f x else x) xs = xs"
    by (intro map_idI) (auto simp: image_iff)
  with Cons show ?case by auto
qed simp

text \<open>Number of entries with a key; first-match removal takes exactly one away.\<close>

definition count_by :: "('a \<Rightarrow> 'k) \<Rightarrow> 'k \<Rightarrow> 'a list \<Rightarrow> nat" where
  "count_by key k xs = length (filter (\<lambda>x. key x = k) xs)"

lemma count_by_simps [simp]:
  "count_by key k [] = 0"
  "count_by key k (x # xs) = (if key x = k then 1 else 0) + count_by key k xs"
  "count_by key k (xs @ ys) = count_by key k xs + count_by key k ys"
  by (simp_all add: count_by_def)

lemma count_by_zero [keyed]: "count_by key k xs = 0 \<longleftrightarrow> k \<notin> key ` set xs"
  by (induction xs) auto

lemma count_by_remove_same:
  "count_by key k (remove_by key k xs) = count_by key k xs - 1"
  by (induction xs) auto

lemma count_by_remove_by:
  "lookup_by key k xs = Some x \<Longrightarrow>
    count_by g j xs = count_by g j (remove_by key k xs) + (if g x = j then 1 else 0)"
  by (induction xs) (auto split: if_splits)

text \<open>The largest key of a list, 0 for the empty list: \<open>if x.ID > highest { highest = x.ID }\<close>.\<close>

definition highest_by :: "('a \<Rightarrow> 'l::len word) \<Rightarrow> 'l word \<Rightarrow> 'a list \<Rightarrow> 'l word" where
  "highest_by key h xs = foldl (\<lambda>h x. if key x > h then key x else h) h xs"

lemma highest_by_ge: "h \<le> highest_by key h xs \<and> (\<forall>x \<in> set xs. key x \<le> highest_by key h xs)"
proof (induction xs arbitrary: h)
  case (Cons x xs)
  let ?h = "if key x > h then key x else h"
  have eq: "highest_by key h (x # xs) = highest_by key ?h xs" by (simp add: highest_by_def)
  have "h \<le> ?h" "key x \<le> ?h" by auto
  moreover have "?h \<le> highest_by key ?h xs" "\<forall>y \<in> set xs. key y \<le> highest_by key ?h xs"
    using Cons [of ?h] by simp_all
  ultimately have "h \<le> highest_by key ?h xs" "\<forall>y \<in> set (x # xs). key y \<le> highest_by key ?h xs"
    by (auto intro: order.trans)
  then show ?case unfolding eq by blast
qed (simp add: highest_by_def)

lemma highest_by_le: "(\<And>x. x \<in> set xs \<Longrightarrow> key x \<le> b) \<Longrightarrow> h \<le> b \<Longrightarrow> highest_by key h xs \<le> b"
proof (induction xs arbitrary: h)
  case (Cons x xs)
  have "highest_by key h (x # xs) = highest_by key (if key x > h then key x else h) xs"
    by (simp add: highest_by_def)
  moreover have "(if key x > h then key x else h) \<le> b" using Cons.prems by auto
  ultimately show ?case using Cons.IH Cons.prems by simp
qed (simp add: highest_by_def)

lemma word_succ_fresh:
  fixes h k :: "'l::len word"
  assumes "k \<le> h" and "h \<noteq> - 1"
  shows "h + 1 \<noteq> k"
proof -
  have "uint h \<noteq> uint (- 1 :: 'l word)"
    using assms(2) by (metis word_uint_eq_iff)
  then have "uint h \<noteq> 2 ^ LENGTH('l) - 1"
    by (simp add: unsigned_minus_1_eq_mask mask_eq_exp_minus_1)
  moreover have "uint h < 2 ^ LENGTH('l)" by simp
  ultimately have "uint h + 1 < 2 ^ LENGTH('l)" by linarith
  then have "uint (h + 1) = uint h + 1"
    by (simp add: uint_word_ariths)
  with assms(1) show ?thesis by (auto simp: word_le_def)
qed

text \<open>
  An id allocator that hands out one more than the largest id in use: the interface the clan,
  friend and room code shares (\<open>nextApplicantID\<close>, \<open>NextSocialID\<close>, \<open>AddUser\<close>). Its promise is
  freshness as long as the largest id has not reached the end of its width.
\<close>

locale id_allocator =
  fixes ids :: "'s \<Rightarrow> 'l::len word set"
    and top_id :: "'s \<Rightarrow> 'l word"
    and next_id :: "'s \<Rightarrow> 'l word"
  assumes top_bound: "i \<in> ids s \<Longrightarrow> i \<le> top_id s"
    and next_eq: "next_id s = top_id s + 1"
begin

lemma next_fresh: "top_id s \<noteq> - 1 \<Longrightarrow> next_id s \<notin> ids s"
  using top_bound next_eq word_succ_fresh by metis

lemma next_nonzero: "top_id s \<noteq> - 1 \<Longrightarrow> next_id s \<noteq> 0"
  unfolding next_eq by (metis add.commute eq_neg_iff_add_eq_0)

end

section \<open>Accesses that are checked against the bounds\<close>

text \<open>
  \<open>xs[i]\<close>, \<open>xs[i] = v\<close> and \<open>xs[lo:hi]\<close> panic in Go when the index is out of range; here that is \<open>None\<close>.
  (A slice expression may reach up to the capacity in Go; reaching beyond the length counts as a panic here.)
\<close>

definition at_index :: "'a list \<Rightarrow> nat \<Rightarrow> 'a option" where
  "at_index xs i = (if i < length xs then Some (xs ! i) else None)"

definition set_index :: "'a list \<Rightarrow> nat \<Rightarrow> 'a \<Rightarrow> 'a list option" where
  "set_index xs i v = (if i < length xs then Some (xs[i := v]) else None)"

definition slice_of :: "'a list \<Rightarrow> nat \<Rightarrow> nat \<Rightarrow> 'a list option" where
  "slice_of xs lo hi = (if lo \<le> hi \<and> hi \<le> length xs then Some (take (hi - lo) (drop lo xs)) else None)"

named_theorems in_bounds \<open>accesses that are within the bounds\<close>

lemma index_in_bounds [in_bounds]:
  "i < length xs \<Longrightarrow> at_index xs i = Some (xs ! i)"
  "i < length xs \<Longrightarrow> set_index xs i v = Some (xs[i := v])"
  "lo \<le> hi \<Longrightarrow> hi \<le> length xs \<Longrightarrow> slice_of xs lo hi = Some (take (hi - lo) (drop lo xs))"
  by (simp_all add: at_index_def set_index_def slice_of_def)

lemma those_in_bounds: "(\<And>x. x \<in> set xs \<Longrightarrow> f x = Some (g x)) \<Longrightarrow> those (map f xs) = Some (map g xs)"
  by (induction xs) simp_all

text \<open>A loop whose body may panic.\<close>

fun try_fold :: "('a \<Rightarrow> 'b \<Rightarrow> 'b option) \<Rightarrow> 'a list \<Rightarrow> 'b \<Rightarrow> 'b option" where
  "try_fold f [] b = Some b"
| "try_fold f (x # xs) b = (case f x b of None \<Rightarrow> None | Some b' \<Rightarrow> try_fold f xs b')"

lemma try_fold_fold: "(\<And>x b. x \<in> set xs \<Longrightarrow> P b \<Longrightarrow> f x b = Some (g x b) \<and> P (g x b)) \<Longrightarrow> P b \<Longrightarrow>
    try_fold f xs b = Some (fold g xs b) \<and> P (fold g xs b)"
  by (induction xs arbitrary: b) auto

section \<open>Programs that may fail\<close>

text \<open>
  A Go function \<open>f(...) (T, error)\<close> over a mutable world is a state transformer whose result is a
  sum: \<open>Inl e\<close> for a non-nil error (the world keeps what was written before it) and \<open>Inr v\<close>
  otherwise. \<open>io_bind\<close> is \<open>v, err := m; if err != nil { return err }\<close>.
\<close>

type_synonym ('e, 'w, 'a) io = "'w \<Rightarrow> ('e + 'a) \<times> 'w"

definition io_ret :: "'a \<Rightarrow> ('e, 'w, 'a) io" where
  "io_ret a w = (Inr a, w)"

definition io_fail :: "'e \<Rightarrow> ('e, 'w, 'a) io" where
  "io_fail e w = (Inl e, w)"

definition io_bind :: "('e, 'w, 'a) io \<Rightarrow> ('a \<Rightarrow> ('e, 'w, 'b) io) \<Rightarrow> ('e, 'w, 'b) io" where
  "io_bind m k w = (case m w of (Inl e, w') \<Rightarrow> (Inl e, w') | (Inr a, w') \<Rightarrow> k a w')"

lemmas io_eval [io_simps] = io_ret_def io_fail_def io_bind_def

lemma io_bind_assoc: "io_bind (io_bind m k) l = io_bind m (\<lambda>a. io_bind (k a) l)"
  by (rule ext) (simp add: io_bind_def split: prod.splits sum.splits)

lemma io_bind_Inr_E:
  assumes "io_bind m k w = (Inr b, w'')"
  obtains a w' where "m w = (Inr a, w')" and "k a w' = (Inr b, w'')"
  using assms by (auto simp: io_bind_def split: prod.splits sum.splits)

text \<open>A loop whose body may fail stops at the first error.\<close>

fun io_each :: "('a \<Rightarrow> ('e, 'w, unit) io) \<Rightarrow> 'a list \<Rightarrow> ('e, 'w, unit) io" where
  "io_each f [] = io_ret ()"
| "io_each f (x # xs) = io_bind (f x) (\<lambda>_. io_each f xs)"

text \<open>Sequencing, reading and writing the world.\<close>

definition io_seq :: "('e, 'w, 'a) io \<Rightarrow> ('e, 'w, 'b) io \<Rightarrow> ('e, 'w, 'b) io" where
  "io_seq m n = io_bind m (\<lambda>_. n)"

definition io_get :: "('w \<Rightarrow> 'a) \<Rightarrow> ('e, 'w, 'a) io" where
  "io_get f w = (Inr (f w), w)"

definition io_set :: "('w \<Rightarrow> 'w) \<Rightarrow> ('e, 'w, unit) io" where
  "io_set f w = (Inr (), f w)"

lemmas io_eval_more [io_simps] = io_seq_def io_get_def io_set_def

text \<open>A property of the world that a program keeps, whatever its result.\<close>

definition keeps :: "('w \<Rightarrow> bool) \<Rightarrow> ('e, 'w, 'a) io \<Rightarrow> bool" where
  "keeps P m \<longleftrightarrow> (\<forall>w. P w \<longrightarrow> P (snd (m w)))"

named_theorems keeps_intros \<open>programs that keep a property of the world\<close>

lemma keeps_basic [keeps_intros]: "keeps P (io_ret a)" "keeps P (io_fail e)"
  by (simp_all add: keeps_def io_eval)

lemma keeps_bind [keeps_intros]: "keeps P m \<Longrightarrow> (\<And>a. keeps P (k a)) \<Longrightarrow> keeps P (io_bind m k)"
  by (auto simp: keeps_def io_eval split: prod.splits sum.splits)

lemma keeps_each [keeps_intros]: "(\<And>x. keeps P (f x)) \<Longrightarrow> keeps P (io_each f xs)"
  by (induction xs) (auto intro: keeps_intros)

lemma keeps_seq [keeps_intros]: "keeps P m \<Longrightarrow> keeps P n \<Longrightarrow> keeps P (io_seq m n)"
  by (simp add: io_seq_def keeps_bind)

lemma keeps_get [keeps_intros]: "keeps P (io_get f)"
  by (simp add: keeps_def io_get_def)

lemma keeps_set: "(\<And>w. P w \<Longrightarrow> P (f w)) \<Longrightarrow> keeps P (io_set f)"
  by (simp add: keeps_def io_set_def)

lemma keepsD: "keeps P m \<Longrightarrow> P w \<Longrightarrow> m w = (r, w') \<Longrightarrow> P w'"
  by (auto simp: keeps_def)

end
