(* ===== verification/Go_Text.thy ===== *)
theory Go_Text
  imports Prelude
begin

text \<open>
  Go strings are byte sequences. This theory gives the part of Go's text library the server
  relies on: the conversion \<open>[]rune(s)\<close> (UTF-8 decoding, every invalid byte read as U+FFFD),
  \<open>string(runes)\<close> (UTF-8 encoding), \<open>utf16.Encode\<close> and \<open>utf16.Decode\<close>, with the fact that the
  16-bit form carries every decoded rune, and \<open>strings.TrimSpace\<close>.
\<close>

section \<open>Runes and UTF-8\<close>

definition is_scalar :: "nat \<Rightarrow> bool" where
  "is_scalar r \<longleftrightarrow> r < 0xD800 \<or> (0xE000 \<le> r \<and> r < 0x110000)"

definition rune_error :: nat where
  "rune_error = 0xFFFD"

definition is_cont :: "nat \<Rightarrow> bool" where
  "is_cont b \<longleftrightarrow> 0x80 \<le> b \<and> b \<le> 0xBF"

text \<open>
  \<open>utf8.DecodeRune\<close> on a non-empty byte list: the rune and its width. The accepted second bytes
  exclude overlong forms, surrogates and values beyond U+10FFFF.
\<close>

definition decode2 :: "nat \<Rightarrow> nat list \<Rightarrow> nat \<times> nat" where
  "decode2 a bs = (case bs of b # _ \<Rightarrow> if is_cont b then ((a - 0xC0) * 64 + (b - 0x80), 2) else (rune_error, 1)
     | [] \<Rightarrow> (rune_error, 1))"

definition second3 :: "nat \<Rightarrow> nat \<Rightarrow> bool" where
  "second3 a b \<longleftrightarrow> (if a = 0xE0 then 0xA0 else 0x80) \<le> b \<and> b \<le> (if a = 0xED then 0x9F else 0xBF)"

definition second4 :: "nat \<Rightarrow> nat \<Rightarrow> bool" where
  "second4 a b \<longleftrightarrow> (if a = 0xF0 then 0x90 else 0x80) \<le> b \<and> b \<le> (if a = 0xF4 then 0x8F else 0xBF)"

definition decode3 :: "nat \<Rightarrow> nat list \<Rightarrow> nat \<times> nat" where
  "decode3 a bs = (case bs of b # c # _ \<Rightarrow>
       if second3 a b \<and> is_cont c
       then ((a - 0xE0) * 4096 + (b - 0x80) * 64 + (c - 0x80), 3) else (rune_error, 1)
     | _ \<Rightarrow> (rune_error, 1))"

definition decode4 :: "nat \<Rightarrow> nat list \<Rightarrow> nat \<times> nat" where
  "decode4 a bs = (case bs of b # c # d # _ \<Rightarrow>
       if second4 a b \<and> is_cont c \<and> is_cont d
       then ((a - 0xF0) * 262144 + (b - 0x80) * 4096 + (c - 0x80) * 64 + (d - 0x80), 4) else (rune_error, 1)
     | _ \<Rightarrow> (rune_error, 1))"

definition decode_rune :: "nat \<Rightarrow> nat list \<Rightarrow> nat \<times> nat" where
  "decode_rune a bs =
     (if a < 0x80 then (a, 1)
      else if 0xC2 \<le> a \<and> a \<le> 0xDF then decode2 a bs
      else if 0xE0 \<le> a \<and> a \<le> 0xEF then decode3 a bs
      else if 0xF0 \<le> a \<and> a \<le> 0xF4 then decode4 a bs
      else (rune_error, 1))"

function runes :: "nat list \<Rightarrow> nat list" where
  "runes [] = []"
| "runes (a # bs) = fst (decode_rune a bs) # runes (drop (snd (decode_rune a bs) - 1) bs)"
  by pat_completeness auto
termination by (relation "measure length") auto

definition encode_rune :: "nat \<Rightarrow> nat list" where
  "encode_rune r =
     (let r = (if is_scalar r then r else rune_error) in
      if r < 0x80 then [r]
      else if r < 0x800 then [0xC0 + r div 64, 0x80 + r mod 64]
      else if r < 0x10000 then [0xE0 + r div 4096, 0x80 + (r div 64) mod 64, 0x80 + r mod 64]
      else [0xF0 + r div 262144, 0x80 + (r div 4096) mod 64, 0x80 + (r div 64) mod 64, 0x80 + r mod 64])"

definition runes_of_string :: "string \<Rightarrow> nat list" where
  "runes_of_string s = runes (map of_char s)"

definition string_of_runes :: "nat list \<Rightarrow> string" where
  "string_of_runes rs = map char_of (concat (map encode_rune rs))"

lemma rune_error_scalar [simp]: "is_scalar rune_error"
  by (simp add: is_scalar_def rune_error_def)

lemma decode2_scalar: "0xC2 \<le> a \<Longrightarrow> a \<le> 0xDF \<Longrightarrow> is_scalar (fst (decode2 a bs))"
  by (auto simp: decode2_def is_scalar_def is_cont_def rune_error_def split: list.splits)

lemma decode3_scalar:
  assumes "0xE0 \<le> a" and "a \<le> 0xEF"
  shows "is_scalar (fst (decode3 a bs))"
proof -
  have main: "is_scalar ((a - 0xE0) * 4096 + (b - 0x80) * 64 + (c - 0x80))"
    if h: "second3 a b" "is_cont c" for b c
  proof -
    obtain x where x: "a = 0xE0 + x" using assms(1) le_Suc_ex by blast
    have "0x80 \<le> b" "0x80 \<le> c" using h by (auto simp: second3_def is_cont_def split: if_splits)
    then obtain y z where y: "b = 0x80 + y" and z: "c = 0x80 + z" using le_Suc_ex by blast
    have "x \<le> 15" "z \<le> 63" "y \<le> 63" "x = 13 \<Longrightarrow> y \<le> 31"
      using assms(2) h unfolding x y z second3_def is_cont_def by (auto split: if_splits)
    then have "x * 4096 + y * 64 + z < 0xD800 \<or> (0xE000 \<le> x * 4096 + y * 64 + z \<and> x * 4096 + y * 64 + z < 0x110000)"
      by (cases "x \<le> 12"; cases "x = 13") linarith+
    then show ?thesis unfolding x y z is_scalar_def by simp
  qed
  show ?thesis
    by (auto simp: decode3_def main split: list.split)
qed

lemma decode4_scalar:
  assumes "0xF0 \<le> a" and "a \<le> 0xF4"
  shows "is_scalar (fst (decode4 a bs))"
proof -
  have main: "is_scalar ((a - 0xF0) * 262144 + (b - 0x80) * 4096 + (c - 0x80) * 64 + (d - 0x80))"
    if h: "second4 a b" "is_cont c" "is_cont d" for b c d
  proof -
    obtain w where w: "a = 0xF0 + w" using assms(1) le_Suc_ex by blast
    have "0x80 \<le> b" "0x80 \<le> c" "0x80 \<le> d"
      using h by (auto simp: second4_def is_cont_def split: if_splits)
    then have x: "b = 0x80 + (b - 0x80)" and y: "c = 0x80 + (c - 0x80)" and z: "d = 0x80 + (d - 0x80)"
      by simp_all
    obtain x where x: "b = 0x80 + x" using x by blast
    obtain y where y: "c = 0x80 + y" using y by blast
    obtain z where z: "d = 0x80 + z" using z by blast
    have w4: "w \<le> 4" using assms(2) w by simp
    have yz: "y \<le> 63" "z \<le> 63" using h(2,3) by (simp_all add: y z is_cont_def)
    have "(if w = 0 then 16 else 0) \<le> x" "x \<le> (if w = 4 then 15 else 63)"
      using h(1) by (simp_all add: second4_def w x split: if_splits)
    then have xs: "x \<le> 63" "w = 4 \<Longrightarrow> x \<le> 15" "w = 0 \<Longrightarrow> 16 \<le> x" by (simp_all split: if_splits)
    then have "0xE000 \<le> w * 262144 + x * 4096 + y * 64 + z \<and> w * 262144 + x * 4096 + y * 64 + z < 0x110000"
      using w4 yz by (cases "w = 0"; cases "w = 4") linarith+
    then show ?thesis unfolding w x y z is_scalar_def by simp
  qed
  show ?thesis
    by (auto simp: decode4_def main split: list.split)
qed

lemma decode_rune_scalar: "is_scalar (fst (decode_rune a bs))"
  by (auto simp: decode_rune_def decode2_scalar decode3_scalar decode4_scalar)
     (simp add: is_scalar_def)

lemma runes_scalar: "r \<in> set (runes bs) \<Longrightarrow> is_scalar r"
  by (induction bs rule: runes.induct) (auto simp: decode_rune_scalar)

lemma decode_encode_rune:
  assumes "is_scalar r" and "encode_rune r = a # bs"
  shows "decode_rune a (bs @ rest) = (r, length (a # bs))"
proof -
  consider "r < 0x80" | "0x80 \<le> r" "r < 0x800" | "0x800 \<le> r" "r < 0x10000" | "0x10000 \<le> r" by linarith
  then show ?thesis
  proof cases
    case 1
    with assms show ?thesis by (auto simp: encode_rune_def decode_rune_def Let_def)
  next
    case 2
    with assms show ?thesis
      by (auto simp: encode_rune_def decode_rune_def decode2_def is_cont_def Let_def)
  next
    case 3
    define x y z where "x = r div 4096" and "y = (r div 64) mod 64" and "z = r mod 64"
    have b: "y < 64" "z < 64" unfolding y_def z_def by simp_all
    have "r div 4096 = r div 64 div 64" by (simp add: div_mult2_eq [symmetric])
    then have "r = (r div 64) * 64 + z" "r div 64 = x * 64 + y"
      unfolding x_def y_def z_def by simp_all
    then have r: "r = x * 4096 + y * 64 + z" by linarith
    have ab: "a = 0xE0 + x" "bs = [0x80 + y, 0x80 + z]"
      using assms 3 by (auto simp: encode_rune_def Let_def x_def y_def z_def)
    have "x = 0 \<Longrightarrow> 0x20 \<le> y" "x = 13 \<Longrightarrow> y < 0x20" "x < 16"
      using 3 assms(1) b unfolding r is_scalar_def by linarith+
    then show ?thesis
      using b unfolding ab by (auto simp: decode_rune_def decode3_def second3_def is_cont_def r)
  next
    case 4
    define w x y z where "w = r div 262144" and "x = (r div 4096) mod 64" and "y = (r div 64) mod 64" and "z = r mod 64"
    have b: "x < 64" "y < 64" "z < 64" unfolding x_def y_def z_def by simp_all
    have "r div 4096 = r div 64 div 64" "r div 262144 = r div 4096 div 64"
      by (simp_all add: div_mult2_eq [symmetric])
    then have "r = (r div 64) * 64 + z" "r div 64 = (r div 4096) * 64 + y" "r div 4096 = w * 64 + x"
      unfolding w_def x_def y_def z_def by simp_all
    then have r: "r = w * 262144 + x * 4096 + y * 64 + z" by linarith
    have ab: "a = 0xF0 + w" "bs = [0x80 + x, 0x80 + y, 0x80 + z]"
      using assms 4 by (auto simp: encode_rune_def Let_def w_def x_def y_def z_def)
    have "w = 0 \<Longrightarrow> 0x10 \<le> x" "w = 4 \<Longrightarrow> x < 0x10" "w \<le> 4"
      using 4 assms(1) b unfolding r is_scalar_def by linarith+
    then show ?thesis
      using b unfolding ab by (auto simp: decode_rune_def decode4_def second4_def is_cont_def r)
  qed
qed

lemma encode_rune_nonempty: "encode_rune r \<noteq> []"
  by (simp add: encode_rune_def Let_def)

lemma encode_rune_bytes: "b \<in> set (encode_rune r) \<Longrightarrow> b < 256"
  by (auto simp: encode_rune_def Let_def is_scalar_def rune_error_def split: if_splits)

lemma runes_encode:
  assumes "\<And>r. r \<in> set rs \<Longrightarrow> is_scalar r"
  shows "runes (concat (map encode_rune rs)) = rs"
  using assms
proof (induction rs)
  case (Cons r rs)
  obtain a bs where e: "encode_rune r = a # bs" using encode_rune_nonempty by (meson neq_Nil_conv)
  have "decode_rune a (bs @ concat (map encode_rune rs)) = (r, length (a # bs))"
    using Cons.prems e by (intro decode_encode_rune) auto
  with Cons e show ?case by simp
qed simp

text \<open>\<open>[]rune(string(rs)) = rs\<close> for scalar values, and \<open>string([]rune(s))\<close> is idempotent.\<close>

lemma runes_of_string_of_runes:
  assumes "\<And>r. r \<in> set rs \<Longrightarrow> is_scalar r"
  shows "runes_of_string (string_of_runes rs) = rs"
proof -
  have "map of_char (string_of_runes rs) = concat (map encode_rune rs)"
    unfolding string_of_runes_def map_map
    by (rule map_idI) (auto simp: comp_def dest!: encode_rune_bytes)
  then show ?thesis by (simp add: runes_of_string_def runes_encode assms)
qed

text \<open>A string is valid UTF-8 when re-encoding its runes gives it back (\<open>utf8.ValidString\<close>).\<close>

definition valid_utf8 :: "string \<Rightarrow> bool" where
  "valid_utf8 s \<longleftrightarrow> string_of_runes (runes_of_string s) = s"

lemma valid_utf8_string_of_runes:
  "(\<And>r. r \<in> set rs \<Longrightarrow> is_scalar r) \<Longrightarrow> valid_utf8 (string_of_runes rs)"
  by (simp add: valid_utf8_def runes_of_string_of_runes)

lemma runes_of_string_scalar: "r \<in> set (runes_of_string s) \<Longrightarrow> is_scalar r"
  by (auto simp: runes_of_string_def runes_scalar)

section \<open>UTF-16\<close>

definition utf16_units :: "nat \<Rightarrow> u16 list" where
  "utf16_units r =
     (if r < 0xD800 \<or> (0xE000 \<le> r \<and> r < 0x10000) then [word_of_nat r]
      else if 0x10000 \<le> r \<and> r < 0x110000 then
        [word_of_nat (0xD800 + (r - 0x10000) div 1024), word_of_nat (0xDC00 + (r - 0x10000) mod 1024)]
      else [word_of_nat rune_error])"

definition utf16_encode :: "nat list \<Rightarrow> u16 list" where
  "utf16_encode rs = concat (map utf16_units rs)"

fun utf16_decode :: "u16 list \<Rightarrow> nat list" where
  "utf16_decode [] = []"
| "utf16_decode (u # us) =
     (let a = unat u in
      if a < 0xD800 \<or> 0xE000 \<le> a then a # utf16_decode us
      else case us of
        [] \<Rightarrow> [rune_error]
      | v # vs \<Rightarrow>
          if a < 0xDC00 \<and> 0xDC00 \<le> unat v \<and> unat v < 0xE000
          then ((a - 0xD800) * 1024 + (unat v - 0xDC00) + 0x10000) # utf16_decode vs
          else rune_error # utf16_decode us)"

lemma utf16_decode_units:
  assumes "is_scalar r"
  shows "utf16_decode (utf16_units r @ us) = r # utf16_decode us"
proof -
  consider "r < 0xD800 \<or> (0xE000 \<le> r \<and> r < 0x10000)" | "0x10000 \<le> r" "r < 0x110000"
    using assms unfolding is_scalar_def by linarith
  then show ?thesis
  proof cases
    case 1
    then have "unat (word_of_nat r :: u16) = r" by (auto simp: unat_of_nat)
    with 1 show ?thesis by (auto simp: utf16_units_def)
  next
    case 2
    define x y where "x = (r - 0x10000) div 1024" and "y = (r - 0x10000) mod 1024"
    have "x * 1024 + y = r - 0x10000" unfolding x_def y_def by simp
    with 2 have xy: "x < 1024" "y < 1024" "r = x * 1024 + y + 0x10000"
      unfolding y_def by linarith+
    then have "unat (word_of_nat (0xD800 + x) :: u16) = 0xD800 + x"
      and "unat (word_of_nat (0xDC00 + y) :: u16) = 0xDC00 + y"
      by (simp_all only: unat_of_nat) auto
    with 2 xy show ?thesis by (simp add: utf16_units_def x_def [symmetric] y_def [symmetric] del: of_nat_add)
  qed
qed

lemma utf16_roundtrip:
  assumes "\<And>r. r \<in> set rs \<Longrightarrow> is_scalar r"
  shows "utf16_decode (utf16_encode rs) = rs"
  using assms by (induction rs) (simp_all add: utf16_encode_def utf16_decode_units)

section \<open>Splitting\<close>

text \<open>\<open>strings.Split\<close> at one character.\<close>

fun split_on :: "char \<Rightarrow> string \<Rightarrow> string list" where
  "split_on sep [] = [[]]"
| "split_on sep (c # cs) =
     (if c = sep then [] # split_on sep cs
      else (case split_on sep cs of [] \<Rightarrow> [[c]] | p # ps \<Rightarrow> (c # p) # ps))"

section \<open>Trimming white space\<close>

text \<open>\<open>unicode.IsSpace\<close>.\<close>

definition is_space_rune :: "nat \<Rightarrow> bool" where
  "is_space_rune r \<longleftrightarrow> (9 \<le> r \<and> r \<le> 13) \<or> r = 0x20 \<or> r = 0x85 \<or> r = 0xA0 \<or> r = 0x1680
     \<or> (0x2000 \<le> r \<and> r \<le> 0x200A) \<or> r = 0x2028 \<or> r = 0x2029 \<or> r = 0x202F \<or> r = 0x205F \<or> r = 0x3000"

text \<open>
  The string cut into the byte groups the decoder reads one rune from. \<open>strings.TrimSpace\<close> drops
  the groups at both ends that are white space and keeps the bytes in between as they are.
\<close>

function rune_chunks :: "string \<Rightarrow> (nat \<times> string) list" where
  "rune_chunks [] = []"
| "rune_chunks (c # cs) =
     (let (r, w) = decode_rune (of_char c) (map of_char cs)
      in (r, take w (c # cs)) # rune_chunks (drop (w - 1) cs))"
  by pat_completeness auto
termination by (relation "measure length") auto

definition trim_space :: "string \<Rightarrow> string" where
  "trim_space s =
     concat (map snd (rev (dropWhile (is_space_rune \<circ> fst) (rev (dropWhile (is_space_rune \<circ> fst) (rune_chunks s))))))"

text \<open>ASCII strings without white space at the ends are left as they are, which is also the quick way to compute it.\<close>

fun plain_char :: "char \<Rightarrow> bool" where
  "plain_char (Char b0 b1 b2 b3 b4 b5 b6 b7) \<longleftrightarrow> \<not> b7"

lemma plain_char_iff: "plain_char c \<longleftrightarrow> of_char c < (0x80 :: nat)"
proof (cases c)
  case (Char b0 b1 b2 b3 b4 b5 b6 b7)
  show ?thesis unfolding Char by (cases b0; cases b1; cases b2; cases b3; cases b4; cases b5; cases b6; cases b7) (simp_all add: of_char_def)
qed

definition ascii_spaces :: string where
  "ascii_spaces = [CHR 0x09, CHR 0x0A, CHR 0x0B, CHR 0x0C, CHR 0x0D, CHR 0x20]"

lemma rune_chunks_plain: "list_all plain_char s \<Longrightarrow> rune_chunks s = map (\<lambda>c. (of_char c, [c])) s"
proof (induction s)
  case (Cons c s)
  then have "of_char c < (0x80 :: nat)" by (simp add: plain_char_iff)
  then have "decode_rune (of_char c) (map of_char s) = (of_char c, 1)" by (simp add: decode_rune_def)
  with Cons show ?case by simp
qed simp

lemma space_char: "plain_char c \<Longrightarrow> c \<notin> set ascii_spaces \<Longrightarrow> \<not> is_space_rune (of_char c)"
proof (cases c)
  case (Char b0 b1 b2 b3 b4 b5 b6 b7)
  show "plain_char c \<Longrightarrow> c \<notin> set ascii_spaces \<Longrightarrow> ?thesis" unfolding Char
    by (cases b0; cases b1; cases b2; cases b3; cases b4; cases b5; cases b6; cases b7)
       (simp_all add: of_char_def is_space_rune_def ascii_spaces_def)
qed

lemma trim_space_plain:
  assumes "list_all plain_char s" and "s \<noteq> []" and "hd s \<notin> set ascii_spaces" and "last s \<notin> set ascii_spaces"
  shows "trim_space s = s"
proof -
  have ends: "plain_char (hd s)" "plain_char (last s)" using assms(1,2) by (simp_all add: list_all_iff)
  obtain c t where s: "s = c # t" using assms(2) by (cases s) auto
  obtain d u where r: "rev s = d # u" using assms(2) by (cases "rev s") auto
  have d: "d = last s" using r by (metis hd_rev list.sel(1))
  have chunks: "rune_chunks s = map (\<lambda>c. (of_char c, [c])) s" by (rule rune_chunks_plain [OF assms(1)])
  have "dropWhile (is_space_rune \<circ> fst) (rune_chunks s) = rune_chunks s"
    using space_char [OF ends(1) assms(3)] unfolding chunks by (simp add: s)
  moreover have "dropWhile (is_space_rune \<circ> fst) (rev (rune_chunks s)) = rev (rune_chunks s)"
    using space_char [OF ends(2) assms(4)] unfolding chunks by (simp add: rev_map r d)
  moreover have "concat (map snd (rune_chunks s)) = s" unfolding chunks by (induction s) simp_all
  ultimately show ?thesis by (simp add: trim_space_def)
qed

lemma trim_space_code [code]:
  "trim_space s =
     (if list_all plain_char s \<and> s \<noteq> [] \<and> hd s \<notin> set ascii_spaces \<and> last s \<notin> set ascii_spaces then s
      else concat (map snd (rev (dropWhile (is_space_rune \<circ> fst) (rev (dropWhile (is_space_rune \<circ> fst) (rune_chunks s)))))))"
  using trim_space_plain by (simp add: trim_space_def)

end
