(* ===== verification/Wire.thy ===== *)
theory Wire
  imports Go_Text
begin

text \<open>
  The primitive wire codecs of the ProudNet protocol: little-endian integers (payloads.go), the
  signed varint (varint.go), UTF-16 strings (string.go) and length-prefixed byte arrays
  (handshake.go). Decoders take the whole buffer and an offset, as the code does, and fail with a
  value of \<open>wire_error\<close>.
\<close>

datatype wire_error =
    ErrIncomplete
  | VarIntTooLong
  | InvalidStringLength
  | InvalidArrayLength int

section \<open>Little-endian integers (payloads.go)\<close>

definition appendUint16 :: "byte list \<Rightarrow> u16 \<Rightarrow> byte list" where
  "appendUint16 dst v = dst @ [ucast v, ucast (drop_bit 8 v)]"

definition appendUint32 :: "byte list \<Rightarrow> u32 \<Rightarrow> byte list" where
  "appendUint32 dst v = dst @ [ucast v, ucast (drop_bit 8 v), ucast (drop_bit 16 v), ucast (drop_bit 24 v)]"

definition appendUint64 :: "byte list \<Rightarrow> u64 \<Rightarrow> byte list" where
  "appendUint64 dst v = dst @
     [ucast v, ucast (drop_bit 8 v), ucast (drop_bit 16 v), ucast (drop_bit 24 v),
      ucast (drop_bit 32 v), ucast (drop_bit 40 v), ucast (drop_bit 48 v), ucast (drop_bit 56 v)]"

definition uint64LE :: "u64 \<Rightarrow> byte list" where
  "uint64LE v = appendUint64 [] v"

definition int32LE :: "i32 \<Rightarrow> byte list" where
  "int32LE v = appendUint32 [] v"

text \<open>\<open>binary.LittleEndian.Uint16\<close> and \<open>Uint32\<close> on a slice that is long enough.\<close>

definition le16 :: "byte \<Rightarrow> byte \<Rightarrow> u16" where
  "le16 a b = ucast a OR push_bit 8 (ucast b)"

definition le32 :: "byte \<Rightarrow> byte \<Rightarrow> byte \<Rightarrow> byte \<Rightarrow> u32" where
  "le32 a b c d = ucast a OR push_bit 8 (ucast b) OR push_bit 16 (ucast c) OR push_bit 24 (ucast d)"

definition get16 :: "byte list \<Rightarrow> nat \<Rightarrow> u16" where
  "get16 buf i = le16 (buf ! i) (buf ! (i + 1))"

definition get32 :: "byte list \<Rightarrow> nat \<Rightarrow> u32" where
  "get32 buf i = le32 (buf ! i) (buf ! (i + 1)) (buf ! (i + 2)) (buf ! (i + 3))"

text \<open>The same reads checked against the bounds, as in \<open>binary.LittleEndian.Uint16(buf[i:])\<close> or \<open>buf[i:i+2]\<close>.\<close>

definition read16 :: "byte list \<Rightarrow> nat \<Rightarrow> u16 option" where
  "read16 buf i = (if i + 2 \<le> length buf then Some (get16 buf i) else None)"

definition read32 :: "byte list \<Rightarrow> nat \<Rightarrow> u32 option" where
  "read32 buf i = (if i + 4 \<le> length buf then Some (get32 buf i) else None)"

lemma reads_in_bounds [in_bounds]:
  "i + 2 \<le> length buf \<Longrightarrow> read16 buf i = Some (get16 buf i)"
  "i + 4 \<le> length buf \<Longrightarrow> read32 buf i = Some (get32 buf i)"
  by (simp_all add: read16_def read32_def)

lemma le16_bytes [wire_simps]: "le16 (ucast v) (ucast (drop_bit 8 v)) = v"
  by (rule bit_word_eqI) (auto simp: le16_def bit_simps)

lemma le32_bytes [wire_simps]:
  "le32 (ucast v) (ucast (drop_bit 8 v)) (ucast (drop_bit 16 v)) (ucast (drop_bit 24 v)) = v"
proof (rule bit_word_eqI)
  fix k assume "k < LENGTH(32)"
  then consider "k < 8" | "8 \<le> k" "k < 16" | "16 \<le> k" "k < 24" | "24 \<le> k" "k < 32"
    by fastforce
  then show "bit (le32 (ucast v) (ucast (drop_bit 8 v)) (ucast (drop_bit 16 v)) (ucast (drop_bit 24 v))) k = bit v k"
    by cases (auto simp: le32_def bit_simps)
qed

lemma length_append_uint [simp]:
  "length (appendUint16 dst v) = length dst + 2"
  "length (appendUint32 dst w) = length dst + 4"
  "length (appendUint64 dst x) = length dst + 8"
  by (simp_all add: appendUint16_def appendUint32_def appendUint64_def)

lemma append_uint_prefix [wire_simps]:
  "appendUint16 (a @ b) v = a @ appendUint16 b v"
  "appendUint32 (a @ b) w = a @ appendUint32 b w"
  "appendUint64 (a @ b) x = a @ appendUint64 b x"
  by (simp_all add: appendUint16_def appendUint32_def appendUint64_def)

lemma get16_append [wire_simps]: "get16 (appendUint16 dst v @ rest) (length dst) = v"
  by (simp add: get16_def appendUint16_def nth_append le16_bytes)

lemma get32_append [wire_simps]: "get32 (appendUint32 dst v @ rest) (length dst) = v"
  by (simp add: get32_def appendUint32_def nth_append le32_bytes)

section \<open>The signed varint (varint.go)\<close>

definition low7 :: "u32 \<Rightarrow> byte" where
  "low7 r = ucast (r AND 0x7f)"

lemma unat_drop7: "unat (drop_bit 7 (r :: 'a::len word)) = unat r div 128"
  by (simp only: unat_drop_bit_eq) (simp add: drop_bit_eq_div)

lemma drop7_decreases: "drop_bit 7 (r :: 'a::len word) \<noteq> 0 \<Longrightarrow> unat (drop_bit 7 r) < unat r"
  by (metis drop_bit_of_0 div_less_dividend gr0I one_less_numeral_iff semiring_norm(76) unat_drop7 unat_eq_zero)

function EncodeVarInt_loop :: "u32 \<Rightarrow> byte list \<Rightarrow> byte list \<times> u32" where
  "EncodeVarInt_loop remaining out =
     (if drop_bit 7 remaining \<noteq> 0
      then EncodeVarInt_loop (drop_bit 7 remaining) (out @ [low7 remaining OR 0x80])
      else (out, remaining))"
  by pat_completeness auto
termination
proof (relation "measure (\<lambda>(r, _). unat r)", goal_cases)
  case (2 r out)
  then show ?case using drop7_decreases [of r] by simp
qed simp

declare EncodeVarInt_loop.simps [simp del]

definition EncodeVarInt :: "int \<Rightarrow> byte list" where
  "EncodeVarInt value =
     (case EncodeVarInt_loop (word_of_int value) [] of (out, remaining) \<Rightarrow>
        (if remaining AND 0x40 \<noteq> 0
         then (out @ [low7 remaining OR 0x80]) @ [0]
         else out @ [low7 remaining]))"

function DecodeVarInt_loop :: "byte list \<Rightarrow> nat \<Rightarrow> nat \<Rightarrow> i32 \<Rightarrow> nat \<Rightarrow> wire_error + (int \<times> nat)" where
  "DecodeVarInt_loop buf offset i acc shift =
     (if i < 5 then
        if length buf \<le> offset + i then Inl ErrIncomplete
        else let b = buf ! (offset + i);
                 acc = acc OR push_bit shift (ucast (b AND 0x7f))
             in if b AND 0x80 = 0
                then (let acc = (if b AND 0x40 \<noteq> 0 then NOT acc else acc) in Inr (sint acc, i + 1))
                else DecodeVarInt_loop buf offset (i + 1) acc (shift + 7)
      else Inl VarIntTooLong)"
  by pat_completeness auto
termination by (relation "measure (\<lambda>(_, _, i, _, _). 5 - i)") auto

declare DecodeVarInt_loop.simps [simp del]

definition DecodeVarInt :: "byte list \<Rightarrow> nat \<Rightarrow> wire_error + (int \<times> nat)" where
  "DecodeVarInt buf offset = DecodeVarInt_loop buf offset 0 0 0"

text \<open>The groups of a value as a recursive list, the shape the proofs follow.\<close>

function varint_groups :: "u32 \<Rightarrow> byte list" where
  "varint_groups r =
     (if drop_bit 7 r \<noteq> 0 then (low7 r OR 0x80) # varint_groups (drop_bit 7 r)
      else if r AND 0x40 \<noteq> 0 then [low7 r OR 0x80, 0]
      else [low7 r])"
  by pat_completeness auto
termination
proof (relation "measure unat", goal_cases)
  case (2 r)
  then show ?case using drop7_decreases [of r] by simp
qed simp

declare varint_groups.simps [simp del]

lemma EncodeVarInt_loop_groups:
  "(case EncodeVarInt_loop r out of (out', r') \<Rightarrow>
      (if r' AND 0x40 \<noteq> 0 then (out' @ [low7 r' OR 0x80]) @ [0] else out' @ [low7 r']))
   = out @ varint_groups r"
proof (induction r out rule: EncodeVarInt_loop.induct)
  case (1 r out)
  show ?case
  proof (cases "drop_bit 7 r = 0")
    case True
    then show ?thesis
      by (simp add: EncodeVarInt_loop.simps [of r out] varint_groups.simps [of r])
  next
    case False
    with 1 show ?thesis
      by (simp add: EncodeVarInt_loop.simps [of r out] varint_groups.simps [of r])
  qed
qed

lemma EncodeVarInt_groups: "EncodeVarInt v = varint_groups (word_of_int v)"
  using EncodeVarInt_loop_groups [of "word_of_int v" "[]"] by (simp add: EncodeVarInt_def)

lemma bit_consts:
  "bit (0x80 :: int) n \<longleftrightarrow> n = 7" "bit (0x40 :: int) n \<longleftrightarrow> n = 6"
  "(0x7f :: byte) = mask 7" "(0x7f :: u32) = mask 7"
proof -
  have "(0x80 :: int) = 2 ^ 7" "(0x40 :: int) = 2 ^ 6" by simp_all
  then show "bit (0x80 :: int) n \<longleftrightarrow> n = 7" "bit (0x40 :: int) n \<longleftrightarrow> n = 6"
    by (simp_all only: bit_exp_iff) auto
qed (simp_all add: mask_eq_exp_minus_1)

lemma and_consts:
  fixes b :: byte and r :: u32
  shows "b AND 0x80 = 0 \<longleftrightarrow> \<not> bit b 7" "b AND 0x40 = 0 \<longleftrightarrow> \<not> bit b 6" "r AND 0x40 = 0 \<longleftrightarrow> \<not> bit r 6"
proof -
  show "b AND 0x80 = 0 \<longleftrightarrow> \<not> bit b 7"
    by (auto simp: bit_and_iff bit_consts dest: arg_cong [of _ _ "\<lambda>w. bit w 7"] intro!: bit_word_eqI)
  show "b AND 0x40 = 0 \<longleftrightarrow> \<not> bit b 6"
    by (auto simp: bit_and_iff bit_consts dest: arg_cong [of _ _ "\<lambda>w. bit w 6"] intro!: bit_word_eqI)
  show "r AND 0x40 = 0 \<longleftrightarrow> \<not> bit r 6"
    by (auto simp: bit_and_iff bit_consts dest: arg_cong [of _ _ "\<lambda>w. bit w 6"] intro!: bit_word_eqI)
qed

lemma low7_bits [simp]:
  "\<not> bit (low7 r) 7" "bit (low7 r OR 0x80) 7" "bit (low7 r) 6 \<longleftrightarrow> bit r 6"
  by (auto simp: low7_def bit_simps bit_consts)

lemma ucast_low7 [simp]:
  "(ucast (low7 r AND 0x7f) :: u32) = r AND 0x7f"
  "(ucast ((low7 r OR 0x80) AND 0x7f) :: u32) = r AND 0x7f"
  by (rule bit_word_eqI; auto simp: low7_def bit_simps bit_consts)+

lemma push_split7: "push_bit n (r AND 0x7f) OR push_bit (n + 7) (drop_bit 7 r) = push_bit n (r :: u32)"
proof (rule bit_word_eqI)
  fix k assume k: "k < LENGTH(32)"
  have "7 + (k - (n + 7)) = k - n" if "n + 7 \<le> k" using that by simp
  with k show "bit (push_bit n (r AND 0x7f) OR push_bit (n + 7) (drop_bit 7 r)) k = bit (push_bit n r) k"
    by (cases "n + 7 \<le> k") (auto simp: bit_simps bit_consts)
qed

lemma small_no_bit: "unat r < 2 ^ n \<Longrightarrow> n \<le> k \<Longrightarrow> \<not> bit (r :: u32) k"
proof -
  assume "unat r < 2 ^ n" and "n \<le> k"
  then have "unat r < 2 ^ k" by (meson order.strict_trans2 power_increasing one_le_numeral)
  then have "\<not> bit (unat r) k" by (simp add: bit_iff_odd)
  then show ?thesis by (simp add: bit_unsigned_iff)
qed

lemma small_drop: "unat (r :: u32) < 2 ^ 7 \<Longrightarrow> drop_bit 7 r = 0"
  using unat_drop7 [of r] unat_eq_zero [of "drop_bit 7 r"] by simp

lemma drop_bit7_bound:
  assumes "unat (r :: u32) < 2 ^ (n + 7)"
  shows "unat (drop_bit 7 r) < 2 ^ n"
proof -
  have "unat r < 2 ^ n * 128" using assms by (simp add: power_add)
  then have "unat r div 128 < 2 ^ n" by (rule less_mult_imp_div_less)
  then show ?thesis by (simp only: unat_drop7)
qed

lemma and_mask7_id: "drop_bit 7 (r :: u32) = 0 \<Longrightarrow> r AND 0x7f = r"
  using push_split7 [of 0 r] by simp

text \<open>
  Decoding the groups of \<open>r\<close> from position \<open>i\<close> with accumulator \<open>acc\<close> adds \<open>r\<close> shifted to that
  position; the bound says the value left fits the bits left.
\<close>

lemma DecodeVarInt_loop_groups:
  assumes "unat r < 2 ^ (32 - 7 * i)" and "i < 5" and "offset + i = length pre"
  shows "DecodeVarInt_loop (pre @ varint_groups r @ rest) offset i acc (7 * i)
     = Inr (sint (acc OR push_bit (7 * i) r), i + length (varint_groups r))"
  using assms
proof (induction r arbitrary: pre i acc rule: varint_groups.induct)
  case (1 r)
  let ?m = "push_bit (7 * i) (r AND 0x7f)"
  have last: "unat r < 2 ^ 4" if "\<not> i < 4"
    using that 1(2,3) by (simp add: not_less less_Suc_eq numeral_eq_Suc)
  show ?case
  proof (cases "drop_bit 7 r = 0")
    case True
    note g = varint_groups.simps [of r] and_mask7_id [OF True]
    show ?thesis
    proof (cases "bit r 6")
      case False
      with True 1(3,4) show ?thesis
        by (simp add: g DecodeVarInt_loop.simps [of _ _ i] and_consts Let_def nth_append)
    next
      case b6: True
      then have "i < 4" using last small_no_bit [of r 4 6] by auto
      with True b6 1(4) show ?thesis
        by (simp add: g DecodeVarInt_loop.simps [of _ _ i] DecodeVarInt_loop.simps [of _ _ "Suc i"]
            and_consts Let_def nth_append)
    qed
  next
    case False
    then have i4: "i < 4" using last small_drop by fastforce
    then have "unat r < 2 ^ ((32 - 7 * (i + 1)) + 7)" using 1(2) by simp
    then have bound: "unat (drop_bit 7 r) < 2 ^ (32 - 7 * (i + 1))" by (rule drop_bit7_bound)
    have shift: "7 * (i + 1) = 7 * i + 7" by simp
    note IH = "1.IH" [OF False bound, of "pre @ [low7 r OR 0x80]" "acc OR ?m", unfolded shift]
    have tail: "DecodeVarInt_loop (pre @ varint_groups r @ rest) offset (i + 1) (acc OR ?m) (7 * i + 7)
      = Inr (sint (acc OR push_bit (7 * i) r), i + length (varint_groups r))"
      using IH False i4 1(4)
      by (simp add: varint_groups.simps [of r] or.assoc push_split7 del: push_bit_and)
    have head: "(pre @ varint_groups r @ rest) ! (offset + i) = low7 r OR 0x80"
      using False 1(4) by (simp add: varint_groups.simps [of r] nth_append)
    have len: "\<not> length (pre @ varint_groups r @ rest) \<le> offset + i"
      using False 1(4) by (simp add: varint_groups.simps [of r])
    show ?thesis
      unfolding DecodeVarInt_loop.simps [of _ _ i] Let_def head ucast_low7
      using 1(3) len tail by (simp only: if_True if_False and_consts low7_bits not_True_eq_False)
  qed
qed

lemma DecodeVarInt_groups:
  "DecodeVarInt (pre @ varint_groups r @ rest) (length pre) = Inr (sint r, length (varint_groups r))"
proof -
  have "unat r < 2 ^ (32 - 7 * 0)" using unsigned_less [of r] by simp
  from DecodeVarInt_loop_groups [OF this] show ?thesis by (simp add: DecodeVarInt_def)
qed

text \<open>Every value an int32 can hold survives the round trip, negative ones included.\<close>

lemma varint_roundtrip:
  assumes "- (2 ^ 31) \<le> v" and "v < 2 ^ 31"
  shows "DecodeVarInt (pre @ EncodeVarInt v @ rest) (length pre) = Inr (v, length (EncodeVarInt v))"
proof -
  have "sint (word_of_int v :: u32) = v"
    using assms by (simp add: sint_sbintrunc' signed_take_bit_int_eq_self)
  then show ?thesis by (simp add: EncodeVarInt_groups DecodeVarInt_groups)
qed

lemma DecodeVarInt_loop_bounds:
  "DecodeVarInt_loop buf offset i acc shift = Inr (v, n) \<Longrightarrow>
    i < n \<and> n \<le> 5 \<and> offset + n \<le> length buf \<and> - (2 ^ 31) \<le> v \<and> v < 2 ^ 31"
proof (induction buf offset i acc shift arbitrary: v n rule: DecodeVarInt_loop.induct)
  case (1 buf offset i acc shift)
  have range: "- (2 ^ 31) \<le> sint (w :: i32) \<and> sint w < 2 ^ 31" for w
    using sint_greater_eq [of w] sint_less [of w] by simp
  from 1(2) have "i < 5" "offset + i < length buf"
    by (auto simp: DecodeVarInt_loop.simps [of _ _ i] split: if_splits)
  then show ?case using 1 range
    by (fastforce simp: DecodeVarInt_loop.simps [of _ _ i] Let_def split: if_splits)
qed

text \<open>A decoded varint used at least one byte, at most five, all inside the buffer, and fits int32.\<close>

lemma DecodeVarInt_bounds:
  "DecodeVarInt buf offset = Inr (v, n) \<Longrightarrow>
    0 < n \<and> n \<le> 5 \<and> offset + n \<le> length buf \<and> - (2 ^ 31) \<le> v \<and> v < 2 ^ 31"
  unfolding DecodeVarInt_def by (drule DecodeVarInt_loop_bounds) simp

section \<open>Length-prefixed byte arrays (handshake.go)\<close>

definition ReadByteArray :: "byte list \<Rightarrow> nat \<Rightarrow> wire_error + (byte list \<times> nat)" where
  "ReadByteArray buf offset =
     (case DecodeVarInt buf offset of
        Inl e \<Rightarrow> Inl e
      | Inr (length', n) \<Rightarrow>
          let start = offset + n; stop = int start + length'
          in if length' < 0 \<or> stop > int (length buf) then Inl (InvalidArrayLength length')
             else Inr (take (nat stop - start) (drop start buf), nat stop))"

definition WriteByteArray :: "byte list \<Rightarrow> byte list" where
  "WriteByteArray data = EncodeVarInt (int (length data)) @ data"

section \<open>Strings (string.go)\<close>

text \<open>A Go string is its bytes; \<open>[]rune\<close> and \<open>string\<close> convert from and to UTF-8.\<close>

definition WriteProudString :: "byte list \<Rightarrow> string \<Rightarrow> byte list" where
  "WriteProudString dst v =
     (let units = utf16_encode (runes_of_string v)
      in foldl appendUint16 (dst @ EncodeVarInt (int (length units))) units)"

definition ReadProudString :: "byte list \<Rightarrow> nat \<Rightarrow> wire_error + (string \<times> nat)" where
  "ReadProudString buf offset =
     (case DecodeVarInt buf offset of
        Inl e \<Rightarrow> Inl e
      | Inr (charLen, n) \<Rightarrow>
          let start = offset + n; stop = int start + charLen * 2
          in if charLen < 0 \<or> stop > int (length buf) then Inl InvalidStringLength
             else let units = map (\<lambda>i. get16 buf (start + i * 2)) [0..<nat charLen]
                  in Inr (string_of_runes (utf16_decode units), nat stop))"

lemma foldl_append16: "foldl appendUint16 dst us = dst @ concat (map (appendUint16 []) us)"
  by (induction us arbitrary: dst) (simp_all add: appendUint16_def)

lemma length_units_bytes [simp]: "length (concat (map (appendUint16 []) us)) = 2 * length us"
  by (induction us) simp_all

lemma get16_units:
  "i < length us \<Longrightarrow>
    get16 (pre @ concat (map (appendUint16 []) us) @ rest) (length pre + i * 2) = us ! i"
proof (induction us arbitrary: pre i)
  case (Cons u us)
  show ?case
  proof (cases i)
    case 0
    then show ?thesis
      using get16_append [of pre u "concat (map (appendUint16 []) us) @ rest"]
        append_uint_prefix(1) [of pre "[]" u] by simp
  next
    case (Suc j)
    then show ?thesis using Cons.IH [of j "pre @ appendUint16 [] u"] Cons.prems by simp
  qed
qed simp

definition sized :: "'a list \<Rightarrow> bool" where
  "sized xs \<longleftrightarrow> length xs < 2 ^ 31"

lemma sized_varint [wire_simps]:
  "sized xs \<Longrightarrow> DecodeVarInt (pre @ EncodeVarInt (int (length xs)) @ rest) (length pre)
     = Inr (int (length xs), length (EncodeVarInt (int (length xs))))"
  by (rule varint_roundtrip) (simp_all add: sized_def)

lemma byte_array_roundtrip:
  "sized data \<Longrightarrow> ReadByteArray (pre @ WriteByteArray data @ rest) (length pre)
     = Inr (data, length (pre @ WriteByteArray data))"
  using sized_varint [of data pre "data @ rest"]
  by (simp add: ReadByteArray_def WriteByteArray_def Let_def nat_add_distrib)

definition wire_units :: "string \<Rightarrow> u16 list" where
  "wire_units v = utf16_encode (runes_of_string v)"

lemma WriteProudString_prefix: "WriteProudString dst v = dst @ WriteProudString [] v"
  by (simp add: WriteProudString_def Let_def foldl_append16 [of "dst @ _"] foldl_append16 [of "EncodeVarInt _"])

text \<open>
  What comes back is the string with every invalid byte replaced by U+FFFD, which is the string
  itself when it is valid UTF-8.
\<close>

lemma proud_string_roundtrip:
  assumes "sized (wire_units v)"
  shows "ReadProudString (pre @ WriteProudString [] v @ rest) (length pre)
     = Inr (string_of_runes (runes_of_string v), length (pre @ WriteProudString [] v))"
proof -
  let ?us = "wire_units v"
  let ?n = "EncodeVarInt (int (length ?us))"
  let ?bs = "concat (map (appendUint16 []) ?us)"
  have w: "WriteProudString [] v = ?n @ ?bs"
    by (simp add: WriteProudString_def wire_units_def Let_def foldl_append16 [of "EncodeVarInt _"])
  have d: "DecodeVarInt (pre @ WriteProudString [] v @ rest) (length pre) = Inr (int (length ?us), length ?n)"
    using sized_varint [OF assms, of pre "?bs @ rest"] by (simp add: w)
  have u: "map (\<lambda>i. get16 (pre @ WriteProudString [] v @ rest) (length pre + length ?n + i * 2)) [0..<length ?us] = ?us"
    using get16_units [of _ ?us "pre @ ?n" rest] by (intro nth_equalityI) (simp_all add: w)
  have r: "utf16_decode ?us = runes_of_string v"
    unfolding wire_units_def by (rule utf16_roundtrip) (rule runes_of_string_scalar)
  have stop: "nat (int (length pre + length ?n) + int (length ?us) * 2) = length (pre @ WriteProudString [] v)"
    by (simp add: w nat_add_distrib nat_mult_distrib)
  show ?thesis
    unfolding ReadProudString_def d
    using u by (simp add: Let_def r w nat_add_distrib nat_mult_distrib)
qed

section \<open>Other scalars of the messages\<close>

text \<open>\<open>boolByte\<close> of clan_member.go; \<open>clampByte\<close> and \<open>nonNegativeUint32\<close> of clan.go.\<close>

definition boolByte :: "bool \<Rightarrow> byte" where
  "boolByte value = (if value then 1 else 0)"

definition clampByte :: "int \<Rightarrow> byte" where
  "clampByte value = (if value < 0 then 0 else if value > 0xFF then 0xFF else word_of_int value)"

definition nonNegativeUint32 :: "i32 \<Rightarrow> u32" where
  "nonNegativeUint32 value = (if sint value < 0 then 0 else value)"

section \<open>The contract of a codec\<close>

text \<open>
  What the message code relies on: a decoder placed anywhere in a buffer reads back what the
  encoder wrote there and stops exactly behind it, whatever follows.
\<close>

locale prefix_codec =
  fixes enc :: "'a \<Rightarrow> byte list"
    and dec :: "byte list \<Rightarrow> nat \<Rightarrow> 'e + ('a \<times> nat)"
    and ok :: "'a \<Rightarrow> bool"
  assumes decode_encoded:
    "ok x \<Longrightarrow> dec (pre @ enc x @ post) (length pre) = Inr (x, length (pre @ enc x))"
begin

lemma uniquely_decodable:
  assumes "ok x" and "ok y" and "enc x @ r = enc y @ s"
  shows "x = y \<and> r = s"
proof -
  have "dec ([] @ enc x @ r) (length []) = dec ([] @ enc y @ s) (length [])" using assms(3) by simp
  with assms(1,2) have "x = y" using decode_encoded [of x "[]" r] decode_encoded [of y "[]" s] by simp
  with assms(3) show ?thesis by simp
qed

lemma decode_then:
  assumes "ok x"
  shows "(case dec (pre @ enc x @ post) (length pre) of Inl e \<Rightarrow> f e | Inr (v, next) \<Rightarrow> g v next)
    = g x (length (pre @ enc x))"
  by (simp only: decode_encoded [OF assms] sum.case prod.case)

lemma decode_front: "ok x \<Longrightarrow> dec (enc x @ post) 0 = Inr (x, length (enc x))"
  using decode_encoded [of x "[]" post] by simp

end

text \<open>The varint decoder returns the byte count; its callers add it to the offset at once.\<close>

definition DecodeVarInt_at :: "byte list \<Rightarrow> nat \<Rightarrow> wire_error + (int \<times> nat)" where
  "DecodeVarInt_at buf offset = map_sum id (\<lambda>(v, n). (v, offset + n)) (DecodeVarInt buf offset)"

interpretation varint: prefix_codec EncodeVarInt DecodeVarInt_at "\<lambda>v. - (2 ^ 31) \<le> v \<and> v < 2 ^ 31"
  by unfold_locales (simp add: DecodeVarInt_at_def varint_roundtrip)

interpretation byte_array: prefix_codec WriteByteArray ReadByteArray sized
  by unfold_locales (rule byte_array_roundtrip)

interpretation proud_string: prefix_codec "WriteProudString []" ReadProudString
    "\<lambda>v. valid_utf8 v \<and> sized (wire_units v)"
  by unfold_locales (simp add: proud_string_roundtrip valid_utf8_def)

section \<open>Properties\<close>

text \<open>
  Every int32 value, negative ones included, comes back from \<open>DecodeVarInt\<close> exactly as
  \<open>EncodeVarInt\<close> wrote it, wherever it stands in the buffer, and exactly its bytes are consumed.
\<close>

theorem DecodeVarInt_EncodeVarInt:
  assumes "- (2 ^ 31) \<le> v" and "v < 2 ^ 31"
  shows "DecodeVarInt (pre @ EncodeVarInt v @ rest) (length pre) = Inr (v, length (EncodeVarInt v))"
  using assms by (rule varint_roundtrip)

lemma DecodeVarInt_EncodeVarInt_witness:
  "DecodeVarInt ([1, 2] @ EncodeVarInt (- 77) @ [3]) (length [1, 2 :: byte]) = Inr (- 77, length (EncodeVarInt (- 77)))"
  by (rule DecodeVarInt_EncodeVarInt) simp_all

text \<open>
  C34. A string written with \<open>WriteProudString\<close> is read back by \<open>ReadProudString\<close> with every byte
  sequence that is not UTF-8 replaced by U+FFFD, and exactly the bytes of the string are consumed;
  in particular valid UTF-8 comes back unchanged.
\<close>

theorem ReadProudString_WriteProudString:
  assumes "sized (wire_units v)"
  shows "ReadProudString (WriteProudString pre v @ rest) (length pre)
      = Inr (if valid_utf8 v then v else string_of_runes (runes_of_string v), length (WriteProudString pre v))"
  using proud_string_roundtrip [OF assms, of pre rest]
  by (simp_all add: WriteProudString_prefix [of pre] valid_utf8_def)

lemma ReadProudString_WriteProudString_witness:
  "ReadProudString (WriteProudString [7] ''Ab'' @ [9]) (length [7 :: byte])
      = Inr (if valid_utf8 ''Ab'' then ''Ab'' else string_of_runes (runes_of_string ''Ab''),
          length (WriteProudString [7] ''Ab''))"
  by (rule ReadProudString_WriteProudString)
     (simp add: sized_def wire_units_def runes_of_string_def decode_rune_def utf16_encode_def utf16_units_def)

text \<open>
  Reading a byte array never goes past the buffer, and what it returns is exactly the slice in
  front of the offset it continues at; a negative or overlong length is refused.
\<close>

theorem ReadByteArray_inside:
  "ReadByteArray buf offset = Inr (data, next) \<Longrightarrow>
    next \<le> length buf \<and> offset + length data < next \<and> next \<le> offset + 5 + length data \<and>
    data = drop (next - length data) (take next buf)"
proof -
  assume a: "ReadByteArray buf offset = Inr (data, next)"
  then obtain l n where d: "DecodeVarInt buf offset = Inr (l, n)"
    by (auto simp: ReadByteArray_def split: sum.splits)
  then have "0 \<le> l" "int (offset + n) + l \<le> int (length buf)"
      "next = nat (int (offset + n) + l)" "data = take (next - (offset + n)) (drop (offset + n) buf)"
    using a by (auto simp: ReadByteArray_def Let_def split: if_splits)
  then show ?thesis using DecodeVarInt_bounds [OF d] by (auto simp: nat_add_distrib drop_take)
qed

lemma ReadByteArray_inside_witness:
  "2 \<le> length [1, 5 :: byte] \<and> 0 + length [5 :: byte] < 2 \<and> 2 \<le> 0 + 5 + length [5 :: byte] \<and>
    [5] = drop (2 - length [5 :: byte]) (take 2 [1, 5 :: byte])"
  by (rule ReadByteArray_inside)
     (simp add: ReadByteArray_def DecodeVarInt_def DecodeVarInt_loop.simps Let_def)

end
