(* ===== verification/Frames.thy ===== *)
theory Frames
  imports Wire
begin

text \<open>
  Framing of the byte stream: \<open>EncodeFrame\<close> and \<open>ParseFrames\<close> (frame.go), and the read loop of
  \<open>handleConnection\<close> (server.go) that feeds the chunks a connection delivers through the parser.
  The parser is shown to invert the encoder, to be insensitive to how TCP cuts the stream, and to
  leave a bounded remainder.
\<close>

section \<open>Frames (frame.go)\<close>

definition MarkerReliable :: u16 where
  "MarkerReliable = 0x5713"

definition MarkerUnreliable :: u16 where
  "MarkerUnreliable = 0x5813"

definition maxFrameLength :: int where
  "maxFrameLength = 1024 * 1024"

record Frame =
  Marker :: u16
  Payload :: "byte list"

datatype frame_error =
    UnknownMarker u16
  | BadVarInt wire_error
  | InvalidFrameLength int

definition EncodeFrame :: "u16 \<Rightarrow> byte list \<Rightarrow> byte list" where
  "EncodeFrame marker payload =
     (appendUint16 [] marker @ EncodeVarInt (int (length payload))) @ payload"

function ParseFrames_loop ::
  "byte list \<Rightarrow> nat \<Rightarrow> Frame list \<Rightarrow> Frame list \<times> byte list \<times> frame_error option" where
  "ParseFrames_loop buf offset frames =
     (if offset + 3 \<le> length buf then
        let marker = get16 buf offset in
        if marker \<noteq> MarkerReliable \<and> marker \<noteq> MarkerUnreliable
        then (frames, drop offset buf, Some (UnknownMarker marker))
        else (case DecodeVarInt buf (offset + 2) of
            Inl e \<Rightarrow> if e = ErrIncomplete then (frames, drop offset buf, None)
                     else (frames, drop offset buf, Some (BadVarInt e))
          | Inr (length', n) \<Rightarrow>
              if length' < 0 \<or> length' > maxFrameLength
              then (frames, drop offset buf, Some (InvalidFrameLength length'))
              else let payloadOffset = offset + 2 + n;
                       frameEnd = payloadOffset + nat length'
                   in if length buf < frameEnd then (frames, drop offset buf, None)
                      else ParseFrames_loop buf frameEnd
                        (frames @ [\<lparr>Marker = marker,
                                    Payload = take (frameEnd - payloadOffset) (drop payloadOffset buf)\<rparr>]))
      else (frames, drop offset buf, None))"
  by pat_completeness auto
termination
  by (relation "measure (\<lambda>(buf, offset, _). length buf - offset)") (auto dest!: DecodeVarInt_bounds)

declare ParseFrames_loop.simps [simp del]

definition ParseFrames :: "byte list \<Rightarrow> Frame list \<times> byte list \<times> frame_error option" where
  "ParseFrames buf = ParseFrames_loop buf 0 []"

section \<open>One step of the parser\<close>

text \<open>
  The loop seen as single steps on the unread part of the buffer, the form every proof below
  uses: stop with or without an error, or take one frame off the front.
\<close>

datatype parse_step =
    Stop "frame_error option"
  | Take Frame nat

definition parse_step :: "byte list \<Rightarrow> parse_step" where
  "parse_step buf =
     (if length buf < 3 then Stop None
      else if get16 buf 0 \<noteq> MarkerReliable \<and> get16 buf 0 \<noteq> MarkerUnreliable
      then Stop (Some (UnknownMarker (get16 buf 0)))
      else (case DecodeVarInt buf 2 of
          Inl e \<Rightarrow> Stop (if e = ErrIncomplete then None else Some (BadVarInt e))
        | Inr (l, n) \<Rightarrow>
            if l < 0 \<or> l > maxFrameLength then Stop (Some (InvalidFrameLength l))
            else if length buf < 2 + n + nat l then Stop None
            else Take \<lparr>Marker = get16 buf 0, Payload = take (nat l) (drop (2 + n) buf)\<rparr> (2 + n + nat l)))"

lemma DecodeVarInt_loop_drop:
  "off \<le> length buf \<Longrightarrow>
    DecodeVarInt_loop (drop off buf) o' i acc shift = DecodeVarInt_loop buf (off + o') i acc shift"
proof (induction "drop off buf" o' i acc shift rule: DecodeVarInt_loop.induct)
  case (1 o' i acc shift)
  then show ?case
    by (simp add: DecodeVarInt_loop.simps [of _ _ i] Let_def add.assoc) (auto simp: algebra_simps)
qed

lemma DecodeVarInt_drop: "off \<le> length buf \<Longrightarrow> DecodeVarInt (drop off buf) o' = DecodeVarInt buf (off + o')"
  by (simp add: DecodeVarInt_def DecodeVarInt_loop_drop)

lemma DecodeVarInt_loop_append:
  "DecodeVarInt_loop buf off i acc shift \<noteq> Inl ErrIncomplete \<Longrightarrow>
    DecodeVarInt_loop (buf @ rest) off i acc shift = DecodeVarInt_loop buf off i acc shift"
proof (induction buf off i acc shift rule: DecodeVarInt_loop.induct)
  case (1 buf off i acc shift)
  then show ?case
    by (simp add: DecodeVarInt_loop.simps [of _ _ i] Let_def nth_append split: if_splits)
qed

lemma DecodeVarInt_append:
  "DecodeVarInt buf off \<noteq> Inl ErrIncomplete \<Longrightarrow> DecodeVarInt (buf @ rest) off = DecodeVarInt buf off"
  unfolding DecodeVarInt_def by (rule DecodeVarInt_loop_append)

lemma DecodeVarInt_loop_incomplete:
  "DecodeVarInt_loop buf off i acc shift = Inl ErrIncomplete \<Longrightarrow> i < 5 \<and> length buf < off + 5"
proof (induction buf off i acc shift rule: DecodeVarInt_loop.induct)
  case (1 buf off i acc shift)
  then show ?case
    by (subst (asm) (2) DecodeVarInt_loop.simps) (auto simp: Let_def split: if_splits)
qed

lemma DecodeVarInt_incomplete: "DecodeVarInt buf off = Inl ErrIncomplete \<Longrightarrow> length buf < off + 5"
  unfolding DecodeVarInt_def using DecodeVarInt_loop_incomplete by blast

lemma get16_drop: "off + 2 \<le> length buf \<Longrightarrow> get16 (drop off buf) 0 = get16 buf off"
  by (simp add: get16_def)

lemma get16_append_left: "off + 2 \<le> length buf \<Longrightarrow> get16 (buf @ rest) off = get16 buf off"
  by (simp add: get16_def nth_append)

lemma ParseFrames_loop_step:
  assumes "off \<le> length buf"
  shows "ParseFrames_loop buf off frames =
    (case parse_step (drop off buf) of
       Stop e \<Rightarrow> (frames, drop off buf, e)
     | Take f k \<Rightarrow> ParseFrames_loop buf (off + k) (frames @ [f]))"
proof (cases "length buf < off + 3")
  case True
  then have "length (drop off buf) < 3" using assms by simp
  with True show ?thesis unfolding ParseFrames_loop.simps [of buf off] parse_step_def by (simp only: if_True if_False not_less parse_step.case)
    simp
next
  case False
  with assms have "get16 (drop off buf) 0 = get16 buf off"
      "DecodeVarInt (drop off buf) 2 = DecodeVarInt buf (off + 2)"
    by (simp_all add: get16_drop DecodeVarInt_drop)
  with False show ?thesis
    by (auto simp: ParseFrames_loop.simps [of buf off] parse_step_def Let_def add.assoc add.commute [of _ off]
        add.left_commute [of _ off] split: sum.splits)
qed

lemma parse_step_TakeD: "parse_step buf = Take f k \<Longrightarrow> 0 < k \<and> k \<le> length buf"
  by (auto simp: parse_step_def split: if_splits sum.splits dest!: DecodeVarInt_bounds)

lemma parse_step_append:
  assumes "parse_step buf \<noteq> Stop None"
  shows "parse_step (buf @ rest) = parse_step buf"
proof -
  have "3 \<le> length buf"
  proof (rule ccontr)
    assume "\<not> 3 \<le> length buf"
    with assms show False by (simp add: parse_step_def)
  qed
  then have g: "get16 (buf @ rest) 0 = get16 buf 0" by (simp add: get16_append_left)
  show ?thesis
  proof (cases "DecodeVarInt buf 2 = Inl ErrIncomplete")
    case True
    with assms \<open>3 \<le> length buf\<close> g show ?thesis by (auto simp: parse_step_def)
  next
    case False
    then have "DecodeVarInt (buf @ rest) 2 = DecodeVarInt buf 2" by (rule DecodeVarInt_append)
    with assms \<open>3 \<le> length buf\<close> g show ?thesis
      by (auto simp: parse_step_def split: sum.splits if_splits)
  qed
qed

text \<open>The whole parser over the unread bytes.\<close>

function parse_all :: "byte list \<Rightarrow> Frame list \<times> byte list \<times> frame_error option" where
  "parse_all buf =
     (case parse_step buf of
        Stop e \<Rightarrow> ([], buf, e)
      | Take f k \<Rightarrow> (case parse_all (drop k buf) of (fs, rem, e) \<Rightarrow> (f # fs, rem, e)))"
  by pat_completeness auto
termination by (relation "measure length") (auto dest!: parse_step_TakeD)

declare parse_all.simps [simp del]

lemma ParseFrames_loop_parse_all:
  "off \<le> length buf \<Longrightarrow> ParseFrames_loop buf off frames =
    (case parse_all (drop off buf) of (fs, rem, e) \<Rightarrow> (frames @ fs, rem, e))"
proof (induction "length buf - off" arbitrary: off frames rule: less_induct)
  case less
  show ?case
  proof (cases "parse_step (drop off buf)")
    case (Stop e)
    with less.prems show ?thesis
      by (simp add: ParseFrames_loop_step parse_all.simps [of "drop off buf"])
  next
    case (Take f k)
    have k: "length buf - (off + k) < length buf - off" "off + k \<le> length buf"
      using parse_step_TakeD [OF Take] less.prems by auto
    show ?thesis
      unfolding ParseFrames_loop_step [OF less.prems] parse_all.simps [of "drop off buf"] Take
      using less.hyps [OF k] by (simp add: add.commute split: prod.splits)
  qed
qed

lemma ParseFrames_all: "ParseFrames buf = parse_all buf"
  by (simp add: ParseFrames_def ParseFrames_loop_parse_all split: prod.splits)

section \<open>What the parser guarantees\<close>

lemma parse_all_append:
  "parse_all a = (fs, rem, None) \<Longrightarrow>
    parse_all (a @ b) = (case parse_all (rem @ b) of (gs, rem', e) \<Rightarrow> (fs @ gs, rem', e))"
proof (induction a arbitrary: fs rule: parse_all.induct)
  case (1 a)
  show ?case
  proof (cases "parse_step a")
    case (Stop e)
    with 1(2) show ?thesis by (simp add: parse_all.simps [of a] split: prod.splits)
  next
    case (Take f k)
    then obtain gs where rest: "parse_all (drop k a) = (gs, rem, None)" and fs: "fs = f # gs"
      using 1(2) by (auto simp: parse_all.simps [of a] split: prod.splits)
    have "parse_step (a @ b) = Take f k" "drop k (a @ b) = drop k a @ b"
      using Take parse_step_append [of a b] parse_step_TakeD [OF Take] by simp_all
    with 1(1) [OF Take rest] fs show ?thesis
      by (simp add: parse_all.simps [of "a @ b"] split: prod.splits)
  qed
qed

lemma parse_step_wait: "parse_step buf = Stop None \<Longrightarrow> int (length buf) < 7 + maxFrameLength"
  by (auto simp: parse_step_def maxFrameLength_def split: if_splits sum.splits
      dest!: DecodeVarInt_incomplete DecodeVarInt_bounds)

lemma parse_all_remainder:
  "parse_all buf = (fs, rem, e) \<Longrightarrow> (\<exists>k \<le> length buf. rem = drop k buf) \<and> (e = None \<longrightarrow> parse_step rem = Stop None)"
proof (induction buf arbitrary: fs rule: parse_all.induct)
  case (1 buf)
  show ?case
  proof (cases "parse_step buf")
    case (Stop e')
    with 1(2) show ?thesis by (auto simp: parse_all.simps [of buf] intro: exI [of _ 0])
  next
    case (Take f k)
    then obtain gs where rest: "parse_all (drop k buf) = (gs, rem, e)"
      using 1(2) by (auto simp: parse_all.simps [of buf] split: prod.splits)
    obtain j where "j \<le> length (drop k buf)" "rem = drop j (drop k buf)" "e = None \<longrightarrow> parse_step rem = Stop None"
      using 1(1) [OF Take rest] by blast
    then show ?thesis using parse_step_TakeD [OF Take] by (auto intro!: exI [of _ "j + k"])
  qed
qed

definition frame_ok :: "Frame \<Rightarrow> bool" where
  "frame_ok f \<longleftrightarrow> (Marker f = MarkerReliable \<or> Marker f = MarkerUnreliable) \<and>
     int (length (Payload f)) \<le> maxFrameLength"

abbreviation encode_frame :: "Frame \<Rightarrow> byte list" where
  "encode_frame f \<equiv> EncodeFrame (Marker f) (Payload f)"

lemma parse_step_encode:
  assumes "frame_ok f"
  shows "parse_step (encode_frame f @ rest) = Take f (length (encode_frame f))"
proof -
  let ?n = "EncodeVarInt (int (length (Payload f)))"
  let ?b = "encode_frame f @ rest"
  have b: "?b = appendUint16 [] (Marker f) @ ?n @ Payload f @ rest" by (simp add: EncodeFrame_def)
  have s: "sized (Payload f)" using assms by (simp add: frame_ok_def sized_def maxFrameLength_def)
  have m: "get16 ?b 0 = Marker f" unfolding b using get16_append [of "[]" "Marker f"] by simp
  have d: "DecodeVarInt ?b 2 = Inr (int (length (Payload f)), length ?n)"
    unfolding b using sized_varint [OF s, of "appendUint16 [] (Marker f)" "Payload f @ rest"]
    by (simp add: numeral_2_eq_2)
  have n: "0 < length ?n" using DecodeVarInt_bounds [OF d] by simp
  have l: "length (encode_frame f) = 2 + length ?n + length (Payload f)" by (simp add: EncodeFrame_def)
  have "take (length (Payload f)) (drop (2 + length ?n) ?b) = Payload f"
    unfolding b by simp
  with assms m d n l show ?thesis
    by (auto simp: parse_step_def frame_ok_def)
qed

lemma EncodeFrame_length: "frame_ok f \<Longrightarrow> 0 < length (encode_frame f)"
  using parse_step_TakeD [OF parse_step_encode, of f "[]"] by simp

lemma parse_all_encode:
  "(\<And>f. f \<in> set fs \<Longrightarrow> frame_ok f) \<Longrightarrow>
    parse_all (concat (map encode_frame fs) @ rest) =
      (case parse_all rest of (gs, rem, e) \<Rightarrow> (fs @ gs, rem, e))"
proof (induction fs)
  case (Cons f fs)
  have "parse_step (encode_frame f @ concat (map encode_frame fs) @ rest) = Take f (length (encode_frame f))"
    by (rule parse_step_encode) (simp add: Cons.prems)
  with Cons show ?case
    by (simp add: parse_all.simps [of "encode_frame f @ _"] split: prod.splits)
qed (simp split: prod.splits)

section \<open>The read loop (server.go)\<close>

text \<open>
  \<open>handleConnection\<close> over the chunks that \<open>conn.Read\<close> delivers: every chunk is appended to the
  pending bytes, the complete frames are handled in order, and the connection ends with the first
  read error (the end of the list), parse error or handler error. The frame handler is a
  parameter here; a chunk is at most 4096 bytes in the code, which the loop does not rely on.
\<close>

datatype 'e conn_end =
    ReadFailed
  | ParseFailed frame_error
  | HandlerFailed 'e

fun handleConnection ::
  "(Frame \<Rightarrow> ('e, 's, unit) io) \<Rightarrow> byte list \<Rightarrow> byte list list \<Rightarrow> 's \<Rightarrow> 'e conn_end \<times> 's" where
  "handleConnection handle pending [] s = (ReadFailed, s)"
| "handleConnection handle pending (chunk # chunks) s =
     (case ParseFrames (pending @ chunk) of
        (frames, remaining, Some e) \<Rightarrow> (ParseFailed e, s)
      | (frames, remaining, None) \<Rightarrow>
          (case io_each handle frames s of
             (Inl e, s') \<Rightarrow> (HandlerFailed e, s')
           | (Inr _, s') \<Rightarrow> handleConnection handle remaining chunks s'))"

lemma io_each_append: "io_each f (xs @ ys) = io_bind (io_each f xs) (\<lambda>_. io_each f ys)"
  by (induction xs) (auto simp: io_simps fun_eq_iff split: prod.splits sum.splits)

lemma parse_all_idle: "parse_step rem = Stop None \<Longrightarrow> parse_all rem = ([], rem, None)"
  by (simp add: parse_all.simps [of rem])

lemma parse_all_error:
  "parse_all a = (fs, rem, Some e) \<Longrightarrow> parse_all (a @ b) = (fs, rem @ b, Some e)"
proof (induction a arbitrary: fs rule: parse_all.induct)
  case (1 a)
  show ?case
  proof (cases "parse_step a")
    case (Stop e')
    with 1(2) have a: "fs = []" "rem = a" "e' = Some e" by (simp_all add: parse_all.simps [of a])
    then have "parse_step (a @ b) = Stop (Some e)" using Stop parse_step_append [of a b] by simp
    then show ?thesis unfolding a(1,2) by (simp add: parse_all.simps [of "a @ b"])
  next
    case (Take f k)
    then obtain gs where rest: "parse_all (drop k a) = (gs, rem, Some e)" and fs: "fs = f # gs"
      using 1(2) by (auto simp: parse_all.simps [of a] split: prod.splits)
    have "parse_step (a @ b) = Take f k" "drop k (a @ b) = drop k a @ b"
      using Take parse_step_append [of a b] parse_step_TakeD [OF Take] by simp_all
    with 1(1) [OF Take rest] fs show ?thesis by (simp add: parse_all.simps [of "a @ b"])
  qed
qed

text \<open>How a connection ends that has handled some frames: by a failing handler, or by the end of the stream.\<close>

definition after_frames ::
  "(Frame \<Rightarrow> ('e, 's, unit) io) \<Rightarrow> Frame list \<Rightarrow> frame_error option \<Rightarrow> 's \<Rightarrow> 'e conn_end \<times> 's" where
  "after_frames handle frames err s =
     (case io_each handle frames s of
        (Inl e, s') \<Rightarrow> (HandlerFailed e, s')
      | (Inr _, s') \<Rightarrow> (case err of None \<Rightarrow> ReadFailed | Some e \<Rightarrow> ParseFailed e, s'))"

lemma after_frames_append:
  "after_frames handle (xs @ ys) err s =
    (case io_each handle xs s of (Inl e, s') \<Rightarrow> (HandlerFailed e, s') | (Inr _, s') \<Rightarrow> after_frames handle ys err s')"
  by (auto simp: after_frames_def io_each_append io_simps split: prod.splits sum.splits)

lemma handleConnection_frames:
  assumes "parse_all (pending @ concat chunks) = (fs, rem, err)" and "parse_step pending = Stop None"
  shows "\<exists>k \<le> length fs. (err = None \<longrightarrow> k = length fs) \<and>
    handleConnection handle pending chunks s = after_frames handle (take k fs) err s"
  using assms
proof (induction chunks arbitrary: pending fs s)
  case Nil
  then show ?case by (auto simp: parse_all_idle after_frames_def io_simps)
next
  case (Cons c cs)
  obtain gs r e where p: "parse_all (pending @ c) = (gs, r, e)" by (metis prod_cases3)
  show ?case
  proof (cases e)
    case (Some x)
    with p Cons.prems(1) parse_all_error [of "pending @ c" gs r x "concat cs"] have "err = Some x" by simp
    with p Some show ?thesis by (intro exI [of _ 0]) (simp add: ParseFrames_all after_frames_def io_simps)
  next
    case None
    with p have wait: "parse_step r = Stop None" using parse_all_remainder by blast
    obtain hs where tail: "parse_all (r @ concat cs) = (hs, rem, err)" and fs: "fs = gs @ hs"
      using Cons.prems(1) parse_all_append [of "pending @ c" gs r "concat cs"] p None by (auto split: prod.splits)
    obtain x s' where run: "io_each handle gs s = (x, s')" by fastforce
    obtain k where k: "k \<le> length hs" "err = None \<longrightarrow> k = length hs"
        "handleConnection handle r cs s' = after_frames handle (take k hs) err s'"
      using Cons.IH [OF tail wait, of s'] by blast
    then show ?thesis
      using p None run
      by (intro exI [of _ "length gs + k"]) (auto simp: ParseFrames_all fs after_frames_append split: sum.split)
  qed
qed

section \<open>Properties\<close>

text \<open>
  C33. Frames written with \<open>EncodeFrame\<close> come back from \<open>ParseFrames\<close> unchanged and in order, and
  the parser then continues with whatever follows them (a partial frame stays as the remainder).
\<close>

theorem ParseFrames_EncodeFrame:
  assumes "\<And>f. f \<in> set fs \<Longrightarrow> frame_ok f"
  shows "ParseFrames (concat (map encode_frame fs) @ rest) =
    (case ParseFrames rest of (gs, remaining, e) \<Rightarrow> (fs @ gs, remaining, e))"
  unfolding ParseFrames_all using assms by (rule parse_all_encode)

lemma ParseFrames_EncodeFrame_witness:
  "ParseFrames (concat (map encode_frame [\<lparr>Marker = 0x5713, Payload = [0x1C, 7]\<rparr>, \<lparr>Marker = 0x5813, Payload = []\<rparr>]) @ [0x13])
    = ([\<lparr>Marker = 0x5713, Payload = [0x1C, 7]\<rparr>, \<lparr>Marker = 0x5813, Payload = []\<rparr>], [0x13], None)"
  by (subst ParseFrames_EncodeFrame)
     (auto simp: frame_ok_def MarkerReliable_def MarkerUnreliable_def maxFrameLength_def
        ParseFrames_all parse_all.simps parse_step_def)

text \<open>
  C15. However TCP cuts the stream, \<open>handleConnection\<close> handles the frames of the stream in their order
  from the first: all of them when the stream has no malformed frame, and otherwise a beginning of the
  frames before the malformed one (those of the read that ends in it are dropped, so how many depends
  on the cuts). The connection then ends with the first error of the handler, or else with the
  stream's own error, the same for every cut.
\<close>

theorem handleConnection_segmentation:
  assumes "ParseFrames (concat chunks) = (frames, remaining, err)"
  shows "\<exists>k \<le> length frames. (err = None \<longrightarrow> k = length frames) \<and>
    handleConnection handle [] chunks s = after_frames handle (take k frames) err s"
proof -
  have "parse_step [] = Stop None" by (simp add: parse_step_def)
  then show ?thesis using assms by (intro handleConnection_frames) (simp_all add: ParseFrames_all)
qed

lemma handleConnection_segmentation_witness:
  "handleConnection (\<lambda>f s. (Inr () :: unit + unit, s @ Payload f)) [] [[0x13, 0x57], [2, 9], [8]] [] = (ReadFailed, [9, 8])"
proof -
  have "ParseFrames (concat [[0x13, 0x57], [2, 9], [8]]) = ([\<lparr>Marker = 0x5713, Payload = [9, 8]\<rparr>], [], None)"
    by (simp add: ParseFrames_all parse_all.simps parse_step_def get16_def le16_def
        MarkerReliable_def MarkerUnreliable_def maxFrameLength_def DecodeVarInt_def
        DecodeVarInt_loop.simps Let_def)
  from handleConnection_segmentation [OF this, of "\<lambda>f s. (Inr () :: unit + unit, s @ Payload f)" "[]"]
  show ?thesis by (simp add: after_frames_def io_simps)
qed

text \<open>
  Unless it reports a malformed stream, \<open>ParseFrames\<close> keeps a suffix of its input shorter than
  one maximal frame with its header, so a connection cannot make the pending buffer grow without
  end; every byte before that suffix was consumed.
\<close>

theorem ParseFrames_remainder_bounded:
  assumes "ParseFrames buf = (frames, remaining, None)"
  shows "(\<exists>k \<le> length buf. remaining = drop k buf) \<and> int (length remaining) < 7 + maxFrameLength"
  using assms parse_all_remainder [of buf frames remaining None] parse_step_wait [of remaining]
  by (simp add: ParseFrames_all)

lemma ParseFrames_remainder_bounded_witness:
  "(\<exists>k \<le> length [0x13, 0x57, 1 :: byte]. [0x13, 0x57, 1] = drop k [0x13, 0x57, 1 :: byte])
    \<and> int (length [0x13, 0x57, 1 :: byte]) < 7 + maxFrameLength"
  by (rule ParseFrames_remainder_bounded [where frames = "[]"])
     (simp add: ParseFrames_all parse_all.simps parse_step_def get16_def le16_def
        MarkerReliable_def MarkerUnreliable_def maxFrameLength_def DecodeVarInt_def
        DecodeVarInt_loop.simps Let_def)

text \<open>
  A good frame followed in the same read by two bytes that are no marker is not handled, although
  it would have been, had it arrived on its own.
\<close>

lemma error_drops_frames_of_the_read:
  "handleConnection (\<lambda>f s. (Inr () :: unit + unit, s @ Payload f)) [] [[0x13, 0x57, 1, 9, 0, 0, 0]] []
     = (ParseFailed (UnknownMarker 0), [])"
  "handleConnection (\<lambda>f s. (Inr () :: unit + unit, s @ Payload f)) [] [[0x13, 0x57, 1, 9], [0, 0, 0]] []
     = (ParseFailed (UnknownMarker 0), [9])"
  by (simp_all add: ParseFrames_all parse_all.simps parse_step_def get16_def le16_def
        MarkerReliable_def MarkerUnreliable_def maxFrameLength_def DecodeVarInt_def io_simps
        DecodeVarInt_loop.simps Let_def)

end
