(* ===== verification/Rmi.thy ===== *)
theory Rmi
  imports Frames
begin

text \<open>
  The message layer: the AES-ECB helpers and the session key exchange (crypto.go, handshake.go),
  the two RMI envelopes (rmi.go), the connection messages (connect.go), what a session writes
  (session.go) and the frame dispatch of the server (server.go). The AES block cipher
  (\<open>aes.NewCipher\<close>) and RSA-OAEP decryption are arguments of the definitions that call them.
\<close>

section \<open>Errors\<close>

datatype rmi_error =
    WireError wire_error
  | BadKeySize
  | NotBlockMultiple nat
  | SessionKeyDecrypt
  | ProofKeyDecrypt rmi_error
  | NotEncryptedEnvelope
  | EncryptedTooShort
  | MissingGuid
  | NotEstablished
  | WriteFailed
  | UnexpectedEOF

section \<open>AES-ECB over a block cipher (crypto.go)\<close>

record block_cipher =
  encrypt_block :: "byte list \<Rightarrow> byte list"
  decrypt_block :: "byte list \<Rightarrow> byte list"

type_synonym new_cipher = "byte list \<Rightarrow> block_cipher option"

text \<open>The loop \<open>for i := 0; i < len(out); i += 16\<close> that rewrites one block after the other.\<close>

function ecb :: "(byte list \<Rightarrow> byte list) \<Rightarrow> byte list \<Rightarrow> byte list" where
  "ecb f bs = (if bs = [] then [] else f (take 16 bs) @ ecb f (drop 16 bs))"
  by pat_completeness auto
termination by (relation "measure (length \<circ> snd)") auto

declare ecb.simps [simp del]

definition zero_pad :: "byte list \<Rightarrow> byte list" where
  "zero_pad bs = bs @ replicate ((length bs + 15) div 16 * 16 - length bs) 0"

definition AESECBEncrypt :: "new_cipher \<Rightarrow> byte list \<Rightarrow> byte list \<Rightarrow> rmi_error + byte list" where
  "AESECBEncrypt newCipher key plaintext =
     (case newCipher key of
        None \<Rightarrow> Inl BadKeySize
      | Some block \<Rightarrow> Inr (ecb (encrypt_block block) (zero_pad plaintext)))"

definition AESECBDecrypt :: "new_cipher \<Rightarrow> byte list \<Rightarrow> byte list \<Rightarrow> rmi_error + byte list" where
  "AESECBDecrypt newCipher key ciphertext =
     (case newCipher key of
        None \<Rightarrow> Inl BadKeySize
      | Some block \<Rightarrow>
          if length ciphertext mod 16 \<noteq> 0 then Inl (NotBlockMultiple (length ciphertext))
          else Inr (ecb (decrypt_block block) ciphertext))"

text \<open>\<open>KeyPair\<close>: the private half is only used through \<open>rsa.DecryptOAEP\<close>.\<close>

record KeyPair =
  DecryptOAEP :: "byte list \<Rightarrow> byte list option"
  PublicDER :: "byte list"

definition reverseBytes :: "byte list \<Rightarrow> byte list" where
  "reverseBytes b = map (\<lambda>i. b ! (length b - 1 - i)) [0..<length b]"

definition DecryptSessionKey :: "KeyPair \<Rightarrow> byte list \<Rightarrow> rmi_error + byte list" where
  "DecryptSessionKey k ciphertext =
     (case DecryptOAEP k ciphertext of
        Some key \<Rightarrow> Inr key
      | None \<Rightarrow> (case DecryptOAEP k (reverseBytes ciphertext) of
            Some key \<Rightarrow> Inr key
          | None \<Rightarrow> Inl SessionKeyDecrypt))"

section \<open>RMI envelopes (rmi.go)\<close>

definition envelopeEncrypted :: byte where "envelopeEncrypted = 0x26"
definition envelopePlain :: byte where "envelopePlain = 0x01"
definition contextApp :: byte where "contextApp = 0x01"
definition internalRMIFloor :: u16 where "internalRMIFloor = 0xFA00"

record Message =
  ID :: u16
  Body :: "byte list"

definition IsInternal :: "Message \<Rightarrow> bool" where
  "IsInternal m \<longleftrightarrow> ID m \<ge> internalRMIFloor"

definition decodeEncrypted ::
  "new_cipher \<Rightarrow> byte list \<Rightarrow> byte list \<Rightarrow> rmi_error + (Message \<times> u16)" where
  "decodeEncrypted newCipher sessionKey payload =
     (if payload = [] \<or> payload ! 0 \<noteq> envelopeEncrypted then Inl NotEncryptedEnvelope
      else (case AESECBDecrypt newCipher sessionKey (drop 1 payload) of
          Inl e \<Rightarrow> Inl e
        | Inr plain \<Rightarrow>
            if length plain < 5 then Inl EncryptedTooShort
            else Inr (\<lparr>ID = get16 plain 3, Body = drop 5 plain\<rparr>, get16 plain 0)))"

definition encodeEncrypted ::
  "new_cipher \<Rightarrow> byte list \<Rightarrow> u16 \<Rightarrow> Message \<Rightarrow> rmi_error + byte list" where
  "encodeEncrypted newCipher sessionKey count msg =
     (let plain = appendUint16 (appendUint16 [] count @ [contextApp]) (ID msg) @ Body msg
      in case AESECBEncrypt newCipher sessionKey plain of
           Inl e \<Rightarrow> Inl e
         | Inr encrypted \<Rightarrow> Inr (envelopeEncrypted # encrypted))"

definition decodePlain :: "byte list \<Rightarrow> Message option" where
  "decodePlain payload =
     (if length payload < 3 \<or> payload ! 0 \<noteq> envelopePlain then None
      else Some \<lparr>ID = get16 payload 1, Body = drop 3 payload\<rparr>)"

definition encodePlain :: "Message \<Rightarrow> byte list" where
  "encodePlain msg = appendUint16 [envelopePlain] (ID msg) @ Body msg"

section \<open>Handshake (handshake.go)\<close>

definition IsClientHello :: "Frame \<Rightarrow> bool" where
  "IsClientHello frame \<longleftrightarrow>
     \<not> (Marker frame \<noteq> MarkerReliable \<or> length (Payload frame) < 5 \<or> Payload frame ! 0 \<noteq> 0x32) \<and>
     (get32 (Payload frame) 1 = 0x4000000f \<or> get32 (Payload frame) 1 = 0x40000010)"

definition BuildConnectionParams :: "byte list \<Rightarrow> byte list" where
  "BuildConnectionParams publicKeyDER =
     [0x05, 0x00, 0x00] @ appendUint32 [] 0x10000 @ appendUint32 [] 0x10000 @ appendUint32 [] 60000
     @ [0x00] @ appendUint32 [] 0x00 @ [0x01] @ appendUint32 [] 0x80 @ appendUint32 [] 0x00
     @ [0x00, 0x01, 0x01, 0x00, 0x01, 0x00, 0x00] @ appendUint32 [] 0x00
     @ EncodeVarInt (int (length publicKeyDER)) @ publicKeyDER"

definition ParseCryptoSetup :: "new_cipher \<Rightarrow> KeyPair \<Rightarrow> byte list \<Rightarrow> rmi_error + byte list" where
  "ParseCryptoSetup newCipher keyPair payload =
     (case ReadByteArray payload 1 of
        Inl e \<Rightarrow> Inl (WireError e)
      | Inr (rsaKey, next) \<Rightarrow>
          (case ReadByteArray payload next of
             Inl e \<Rightarrow> Inl (WireError e)
           | Inr (secondKey, _) \<Rightarrow>
               (case DecryptSessionKey keyPair rsaKey of
                  Inl e \<Rightarrow> Inl e
                | Inr sessionKey \<Rightarrow>
                    (case AESECBDecrypt newCipher sessionKey secondKey of
                       Inl e \<Rightarrow> Inl (ProofKeyDecrypt e)
                     | Inr _ \<Rightarrow> Inr sessionKey))))"

section \<open>Connection messages (connect.go)\<close>

definition msgCryptoSetup :: byte where "msgCryptoSetup = 0x06"
definition msgServerAuthSuccess :: byte where "msgServerAuthSuccess = 0x07"
definition msgClientConnect :: byte where "msgClientConnect = 0x08"
definition msgServerConnectOK :: byte where "msgServerConnectOK = 0x0B"
definition msgHeartbeat :: byte where "msgHeartbeat = 0x1C"
definition serverHostID :: u32 where "serverHostID = 0x32"

definition serverAuthSuccess :: "byte list" where
  "serverAuthSuccess = [msgServerAuthSuccess]"

record clientConnect =
  token :: "byte list"
  guid :: "byte list"

definition parseClientConnect :: "byte list \<Rightarrow> rmi_error + clientConnect" where
  "parseClientConnect payload =
     (case ReadByteArray payload 1 of
        Inl e \<Rightarrow> Inl (WireError e)
      | Inr (tok, next) \<Rightarrow>
          if next + 16 > length payload then Inl MissingGuid
          else Inr \<lparr>token = tok, guid = take 16 (drop next payload)\<rparr>)"

definition buildServerConnectSuccess :: "clientConnect \<Rightarrow> string \<Rightarrow> u16 \<Rightarrow> byte list" where
  "buildServerConnectSuccess connect host port =
     (let out = appendUint32 [msgServerConnectOK] serverHostID @ guid connect;
          out = out @ EncodeVarInt (int (length (token connect))) @ token connect
      in appendUint16 (WriteProudString out host) port)"

section \<open>What a session writes (session.go)\<close>

text \<open>
  The transport half of a \<open>Session\<close>. \<open>conn.Write\<close> answers from a script, one entry per call:
  the number of bytes it takes (at most what it is given, \<open>io.Writer\<close>'s contract) and whether it
  reports an error; past the end of the script every write takes all. \<open>wire_out\<close> is what the
  peer has been sent. The mutex only serialises whole calls.
\<close>

record Session =
  sessionKey :: "byte list"
  established :: bool
  encryptCount :: u16
  connectGUID :: "byte list"
  wire_out :: "byte list"
  write_script :: "(nat \<times> bool) list"

definition new_session :: "(nat \<times> bool) list \<Rightarrow> Session" where
  "new_session script = \<lparr>sessionKey = [], established = False, encryptCount = 0, connectGUID = [],
     wire_out = [], write_script = script\<rparr>"

definition connWrite :: "byte list \<Rightarrow> (rmi_error, Session, nat) io" where
  "connWrite bs s =
     (case write_script s of
        [] \<Rightarrow> (Inr (length bs), s\<lparr>wire_out := wire_out s @ bs\<rparr>)
      | (n, failed) # script \<Rightarrow>
          (if failed then Inl WriteFailed else Inr (min n (length bs)),
           s\<lparr>wire_out := wire_out s @ take n bs, write_script := script\<rparr>))"

function write_loop :: "byte list \<Rightarrow> Session \<Rightarrow> (rmi_error + unit) \<times> Session" where
  "write_loop frame s =
     (if frame = [] then (Inr (), s)
      else (case connWrite frame s of
          (Inl e, s') \<Rightarrow> (Inl e, s')
        | (Inr written, s') \<Rightarrow>
            if written = 0 then (Inl UnexpectedEOF, s') else write_loop (drop written frame) s'))"
  by pat_completeness auto
termination by (relation "measure (length \<circ> fst)") auto

declare write_loop.simps [simp del]

definition writeReliableLocked :: "byte list \<Rightarrow> (rmi_error, Session, unit) io" where
  "writeReliableLocked payload = write_loop (EncodeFrame MarkerReliable payload)"

definition sendReliable :: "byte list \<Rightarrow> (rmi_error, Session, unit) io" where
  "sendReliable payload = writeReliableLocked payload"

definition SendPlain :: "Message \<Rightarrow> (rmi_error, Session, unit) io" where
  "SendPlain msg = sendReliable (encodePlain msg)"

definition SendEncrypted :: "new_cipher \<Rightarrow> Message \<Rightarrow> (rmi_error, Session, unit) io" where
  "SendEncrypted newCipher msg s =
     (case encodeEncrypted newCipher (sessionKey s) (encryptCount s) msg of
        Inl e \<Rightarrow> (Inl e, s)
      | Inr payload \<Rightarrow> writeReliableLocked payload (s\<lparr>encryptCount := encryptCount s + 1\<rparr>))"

section \<open>Frame dispatch (server.go)\<close>

text \<open>
  A handler runs over the session and the application state \<open>'app\<close>; its error is logged and
  otherwise ignored, which is all \<open>dispatch\<close> does with it.
\<close>

type_synonym ('e, 'app) Handler = "Message \<Rightarrow> ('e, Session \<times> 'app, unit) io"

record ('e, 'app) Server =
  keyPair :: KeyPair
  host :: string
  port :: u16
  handlers :: "u16 \<Rightarrow> ('e, 'app) Handler option"

definition frameType :: "Frame \<Rightarrow> byte" where
  "frameType frame = (if Payload frame = [] then 0 else Payload frame ! 0)"

definition on_session :: "(rmi_error, Session, unit) io \<Rightarrow> (rmi_error, Session \<times> 'app, unit) io" where
  "on_session m = (\<lambda>(s, app). case m s of (r, s') \<Rightarrow> (r, (s', app)))"

definition dispatch :: "('e, 'app) Server \<Rightarrow> Message \<Rightarrow> (rmi_error, Session \<times> 'app, unit) io" where
  "dispatch srv msg w =
     (case handlers srv (ID msg) of
        None \<Rightarrow> (Inr (), w)
      | Some handler \<Rightarrow> (case handler msg w of (_, w') \<Rightarrow> (Inr (), w')))"

definition handleEncrypted ::
  "new_cipher \<Rightarrow> ('e, 'app) Server \<Rightarrow> Frame \<Rightarrow> (rmi_error, Session \<times> 'app, unit) io" where
  "handleEncrypted newCipher srv frame w =
     (if \<not> established (fst w) then (Inl NotEstablished, w)
      else (case decodeEncrypted newCipher (sessionKey (fst w)) (Payload frame) of
          Inl e \<Rightarrow> (Inl e, w)
        | Inr (msg, _) \<Rightarrow> dispatch srv msg w))"

definition handlePlain :: "('e, 'app) Server \<Rightarrow> Frame \<Rightarrow> (rmi_error, Session \<times> 'app, unit) io" where
  "handlePlain srv frame w =
     (case decodePlain (Payload frame) of
        None \<Rightarrow> (Inr (), w)
      | Some msg \<Rightarrow> if IsInternal msg then (Inr (), w) else dispatch srv msg w)"

definition handleFrame ::
  "new_cipher \<Rightarrow> ('e, 'app) Server \<Rightarrow> Frame \<Rightarrow> (rmi_error, Session \<times> 'app, unit) io" where
  "handleFrame newCipher srv frame w =
     (if IsClientHello frame
      then on_session (sendReliable (BuildConnectionParams (PublicDER (keyPair srv)))) w
      else if frameType frame = msgCryptoSetup
      then (case ParseCryptoSetup newCipher (keyPair srv) (Payload frame) of
          Inl e \<Rightarrow> (Inl e, w)
        | Inr key \<Rightarrow>
            on_session (sendReliable serverAuthSuccess)
              ((fst w)\<lparr>sessionKey := key, established := True\<rparr>, snd w))
      else if frameType frame = msgClientConnect
      then (case parseClientConnect (Payload frame) of
          Inl e \<Rightarrow> (Inl e, w)
        | Inr connect \<Rightarrow>
            on_session (sendReliable (buildServerConnectSuccess connect (host srv) (port srv)))
              ((fst w)\<lparr>connectGUID := guid connect\<rparr>, snd w))
      else if frameType frame = msgHeartbeat then on_session (sendReliable (Payload frame)) w
      else if frameType frame = envelopeEncrypted then handleEncrypted newCipher srv frame w
      else if frameType frame = envelopePlain then handlePlain srv frame w
      else (Inr (), w))"

section \<open>Lemmas on the cipher helpers and envelopes\<close>

text \<open>A key the cipher accepts, with decryption undoing encryption on 16-byte blocks.\<close>

definition cipher_ok :: "new_cipher \<Rightarrow> byte list \<Rightarrow> bool" where
  "cipher_ok newCipher key \<longleftrightarrow>
     (case newCipher key of
        None \<Rightarrow> False
      | Some c \<Rightarrow> \<forall>b. length b = 16 \<longrightarrow>
          length (encrypt_block c b) = 16 \<and> decrypt_block c (encrypt_block c b) = b)"

lemma ecb_Nil [simp]: "ecb f [] = []"
  by (simp add: ecb.simps)

lemma ecb_block: "length b = 16 \<Longrightarrow> ecb f (b @ bs) = f b @ ecb f bs"
  by (subst ecb.simps) auto

lemma ecb_inverse:
  assumes inv: "\<And>b. length b = 16 \<Longrightarrow> length (f b) = 16 \<and> g (f b) = b"
  shows "length bs = 16 * n \<Longrightarrow> length (ecb f bs) = length bs \<and> ecb g (ecb f bs) = bs"
proof (induction n arbitrary: bs)
  case (Suc n)
  then have bs: "bs = take 16 bs @ drop 16 bs" "length (take 16 bs) = 16" by simp_all
  have "ecb f bs = f (take 16 bs) @ ecb f (drop 16 bs)"
    using ecb_block [OF bs(2), of f "drop 16 bs"] by simp
  with Suc inv [OF bs(2)] show ?case by (auto simp: ecb_block)
qed simp

lemma length_zero_pad: "length (zero_pad bs) = (length bs + 15) div 16 * 16"
proof -
  have "length bs \<le> (length bs + 15) div 16 * 16" by linarith
  then show ?thesis by (simp add: zero_pad_def)
qed

lemma AESECB_roundtrip:
  assumes "cipher_ok newCipher key"
  obtains c where "AESECBEncrypt newCipher key plain = Inr c"
    and "AESECBDecrypt newCipher key c = Inr (zero_pad plain)"
proof -
  obtain b where b: "newCipher key = Some b"
    and inv: "\<And>x. length x = 16 \<Longrightarrow> length (encrypt_block b x) = 16 \<and> decrypt_block b (encrypt_block b x) = x"
    using assms by (auto simp: cipher_ok_def split: option.splits)
  have len: "length (zero_pad plain) = 16 * ((length plain + 15) div 16)"
    by (simp add: length_zero_pad)
  from ecb_inverse [of "encrypt_block b" "decrypt_block b", OF inv len] len that b
  show thesis by (simp add: AESECBEncrypt_def AESECBDecrypt_def)
qed

lemma zero_pad_prefix: "\<exists>n < 16. zero_pad (xs @ ys) = xs @ ys @ replicate n 0"
proof -
  have "(length (xs @ ys) + 15) div 16 * 16 - length (xs @ ys) < 16" by linarith
  then show ?thesis unfolding zero_pad_def by auto
qed

lemma get16_header [wire_simps]:
  "get16 (appendUint16 [] v @ rest) 0 = v"
  "get16 (a # appendUint16 [] v @ rest) 1 = v"
  "get16 (a # b # c # appendUint16 [] v @ rest) 3 = v"
  "get16 (a # appendUint16 [] v @ rest) (Suc 0) = v"
  by (simp_all add: get16_def appendUint16_def le16_bytes)

lemma plain_envelope: "decodePlain (encodePlain msg) = Some msg"
proof -
  have "encodePlain msg = envelopePlain # appendUint16 [] (ID msg) @ Body msg"
    using append_uint_prefix(1) [of "[envelopePlain]" "[]"] by (simp add: encodePlain_def)
  then show ?thesis by (simp add: decodePlain_def get16_header)
qed

lemma encrypted_envelope:
  assumes "cipher_ok newCipher key"
  obtains payload n where "encodeEncrypted newCipher key count msg = Inr payload" and "n < 16"
    and "decodeEncrypted newCipher key payload = Inr (\<lparr>ID = ID msg, Body = Body msg @ replicate n 0\<rparr>, count)"
proof -
  let ?head = "appendUint16 (appendUint16 [] count @ [contextApp]) (ID msg)"
  have h: "\<exists>a b. ?head = a # b # contextApp # appendUint16 [] (ID msg)" "length ?head = 5"
    by (simp_all add: appendUint16_def)
  have c: "get16 (?head @ r) 0 = count" "get16 (?head @ r) 3 = ID msg" for r
    by (simp_all add: get16_def appendUint16_def le16_bytes)
  obtain e where e: "AESECBEncrypt newCipher key (?head @ Body msg) = Inr e"
      "AESECBDecrypt newCipher key e = Inr (zero_pad (?head @ Body msg))"
    using AESECB_roundtrip [OF assms] by blast
  obtain n where n: "n < 16" "zero_pad (?head @ Body msg) = ?head @ Body msg @ replicate n 0"
    using zero_pad_prefix [of ?head "Body msg"] by blast
  have "decodeEncrypted newCipher key (envelopeEncrypted # e)
      = Inr (\<lparr>ID = ID msg, Body = Body msg @ replicate n 0\<rparr>, count)"
    using e(2) h(2) by (simp add: decodeEncrypted_def n(2) c)
  moreover have "encodeEncrypted newCipher key count msg = Inr (envelopeEncrypted # e)"
    using e(1) by (simp add: encodeEncrypted_def Let_def)
  ultimately show thesis using that n(1) by blast
qed

section \<open>Lemmas on writing\<close>

lemma connWrite_out:
  assumes "connWrite bs s = (r, s')"
  shows "\<exists>n. wire_out s' = wire_out s @ take n bs \<and> (\<forall>k. r = Inr k \<longrightarrow> k \<le> length bs \<and> take n bs = take k bs) \<and>
      s' = s\<lparr>wire_out := wire_out s', write_script := write_script s'\<rparr>"
proof (cases "write_script s")
  case Nil
  with assms show ?thesis
    by (intro exI [of _ "length bs"]) (auto simp: connWrite_def)
next
  case (Cons p script)
  with assms show ?thesis
    by (intro exI [of _ "fst p"]) (auto simp: connWrite_def min_def split: prod.splits if_splits)
qed

text \<open>Whatever the transport does, a prefix of the frame goes out, the whole frame on success.\<close>

lemma write_loop_out:
  "write_loop frame s = (r, s') \<Longrightarrow>
    (\<exists>n. wire_out s' = wire_out s @ take n frame) \<and> (r = Inr () \<longrightarrow> wire_out s' = wire_out s @ frame) \<and>
    s' = s\<lparr>wire_out := wire_out s', write_script := write_script s'\<rparr>"
proof (induction frame s rule: write_loop.induct)
  case (1 frame s)
  show ?case
  proof (cases "frame = []")
    case True
    with 1(2) show ?thesis by (simp add: write_loop.simps [of "[]"])
  next
    case False
    obtain q t where c: "connWrite frame s = (q, t)" by force
    obtain n where n: "wire_out t = wire_out s @ take n frame"
      "\<forall>k. q = Inr k \<longrightarrow> k \<le> length frame \<and> take n frame = take k frame"
      "t = s\<lparr>wire_out := wire_out t, write_script := write_script t\<rparr>"
      using connWrite_out [OF c] by blast
    show ?thesis
    proof (cases q)
      case (Inl e)
      with 1(2) False c n show ?thesis by (auto simp: write_loop.simps [of frame])
    next
      case (Inr k)
      show ?thesis
      proof (cases "k = 0")
        case True
        with 1(2) False c n Inr show ?thesis by (auto simp: write_loop.simps [of frame])
      next
        case k: False
        then have w: "write_loop (drop k frame) t = (r, s')"
          using 1(2) False c Inr by (simp add: write_loop.simps [of frame])
        note IH = 1(1) [OF False c [symmetric] Inr k w]
        obtain m where m: "wire_out s' = wire_out t @ take m (drop k frame)" using IH by blast
        have "take k frame @ take m (drop k frame) = take (k + m) frame" by (simp add: take_add)
        then have "wire_out s' = wire_out s @ take (k + m) frame" using m n Inr by simp
        moreover have "r = Inr () \<longrightarrow> wire_out s' = wire_out s @ frame" using IH n Inr by simp
        moreover have "s' = s\<lparr>wire_out := wire_out s', write_script := write_script s'\<rparr>"
          using IH n(3) by (metis Session.surjective Session.update_convs(5,6))
        ultimately show ?thesis by blast
      qed
    qed
  qed
qed

lemma write_loop_accepting:
  "write_script s = [] \<Longrightarrow> write_loop frame s = (Inr (), s\<lparr>wire_out := wire_out s @ frame\<rparr>)"
  by (subst write_loop.simps) (auto simp: connWrite_def write_loop.simps [of "[]"])

lemma sized_ReadByteArray: "ReadByteArray buf offset = Inr (data, next) \<Longrightarrow> sized data"
  by (auto simp: ReadByteArray_def sized_def Let_def split: sum.splits if_splits dest!: DecodeVarInt_bounds)

definition same_key :: "Session \<Rightarrow> Session \<Rightarrow> bool" where
  "same_key s s' \<longleftrightarrow> established s' = established s \<and> sessionKey s' = sessionKey s"

definition handlers_keep_key :: "('e, 'app) Server \<Rightarrow> bool" where
  "handlers_keep_key srv \<longleftrightarrow>
     (\<forall>i h m w. handlers srv i = Some h \<longrightarrow> same_key (fst w) (fst (snd (h m w))))"

lemma write_loop_key: "same_key s (snd (write_loop frame s))"
proof -
  obtain r s' where w: "write_loop frame s = (r, s')" by force
  have "s' = s\<lparr>wire_out := wire_out s', write_script := write_script s'\<rparr>"
    using write_loop_out [OF w] by blast
  then have "established s' = established s" "sessionKey s' = sessionKey s"
    by (metis Session.select_convs(1,2) Session.surjective Session.update_convs(5,6))+
  with w show ?thesis by (simp add: same_key_def)
qed

lemma on_session_key:
  "on_session (sendReliable p) w = (r, w') \<Longrightarrow> same_key (fst w) (fst w')"
  using write_loop_key [of "fst w" "EncodeFrame MarkerReliable p"]
  by (auto simp: on_session_def sendReliable_def writeReliableLocked_def split: prod.splits)

lemma dispatch_key:
  assumes "handlers_keep_key srv" and "dispatch srv msg w = (r, w')"
  shows "same_key (fst w) (fst w')"
proof (cases "handlers srv (ID msg)")
  case None
  with assms(2) show ?thesis by (simp add: dispatch_def same_key_def)
next
  case (Some h)
  with assms(2) have "w' = snd (h msg w)" by (auto simp: dispatch_def split: prod.splits)
  with Some assms(1) show ?thesis unfolding handlers_keep_key_def by blast
qed

lemma handleEncrypted_key:
  "handlers_keep_key srv \<Longrightarrow> handleEncrypted newCipher srv frame w = (r, w') \<Longrightarrow> same_key (fst w) (fst w')"
  by (auto simp: handleEncrypted_def same_key_def split: if_splits sum.splits dest: dispatch_key)

lemma handlePlain_key:
  "handlers_keep_key srv \<Longrightarrow> handlePlain srv frame w = (r, w') \<Longrightarrow> same_key (fst w) (fst w')"
  by (auto simp: handlePlain_def same_key_def split: if_splits option.splits dest: dispatch_key)

lemma handleFrame_key_cases:
  assumes keep: "handlers_keep_key srv" and h: "handleFrame newCipher srv frame w = (r, w')"
  shows "same_key (fst w) (fst w') \<or>
    (established (fst w') \<and> ParseCryptoSetup newCipher (keyPair srv) (Payload frame) = Inr (sessionKey (fst w')))"
proof (cases "\<not> IsClientHello frame \<and> (frameType frame = msgCryptoSetup \<or> frameType frame = msgClientConnect)")
  case False
  then have "\<exists>p. on_session (sendReliable p) w = (r, w') \<or> handleEncrypted newCipher srv frame w = (r, w')
      \<or> handlePlain srv frame w = (r, w') \<or> w' = w"
    using h unfolding handleFrame_def by (metis snd_conv)
  then show ?thesis
    using on_session_key handleEncrypted_key [OF keep] handlePlain_key [OF keep]
    by (metis same_key_def)
next
  case True
  show ?thesis
  proof (cases "frameType frame = msgCryptoSetup")
    case crypto: True
    with True h show ?thesis
      by (auto simp: handleFrame_def same_key_def split: sum.splits dest!: on_session_key)
  next
    case False
    with True h show ?thesis
      by (auto simp: handleFrame_def same_key_def split: sum.splits dest!: on_session_key)
  qed
qed

lemma handleFrame_gate:
  "\<not> established (fst w) \<Longrightarrow> frameType frame = envelopeEncrypted \<Longrightarrow>
    handleFrame newCipher srv frame w = (Inl NotEstablished, w)"
  by (auto simp: handleFrame_def handleEncrypted_def IsClientHello_def frameType_def envelopeEncrypted_def
      msgCryptoSetup_def msgClientConnect_def msgHeartbeat_def split: if_splits)

lemma parseClientConnect_ok:
  "parseClientConnect payload = Inr c \<Longrightarrow> length (guid c) = 16 \<and> sized (token c)"
  by (auto simp: parseClientConnect_def split: sum.splits prod.splits if_splits dest!: sized_ReadByteArray)

section \<open>Properties\<close>

text \<open>
  C16. A message that \<open>SendEncrypted\<close> sent without error went out as exactly one more frame, which
  decrypts under the session key to the counter the session had, the message's id, and its body
  followed by fewer than 16 zero bytes; the counter then advances by one, wrapping at 16 bits.
\<close>

theorem SendEncrypted_decodes:
  assumes "cipher_ok newCipher (sessionKey s)"
    and "SendEncrypted newCipher msg s = (Inr (), s')"
  shows "\<exists>payload n. wire_out s' = wire_out s @ EncodeFrame MarkerReliable payload \<and> n < 16 \<and>
      decodeEncrypted newCipher (sessionKey s) payload
        = Inr (\<lparr>ID = ID msg, Body = Body msg @ replicate n 0\<rparr>, encryptCount s) \<and>
      encryptCount s' = encryptCount s + 1 \<and> sessionKey s' = sessionKey s"
proof -
  obtain payload n where e: "encodeEncrypted newCipher (sessionKey s) (encryptCount s) msg = Inr payload"
      "n < 16" "decodeEncrypted newCipher (sessionKey s) payload
        = Inr (\<lparr>ID = ID msg, Body = Body msg @ replicate n 0\<rparr>, encryptCount s)"
    using encrypted_envelope [OF assms(1)] by metis
  then have "write_loop (EncodeFrame MarkerReliable payload) (s\<lparr>encryptCount := encryptCount s + 1\<rparr>) = (Inr (), s')"
    using assms(2) by (simp add: SendEncrypted_def writeReliableLocked_def)
  note w = write_loop_out [OF this]
  have "wire_out s' = wire_out s @ EncodeFrame MarkerReliable payload" using w by simp
  moreover have "s' = s\<lparr>encryptCount := encryptCount s + 1, wire_out := wire_out s', write_script := write_script s'\<rparr>"
    using w by blast
  then have "encryptCount s' = encryptCount s + 1" "sessionKey s' = sessionKey s"
    by (metis Session.select_convs(1,3) Session.surjective Session.update_convs(3,5,6))+
  ultimately show ?thesis using e(2,3) by blast
qed

definition xor_cipher :: new_cipher where
  "xor_cipher key = (if length key = 16
     then Some \<lparr>encrypt_block = (\<lambda>b. map2 (XOR) b key), decrypt_block = (\<lambda>b. map2 (XOR) b key)\<rparr>
     else None)"

lemma xor_cipher_ok: "cipher_ok xor_cipher (replicate 16 3)"
  by (simp add: cipher_ok_def xor_cipher_def list_eq_iff_nth_eq xor.assoc)

lemma SendEncrypted_decodes_witness:
  "\<exists>s' payload n. SendEncrypted xor_cipher \<lparr>ID = 0x9010, Body = [1, 2]\<rparr> ((new_session [])\<lparr>sessionKey := replicate 16 3\<rparr>) = (Inr (), s') \<and>
    n < 16 \<and> wire_out s' = EncodeFrame MarkerReliable payload \<and> encryptCount s' = 1 \<and>
    decodeEncrypted xor_cipher (replicate 16 3) payload = Inr (\<lparr>ID = 0x9010, Body = [1, 2] @ replicate n 0\<rparr>, 0)"
proof -
  let ?s = "(new_session [])\<lparr>sessionKey := replicate 16 3\<rparr>"
  let ?m = "\<lparr>ID = 0x9010, Body = [1, 2]\<rparr>"
  have c: "cipher_ok xor_cipher (sessionKey ?s)" using xor_cipher_ok by simp
  obtain payload where "encodeEncrypted xor_cipher (sessionKey ?s) (encryptCount ?s) ?m = Inr payload"
    using encrypted_envelope [OF c] by metis
  then obtain s' where ok: "SendEncrypted xor_cipher ?m ?s = (Inr (), s')"
    by (simp add: SendEncrypted_def new_session_def writeReliableLocked_def write_loop_accepting)
  from SendEncrypted_decodes [OF c ok] ok show ?thesis by (auto simp: new_session_def)
qed

text \<open>
  \<open>SendPlain\<close> either puts the whole frame of the message on the wire, from which \<open>decodePlain\<close>
  reads the message back, or it reports an error and the peer has a prefix of that frame and
  nothing else; no other part of the session changes. This holds for every way the transport may
  split or fail the writes.
\<close>

theorem SendPlain_all_or_prefix:
  assumes "SendPlain msg s = (r, s')"
  shows "(\<exists>n. wire_out s' = wire_out s @ take n (EncodeFrame MarkerReliable (encodePlain msg))) \<and>
    (r = Inr () \<longrightarrow> wire_out s' = wire_out s @ EncodeFrame MarkerReliable (encodePlain msg)) \<and>
    decodePlain (encodePlain msg) = Some msg \<and>
    s' = s\<lparr>wire_out := wire_out s', write_script := write_script s'\<rparr>"
  using write_loop_out [of "EncodeFrame MarkerReliable (encodePlain msg)" s r s'] assms plain_envelope
  by (simp add: SendPlain_def sendReliable_def writeReliableLocked_def)

lemma SendPlain_all_or_prefix_witness:
  "\<exists>r s'. SendPlain \<lparr>ID = 5, Body = [7]\<rparr> (new_session [(2, False), (1, True)]) = (r, s') \<and>
    (\<exists>n. wire_out s' = wire_out (new_session [(2, False), (1, True)])
        @ take n (EncodeFrame MarkerReliable (encodePlain \<lparr>ID = 5, Body = [7]\<rparr>))) \<and>
    (r = Inr () \<longrightarrow> wire_out s' = wire_out (new_session [(2, False), (1, True)])
        @ EncodeFrame MarkerReliable (encodePlain \<lparr>ID = 5, Body = [7]\<rparr>)) \<and>
    decodePlain (encodePlain \<lparr>ID = 5, Body = [7]\<rparr>) = Some \<lparr>ID = 5, Body = [7]\<rparr> \<and>
    s' = (new_session [(2, False), (1, True)])\<lparr>wire_out := wire_out s', write_script := write_script s'\<rparr>"
proof -
  obtain r s' where e: "SendPlain \<lparr>ID = 5, Body = [7]\<rparr> (new_session [(2, False), (1, True)]) = (r, s')" by force
  from SendPlain_all_or_prefix [OF e] e show ?thesis by blast
qed

text \<open>
  The session key only ever comes from a successful key exchange: handling one frame, whatever
  it is, leaves \<open>established\<close> and the key as they were or sets them from a crypto setup message
  that \<open>ParseCryptoSetup\<close> accepted; an encrypted RMI before that is an error and reaches no
  handler. The handlers are only assumed to leave the two fields alone, as they do.
\<close>

theorem handleFrame_key:
  assumes "handlers_keep_key srv"
    and "handleFrame newCipher srv frame w = (r, w')"
  shows "((established (fst w') = established (fst w) \<and> sessionKey (fst w') = sessionKey (fst w)) \<or>
      (established (fst w') \<and> ParseCryptoSetup newCipher (keyPair srv) (Payload frame) = Inr (sessionKey (fst w')))) \<and>
    (\<not> established (fst w) \<and> frameType frame = envelopeEncrypted \<longrightarrow> r = Inl NotEstablished \<and> w' = w)"
  using handleFrame_key_cases [OF assms] handleFrame_gate [of w frame newCipher srv] assms(2)
  by (auto simp: same_key_def)

definition quiet_server :: "(unit, unit) Server" where
  "quiet_server = \<lparr>keyPair = \<lparr>DecryptOAEP = Map.empty, PublicDER = [9]\<rparr>, host = ''h'', port = 1, handlers = Map.empty\<rparr>"

lemma handleFrame_key_witness:
  "let frame = \<lparr>Marker = MarkerReliable, Payload = [envelopeEncrypted, 1]\<rparr>; w = (new_session [], ())
   in handleFrame xor_cipher quiet_server frame w = (Inl NotEstablished, w)"
proof -
  let ?f = "\<lparr>Marker = MarkerReliable, Payload = [envelopeEncrypted, 1]\<rparr>"
  let ?w = "(new_session [], ())"
  obtain r w' where h: "handleFrame xor_cipher quiet_server ?f ?w = (r, w')" by (rule prod.exhaust)
  have "handlers_keep_key quiet_server" by (simp add: handlers_keep_key_def quiet_server_def)
  from handleFrame_key [OF this h] have "r = Inl NotEstablished \<and> w' = ?w"
    by (simp add: new_session_def frameType_def)
  with h show ?thesis by simp
qed

text \<open>
  The reply to a connect message that parsed: behind the host id the client finds its own guid,
  its own token, the server's host name and port, and nothing after them.
\<close>

theorem connect_reply_echoes:
  assumes "parseClientConnect payload = Inr connect" and "sized (wire_units h)"
  shows "\<exists>t u. buildServerConnectSuccess connect h p ! 0 = msgServerConnectOK \<and>
      get32 (buildServerConnectSuccess connect h p) 1 = serverHostID \<and>
      take 16 (drop 5 (buildServerConnectSuccess connect h p)) = guid connect \<and>
      ReadByteArray (buildServerConnectSuccess connect h p) 21 = Inr (token connect, t) \<and>
      ReadProudString (buildServerConnectSuccess connect h p) t = Inr (string_of_runes (runes_of_string h), u) \<and>
      get16 (buildServerConnectSuccess connect h p) u = p \<and>
      length (buildServerConnectSuccess connect h p) = u + 2"
proof -
  let ?out = "buildServerConnectSuccess connect h p"
  let ?pre = "appendUint32 [msgServerConnectOK] serverHostID @ guid connect"
  let ?tok = "WriteByteArray (token connect)" and ?host = "WriteProudString [] h"
  have c: "length (guid connect) = 16" "sized (token connect)"
    using parseClientConnect_ok [OF assms(1)] by simp_all
  have out: "?out = ?pre @ ?tok @ ?host @ appendUint16 [] p"
    using append_uint_prefix(1) [of "?pre @ ?tok @ ?host" "[]" p]
    by (simp add: buildServerConnectSuccess_def WriteProudString_prefix [of "_ @ _"] WriteByteArray_def Let_def)
  have pre: "length ?pre = 21" using c by simp
  have t: "ReadByteArray ?out 21 = Inr (token connect, length (?pre @ ?tok))"
    using byte_array_roundtrip [OF c(2), of ?pre "?host @ appendUint16 [] p"] pre out by simp
  have u: "ReadProudString ?out (length (?pre @ ?tok))
      = Inr (string_of_runes (runes_of_string h), length (?pre @ ?tok @ ?host))"
    using proud_string_roundtrip [OF assms(2), of "?pre @ ?tok" "appendUint16 [] p"] out by simp
  have "get16 ?out (length (?pre @ ?tok @ ?host)) = p"
    using get16_append [of "?pre @ ?tok @ ?host" p "[]"] append_uint_prefix(1) [of "?pre @ ?tok @ ?host" "[]" p] out
    by simp
  moreover have "?out ! 0 = msgServerConnectOK" "get32 ?out 1 = serverHostID" "take 16 (drop 5 ?out) = guid connect"
    using c by (simp_all add: out appendUint32_def get32_def le32_bytes)
  moreover have "length ?out = length (?pre @ ?tok @ ?host) + 2" by (simp add: out)
  ultimately show ?thesis using t u by blast
qed

lemma connect_reply_echoes_witness:
  "\<exists>t u. ReadByteArray (buildServerConnectSuccess \<lparr>token = [5], guid = replicate 16 2\<rparr> ''h'' 80) 21 = Inr ([5], t) \<and>
     get16 (buildServerConnectSuccess \<lparr>token = [5], guid = replicate 16 2\<rparr> ''h'' 80) u = 80"
proof -
  have "parseClientConnect ([8, 1, 5] @ replicate 16 2) = Inr \<lparr>token = [5], guid = replicate 16 2\<rparr>"
    by (simp add: parseClientConnect_def ReadByteArray_def DecodeVarInt_def DecodeVarInt_loop.simps Let_def)
  moreover have "sized (wire_units ''h'')"
    by (simp add: sized_def wire_units_def runes_of_string_def decode_rune_def utf16_encode_def utf16_units_def)
  ultimately show ?thesis
    using connect_reply_echoes [of "[8, 1, 5] @ replicate 16 2" "\<lparr>token = [5], guid = replicate 16 2\<rparr>" "''h''" 80]
    by auto
qed

text \<open>
  The public key stands at the fixed offset 40 of the connection parameters, where a ProudNet
  byte array reader finds it, and is the last thing in the message.
\<close>

theorem connection_params_key:
  assumes "sized der"
  shows "ReadByteArray (BuildConnectionParams der) 40 = Inr (der, length (BuildConnectionParams der))"
proof -
  let ?pre = "take 40 (BuildConnectionParams der)"
  have "BuildConnectionParams der = ?pre @ WriteByteArray der @ []" "length ?pre = 40"
      "length (BuildConnectionParams der) = 40 + length (WriteByteArray der)"
    by (simp_all add: BuildConnectionParams_def WriteByteArray_def appendUint32_def)
  with byte_array_roundtrip [OF assms, of ?pre "[]"] show ?thesis by simp
qed

lemma connection_params_key_witness:
  "ReadByteArray (BuildConnectionParams [0x30, 0x81]) 40 = Inr ([0x30, 0x81], length (BuildConnectionParams [0x30, 0x81]))"
  by (rule connection_params_key) (simp add: sized_def)

end
