(* ===== verification/Rmi_Ids.thy ===== *)
theory Rmi_Ids
  imports Prelude
begin

text \<open>
  The message ids of the protocol, one definition per constant of the proudnet package, file by
  file; \<open>Request\<close> ids come from the client, the others are sent to it.
\<close>

section \<open>auth\<close>

definition rmiRequestAeriaAuth :: u16 where "rmiRequestAeriaAuth = 0x7534"
definition rmiAnswerAeriaAuth :: u16 where "rmiAnswerAeriaAuth = 0x756A"
definition rmiRequestAeriaLauncher :: u16 where "rmiRequestAeriaLauncher = 0x7535"
definition rmiAnswerAeriaLauncher :: u16 where "rmiAnswerAeriaLauncher = 0x756C"
definition rmiCreateCredential :: u16 where "rmiCreateCredential = 0x7532"
definition rmiAnswerCreateCredential :: u16 where "rmiAnswerCreateCredential = 0x7565"
definition rmiCheckCredential :: u16 where "rmiCheckCredential = 0x7533"
definition rmiAnswerCheckCredential :: u16 where "rmiAnswerCheckCredential = 0x7567"

section \<open>channel\<close>

definition rmiRequestChannelList :: u16 where "rmiRequestChannelList = 0x88B9"
definition rmiAnswerChannelList :: u16 where "rmiAnswerChannelList = 0x891D"
definition rmiSendChannelList :: u16 where "rmiSendChannelList = 0x891F"
definition rmiRequestChannelJoin :: u16 where "rmiRequestChannelJoin = 0x88BA"
definition rmiAnswerChannelJoin :: u16 where "rmiAnswerChannelJoin = 0x8920"

section \<open>chat\<close>

definition rmiRequestChatClan :: u16 where "rmiRequestChatClan = 0x9472"
definition rmiAnswerChatAllOK :: u16 where "rmiAnswerChatAllOK = 0x94DA"
definition rmiAnswerChatAllFail :: u16 where "rmiAnswerChatAllFail = 0x94DB"
definition rmiAnswerChatClanOK :: u16 where "rmiAnswerChatClanOK = 0x94DC"
definition rmiAnswerChatClanFail :: u16 where "rmiAnswerChatClanFail = 0x94DD"
definition rmiAnswerChatUserOK :: u16 where "rmiAnswerChatUserOK = 0x94DE"
definition rmiAnswerChatUserFail :: u16 where "rmiAnswerChatUserFail = 0x94DF"
definition rmiNotifyChat :: u16 where "rmiNotifyChat = 0x94D5"

section \<open>clan\<close>

definition rmiRequestSearchClanName :: u16 where "rmiRequestSearchClanName = 0xA414"
definition rmiAnswerSearchNameOK :: u16 where "rmiAnswerSearchNameOK = 0xA61A"
definition rmiAnswerSearchNameFail :: u16 where "rmiAnswerSearchNameFail = 0xA61B"
definition rmiRequestCheckClanName :: u16 where "rmiRequestCheckClanName = 0xA416"
definition rmiAnswerCheckNameOK :: u16 where "rmiAnswerCheckNameOK = 0xA61E"
definition rmiAnswerCheckNameFail :: u16 where "rmiAnswerCheckNameFail = 0xA61F"
definition rmiRequestCreateClan :: u16 where "rmiRequestCreateClan = 0xA417"
definition rmiAnswerCreateOK :: u16 where "rmiAnswerCreateOK = 0xA620"
definition rmiAnswerCreateFail :: u16 where "rmiAnswerCreateFail = 0xA621"
definition rmiRequestJoinClan :: u16 where "rmiRequestJoinClan = 0xA41E"
definition rmiAnswerJoinOK :: u16 where "rmiAnswerJoinOK = 0xA631"
definition rmiAnswerJoinFail :: u16 where "rmiAnswerJoinFail = 0xA632"
definition rmiRequestDeleteClan :: u16 where "rmiRequestDeleteClan = 0xA418"
definition rmiRequestChangeClanName :: u16 where "rmiRequestChangeClanName = 0xA419"
definition rmiRequestSearchClanMaster :: u16 where "rmiRequestSearchClanMaster = 0xA415"
definition rmiRequestClanChat :: u16 where "rmiRequestClanChat = 0xA427"
definition rmiRequestLoginClanRecord :: u16 where "rmiRequestLoginClanRecord = 0xA428"
definition rmiSendClanInfo :: u16 where "rmiSendClanInfo = 0xA60B"
definition rmiNotifyUserClanInfo :: u16 where "rmiNotifyUserClanInfo = 0xA074"

section \<open>clan-actions\<close>

definition rmiRequestJoinCancel :: u16 where "rmiRequestJoinCancel = 0xA41F"
definition rmiAnswerJoinCancelOK :: u16 where "rmiAnswerJoinCancelOK = 0xA633"
definition rmiAnswerJoinCancelFail :: u16 where "rmiAnswerJoinCancelFail = 0xA634"
definition rmiRequestAcceptMember :: u16 where "rmiRequestAcceptMember = 0xA420"
definition rmiAnswerAcceptMemberOK :: u16 where "rmiAnswerAcceptMemberOK = 0xA635"
definition rmiAnswerAcceptFail :: u16 where "rmiAnswerAcceptFail = 0xA636"
definition rmiRequestRejectMember :: u16 where "rmiRequestRejectMember = 0xA421"
definition rmiAnswerRejectMemberOK :: u16 where "rmiAnswerRejectMemberOK = 0xA637"
definition rmiAnswerRejectFail :: u16 where "rmiAnswerRejectFail = 0xA638"
definition rmiRequestKickOutMember :: u16 where "rmiRequestKickOutMember = 0xA422"
definition rmiAnswerKickOutOK :: u16 where "rmiAnswerKickOutOK = 0xA639"
definition rmiAnswerKickOutFail :: u16 where "rmiAnswerKickOutFail = 0xA63A"
definition rmiRequestGetOut :: u16 where "rmiRequestGetOut = 0xA423"
definition rmiAnswerGetOutOK :: u16 where "rmiAnswerGetOutOK = 0xA63B"
definition rmiAnswerGetOutFail :: u16 where "rmiAnswerGetOutFail = 0xA63C"
definition rmiRequestChangeMaster :: u16 where "rmiRequestChangeMaster = 0xA424"
definition rmiAnswerChangeMasterOK :: u16 where "rmiAnswerChangeMasterOK = 0xA63D"
definition rmiAnswerChangeMasterNo :: u16 where "rmiAnswerChangeMasterNo = 0xA63E"
definition rmiRequestChangePosition :: u16 where "rmiRequestChangePosition = 0xA425"
definition rmiAnswerChangePosOK :: u16 where "rmiAnswerChangePosOK = 0xA63F"
definition rmiAnswerChangePosFail :: u16 where "rmiAnswerChangePosFail = 0xA640"
definition rmiAnswerDeleteOK :: u16 where "rmiAnswerDeleteOK = 0xA622"
definition rmiAnswerDeleteFail :: u16 where "rmiAnswerDeleteFail = 0xA623"
definition rmiSendClearClanInfo :: u16 where "rmiSendClearClanInfo = 0xA60C"
definition rmiNotifyDeleteMember :: u16 where "rmiNotifyDeleteMember = 0xA614"
definition rmiSendClearMember :: u16 where "rmiSendClearMember = 0xA615"
definition rmiNotifyMemberPosition :: u16 where "rmiNotifyMemberPosition = 0xA641"

section \<open>clan-chat\<close>

definition rmiAnswerClanChatOK :: u16 where "rmiAnswerClanChatOK = 0xA64D"
definition rmiAnswerClanChatFail :: u16 where "rmiAnswerClanChatFail = 0xA64E"
definition rmiNotifyClanChat :: u16 where "rmiNotifyClanChat = 0xA64F"
definition rmiRequestChatAll :: u16 where "rmiRequestChatAll = 0x9471"
definition rmiRequestChatUser :: u16 where "rmiRequestChatUser = 0x9473"
definition rmiRequestChatNotice :: u16 where "rmiRequestChatNotice = 0x9474"

section \<open>clan-mark\<close>

definition rmiRequestCheckMark :: u16 where "rmiRequestCheckMark = 0xA429"
definition rmiAnswerCheckMarkOK :: u16 where "rmiAnswerCheckMarkOK = 0xA653"
definition rmiAnswerCheckMarkNo :: u16 where "rmiAnswerCheckMarkNo = 0xA654"
definition rmiRequestChangeMark :: u16 where "rmiRequestChangeMark = 0xA42A"
definition rmiAnswerChangeMarkOK :: u16 where "rmiAnswerChangeMarkOK = 0xA655"
definition rmiAnswerChangeMarkNo :: u16 where "rmiAnswerChangeMarkNo = 0xA656"
definition rmiNotifyClanMark :: u16 where "rmiNotifyClanMark = 0xA657"

section \<open>clan-member\<close>

definition rmiSendMemberList :: u16 where "rmiSendMemberList = 0xA60F"
definition rmiNotifyMemberInfo :: u16 where "rmiNotifyMemberInfo = 0xA610"
definition rmiNotifyMemberCount :: u16 where "rmiNotifyMemberCount = 0xA642"

section \<open>clan-request\<close>

definition rmiSendRequestList :: u16 where "rmiSendRequestList = 0xA616"
definition rmiNotifyRequestInfo :: u16 where "rmiNotifyRequestInfo = 0xA617"
definition rmiNotifyDeleteRequest :: u16 where "rmiNotifyDeleteRequest = 0xA618"
definition rmiSendClearRequest :: u16 where "rmiSendClearRequest = 0xA619"
definition rmiSendRequestClanInfo :: u16 where "rmiSendRequestClanInfo = 0xA60D"
definition rmiSendClearRequestInfo :: u16 where "rmiSendClearRequestInfo = 0xA60E"

section \<open>friend\<close>

definition rmiFriendRequestLogin :: u16 where "rmiFriendRequestLogin = 0xA029"
definition rmiFriendAnswerLogin :: u16 where "rmiFriendAnswerLogin = 0xA05B"
definition rmiRequestFriend :: u16 where "rmiRequestFriend = 0xA02A"
definition rmiAnswerFriendAskOK :: u16 where "rmiAnswerFriendAskOK = 0xA05F"
definition rmiAnswerFriendAskFail :: u16 where "rmiAnswerFriendAskFail = 0xA060"
definition rmiRequestFriendAccept :: u16 where "rmiRequestFriendAccept = 0xA02B"
definition rmiAnswerFriendAcceptOK :: u16 where "rmiAnswerFriendAcceptOK = 0xA062"
definition rmiAnswerFriendAcceptFail :: u16 where "rmiAnswerFriendAcceptFail = 0xA063"
definition rmiRequestFriendReject :: u16 where "rmiRequestFriendReject = 0xA02C"
definition rmiAnswerFriendRejectOK :: u16 where "rmiAnswerFriendRejectOK = 0xA065"
definition rmiAnswerFriendRejectFail :: u16 where "rmiAnswerFriendRejectFail = 0xA066"
definition rmiRequestFriendDelete :: u16 where "rmiRequestFriendDelete = 0xA02D"
definition rmiAnswerFriendDeleteOK :: u16 where "rmiAnswerFriendDeleteOK = 0xA067"
definition rmiAnswerFriendDeleteFail :: u16 where "rmiAnswerFriendDeleteFail = 0xA068"
definition rmiSendFriendList :: u16 where "rmiSendFriendList = 0xA05D"
definition rmiSendRequestFriendList :: u16 where "rmiSendRequestFriendList = 0xA05E"
definition rmiSendRequestFriendInfo :: u16 where "rmiSendRequestFriendInfo = 0xA061"
definition rmiSendFriendInfo :: u16 where "rmiSendFriendInfo = 0xA064"
definition rmiSendDeleteFriend :: u16 where "rmiSendDeleteFriend = 0xA069"
definition rmiRequestFriendInvite :: u16 where "rmiRequestFriendInvite = 0xA02E"
definition rmiAnswerFriendInviteOK :: u16 where "rmiAnswerFriendInviteOK = 0xA06A"
definition rmiAnswerFriendInviteNo :: u16 where "rmiAnswerFriendInviteNo = 0xA06B"
definition rmiSendFriendInvite :: u16 where "rmiSendFriendInvite = 0xA06C"

section \<open>game-equip\<close>

definition rmiRequestUserEquip :: u16 where "rmiRequestUserEquip = 0x909D"
definition rmiAnswerUserEquipOK :: u16 where "rmiAnswerUserEquipOK = 0x9263"
definition rmiAnswerUserEquipFail :: u16 where "rmiAnswerUserEquipFail = 0x9264"
definition rmiNotifyUserEquipList :: u16 where "rmiNotifyUserEquipList = 0x9223"
definition rmiNotifyUserEquipInfo :: u16 where "rmiNotifyUserEquipInfo = 0x9224"
definition rmiNotifyTeamEquipList :: u16 where "rmiNotifyTeamEquipList = 0x921F"
definition rmiRequestChangeWeapon :: u16 where "rmiRequestChangeWeapon = 0x909A"
definition rmiAnswerChangeWeaponOK :: u16 where "rmiAnswerChangeWeaponOK = 0x925B"
definition rmiAnswerChangeWeaponFail :: u16 where "rmiAnswerChangeWeaponFail = 0x925C"
definition rmiNotifyUserWeaponInfo :: u16 where "rmiNotifyUserWeaponInfo = 0x925D"

section \<open>game-round\<close>

definition rmiRequestCheckRespawn :: u16 where "rmiRequestCheckRespawn = 0x908F"
definition rmiRequestRespawnInstant :: u16 where "rmiRequestRespawnInstant = 0x9090"
definition rmiRequestRespawn :: u16 where "rmiRequestRespawn = 0x9091"
definition rmiRequestTimeOut :: u16 where "rmiRequestTimeOut = 0x9092"
definition rmiRequestDeath :: u16 where "rmiRequestDeath = 0x9093"
definition rmiRequestDediUserPing :: u16 where "rmiRequestDediUserPing = 0x909C"
definition rmiRequestHitCount :: u16 where "rmiRequestHitCount = 0x9028"
definition rmiAnswerHitCountOK :: u16 where "rmiAnswerHitCountOK = 0x905B"
definition rmiNotifyUserResultList :: u16 where "rmiNotifyUserResultList = 0x9221"
definition rmiNotifyRoundEnd :: u16 where "rmiNotifyRoundEnd = 0x922B"
definition rmiNotifyGameEnd :: u16 where "rmiNotifyGameEnd = 0x922C"
definition rmiAnswerCheckRespawnOK :: u16 where "rmiAnswerCheckRespawnOK = 0x923E"
definition rmiAnswerRespawnInstantOK :: u16 where "rmiAnswerRespawnInstantOK = 0x9240"
definition rmiAnswerRespawnOK :: u16 where "rmiAnswerRespawnOK = 0x9242"
definition rmiNotifyRespawn :: u16 where "rmiNotifyRespawn = 0x9244"
definition rmiAnswerTimeOutOK :: u16 where "rmiAnswerTimeOutOK = 0x9245"
definition rmiAnswerDeathOK :: u16 where "rmiAnswerDeathOK = 0x9247"
definition rmiNotifyDeath :: u16 where "rmiNotifyDeath = 0x9249"
definition rmiAnswerDediUserPingOK :: u16 where "rmiAnswerDediUserPingOK = 0x9261"

section \<open>game-session\<close>

definition rmiAnswerConnectServer :: u16 where "rmiAnswerConnectServer = 0x9025"
definition rmiRequestMatchStart :: u16 where "rmiRequestMatchStart = 0x9089"
definition rmiAnswerMatchStartOK :: u16 where "rmiAnswerMatchStartOK = 0x9232"
definition rmiAnswerMatchStartFail :: u16 where "rmiAnswerMatchStartFail = 0x9233"
definition rmiNotifyMapInfo :: u16 where "rmiNotifyMapInfo = 0x9219"
definition rmiNotifyGameInfo :: u16 where "rmiNotifyGameInfo = 0x921A"
definition rmiNotifyInGameItem :: u16 where "rmiNotifyInGameItem = 0x921B"
definition rmiNotifyGameUserList :: u16 where "rmiNotifyGameUserList = 0x921D"
definition rmiNotifyUserFunctionList :: u16 where "rmiNotifyUserFunctionList = 0x9225"
definition rmiRequestLoadPercent :: u16 where "rmiRequestLoadPercent = 0x908B"
definition rmiRequestLoadComplete :: u16 where "rmiRequestLoadComplete = 0x908C"
definition rmiAnswerLoadPercentOK :: u16 where "rmiAnswerLoadPercentOK = 0x9236"
definition rmiAnswerLoadCompleteOK :: u16 where "rmiAnswerLoadCompleteOK = 0x9238"
definition rmiNotifyLoadPercent :: u16 where "rmiNotifyLoadPercent = 0x922F"
definition rmiNotifyUserLoadComplete :: u16 where "rmiNotifyUserLoadComplete = 0x9230"
definition rmiNotifyLoadComplete :: u16 where "rmiNotifyLoadComplete = 0x9231"
definition rmiRequestRoomGameLeave :: u16 where "rmiRequestRoomGameLeave = 0x9027"
definition rmiRequestGameLeave :: u16 where "rmiRequestGameLeave = 0x90A2"
definition rmiRequestTimeStart :: u16 where "rmiRequestTimeStart = 0x908D"
definition rmiRequestBeginRound :: u16 where "rmiRequestBeginRound = 0x908E"
definition rmiAnswerTimeStartOK :: u16 where "rmiAnswerTimeStartOK = 0x923A"
definition rmiAnswerBeginRoundOK :: u16 where "rmiAnswerBeginRoundOK = 0x923C"
definition rmiAnswerBeginRoundFail :: u16 where "rmiAnswerBeginRoundFail = 0x923D"
definition rmiNotifyRoundBegin :: u16 where "rmiNotifyRoundBegin = 0x922A"

section \<open>game-start\<close>

definition rmiRequestGameStart :: u16 where "rmiRequestGameStart = 0x8CA7"
definition rmiAnswerGameStartOK :: u16 where "rmiAnswerGameStartOK = 0x8D1E"
definition rmiAnswerGameStartFail :: u16 where "rmiAnswerGameStartFail = 0x8D1F"
definition rmiNotifyGameStart :: u16 where "rmiNotifyGameStart = 0x9057"
definition rmiNotifyHostServer :: u16 where "rmiNotifyHostServer = 0x921C"
definition rmiNotifyRoomGame :: u16 where "rmiNotifyRoomGame = 0x8D09"

section \<open>items\<close>

definition rmiRequestEquipItem :: u16 where "rmiRequestEquipItem = 0x985C"
definition rmiSendEquipSlot :: u16 where "rmiSendEquipSlot = 0x7700"
definition rmiAnswerEquipItem :: u16 where "rmiAnswerEquipItem = 0x98C3"
definition rmiRequestBuyItem :: u16 where "rmiRequestBuyItem = 0x985B"
definition rmiAnswerBuyItem :: u16 where "rmiAnswerBuyItem = 0x98C1"
definition rmiAnswerBuyItemFail :: u16 where "rmiAnswerBuyItemFail = 0x98C2"
definition rmiSendItem :: u16 where "rmiSendItem = 0x76F8"
definition rmiSendItemValue :: u16 where "rmiSendItemValue = 0x76FE"
definition rmiSendDeleteItem :: u16 where "rmiSendDeleteItem = 0x76FA"
definition rmiRequestRecipeItem :: u16 where "rmiRequestRecipeItem = 0x99EC"
definition rmiAnswerRecipeItem :: u16 where "rmiAnswerRecipeItem = 0x9A53"
definition rmiAnswerRecipeItemFail :: u16 where "rmiAnswerRecipeItemFail = 0x9A54"
definition rmiRequestBuyCustomItem :: u16 where "rmiRequestBuyCustomItem = 0x9860"
definition rmiAnswerBuyCustomItem :: u16 where "rmiAnswerBuyCustomItem = 0x98CB"
definition rmiAnswerBuyCustomItemFail :: u16 where "rmiAnswerBuyCustomItemFail = 0x98CC"
definition rmiRequestEquipCustomItem :: u16 where "rmiRequestEquipCustomItem = 0x9861"
definition rmiAnswerEquipCustomItem :: u16 where "rmiAnswerEquipCustomItem = 0x98CD"
definition rmiAnswerEquipCustomFail :: u16 where "rmiAnswerEquipCustomFail = 0x98CE"
definition rmiRequestBreakCustomItem :: u16 where "rmiRequestBreakCustomItem = 0x9862"
definition rmiAnswerBreakCustomItem :: u16 where "rmiAnswerBreakCustomItem = 0x98CF"
definition rmiAnswerBreakCustomFail :: u16 where "rmiAnswerBreakCustomFail = 0x98D0"
definition rmiRequestEquipGearItem :: u16 where "rmiRequestEquipGearItem = 0x9863"
definition rmiAnswerEquipGearItem :: u16 where "rmiAnswerEquipGearItem = 0x98D1"
definition rmiAnswerEquipGearFail :: u16 where "rmiAnswerEquipGearFail = 0x98D2"
definition rmiRequestBreakGearItem :: u16 where "rmiRequestBreakGearItem = 0x9864"
definition rmiAnswerBreakGearItem :: u16 where "rmiAnswerBreakGearItem = 0x98D3"
definition rmiAnswerBreakGearFail :: u16 where "rmiAnswerBreakGearFail = 0x98D4"
definition rmiRequestEquipPerkItem :: u16 where "rmiRequestEquipPerkItem = 0x9AB4"
definition rmiAnswerEquipPerkItem :: u16 where "rmiAnswerEquipPerkItem = 0x9B1B"
definition rmiAnswerEquipPerkFail :: u16 where "rmiAnswerEquipPerkFail = 0x9B1C"
definition rmiRequestBreakPerkItem :: u16 where "rmiRequestBreakPerkItem = 0x9AB5"
definition rmiAnswerBreakPerkItem :: u16 where "rmiAnswerBreakPerkItem = 0x9B1D"
definition rmiAnswerBreakPerkFail :: u16 where "rmiAnswerBreakPerkFail = 0x9B1E"
definition rmiRequestIncPerkSlot :: u16 where "rmiRequestIncPerkSlot = 0x9AB6"
definition rmiAnswerIncPerkSlot :: u16 where "rmiAnswerIncPerkSlot = 0x9B1F"
definition rmiSendSlotList :: u16 where "rmiSendSlotList = 0x76FB"
definition rmiSendSlot :: u16 where "rmiSendSlot = 0x76FC"
definition rmiSendEquipList :: u16 where "rmiSendEquipList = 0x7701"
definition rmiSendEquip :: u16 where "rmiSendEquip = 0x7702"

section \<open>lobby\<close>

definition rmiRequestLobbyJoin :: u16 where "rmiRequestLobbyJoin = 0x8AAD"
definition rmiAnswerLobbyJoin :: u16 where "rmiAnswerLobbyJoin = 0x8B11"
definition rmiNotifyOpenMapList :: u16 where "rmiNotifyOpenMapList = 0x8D2B"
definition rmiRequestLobbyLeave :: u16 where "rmiRequestLobbyLeave = 0x8AAE"
definition rmiAnswerLobbyLeave :: u16 where "rmiAnswerLobbyLeave = 0x8B13"
definition rmiRequestLobbyList :: u16 where "rmiRequestLobbyList = 0x8AAF"
definition rmiAnswerLobbyList :: u16 where "rmiAnswerLobbyList = 0x8B15"
definition rmiSendLobbyList :: u16 where "rmiSendLobbyList = 0x8B17"
definition rmiRequestRoomJoin :: u16 where "rmiRequestRoomJoin = 0x8CA2"
definition rmiRequestRoomList :: u16 where "rmiRequestRoomList = 0x8AB0"
definition rmiRequestRefreshRoomList :: u16 where "rmiRequestRefreshRoomList = 0x8AB3"
definition rmiAnswerRoomList :: u16 where "rmiAnswerRoomList = 0x8B18"
definition rmiSendRoomList :: u16 where "rmiSendRoomList = 0x8B1A"
definition rmiRequestClanRoomList :: u16 where "rmiRequestClanRoomList = 0x8AB1"
definition rmiAnswerClanRoomList :: u16 where "rmiAnswerClanRoomList = 0x8B22"
definition rmiSendClanRoomList :: u16 where "rmiSendClanRoomList = 0x8B24"
definition rmiRequestLobbyUserList :: u16 where "rmiRequestLobbyUserList = 0x8AB2"
definition rmiAnswerLobbyUserList :: u16 where "rmiAnswerLobbyUserList = 0x8B28"
definition rmiSendLobbyUserList :: u16 where "rmiSendLobbyUserList = 0x8B2A"

section \<open>profile\<close>

definition rmiRequestLogin :: u16 where "rmiRequestLogin = 0x7595"
definition rmiAnswerLogin :: u16 where "rmiAnswerLogin = 0x75C7"
definition rmiNotifyCharacter :: u16 where "rmiNotifyCharacter = 0x75CD"
definition rmiNotifyRecord :: u16 where "rmiNotifyRecord = 0x75CE"
definition rmiItemRequestLogin :: u16 where "rmiItemRequestLogin = 0x76C1"
definition rmiItemAnswerLogin :: u16 where "rmiItemAnswerLogin = 0x76F3"
definition rmiSendPoint :: u16 where "rmiSendPoint = 0x762F"
definition rmiSendCash :: u16 where "rmiSendCash = 0x7693"
definition rmiSendItemList :: u16 where "rmiSendItemList = 0x76F7"
definition rmiSendEquipSlotList :: u16 where "rmiSendEquipSlotList = 0x76FF"
definition rmiMapQuestRequestLogin :: u16 where "rmiMapQuestRequestLogin = 0x78B5"
definition rmiMapQuestAnswerLogin :: u16 where "rmiMapQuestAnswerLogin = 0x78E7"
definition rmiSendMapQuestList :: u16 where "rmiSendMapQuestList = 0x78E9"

section \<open>room\<close>

definition rmiRequestRoomCreate :: u16 where "rmiRequestRoomCreate = 0x8CA1"
definition rmiRequestRoomLeave :: u16 where "rmiRequestRoomLeave = 0x8CA3"
definition rmiNotifyOpenMapInfo :: u16 where "rmiNotifyOpenMapInfo = 0x8D2C"
definition rmiNotifyRoomInfo :: u16 where "rmiNotifyRoomInfo = 0x8D05"
definition rmiNotifyRoomMapInfo :: u16 where "rmiNotifyRoomMapInfo = 0x8D06"
definition rmiSendRoomUserList :: u16 where "rmiSendRoomUserList = 0x8D0A"
definition rmiNotifyTeamList :: u16 where "rmiNotifyTeamList = 0x8D10"
definition rmiNotifyRoomLeader :: u16 where "rmiNotifyRoomLeader = 0x8D08"
definition rmiAnswerRoomCreate :: u16 where "rmiAnswerRoomCreate = 0x8D12"
definition rmiAnswerRoomLeave :: u16 where "rmiAnswerRoomLeave = 0x8D16"
definition rmiAnswerRoomJoinOK :: u16 where "rmiAnswerRoomJoinOK = 0x8D14"
definition rmiAnswerRoomJoinFail :: u16 where "rmiAnswerRoomJoinFail = 0x8D15"
definition rmiNotifyRoomUserInfo :: u16 where "rmiNotifyRoomUserInfo = 0x8D0B"
definition rmiNotifyTeamInfo :: u16 where "rmiNotifyTeamInfo = 0x8D11"
definition rmiRequestRoomReady :: u16 where "rmiRequestRoomReady = 0x8CA6"
definition rmiAnswerRoomReady :: u16 where "rmiAnswerRoomReady = 0x8D1C"
definition rmiNotifyStateInfo :: u16 where "rmiNotifyStateInfo = 0x8D0E"

lemmas rmi_ids =
  rmiRequestAeriaAuth_def rmiAnswerAeriaAuth_def rmiRequestAeriaLauncher_def
  rmiAnswerAeriaLauncher_def rmiCreateCredential_def rmiAnswerCreateCredential_def
  rmiCheckCredential_def rmiAnswerCheckCredential_def rmiRequestChannelList_def
  rmiAnswerChannelList_def rmiSendChannelList_def rmiRequestChannelJoin_def
  rmiAnswerChannelJoin_def rmiRequestChatClan_def rmiAnswerChatAllOK_def rmiAnswerChatAllFail_def
  rmiAnswerChatClanOK_def rmiAnswerChatClanFail_def rmiAnswerChatUserOK_def
  rmiAnswerChatUserFail_def rmiNotifyChat_def rmiRequestSearchClanName_def
  rmiAnswerSearchNameOK_def rmiAnswerSearchNameFail_def rmiRequestCheckClanName_def
  rmiAnswerCheckNameOK_def rmiAnswerCheckNameFail_def rmiRequestCreateClan_def
  rmiAnswerCreateOK_def rmiAnswerCreateFail_def rmiRequestJoinClan_def rmiAnswerJoinOK_def
  rmiAnswerJoinFail_def rmiRequestDeleteClan_def rmiRequestChangeClanName_def
  rmiRequestSearchClanMaster_def rmiRequestClanChat_def rmiRequestLoginClanRecord_def
  rmiSendClanInfo_def rmiNotifyUserClanInfo_def rmiRequestJoinCancel_def rmiAnswerJoinCancelOK_def
  rmiAnswerJoinCancelFail_def rmiRequestAcceptMember_def rmiAnswerAcceptMemberOK_def
  rmiAnswerAcceptFail_def rmiRequestRejectMember_def rmiAnswerRejectMemberOK_def
  rmiAnswerRejectFail_def rmiRequestKickOutMember_def rmiAnswerKickOutOK_def
  rmiAnswerKickOutFail_def rmiRequestGetOut_def rmiAnswerGetOutOK_def rmiAnswerGetOutFail_def
  rmiRequestChangeMaster_def rmiAnswerChangeMasterOK_def rmiAnswerChangeMasterNo_def
  rmiRequestChangePosition_def rmiAnswerChangePosOK_def rmiAnswerChangePosFail_def
  rmiAnswerDeleteOK_def rmiAnswerDeleteFail_def rmiSendClearClanInfo_def rmiNotifyDeleteMember_def
  rmiSendClearMember_def rmiNotifyMemberPosition_def rmiAnswerClanChatOK_def
  rmiAnswerClanChatFail_def rmiNotifyClanChat_def rmiRequestChatAll_def rmiRequestChatUser_def
  rmiRequestChatNotice_def rmiRequestCheckMark_def rmiAnswerCheckMarkOK_def
  rmiAnswerCheckMarkNo_def rmiRequestChangeMark_def rmiAnswerChangeMarkOK_def
  rmiAnswerChangeMarkNo_def rmiNotifyClanMark_def rmiSendMemberList_def rmiNotifyMemberInfo_def
  rmiNotifyMemberCount_def rmiSendRequestList_def rmiNotifyRequestInfo_def
  rmiNotifyDeleteRequest_def rmiSendClearRequest_def rmiSendRequestClanInfo_def
  rmiSendClearRequestInfo_def rmiFriendRequestLogin_def rmiFriendAnswerLogin_def
  rmiRequestFriend_def rmiAnswerFriendAskOK_def rmiAnswerFriendAskFail_def
  rmiRequestFriendAccept_def rmiAnswerFriendAcceptOK_def rmiAnswerFriendAcceptFail_def
  rmiRequestFriendReject_def rmiAnswerFriendRejectOK_def rmiAnswerFriendRejectFail_def
  rmiRequestFriendDelete_def rmiAnswerFriendDeleteOK_def rmiAnswerFriendDeleteFail_def
  rmiSendFriendList_def rmiSendRequestFriendList_def rmiSendRequestFriendInfo_def
  rmiSendFriendInfo_def rmiSendDeleteFriend_def rmiRequestFriendInvite_def
  rmiAnswerFriendInviteOK_def rmiAnswerFriendInviteNo_def rmiSendFriendInvite_def
  rmiRequestUserEquip_def rmiAnswerUserEquipOK_def rmiAnswerUserEquipFail_def
  rmiNotifyUserEquipList_def rmiNotifyUserEquipInfo_def rmiNotifyTeamEquipList_def
  rmiRequestChangeWeapon_def rmiAnswerChangeWeaponOK_def rmiAnswerChangeWeaponFail_def
  rmiNotifyUserWeaponInfo_def rmiRequestCheckRespawn_def rmiRequestRespawnInstant_def
  rmiRequestRespawn_def rmiRequestTimeOut_def rmiRequestDeath_def rmiRequestDediUserPing_def
  rmiRequestHitCount_def rmiAnswerHitCountOK_def rmiNotifyUserResultList_def rmiNotifyRoundEnd_def
  rmiNotifyGameEnd_def rmiAnswerCheckRespawnOK_def rmiAnswerRespawnInstantOK_def
  rmiAnswerRespawnOK_def rmiNotifyRespawn_def rmiAnswerTimeOutOK_def rmiAnswerDeathOK_def
  rmiNotifyDeath_def rmiAnswerDediUserPingOK_def rmiAnswerConnectServer_def
  rmiRequestMatchStart_def rmiAnswerMatchStartOK_def rmiAnswerMatchStartFail_def
  rmiNotifyMapInfo_def rmiNotifyGameInfo_def rmiNotifyInGameItem_def rmiNotifyGameUserList_def
  rmiNotifyUserFunctionList_def rmiRequestLoadPercent_def rmiRequestLoadComplete_def
  rmiAnswerLoadPercentOK_def rmiAnswerLoadCompleteOK_def rmiNotifyLoadPercent_def
  rmiNotifyUserLoadComplete_def rmiNotifyLoadComplete_def rmiRequestRoomGameLeave_def
  rmiRequestGameLeave_def rmiRequestTimeStart_def rmiRequestBeginRound_def rmiAnswerTimeStartOK_def
  rmiAnswerBeginRoundOK_def rmiAnswerBeginRoundFail_def rmiNotifyRoundBegin_def
  rmiRequestGameStart_def rmiAnswerGameStartOK_def rmiAnswerGameStartFail_def
  rmiNotifyGameStart_def rmiNotifyHostServer_def rmiNotifyRoomGame_def rmiRequestEquipItem_def
  rmiSendEquipSlot_def rmiAnswerEquipItem_def rmiRequestBuyItem_def rmiAnswerBuyItem_def
  rmiAnswerBuyItemFail_def rmiSendItem_def rmiSendItemValue_def rmiSendDeleteItem_def
  rmiRequestRecipeItem_def rmiAnswerRecipeItem_def rmiAnswerRecipeItemFail_def
  rmiRequestBuyCustomItem_def rmiAnswerBuyCustomItem_def rmiAnswerBuyCustomItemFail_def
  rmiRequestEquipCustomItem_def rmiAnswerEquipCustomItem_def rmiAnswerEquipCustomFail_def
  rmiRequestBreakCustomItem_def rmiAnswerBreakCustomItem_def rmiAnswerBreakCustomFail_def
  rmiRequestEquipGearItem_def rmiAnswerEquipGearItem_def rmiAnswerEquipGearFail_def
  rmiRequestBreakGearItem_def rmiAnswerBreakGearItem_def rmiAnswerBreakGearFail_def
  rmiRequestEquipPerkItem_def rmiAnswerEquipPerkItem_def rmiAnswerEquipPerkFail_def
  rmiRequestBreakPerkItem_def rmiAnswerBreakPerkItem_def rmiAnswerBreakPerkFail_def
  rmiRequestIncPerkSlot_def rmiAnswerIncPerkSlot_def rmiSendSlotList_def rmiSendSlot_def
  rmiSendEquipList_def rmiSendEquip_def rmiRequestLobbyJoin_def rmiAnswerLobbyJoin_def
  rmiNotifyOpenMapList_def rmiRequestLobbyLeave_def rmiAnswerLobbyLeave_def rmiRequestLobbyList_def
  rmiAnswerLobbyList_def rmiSendLobbyList_def rmiRequestRoomJoin_def rmiRequestRoomList_def
  rmiRequestRefreshRoomList_def rmiAnswerRoomList_def rmiSendRoomList_def
  rmiRequestClanRoomList_def rmiAnswerClanRoomList_def rmiSendClanRoomList_def
  rmiRequestLobbyUserList_def rmiAnswerLobbyUserList_def rmiSendLobbyUserList_def
  rmiRequestLogin_def rmiAnswerLogin_def rmiNotifyCharacter_def rmiNotifyRecord_def
  rmiItemRequestLogin_def rmiItemAnswerLogin_def rmiSendPoint_def rmiSendCash_def
  rmiSendItemList_def rmiSendEquipSlotList_def rmiMapQuestRequestLogin_def
  rmiMapQuestAnswerLogin_def rmiSendMapQuestList_def rmiRequestRoomCreate_def
  rmiRequestRoomLeave_def rmiNotifyOpenMapInfo_def rmiNotifyRoomInfo_def rmiNotifyRoomMapInfo_def
  rmiSendRoomUserList_def rmiNotifyTeamList_def rmiNotifyRoomLeader_def rmiAnswerRoomCreate_def
  rmiAnswerRoomLeave_def rmiAnswerRoomJoinOK_def rmiAnswerRoomJoinFail_def
  rmiNotifyRoomUserInfo_def rmiNotifyTeamInfo_def rmiRequestRoomReady_def rmiAnswerRoomReady_def
  rmiNotifyStateInfo_def

end
