(* ===== verification/Player_Model.thy ===== *)
theory Player_Model
  imports Prelude "HOL-Library.Multiset"
begin

text \<open>
  The account model (models/player.go, inventory.go, records.go, friend.go): records with the
  fields of the Go structs and one definition per method. A method with a pointer receiver returns
  the updated player beside its results. A missing second result \<open>ok\<close> is \<open>None\<close>. Slices are value
  lists: the model does not share a backing array between two copies of a player.
\<close>

section \<open>Statistics (records.go)\<close>

record PvPRecord =
  pvp_Games :: u32
  pvp_Win :: u32
  pvp_Lose :: u32
  pvp_Draw :: u32
  pvp_Kill :: u32
  pvp_Death :: u32
  pvp_Headshot :: u32

record PvERecord =
  pve_Complete :: u32
  pve_Games :: u32
  pve_NpcKill :: u32
  pve_Death :: u32

record HitRecord =
  hit_Head :: u32
  hit_Arms :: u32
  hit_Body :: u32
  hit_Legs :: u32
  hit_Miss :: u32

record Records =
  r_PvP :: PvPRecord
  r_PvE :: PvERecord
  r_Hit :: HitRecord

definition no_records :: Records where
  "no_records = \<lparr>r_PvP = \<lparr>pvp_Games = 0, pvp_Win = 0, pvp_Lose = 0, pvp_Draw = 0, pvp_Kill = 0,
       pvp_Death = 0, pvp_Headshot = 0\<rparr>,
     r_PvE = \<lparr>pve_Complete = 0, pve_Games = 0, pve_NpcKill = 0, pve_Death = 0\<rparr>,
     r_Hit = \<lparr>hit_Head = 0, hit_Arms = 0, hit_Body = 0, hit_Legs = 0, hit_Miss = 0\<rparr>\<rparr>"

section \<open>Inventory items (inventory.go)\<close>

record InventoryItem =
  i_Serial :: u16
  i_ItemIndex :: u32
  i_Value :: u32
  i_State :: u8
  i_ItemType :: u8
  i_InstanceAux :: u8
  i_ExpiresAt :: time

definition IsRental :: "InventoryItem \<Rightarrow> bool" where
  "IsRental i \<longleftrightarrow> i_ExpiresAt i \<noteq> zero_time"

definition IsExpired :: "InventoryItem \<Rightarrow> time \<Rightarrow> bool" where
  "IsExpired i now \<longleftrightarrow> IsRental i \<and> \<not> now < i_ExpiresAt i"

definition WireValue :: "InventoryItem \<Rightarrow> time \<Rightarrow> u32" where
  "WireValue i now =
     (if \<not> IsRental i then i_Value i
      else let remaining = time_sub (i_ExpiresAt i) now
           in if remaining \<le> 0 then 0 else word_of_int (remaining div second))"

record EquippedItem =
  e_Slot :: u8
  e_Serial :: u16

type_synonym Loadout = "EquippedItem list"

record AttachedItem =
  a_ParentSerial :: u16
  a_ChildSerial :: u16
  a_Slot :: u8

type_synonym Attachments = "AttachedItem list"

section \<open>Friends (friend.go)\<close>

record Friend =
  f_FriendID :: u16
  f_SteamID :: string
  f_Since :: time

record FriendRequest =
  q_RequestID :: u16
  q_SteamID :: string
  q_SentAt :: time

section \<open>Players (player.go)\<close>

record Player =
  p_SteamID :: string
  p_Name :: string
  p_Exp :: u64
  p_Level :: u32
  p_Point :: u64
  p_Cash :: u64
  p_Inventory :: "InventoryItem list"
  p_Loadout :: Loadout
  p_Attachments :: Attachments
  p_Records :: Records
  p_ClanName :: string
  p_Friends :: "Friend list"
  p_FriendRequests :: "FriendRequest list"
  p_CreatedAt :: time
  p_LastLogin :: time

definition empty_player :: Player where
  "empty_player = \<lparr>p_SteamID = [], p_Name = [], p_Exp = 0, p_Level = 0, p_Point = 0, p_Cash = 0,
     p_Inventory = [], p_Loadout = [], p_Attachments = [], p_Records = no_records, p_ClanName = [],
     p_Friends = [], p_FriendRequests = [], p_CreatedAt = zero_time, p_LastLogin = zero_time\<rparr>"

definition Item :: "Player \<Rightarrow> u16 \<Rightarrow> InventoryItem option" where
  "Item p serial = lookup_by i_Serial serial (p_Inventory p)"

definition PurgeExpired :: "Player \<Rightarrow> time \<Rightarrow> u16 list \<times> Player" where
  "PurgeExpired p now =
     (let removed = map i_Serial (filter (\<lambda>item. IsExpired item now) (p_Inventory p));
          kept = filter (\<lambda>item. \<not> IsExpired item now) (p_Inventory p)
      in if removed = [] then ([], p)
         else (removed, p\<lparr>p_Inventory := kept,
            p_Attachments := filter (\<lambda>m. a_ChildSerial m \<notin> set removed \<and> a_ParentSerial m \<notin> set removed)
              (p_Attachments p),
            p_Loadout := filter (\<lambda>e. e_Serial e \<notin> set removed) (p_Loadout p)\<rparr>))"

text \<open>The loop \<open>for serial := uint16(1); serial < 0xFFFF; serial++\<close>.\<close>

function NextSerial_loop :: "u16 set \<Rightarrow> u16 \<Rightarrow> u16" where
  "NextSerial_loop used serial =
     (if serial < 0xFFFF then if serial \<notin> used then serial else NextSerial_loop used (serial + 1)
      else 0)"
  by pat_completeness auto
termination
proof (relation "measure (\<lambda>(_, s). 0xFFFF - unat s)", goal_cases)
  case (2 used s)
  then have "unat s < 0xFFFF" by (simp add: word_less_nat_alt)
  then have "unat (s + 1) = unat s + 1" by (simp add: unat_word_ariths)
  with \<open>unat s < 0xFFFF\<close> show ?case by simp
qed simp

declare NextSerial_loop.simps [simp del]

definition NextSerial :: "Player \<Rightarrow> u16" where
  "NextSerial p = NextSerial_loop (i_Serial ` set (p_Inventory p)) 1"

datatype Wallet = WalletNone | WalletPoint | WalletCash

definition Balance :: "Player \<Rightarrow> Wallet \<Rightarrow> u64" where
  "Balance p w = (if w = WalletCash then p_Cash p else p_Point p)"

fun Debit :: "Player \<Rightarrow> Wallet \<Rightarrow> u64 \<Rightarrow> Player" where
  "Debit p WalletCash amount = p\<lparr>p_Cash := p_Cash p - amount\<rparr>"
| "Debit p WalletPoint amount = p\<lparr>p_Point := p_Point p - amount\<rparr>"
| "Debit p WalletNone amount = p"

section \<open>Consuming stacks (inventory.go)\<close>

text \<open>
  A Go map is an association list whose keys are distinct; reading an absent key gives 0. The
  iteration order of the check does not matter, since it only asks whether every entry is covered.
\<close>

definition map_get :: "('k \<times> int) list \<Rightarrow> 'k \<Rightarrow> int" where
  "map_get m k = (case map_of m k of None \<Rightarrow> 0 | Some v \<Rightarrow> v)"

definition itemByIndex :: "Player \<Rightarrow> u32 \<Rightarrow> InventoryItem option" where
  "itemByIndex p itemIndex = lookup_by i_ItemIndex itemIndex (p_Inventory p)"

fun consume_loop ::
  "(u32 \<times> int) list \<Rightarrow> InventoryItem list \<Rightarrow> u16 list \<times> InventoryItem list \<times> InventoryItem list" where
  "consume_loop remaining [] = ([], [], [])"
| "consume_loop remaining (item # items) =
     (let count = map_get remaining (i_ItemIndex item)
      in if count > 0 then
           let remaining = AList.update (i_ItemIndex item) 0 remaining
           in if uint (i_Value item) \<le> count
              then (case consume_loop remaining items of
                 (deleted, updated, next) \<Rightarrow> (i_Serial item # deleted, updated, next))
              else (case consume_loop remaining items of
                 (deleted, updated, next) \<Rightarrow>
                   let item = item\<lparr>i_Value := i_Value item - word_of_int count\<rparr>
                   in (deleted, item # updated, item # next))
         else (case consume_loop remaining items of
            (deleted, updated, next) \<Rightarrow> (deleted, updated, item # next)))"

definition ConsumeMaterials ::
  "Player \<Rightarrow> (u32 \<times> int) list \<Rightarrow> ((u16 list \<times> InventoryItem list) \<times> Player) option" where
  "ConsumeMaterials p need =
     (if \<exists>(index, count) \<in> set need. (case itemByIndex p index of
            None \<Rightarrow> True | Some item \<Rightarrow> uint (i_Value item) < count)
      then None
      else (case consume_loop need (p_Inventory p) of
          (deleted, updated, next) \<Rightarrow> Some ((deleted, updated), p\<lparr>p_Inventory := next\<rparr>)))"

record SpentItem =
  s_Serial :: u16
  s_UsedUp :: bool
  s_Remaining :: "InventoryItem option"

definition SpendUnit :: "Player \<Rightarrow> u16 \<Rightarrow> (SpentItem \<times> Player) option" where
  "SpendUnit p serial =
     (case lookup_by i_Serial serial (p_Inventory p) of
        None \<Rightarrow> None
      | Some item \<Rightarrow>
          if i_Value item \<le> 1
          then Some (\<lparr>s_Serial = serial, s_UsedUp = True, s_Remaining = None\<rparr>,
                 p\<lparr>p_Inventory := remove_by i_Serial serial (p_Inventory p)\<rparr>)
          else let less = (\<lambda>i. i\<lparr>i_Value := i_Value i - 1\<rparr>)
               in Some (\<lparr>s_Serial = serial, s_UsedUp = False, s_Remaining = Some (less item)\<rparr>,
                    p\<lparr>p_Inventory := update_by i_Serial serial less (p_Inventory p)\<rparr>))"

section \<open>Loadout and attachments (inventory.go)\<close>

definition SlotCharacterATC :: u8 where "SlotCharacterATC = 0x0B"
definition SlotCharacterTF :: u8 where "SlotCharacterTF = 0x0C"
definition SlotWeaponFirst :: u8 where "SlotWeaponFirst = 0x15"
definition SlotWeaponLast :: u8 where "SlotWeaponLast = 0x19"
definition SlotWearFirst :: u8 where "SlotWearFirst = 0x1F"
definition SlotWearLast :: u8 where "SlotWearLast = 0x22"
definition SlotCustomPartFirst :: u8 where "SlotCustomPartFirst = 0x3D"
definition SlotCustomPartLast :: u8 where "SlotCustomPartLast = 0x42"
definition SlotPerkFirst :: u8 where "SlotPerkFirst = 0x51"
definition SlotPerkLast :: u8 where "SlotPerkLast = 0x53"

definition IsCustomSlot :: "u8 \<Rightarrow> bool" where
  "IsCustomSlot slot \<longleftrightarrow> slot \<ge> SlotCustomPartFirst \<and> slot \<le> SlotCustomPartLast"

definition Attachments_Attach :: "Attachments \<Rightarrow> u16 \<Rightarrow> u16 \<Rightarrow> u8 \<Rightarrow> Attachments" where
  "Attachments_Attach a parent child slot =
     filter (\<lambda>m. a_ParentSerial m \<noteq> parent \<or> a_Slot m \<noteq> slot) a
     @ [\<lparr>a_ParentSerial = parent, a_ChildSerial = child, a_Slot = slot\<rparr>]"

definition Attachments_Detach :: "Attachments \<Rightarrow> u16 \<Rightarrow> u16 \<Rightarrow> Attachments" where
  "Attachments_Detach a parent child =
     filter (\<lambda>m. a_ParentSerial m \<noteq> parent \<or> a_ChildSerial m \<noteq> child) a"

definition Loadout_Equip :: "Loadout \<Rightarrow> u8 \<Rightarrow> u16 \<Rightarrow> Loadout" where
  "Loadout_Equip l slot serial =
     filter (\<lambda>e. e_Slot e \<noteq> slot) l @ [\<lparr>e_Slot = slot, e_Serial = serial\<rparr>]"

definition Attachments_filter :: "Attachments \<Rightarrow> bool \<Rightarrow> Attachments" where
  "Attachments_filter a custom = filter (\<lambda>m. IsCustomSlot (a_Slot m) = custom) a"

definition CustomParts :: "Attachments \<Rightarrow> Attachments" where
  "CustomParts a = Attachments_filter a True"

definition GearAndPerks :: "Attachments \<Rightarrow> Attachments" where
  "GearAndPerks a = Attachments_filter a False"

section \<open>Friend lists (friend.go)\<close>

definition Player_Friend :: "Player \<Rightarrow> u16 \<Rightarrow> Friend option" where
  "Player_Friend p friendID = lookup_by f_FriendID friendID (p_Friends p)"

definition IsFriendOf :: "Player \<Rightarrow> string \<Rightarrow> bool" where
  "IsFriendOf p steamID \<longleftrightarrow> (\<exists>friend \<in> set (p_Friends p). f_SteamID friend = steamID)"

definition FriendRequestFrom :: "Player \<Rightarrow> string \<Rightarrow> FriendRequest option" where
  "FriendRequestFrom p steamID = lookup_by q_SteamID steamID (p_FriendRequests p)"

definition RemoveFriend :: "Player \<Rightarrow> u16 \<Rightarrow> (Friend \<times> Player) option" where
  "RemoveFriend p friendID =
     map_option (\<lambda>friend. (friend, p\<lparr>p_Friends := remove_by f_FriendID friendID (p_Friends p)\<rparr>))
       (lookup_by f_FriendID friendID (p_Friends p))"

definition RemoveFriendOf :: "Player \<Rightarrow> string \<Rightarrow> (Friend \<times> Player) option" where
  "RemoveFriendOf p steamID =
     map_option (\<lambda>friend. (friend, p\<lparr>p_Friends := remove_by f_SteamID steamID (p_Friends p)\<rparr>))
       (lookup_by f_SteamID steamID (p_Friends p))"

definition RemoveFriendRequest :: "Player \<Rightarrow> u16 \<Rightarrow> (FriendRequest \<times> Player) option" where
  "RemoveFriendRequest p requestID =
     map_option (\<lambda>request. (request,
         p\<lparr>p_FriendRequests := remove_by q_RequestID requestID (p_FriendRequests p)\<rparr>))
       (lookup_by q_RequestID requestID (p_FriendRequests p))"

definition NextSocialID :: "Player \<Rightarrow> u16" where
  "NextSocialID p = highest_by q_RequestID (highest_by f_FriendID 0 (p_Friends p)) (p_FriendRequests p) + 1"

definition FriendEntryFor :: "Player \<Rightarrow> string \<Rightarrow> Friend option" where
  "FriendEntryFor p steamID = lookup_by f_SteamID steamID (p_Friends p)"

section \<open>Serials\<close>

abbreviation item_serials :: "Player \<Rightarrow> u16 set" where
  "item_serials p \<equiv> i_Serial ` set (p_Inventory p)"

lemma NextSerial_loop_free:
  "NextSerial_loop used s \<noteq> 0 \<Longrightarrow>
    NextSerial_loop used s \<notin> used \<and> s \<le> NextSerial_loop used s \<and> NextSerial_loop used s < 0xFFFF"
proof (induction used s rule: NextSerial_loop.induct)
  case (1 used s)
  have "s \<le> s + 1" if "s < 0xFFFF"
    using that by (simp add: word_le_nat_alt word_less_nat_alt unat_word_ariths)
  with 1 show ?case
    by (subst (asm) (2) NextSerial_loop.simps, subst (1 2 3) NextSerial_loop.simps)
       (auto split: if_splits intro: order.trans)
qed

lemma NextSerial_loop_full:
  "NextSerial_loop used s = 0 \<Longrightarrow> 0 < s \<Longrightarrow> s \<le> k \<Longrightarrow> k < 0xFFFF \<Longrightarrow> k \<in> used"
proof (induction used s rule: NextSerial_loop.induct)
  case (1 used s)
  then have s: "s < 0xFFFF" by simp
  then have step: "0 < s + 1" "s < k \<Longrightarrow> s + 1 \<le> k"
    by (simp_all add: word_le_nat_alt word_less_nat_alt unat_word_ariths unat_eq_0)
  show ?case
  proof (cases "s \<in> used")
    case True
    then have "NextSerial_loop used (s + 1) = 0"
      using 1(2) s by (simp add: NextSerial_loop.simps [of used s])
    with 1(1) [OF s] True 1(4,5) step show ?thesis by (cases "s = k") auto
  next
    case False
    with 1(2,3) s show ?thesis by (simp add: NextSerial_loop.simps [of used s])
  qed
qed

lemma NextSerial_fresh: "NextSerial p \<noteq> 0 \<Longrightarrow> NextSerial p \<notin> item_serials p \<and> NextSerial p < 0xFFFF"
  unfolding NextSerial_def using NextSerial_loop_free by blast

lemma NextSerial_full: "NextSerial p = 0 \<longleftrightarrow> {1..<0xFFFF} \<subseteq> item_serials p"
proof
  assume "NextSerial p = 0"
  then show "{1..<0xFFFF} \<subseteq> item_serials p"
    unfolding NextSerial_def using NextSerial_loop_full by fastforce
next
  assume full: "{1..<0xFFFF} \<subseteq> item_serials p"
  show "NextSerial p = 0"
  proof (rule ccontr)
    assume nz: "NextSerial p \<noteq> 0"
    then have "1 \<le> NextSerial p" "NextSerial p < 0xFFFF" "NextSerial p \<notin> item_serials p"
      unfolding NextSerial_def using NextSerial_loop_free by blast+
    with full show False by (meson atLeastLessThan_iff subsetD)
  qed
qed

section \<open>Stacks\<close>

text \<open>Units owned of an item index, over all its stacks.\<close>

definition units :: "u32 \<Rightarrow> InventoryItem list \<Rightarrow> int" where
  "units index items = (\<Sum>item \<leftarrow> items. if i_ItemIndex item = index then uint (i_Value item) else 0)"

lemma units_simps [simp]:
  "units index [] = 0"
  "units index (item # items) = (if i_ItemIndex item = index then uint (i_Value item) else 0) + units index items"
  "units index (xs @ ys) = units index xs + units index ys"
  by (simp_all add: units_def)

lemma map_get_update [simp]: "map_get (AList.update k v m) j = (if j = k then v else map_get m j)"
  by (simp add: map_get_def update_conv')

lemma uint_minus_le: "0 \<le> c \<Longrightarrow> c \<le> uint v \<Longrightarrow> uint (v - word_of_int c) = uint (v :: 'a::len word) - c"
proof -
  assume c: "0 \<le> c" "c \<le> uint v"
  then have "c < 2 ^ LENGTH('a)" using order.strict_trans1 [OF c(2) uint_bounded] by blast
  then have "uint (word_of_int c :: 'a word) = c" using c by (simp add: uint_word_of_int)
  with c(2) show ?thesis by (metis uint_minus_simple_iff word_le_def uint_minus_simple_alt)
qed

lemma consume_loop_units:
  assumes "\<And>j. map_get remaining j > 0 \<Longrightarrow>
      \<exists>item. lookup_by i_ItemIndex j items = Some item \<and> map_get remaining j \<le> uint (i_Value item)"
    and "consume_loop remaining items = (deleted, updated, next)"
  shows "units index next = units index items - max 0 (map_get remaining index)"
  using assms
proof (induction items arbitrary: remaining deleted updated "next")
  case Nil
  then have "\<not> map_get remaining index > 0" by force
  with Nil(2) show ?case by simp
next
  case (Cons item items)
  let ?j = "i_ItemIndex item"
  let ?c = "map_get remaining ?j"
  let ?rem = "if ?c > 0 then AList.update ?j 0 remaining else remaining"
  obtain d u n where r: "consume_loop ?rem items = (d, u, n)" by (metis prod_cases3)
  have "\<exists>x. lookup_by i_ItemIndex j items = Some x \<and> map_get ?rem j \<le> uint (i_Value x)"
    if "map_get ?rem j > 0" for j
    using that Cons.prems(1) [of j] by (auto split: if_splits)
  from Cons.IH [OF this r] have IH: "units index n = units index items - max 0 (map_get ?rem index)" .
  show ?case
  proof (cases "?c > 0")
    case False
    with Cons.prems(2) r have "next = item # n" by (simp add: Let_def split: prod.splits)
    with False IH show ?thesis by (auto split: if_splits)
  next
    case True
    have le: "?c \<le> uint (i_Value item)" using Cons.prems(1) [OF True] by simp
    show ?thesis
    proof (cases "uint (i_Value item) \<le> ?c")
      case all: True
      with Cons.prems(2) r True have "next = n" by (simp add: Let_def split: prod.splits)
      with True IH all le show ?thesis by (auto split: if_splits)
    next
      case False
      with Cons.prems(2) r True
      have "next = item\<lparr>i_Value := i_Value item - word_of_int ?c\<rparr> # n"
        by (auto simp: Let_def split: prod.splits)
      with True IH le show ?thesis by (auto simp: uint_minus_le split: if_splits)
    qed
  qed
qed

lemma ConsumeMaterials_units:
  assumes "distinct (map fst need)" and "ConsumeMaterials p need = Some ((deleted, updated), p')"
  shows "units index (p_Inventory p') = units index (p_Inventory p) - max 0 (map_get need index)"
proof -
  obtain n where c: "consume_loop need (p_Inventory p) = (deleted, updated, n)" "p_Inventory p' = n"
    using assms(2) by (auto simp: ConsumeMaterials_def split: if_splits prod.splits)
  have "\<exists>item. lookup_by i_ItemIndex j (p_Inventory p) = Some item \<and> map_get need j \<le> uint (i_Value item)"
    if "map_get need j > 0" for j
  proof -
    from that have "(j, map_get need j) \<in> set need"
      by (auto simp: map_get_def split: option.splits dest: map_of_SomeD)
    then show ?thesis
      using assms(2) by (force simp: ConsumeMaterials_def itemByIndex_def split: if_splits option.splits)
  qed
  from consume_loop_units [OF this c(1)] c(2) show ?thesis by simp
qed

lemma consume_loop_serials:
  "consume_loop remaining items = (deleted, updated, next) \<Longrightarrow>
    map i_Serial next = filter (\<lambda>s. s \<notin> set deleted) (map i_Serial items) \<or> \<not> distinct (map i_Serial items)"
proof (induction items arbitrary: remaining deleted updated "next")
  case (Cons item items)
  have del: "consume_loop r xs = (d, u, n) \<Longrightarrow> set d \<subseteq> i_Serial ` set xs" for r xs d u n
    by (induction xs arbitrary: r d u n) (fastforce simp: Let_def split: if_splits prod.splits)+
  let ?rem = "if map_get remaining (i_ItemIndex item) > 0 then AList.update (i_ItemIndex item) 0 remaining else remaining"
  obtain d u n where r: "consume_loop ?rem items = (d, u, n)" by (metis prod_cases3)
  have "filter (\<lambda>s. s \<noteq> i_Serial item \<and> s \<notin> set d) (map i_Serial items) = filter (\<lambda>s. s \<notin> set d) (map i_Serial items)"
    if "i_Serial item \<notin> i_Serial ` set items"
    using that by (intro filter_cong) (auto, metis imageI)
  with Cons.IH [OF r] Cons.prems r del [OF r] show ?case
    by (auto simp: Let_def split: if_splits prod.splits)
qed simp

section \<open>Well-formed accounts\<close>

text \<open>
  What every operation on an account keeps: serials identify items, an equip slot holds one item,
  and a mount slot of an item holds one child.
\<close>

definition mount_key :: "AttachedItem \<Rightarrow> u16 \<times> u8" where
  "mount_key m = (a_ParentSerial m, a_Slot m)"

definition player_ok :: "Player \<Rightarrow> bool" where
  "player_ok p \<longleftrightarrow> distinct (map i_Serial (p_Inventory p)) \<and> 0 \<notin> item_serials p \<and>
     distinct (map e_Slot (p_Loadout p)) \<and> distinct (map mount_key (p_Attachments p))"

text \<open>Equipped and mounted items are owned.\<close>

definition refs_ok :: "Player \<Rightarrow> bool" where
  "refs_ok p \<longleftrightarrow> (\<forall>e \<in> set (p_Loadout p). e_Serial e \<in> item_serials p) \<and>
     (\<forall>m \<in> set (p_Attachments p). a_ParentSerial m \<in> item_serials p \<and> a_ChildSerial m \<in> item_serials p)"

lemma distinct_map_filter_snoc:
  "distinct (map f xs) \<Longrightarrow> f y \<notin> f ` {x \<in> set xs. P x} \<Longrightarrow> distinct (map f (filter P xs @ [y]))"
  by (auto simp: distinct_map_filter)

lemma Equip_distinct: "distinct (map e_Slot l) \<Longrightarrow> distinct (map e_Slot (Loadout_Equip l slot serial))"
  unfolding Loadout_Equip_def by (rule distinct_map_filter_snoc) auto

lemma Attach_distinct:
  "distinct (map mount_key a) \<Longrightarrow> distinct (map mount_key (Attachments_Attach a parent child slot))"
  unfolding Attachments_Attach_def by (rule distinct_map_filter_snoc) (auto simp: mount_key_def)

lemma Detach_distinct:
  "distinct (map mount_key a) \<Longrightarrow> distinct (map mount_key (Attachments_Detach a parent child))"
  by (simp add: Attachments_Detach_def distinct_map_filter)

lemma Equip_lookup [simp]:
  "lookup_by e_Slot s (Loadout_Equip l slot serial) =
    (if s = slot then Some \<lparr>e_Slot = slot, e_Serial = serial\<rparr> else lookup_by e_Slot s l)"
proof -
  have "lookup_by e_Slot slot (filter (\<lambda>e. e_Slot e \<noteq> slot) l) = None"
    "s \<noteq> slot \<Longrightarrow> lookup_by e_Slot s (filter (\<lambda>e. e_Slot e \<noteq> slot) l) = lookup_by e_Slot s l"
    by (induction l) auto
  then show ?thesis by (auto simp: Loadout_Equip_def lookup_by_append split: option.splits)
qed

lemma Attach_lookup:
  "lookup_by mount_key k (Attachments_Attach a parent child slot) =
    (if k = (parent, slot) then Some \<lparr>a_ParentSerial = parent, a_ChildSerial = child, a_Slot = slot\<rparr>
     else lookup_by mount_key k a)"
proof -
  let ?f = "filter (\<lambda>m. a_ParentSerial m \<noteq> parent \<or> a_Slot m \<noteq> slot) a"
  have "lookup_by mount_key (parent, slot) ?f = None"
    "k \<noteq> (parent, slot) \<Longrightarrow> lookup_by mount_key k ?f = lookup_by mount_key k a"
    by (induction a) (auto simp: mount_key_def)
  then show ?thesis by (auto simp: Attachments_Attach_def lookup_by_append mount_key_def split: option.splits)
qed

lemma custom_or_gear: "mset (CustomParts a) + mset (GearAndPerks a) = mset a"
  unfolding CustomParts_def GearAndPerks_def Attachments_filter_def
  by (induction a) auto

section \<open>Purging expired rentals\<close>

lemma PurgeExpired_inventory:
  "p_Inventory (snd (PurgeExpired p now)) = filter (\<lambda>item. \<not> IsExpired item now) (p_Inventory p)"
proof (cases "filter (\<lambda>item. IsExpired item now) (p_Inventory p) = []")
  case True
  then show ?thesis by (auto simp: PurgeExpired_def Let_def filter_empty_conv)
next
  case False
  then show ?thesis by (simp add: PurgeExpired_def Let_def)
qed

lemma PurgeExpired_removed:
  "fst (PurgeExpired p now) = map i_Serial (filter (\<lambda>item. IsExpired item now) (p_Inventory p))"
  by (simp add: PurgeExpired_def Let_def)

lemma PurgeExpired_ok: "player_ok p \<Longrightarrow> player_ok (snd (PurgeExpired p now))"
  by (auto simp: player_ok_def PurgeExpired_def Let_def distinct_map_filter)

lemma PurgeExpired_refs:
  assumes "player_ok p" and "refs_ok p"
  shows "refs_ok (snd (PurgeExpired p now))"
proof -
  let ?inv = "p_Inventory p"
  let ?gone = "i_Serial ` {x \<in> set ?inv. IsExpired x now}"
  have keep: "s \<in> i_Serial ` {x \<in> set ?inv. \<not> IsExpired x now}" if "s \<in> item_serials p" "s \<notin> ?gone" for s
    using that by auto
  show ?thesis
    using assms(2) keep by (auto simp: refs_ok_def PurgeExpired_def Let_def)
qed

lemma PurgeExpired_idem: "PurgeExpired (snd (PurgeExpired p now)) now = ([], snd (PurgeExpired p now))"
  by (simp add: PurgeExpired_def Let_def)

section \<open>Social ids\<close>

text \<open>\<open>NextSocialID\<close> is one more than every friend and request id of the list.\<close>

definition social_ids :: "Player \<Rightarrow> u16 set" where
  "social_ids p = f_FriendID ` set (p_Friends p) \<union> q_RequestID ` set (p_FriendRequests p)"

definition top_social_id :: "Player \<Rightarrow> u16" where
  "top_social_id p = highest_by q_RequestID (highest_by f_FriendID 0 (p_Friends p)) (p_FriendRequests p)"

interpretation social_ids: id_allocator social_ids top_social_id NextSocialID
proof
  fix i p
  assume "i \<in> social_ids p"
  then show "i \<le> top_social_id p"
    using highest_by_ge [of 0 f_FriendID "p_Friends p"]
      highest_by_ge [of "highest_by f_FriendID 0 (p_Friends p)" q_RequestID "p_FriendRequests p"]
    by (auto simp: social_ids_def top_social_id_def intro: order.trans)
qed (simp add: NextSocialID_def top_social_id_def)

end
