(* ===== verification/Clan_Model.thy ===== *)
theory Clan_Model
  imports Player_Model
begin

text \<open>
  The clan model (models/clan.go): records, ranks, the roster and applicant operations, and the
  allocation of application ids (\<open>nextApplicantID\<close> of clan_service.go), with the roster invariant
  the clan service keeps.
\<close>

section \<open>Records and constants\<close>

record ClanRecord =
  cr_Win :: i32
  cr_Draw :: i32
  cr_Lose :: i32
  cr_Kill :: i32
  cr_Death :: i32

definition no_clan_record :: ClanRecord where
  "no_clan_record = \<lparr>cr_Win = 0, cr_Draw = 0, cr_Lose = 0, cr_Kill = 0, cr_Death = 0\<rparr>"

record ClanApplicant =
  ap_ApplicantID :: u16
  ap_SteamID :: string
  ap_Name :: string
  ap_Level :: u32
  ap_Message :: string
  ap_AppliedAt :: time

record ClanMember =
  cm_MemberID :: u16
  cm_SteamID :: string
  cm_Name :: string
  cm_Rank :: u8
  cm_Records :: ClanRecord

type_synonym mark = "i32 \<times> i32 \<times> i32"

record Clan =
  c_Name :: string
  c_Mark :: mark
  c_MarkExtra :: u16
  c_Level :: u8
  c_MemberCapacity :: u8
  c_Master :: string
  c_Members :: "ClanMember list"
  c_Applicants :: "ClanApplicant list"
  c_Records :: ClanRecord
  c_CreatedAt :: time

definition ClanRankMaster :: u8 where "ClanRankMaster = 1"
definition ClanRankManager :: u8 where "ClanRankManager = 2"
definition ClanRankMember :: u8 where "ClanRankMember = 8"
definition ClanRankAssociate :: u8 where "ClanRankAssociate = 9"
definition DefaultClanMemberCapacity :: u8 where "DefaultClanMemberCapacity = 50"

lemmas clan_ranks = ClanRankMaster_def ClanRankManager_def ClanRankMember_def ClanRankAssociate_def

definition CanReviewClanApplications :: "u8 \<Rightarrow> bool" where
  "CanReviewClanApplications rank \<longleftrightarrow> rank = ClanRankMaster \<or> rank = ClanRankManager"

definition IsAssignableClanRank :: "u8 \<Rightarrow> bool" where
  "IsAssignableClanRank rank \<longleftrightarrow>
     rank = ClanRankManager \<or> rank = ClanRankMember \<or> rank = ClanRankAssociate"

section \<open>Operations\<close>

definition Clan_Member :: "Clan \<Rightarrow> string \<Rightarrow> ClanMember option" where
  "Clan_Member c steamID = lookup_by cm_SteamID steamID (c_Members c)"

definition MemberByID :: "Clan \<Rightarrow> u16 \<Rightarrow> ClanMember option" where
  "MemberByID c memberID = lookup_by cm_MemberID memberID (c_Members c)"

definition Clan_Applicant :: "Clan \<Rightarrow> u16 \<Rightarrow> ClanApplicant option" where
  "Clan_Applicant c applicantID = lookup_by ap_ApplicantID applicantID (c_Applicants c)"

definition Capacity :: "Clan \<Rightarrow> u8" where
  "Capacity c = (if c_MemberCapacity c = 0 then DefaultClanMemberCapacity else c_MemberCapacity c)"

definition IsFull :: "Clan \<Rightarrow> bool" where
  "IsFull c \<longleftrightarrow> length (c_Members c) \<ge> unat (Capacity c)"

definition RemoveMember :: "Clan \<Rightarrow> u16 \<Rightarrow> ClanMember option \<times> Clan" where
  "RemoveMember c memberID =
     (lookup_by cm_MemberID memberID (c_Members c),
      c\<lparr>c_Members := remove_by cm_MemberID memberID (c_Members c)\<rparr>)"

definition RemoveApplicant :: "Clan \<Rightarrow> u16 \<Rightarrow> ClanApplicant option \<times> Clan" where
  "RemoveApplicant c applicantID =
     (lookup_by ap_ApplicantID applicantID (c_Applicants c),
      c\<lparr>c_Applicants := remove_by ap_ApplicantID applicantID (c_Applicants c)\<rparr>)"

definition SetRank :: "Clan \<Rightarrow> u16 \<Rightarrow> u8 \<Rightarrow> bool \<times> Clan" where
  "SetRank c memberID rank =
     (lookup_by cm_MemberID memberID (c_Members c) \<noteq> None,
      c\<lparr>c_Members := update_by cm_MemberID memberID (\<lambda>m. m\<lparr>cm_Rank := rank\<rparr>) (c_Members c)\<rparr>)"

definition nextApplicantID :: "Clan \<Rightarrow> u16" where
  "nextApplicantID c =
     highest_by ap_ApplicantID (highest_by cm_MemberID 0 (c_Members c)) (c_Applicants c) + 1"

text \<open>The ids of the roster and of the queue share one number space.\<close>

definition roster_ids :: "Clan \<Rightarrow> u16 set" where
  "roster_ids c = cm_MemberID ` set (c_Members c) \<union> ap_ApplicantID ` set (c_Applicants c)"

definition top_roster_id :: "Clan \<Rightarrow> u16" where
  "top_roster_id c = highest_by ap_ApplicantID (highest_by cm_MemberID 0 (c_Members c)) (c_Applicants c)"

interpretation roster_ids: id_allocator roster_ids top_roster_id nextApplicantID
proof
  fix i c
  assume "i \<in> roster_ids c"
  then show "i \<le> top_roster_id c"
    using highest_by_ge [of 0 cm_MemberID "c_Members c"]
      highest_by_ge [of "highest_by cm_MemberID 0 (c_Members c)" ap_ApplicantID "c_Applicants c"]
    by (auto simp: roster_ids_def top_roster_id_def intro: order.trans)
qed (simp add: nextApplicantID_def top_roster_id_def)

section \<open>The roster invariant\<close>

definition is_master :: "ClanMember \<Rightarrow> bool" where
  "is_master m \<longleftrightarrow> cm_Rank m = ClanRankMaster"

text \<open>
  Ids identify members and applicants, an account is on the roster once, an applicant is not a
  member, and the roster is empty or has exactly one master, the account \<open>c_Master\<close> names.
\<close>

definition clan_ok :: "Clan \<Rightarrow> bool" where
  "clan_ok c \<longleftrightarrow>
     distinct (map cm_MemberID (c_Members c)) \<and> distinct (map ap_ApplicantID (c_Applicants c)) \<and>
     distinct (map cm_SteamID (c_Members c)) \<and> distinct (map ap_SteamID (c_Applicants c)) \<and>
     (\<forall>m \<in> set (c_Members c). \<forall>a \<in> set (c_Applicants c).
        cm_MemberID m \<noteq> ap_ApplicantID a \<and> cm_SteamID m \<noteq> ap_SteamID a) \<and>
     (c_Members c \<noteq> [] \<longrightarrow> map cm_SteamID (filter is_master (c_Members c)) = [c_Master c])"

lemma clan_ok_master:
  assumes "clan_ok c" and "m \<in> set (c_Members c)"
  shows "is_master m \<longleftrightarrow> cm_SteamID m = c_Master c"
proof -
  have f: "map cm_SteamID (filter is_master (c_Members c)) = [c_Master c]"
    using assms by (auto simp: clan_ok_def)
  then obtain x where x: "filter is_master (c_Members c) = [x]" "cm_SteamID x = c_Master c" by auto
  then have "x \<in> set (c_Members c)" "is_master x" by (metis filter_eq_ConsD in_set_conv_decomp list.set_intros(1) mem_Collect_eq set_filter)+
  moreover have "m \<in> set (filter is_master (c_Members c))" if "is_master m" using that assms(2) by simp
  then have "is_master m \<Longrightarrow> m = x" unfolding x(1) by simp
  moreover have "cm_SteamID m = cm_SteamID x \<Longrightarrow> m = x"
    using assms \<open>x \<in> set (c_Members c)\<close> by (auto simp: clan_ok_def distinct_map dest: inj_onD)
  ultimately show ?thesis using x(2) by metis
qed

lemma clan_ok_remove_applicant:
  "clan_ok c \<Longrightarrow> clan_ok (c\<lparr>c_Applicants := remove_by ap_ApplicantID i (c_Applicants c)\<rparr>)"
  using set_remove_by_subset [of ap_ApplicantID i "c_Applicants c"]
  by (auto simp: clan_ok_def remove_by_distinct_map dest: subsetD)

lemma clan_ok_add_applicant:
  assumes "clan_ok c" and "ap_ApplicantID a \<notin> roster_ids c"
    and "ap_SteamID a \<notin> cm_SteamID ` set (c_Members c)" and "ap_SteamID a \<notin> ap_SteamID ` set (c_Applicants c)"
  shows "clan_ok (c\<lparr>c_Applicants := c_Applicants c @ [a]\<rparr>)"
  using assms by (auto simp: clan_ok_def roster_ids_def) (metis imageI)+

lemma clan_ok_enrol:
  assumes ok: "clan_ok c" and a: "lookup_by ap_ApplicantID i (c_Applicants c) = Some a"
    and m: "cm_MemberID m = ap_ApplicantID a" "cm_SteamID m = ap_SteamID a" "\<not> is_master m"
    and some: "c_Members c \<noteq> []"
  shows "clan_ok (c\<lparr>c_Members := c_Members c @ [m], c_Applicants := remove_by ap_ApplicantID i (c_Applicants c)\<rparr>)"
proof -
  have ai: "a \<in> set (c_Applicants c)" "ap_ApplicantID a = i" using lookup_by_SomeD [OF a] by auto
  have d: "distinct (map ap_ApplicantID (c_Applicants c))" "distinct (map ap_SteamID (c_Applicants c))"
    using ok by (auto simp: clan_ok_def)
  have set: "set (remove_by ap_ApplicantID i (c_Applicants c)) = {x \<in> set (c_Applicants c). ap_ApplicantID x \<noteq> i}"
    by (rule set_remove_by_distinct [OF d(1)])
  have other: "ap_SteamID x \<noteq> ap_SteamID a" if "x \<in> set (c_Applicants c)" "ap_ApplicantID x \<noteq> i" for x
    using that ai d(2) by (metis distinct_map inj_onD)
  have fresh: "cm_MemberID x \<noteq> ap_ApplicantID a" "cm_SteamID x \<noteq> ap_SteamID a" if "x \<in> set (c_Members c)" for x
    using ok ai that by (auto simp: clan_ok_def)
  show ?thesis using ok m some
    by (auto simp: clan_ok_def set remove_by_distinct_map) (metis ai(2) fresh other)+
qed

lemma filter_remove_by:
  "lookup_by key k xs = Some x \<Longrightarrow> \<not> P x \<Longrightarrow> filter P (remove_by key k xs) = filter P xs"
  by (induction xs) (auto split: if_splits)

lemma clan_ok_remove_member:
  assumes "clan_ok c" and "lookup_by cm_MemberID i (c_Members c) = Some m"
    and "\<not> is_master m \<or> length (c_Members c) = 1"
  shows "clan_ok (c\<lparr>c_Members := remove_by cm_MemberID i (c_Members c)\<rparr>)"
proof -
  have mi: "m \<in> set (c_Members c)" "cm_MemberID m = i" using lookup_by_SomeD [OF assms(2)] by auto
  have keep: "filter is_master (remove_by cm_MemberID i (c_Members c)) = filter is_master (c_Members c)"
    if "\<not> is_master m" using that by (rule filter_remove_by [OF assms(2)])
  have gone: "remove_by cm_MemberID i (c_Members c) = []" if "length (c_Members c) = 1"
    using that mi by (cases "c_Members c") auto
  show ?thesis
    using assms(1,3) keep gone mi set_remove_by_subset [of cm_MemberID i "c_Members c"]
    by (auto simp: clan_ok_def remove_by_distinct_map)
qed

lemma filter_update_by:
  "lookup_by key k xs = Some x \<Longrightarrow> \<not> P x \<Longrightarrow> \<not> P (f x) \<Longrightarrow> filter P (update_by key k f xs) = filter P xs"
  by (induction xs) (auto split: if_splits)

abbreviation with_rank :: "u8 \<Rightarrow> ClanMember \<Rightarrow> ClanMember" where
  "with_rank rank m \<equiv> m\<lparr>cm_Rank := rank\<rparr>"

lemma set_rank_maps [simp]:
  "map cm_MemberID (update_by cm_MemberID i (with_rank r) ms) = map cm_MemberID ms"
  "map cm_SteamID (update_by cm_MemberID i (with_rank r) ms) = map cm_SteamID ms"
  by (simp_all add: map_update_by)

lemma set_rank_images [simp]:
  "cm_MemberID ` set (update_by cm_MemberID i (with_rank r) ms) = cm_MemberID ` set ms"
  "cm_SteamID ` set (update_by cm_MemberID i (with_rank r) ms) = cm_SteamID ` set ms"
  by (simp_all only: set_rank_maps flip: set_map)

lemma clan_ok_images:
  "clan_ok c \<longleftrightarrow>
     distinct (map cm_MemberID (c_Members c)) \<and> distinct (map ap_ApplicantID (c_Applicants c)) \<and>
     distinct (map cm_SteamID (c_Members c)) \<and> distinct (map ap_SteamID (c_Applicants c)) \<and>
     cm_MemberID ` set (c_Members c) \<inter> ap_ApplicantID ` set (c_Applicants c) = {} \<and>
     cm_SteamID ` set (c_Members c) \<inter> ap_SteamID ` set (c_Applicants c) = {} \<and>
     (c_Members c \<noteq> [] \<longrightarrow> map cm_SteamID (filter is_master (c_Members c)) = [c_Master c])"
proof -
  have "(\<forall>m \<in> A. \<forall>a \<in> B. f m \<noteq> g a) \<longleftrightarrow> f ` A \<inter> g ` B = {}" for f :: "'x \<Rightarrow> 'z" and g :: "'y \<Rightarrow> 'z" and A B
    by blast
  note e = this [of "set (c_Members c)" "set (c_Applicants c)" cm_MemberID ap_ApplicantID]
  have "(\<forall>m \<in> A. \<forall>a \<in> B. f m \<noteq> g a) \<longleftrightarrow> f ` A \<inter> g ` B = {}" for f :: "'x \<Rightarrow> 'z" and g :: "'y \<Rightarrow> 'z" and A B
    by blast
  note e' = this [of "set (c_Members c)" "set (c_Applicants c)" cm_SteamID ap_SteamID]
  show ?thesis unfolding clan_ok_def ball_conj_distrib e e' by blast
qed

lemma clan_ok_set_rank:
  assumes "clan_ok c" and "lookup_by cm_MemberID i (c_Members c) = Some m"
    and "\<not> is_master m" and "rank \<noteq> ClanRankMaster"
  shows "clan_ok (c\<lparr>c_Members := update_by cm_MemberID i (with_rank rank) (c_Members c)\<rparr>)"
proof -
  have "filter is_master (update_by cm_MemberID i (with_rank rank) (c_Members c)) = filter is_master (c_Members c)"
    using assms(3,4) by (intro filter_update_by [OF assms(2)]) (simp_all add: is_master_def)
  moreover have "c_Members c \<noteq> []" using assms(2) by auto
  ultimately show ?thesis using assms(1) by (simp add: clan_ok_images)
qed

lemma filter_key_singleton:
  "distinct (map key xs) \<Longrightarrow> lookup_by key k xs = Some x \<Longrightarrow> filter (\<lambda>y. key y = k) xs = [x]"
proof (induction xs)
  case (Cons y ys)
  show ?case
  proof (cases "key y = k")
    case True
    with Cons.prems(1) have k: "k \<notin> key ` set ys" by auto
    have "filter (\<lambda>z. key z = k) ys = []" unfolding filter_empty_conv using k by blast
    with True Cons.prems show ?thesis by simp
  next
    case False
    with Cons show ?thesis by simp
  qed
qed simp

lemma new_master_roster:
  assumes "distinct (map cm_MemberID ms)" and "i \<noteq> j"
  shows "update_by cm_MemberID i (with_rank ClanRankManager) (update_by cm_MemberID j (with_rank ClanRankMaster) ms) =
    map (\<lambda>m. if cm_MemberID m = i then with_rank ClanRankManager m
      else if cm_MemberID m = j then with_rank ClanRankMaster m else m) ms"
  using assms by (simp add: update_by_distinct [of cm_MemberID "update_by _ _ _ _"]) (simp add: update_by_distinct)

lemma new_master_filter:
  assumes ok: "clan_ok c" and a: "lookup_by cm_MemberID i (c_Members c) = Some a" "is_master a"
    and t: "lookup_by cm_MemberID j (c_Members c) = Some t" and ij: "i \<noteq> j"
  shows "filter is_master (update_by cm_MemberID i (with_rank ClanRankManager)
    (update_by cm_MemberID j (with_rank ClanRankMaster) (c_Members c))) = [with_rank ClanRankMaster t]"
proof -
  let ?ms = "c_Members c"
  let ?h = "\<lambda>m. if cm_MemberID m = i then with_rank ClanRankManager m
    else if cm_MemberID m = j then with_rank ClanRankMaster m else m"
  have d: "distinct (map cm_MemberID ?ms)" using ok by (simp add: clan_ok_def)
  have ai: "a \<in> set ?ms" "cm_MemberID a = i" using lookup_by_SomeD [OF a(1)] by auto
  have only: "m = a" if "m \<in> set ?ms" "is_master m" for m
  proof -
    have "cm_SteamID m = cm_SteamID a" using clan_ok_master [OF ok] that a(2) ai(1) by metis
    with ok that(1) ai(1) show ?thesis by (auto simp: clan_ok_def distinct_map dest: inj_onD)
  qed
  have "is_master (?h m) \<longleftrightarrow> cm_MemberID m = j" if "m \<in> set ?ms" for m
    using that ij only [OF that] ai(2) by (auto simp: is_master_def clan_ranks)
  then have "filter is_master (map ?h ?ms) = map ?h (filter (\<lambda>m. cm_MemberID m = j) ?ms)"
    unfolding filter_map by (intro arg_cong [of _ _ "map ?h"] filter_cong) (simp_all only: comp_apply)
  also have "\<dots> = [?h t]" using filter_key_singleton [OF d t] by simp
  also have "?h t = with_rank ClanRankMaster t" using lookup_by_SomeD [OF t] ij by simp
  finally show ?thesis unfolding new_master_roster [OF d ij] .
qed

lemma clan_ok_new_master:
  assumes ok: "clan_ok c" and a: "lookup_by cm_MemberID i (c_Members c) = Some a" "is_master a"
    and t: "lookup_by cm_MemberID j (c_Members c) = Some t" and ij: "i \<noteq> j"
  shows "clan_ok (c\<lparr>c_Master := cm_SteamID t, c_Members :=
    update_by cm_MemberID i (with_rank ClanRankManager) (update_by cm_MemberID j (with_rank ClanRankMaster) (c_Members c))\<rparr>)"
proof -
  have "c_Members c \<noteq> []" using a by auto
  then show ?thesis using ok new_master_filter [OF assms] by (simp add: clan_ok_images)
qed

end
