(* ===== verification/Store.thy ===== *)
theory Store
  imports Clan_Model Go_Text "HOL-Library.AList"
begin

text \<open>
  Persistence (repositories): the \<open>PlayerRepository\<close> and \<open>ClanRepository\<close> interfaces as records of
  operations over a store, the in-memory implementations over one store \<open>db\<close>, and the contracts the
  services rely on, stated as locales and discharged for the in-memory repositories. Go's random
  map order is the order of the association lists. A call is atomic, which the mutex ensures.
\<close>

section \<open>Errors of repositories and services\<close>

datatype go_error =
    ErrAlreadyExists | ErrClanExists | ErrDriver nat
  | ErrPlayerNotFound | ErrItemNotOwned | ErrItemExpired | ErrPartNotCompatible | ErrItemUnknown
  | ErrItemNotForSale | ErrLevelTooLow | ErrInsufficientFunds | ErrInventoryFull
  | ErrRecipeUnknown | ErrMaterialMissing | ErrConsumableMissing
  | ErrClanNotFound | ErrAlreadyMember | ErrAlreadyInClan
  | ErrNotInClan | ErrNotAllowed | ErrMemberNotFound | ErrApplicantNotFound | ErrClanFull
  | ErrNoApplication | ErrInvalidRank | ErrMasterMustTransfer | ErrMarkTaken
  | ErrFriendNotFound | ErrAlreadyFriends | ErrFriendSelf | ErrRequestPending Player FriendRequest
  | ErrRequestNotFound | ErrFriendListMissing

section \<open>Interfaces\<close>

record 'w PlayerRepository =
  pr_Find :: "string \<Rightarrow> (go_error, 'w, Player option) io"
  pr_FindMany :: "string list \<Rightarrow> (go_error, 'w, (string \<times> Player) list) io"
  pr_Create :: "Player \<Rightarrow> (go_error, 'w, unit) io"
  pr_Touch :: "string \<Rightarrow> time \<Rightarrow> (go_error, 'w, unit) io"
  pr_SaveLoadout :: "string \<Rightarrow> Loadout \<Rightarrow> (go_error, 'w, unit) io"
  pr_CommitInventory :: "string \<Rightarrow> InventoryItem list \<Rightarrow> Wallet \<Rightarrow> u64 \<Rightarrow> (go_error, 'w, bool) io"
  pr_SetName :: "string \<Rightarrow> string \<Rightarrow> (go_error, 'w, unit) io"
  pr_FindByName :: "string \<Rightarrow> (go_error, 'w, Player option) io"
  pr_SaveSocial :: "string \<Rightarrow> Friend list \<Rightarrow> FriendRequest list \<Rightarrow> (go_error, 'w, unit) io"
  pr_SetClanName :: "string \<Rightarrow> string \<Rightarrow> (go_error, 'w, unit) io"
  pr_SaveAttachments :: "string \<Rightarrow> Attachments \<Rightarrow> (go_error, 'w, unit) io"

record 'w ClanRepository =
  cr_Find :: "string \<Rightarrow> (go_error, 'w, Clan option) io"
  cr_Create :: "Clan \<Rightarrow> (go_error, 'w, unit) io"
  cr_SearchByName :: "string \<Rightarrow> int \<Rightarrow> (go_error, 'w, Clan list) io"
  cr_SaveApplicants :: "string \<Rightarrow> ClanApplicant list \<Rightarrow> (go_error, 'w, unit) io"
  cr_SaveMembers :: "string \<Rightarrow> ClanMember list \<Rightarrow> (go_error, 'w, unit) io"
  cr_SaveRoster :: "string \<Rightarrow> ClanMember list \<Rightarrow> ClanApplicant list \<Rightarrow> (go_error, 'w, unit) io"
  cr_SaveLeadership :: "string \<Rightarrow> string \<Rightarrow> ClanMember list \<Rightarrow> (go_error, 'w, unit) io"
  cr_FindByApplicant :: "string \<Rightarrow> (go_error, 'w, Clan option) io"
  cr_FindByMark :: "mark \<Rightarrow> string \<Rightarrow> (go_error, 'w, Clan option) io"
  cr_SaveMark :: "string \<Rightarrow> mark \<Rightarrow> u16 \<Rightarrow> (go_error, 'w, unit) io"
  cr_Delete :: "string \<Rightarrow> (go_error, 'w, unit) io"

section \<open>The in-memory store\<close>

record db =
  db_players :: "(string \<times> Player) list"
  db_clans :: "(string \<times> Clan) list"

definition empty_db :: db where
  "empty_db = \<lparr>db_players = [], db_clans = []\<rparr>"

definition db_player :: "db \<Rightarrow> string \<Rightarrow> Player option" where
  "db_player w = map_of (db_players w)"

definition db_clan :: "db \<Rightarrow> string \<Rightarrow> Clan option" where
  "db_clan w = map_of (db_clans w)"

definition update_player :: "string \<Rightarrow> (Player \<Rightarrow> Player) \<Rightarrow> db \<Rightarrow> db" where
  "update_player steamID f w = w\<lparr>db_players := AList.map_entry steamID f (db_players w)\<rparr>"

definition update_clan :: "string \<Rightarrow> (Clan \<Rightarrow> Clan) \<Rightarrow> db \<Rightarrow> db" where
  "update_clan name f w = w\<lparr>db_clans := AList.map_entry name f (db_clans w)\<rparr>"

definition insert_player :: "Player \<Rightarrow> db \<Rightarrow> db" where
  "insert_player p w = w\<lparr>db_players := AList.update (p_SteamID p) p (db_players w)\<rparr>"

definition insert_clan :: "Clan \<Rightarrow> db \<Rightarrow> db" where
  "insert_clan c w = w\<lparr>db_clans := AList.update (c_Name c) c (db_clans w)\<rparr>"

definition delete_clan :: "string \<Rightarrow> db \<Rightarrow> db" where
  "delete_clan name w = w\<lparr>db_clans := AList.delete name (db_clans w)\<rparr>"

subsection \<open>MemoryPlayerRepository (memory_player_repository.go)\<close>

text \<open>\<open>if player, ok := r.players[steamID]; ok { change; store }; return nil\<close>\<close>

definition mem_change_player :: "string \<Rightarrow> (Player \<Rightarrow> Player) \<Rightarrow> (go_error, db, unit) io" where
  "mem_change_player steamID f w = (Inr (), update_player steamID f w)"

definition mem_Find :: "string \<Rightarrow> (go_error, db, Player option) io" where
  "mem_Find steamID w = (Inr (db_player w steamID), w)"

definition mem_FindMany :: "string list \<Rightarrow> (go_error, db, (string \<times> Player) list) io" where
  "mem_FindMany steamIDs w =
     (Inr (fold (\<lambda>s found. case db_player w s of None \<Rightarrow> found | Some p \<Rightarrow> AList.update s p found) steamIDs []), w)"

definition mem_Create :: "Player \<Rightarrow> (go_error, db, unit) io" where
  "mem_Create p w =
     (if db_player w (p_SteamID p) \<noteq> None then (Inl ErrAlreadyExists, w) else (Inr (), insert_player p w))"

definition mem_Touch :: "string \<Rightarrow> time \<Rightarrow> (go_error, db, unit) io" where
  "mem_Touch steamID at = mem_change_player steamID (\<lambda>p. p\<lparr>p_LastLogin := at\<rparr>)"

definition mem_SaveLoadout :: "string \<Rightarrow> Loadout \<Rightarrow> (go_error, db, unit) io" where
  "mem_SaveLoadout steamID loadout = mem_change_player steamID (\<lambda>p. p\<lparr>p_Loadout := loadout\<rparr>)"

definition mem_SaveAttachments :: "string \<Rightarrow> Attachments \<Rightarrow> (go_error, db, unit) io" where
  "mem_SaveAttachments steamID attachments =
     mem_change_player steamID (\<lambda>p. p\<lparr>p_Attachments := attachments\<rparr>)"

definition mem_FindByName :: "string \<Rightarrow> (go_error, db, Player option) io" where
  "mem_FindByName name w = (Inr (List.find (\<lambda>p. p_Name p = name) (map snd (db_players w))), w)"

definition mem_SaveSocial :: "string \<Rightarrow> Friend list \<Rightarrow> FriendRequest list \<Rightarrow> (go_error, db, unit) io" where
  "mem_SaveSocial steamID friends requests =
     mem_change_player steamID (\<lambda>p. p\<lparr>p_Friends := friends, p_FriendRequests := requests\<rparr>)"

definition mem_SetName :: "string \<Rightarrow> string \<Rightarrow> (go_error, db, unit) io" where
  "mem_SetName steamID name = mem_change_player steamID (\<lambda>p. p\<lparr>p_Name := name\<rparr>)"

definition mem_SetClanName :: "string \<Rightarrow> string \<Rightarrow> (go_error, db, unit) io" where
  "mem_SetClanName steamID clanName = mem_change_player steamID (\<lambda>p. p\<lparr>p_ClanName := clanName\<rparr>)"

definition mem_CommitInventory ::
  "string \<Rightarrow> InventoryItem list \<Rightarrow> Wallet \<Rightarrow> u64 \<Rightarrow> (go_error, db, bool) io" where
  "mem_CommitInventory steamID inventory wallet price w =
     (case db_player w steamID of
        None \<Rightarrow> (Inr False, w)
      | Some player \<Rightarrow>
          if price > 0 \<and> Balance player wallet < price then (Inr False, w)
          else (Inr True, update_player steamID (\<lambda>p. (Debit p wallet price)\<lparr>p_Inventory := inventory\<rparr>) w))"

definition mem_player_repo :: "db PlayerRepository" where
  "mem_player_repo = \<lparr>pr_Find = mem_Find, pr_FindMany = mem_FindMany, pr_Create = mem_Create,
     pr_Touch = mem_Touch, pr_SaveLoadout = mem_SaveLoadout, pr_CommitInventory = mem_CommitInventory,
     pr_SetName = mem_SetName, pr_FindByName = mem_FindByName, pr_SaveSocial = mem_SaveSocial,
     pr_SetClanName = mem_SetClanName, pr_SaveAttachments = mem_SaveAttachments\<rparr>"

subsection \<open>MemoryClanRepository (memory_clan_repository.go)\<close>

text \<open>
  \<open>strings.ToLower\<close>: byte by byte for ASCII, otherwise rune by rune with the Unicode table
  \<open>lower_rune\<close>.
\<close>

definition ascii_lower :: "char \<Rightarrow> char" where
  "ascii_lower c = (let n = of_char c :: nat in if 65 \<le> n \<and> n \<le> 90 then char_of (n + 32) else c)"

definition to_lower :: "(nat \<Rightarrow> nat) \<Rightarrow> string \<Rightarrow> string" where
  "to_lower lower_rune s =
     (if list_all (\<lambda>c. of_char c < (0x80 :: nat)) s then map ascii_lower s
      else string_of_runes (map lower_rune (runes_of_string s)))"

definition has_prefix :: "string \<Rightarrow> string \<Rightarrow> bool" where
  "has_prefix s prefix \<longleftrightarrow> take (length prefix) s = prefix"

definition mem_clan_Find :: "string \<Rightarrow> (go_error, db, Clan option) io" where
  "mem_clan_Find name w = (Inr (db_clan w name), w)"

definition mem_clan_Create :: "Clan \<Rightarrow> (go_error, db, unit) io" where
  "mem_clan_Create clan w =
     (if db_clan w (c_Name clan) \<noteq> None then (Inl ErrClanExists, w) else (Inr (), insert_clan clan w))"

definition mem_clan_FindByMark :: "mark \<Rightarrow> string \<Rightarrow> (go_error, db, Clan option) io" where
  "mem_clan_FindByMark mark excludeName w =
     (Inr (List.find (\<lambda>c. c_Name c \<noteq> excludeName \<and> c_Mark c = mark) (map snd (db_clans w))), w)"

definition mem_clan_update :: "string \<Rightarrow> (Clan \<Rightarrow> Clan) \<Rightarrow> (go_error, db, unit) io" where
  "mem_clan_update name f w = (Inr (), update_clan name f w)"

definition mem_clan_SaveMark :: "string \<Rightarrow> mark \<Rightarrow> u16 \<Rightarrow> (go_error, db, unit) io" where
  "mem_clan_SaveMark name mark markExtra =
     mem_clan_update name (\<lambda>c. c\<lparr>c_Mark := mark, c_MarkExtra := markExtra\<rparr>)"

definition mem_clan_Delete :: "string \<Rightarrow> (go_error, db, unit) io" where
  "mem_clan_Delete name w = (Inr (), delete_clan name w)"

definition mem_clan_SearchByName :: "(nat \<Rightarrow> nat) \<Rightarrow> string \<Rightarrow> int \<Rightarrow> (go_error, db, Clan list) io" where
  "mem_clan_SearchByName lower_rune name limit w =
     (let prefix = to_lower lower_rune name;
          found = filter (\<lambda>c. has_prefix (to_lower lower_rune (c_Name c)) prefix) (map snd (db_clans w))
      in (Inr (if limit < 0 then found else take (nat limit) found), w))"

definition mem_clan_FindByApplicant :: "string \<Rightarrow> (go_error, db, Clan option) io" where
  "mem_clan_FindByApplicant steamID w =
     (Inr (List.find (\<lambda>c. steamID \<in> ap_SteamID ` set (c_Applicants c)) (map snd (db_clans w))), w)"

definition mem_clan_SaveApplicants :: "string \<Rightarrow> ClanApplicant list \<Rightarrow> (go_error, db, unit) io" where
  "mem_clan_SaveApplicants name applicants = mem_clan_update name (\<lambda>c. c\<lparr>c_Applicants := applicants\<rparr>)"

definition mem_clan_SaveMembers :: "string \<Rightarrow> ClanMember list \<Rightarrow> (go_error, db, unit) io" where
  "mem_clan_SaveMembers name members = mem_clan_update name (\<lambda>c. c\<lparr>c_Members := members\<rparr>)"

definition mem_clan_SaveRoster ::
  "string \<Rightarrow> ClanMember list \<Rightarrow> ClanApplicant list \<Rightarrow> (go_error, db, unit) io" where
  "mem_clan_SaveRoster name members applicants =
     mem_clan_update name (\<lambda>c. c\<lparr>c_Members := members, c_Applicants := applicants\<rparr>)"

definition mem_clan_SaveLeadership :: "string \<Rightarrow> string \<Rightarrow> ClanMember list \<Rightarrow> (go_error, db, unit) io" where
  "mem_clan_SaveLeadership name master members =
     mem_clan_update name (\<lambda>c. c\<lparr>c_Master := master, c_Members := members\<rparr>)"

definition mem_clan_repo :: "(nat \<Rightarrow> nat) \<Rightarrow> db ClanRepository" where
  "mem_clan_repo lower_rune = \<lparr>cr_Find = mem_clan_Find, cr_Create = mem_clan_Create,
     cr_SearchByName = mem_clan_SearchByName lower_rune, cr_SaveApplicants = mem_clan_SaveApplicants,
     cr_SaveMembers = mem_clan_SaveMembers, cr_SaveRoster = mem_clan_SaveRoster,
     cr_SaveLeadership = mem_clan_SaveLeadership, cr_FindByApplicant = mem_clan_FindByApplicant,
     cr_FindByMark = mem_clan_FindByMark, cr_SaveMark = mem_clan_SaveMark, cr_Delete = mem_clan_Delete\<rparr>"

section \<open>What the services rely on\<close>

text \<open>
  A player store answers every call from the account it holds for a SteamID and changes no other
  account. \<open>look\<close> reads the store, \<open>upd\<close> changes one account in it if it is there, \<open>ins\<close> adds one,
  and \<open>ok\<close> says that accounts are filed under their own SteamID.
\<close>

locale player_store =
  fixes R :: "'w PlayerRepository"
    and look :: "'w \<Rightarrow> string \<Rightarrow> Player option"
    and upd :: "string \<Rightarrow> (Player \<Rightarrow> Player) \<Rightarrow> 'w \<Rightarrow> 'w"
    and ins :: "Player \<Rightarrow> 'w \<Rightarrow> 'w"
    and ok :: "'w \<Rightarrow> bool"
  assumes look_upd: "look (upd k f w) j = (if j = k then map_option f (look w k) else look w j)"
    and look_ins: "look (ins p w) j = (if j = p_SteamID p then Some p else look w j)"
    and ok_key: "ok w \<Longrightarrow> look w k = Some p \<Longrightarrow> p_SteamID p = k"
    and ok_upd: "ok w \<Longrightarrow> (\<And>p. p_SteamID (f p) = p_SteamID p) \<Longrightarrow> ok (upd k f w)"
    and ok_ins: "ok w \<Longrightarrow> ok (ins p w)"
    and find: "pr_Find R k w = (Inr (look w k), w)"
    and find_many: "\<exists>m. pr_FindMany R ks w = (Inr m, w) \<and>
      (\<forall>k. map_of m k = (if k \<in> set ks then look w k else None))"
    and create: "pr_Create R p w =
      (if look w (p_SteamID p) \<noteq> None then (Inl ErrAlreadyExists, w) else (Inr (), ins p w))"
    and touch: "pr_Touch R k at w = (Inr (), upd k (\<lambda>p. p\<lparr>p_LastLogin := at\<rparr>) w)"
    and save_loadout: "pr_SaveLoadout R k l w = (Inr (), upd k (\<lambda>p. p\<lparr>p_Loadout := l\<rparr>) w)"
    and save_attachments: "pr_SaveAttachments R k a w = (Inr (), upd k (\<lambda>p. p\<lparr>p_Attachments := a\<rparr>) w)"
    and set_name: "pr_SetName R k n w = (Inr (), upd k (\<lambda>p. p\<lparr>p_Name := n\<rparr>) w)"
    and set_clan_name: "pr_SetClanName R k n w = (Inr (), upd k (\<lambda>p. p\<lparr>p_ClanName := n\<rparr>) w)"
    and save_social: "pr_SaveSocial R k fs rs w =
      (Inr (), upd k (\<lambda>p. p\<lparr>p_Friends := fs, p_FriendRequests := rs\<rparr>) w)"
    and commit: "pr_CommitInventory R k items wallet price w =
      (case look w k of
         None \<Rightarrow> (Inr False, w)
       | Some p \<Rightarrow> if price > 0 \<and> Balance p wallet < price then (Inr False, w)
                   else (Inr True, upd k (\<lambda>p. (Debit p wallet price)\<lparr>p_Inventory := items\<rparr>) w))"
    and by_name: "ok w \<Longrightarrow> \<exists>r. pr_FindByName R n w = (Inr r, w) \<and>
      (\<forall>p. r = Some p \<longrightarrow> look w (p_SteamID p) = Some p \<and> p_Name p = n) \<and>
      (r = None \<longrightarrow> (\<forall>k p. look w k = Some p \<longrightarrow> p_Name p \<noteq> n))"

text \<open>A store of clans beside the accounts; neither half changes the other.\<close>

locale clan_store = player_store R look upd ins ok
  for R :: "'w PlayerRepository" and look upd ins ok +
  fixes C :: "'w ClanRepository"
    and clook :: "'w \<Rightarrow> string \<Rightarrow> Clan option"
    and cupd :: "string \<Rightarrow> (Clan \<Rightarrow> Clan) \<Rightarrow> 'w \<Rightarrow> 'w"
    and cins :: "Clan \<Rightarrow> 'w \<Rightarrow> 'w"
    and cdel :: "string \<Rightarrow> 'w \<Rightarrow> 'w"
  assumes clook_cupd: "clook (cupd n f w) j = (if j = n then map_option f (clook w n) else clook w j)"
    and clook_cins: "clook (cins c w) j = (if j = c_Name c then Some c else clook w j)"
    and clook_cdel: "clook (cdel n w) j = (if j = n then None else clook w j)"
    and frame_look: "look (cupd n f w) = look w" "look (cins c w) = look w" "look (cdel n w) = look w"
    and frame_clook: "clook (upd k g w) = clook w" "clook (ins p w) = clook w"
    and ok_ckey: "ok w \<Longrightarrow> clook w n = Some c \<Longrightarrow> c_Name c = n"
    and ok_cupd: "ok w \<Longrightarrow> (\<And>c. c_Name (f c) = c_Name c) \<Longrightarrow> ok (cupd n f w)"
    and ok_cins: "ok w \<Longrightarrow> ok (cins c w)"
    and ok_cdel: "ok w \<Longrightarrow> ok (cdel n w)"
    and cfind: "cr_Find C n w = (Inr (clook w n), w)"
    and ccreate: "cr_Create C c w =
      (if clook w (c_Name c) \<noteq> None then (Inl ErrClanExists, w) else (Inr (), cins c w))"
    and save_applicants: "cr_SaveApplicants C n as w = (Inr (), cupd n (\<lambda>c. c\<lparr>c_Applicants := as\<rparr>) w)"
    and save_members: "cr_SaveMembers C n ms w = (Inr (), cupd n (\<lambda>c. c\<lparr>c_Members := ms\<rparr>) w)"
    and save_roster: "cr_SaveRoster C n ms as w =
      (Inr (), cupd n (\<lambda>c. c\<lparr>c_Members := ms, c_Applicants := as\<rparr>) w)"
    and save_leadership: "cr_SaveLeadership C n s ms w =
      (Inr (), cupd n (\<lambda>c. c\<lparr>c_Master := s, c_Members := ms\<rparr>) w)"
    and save_mark: "cr_SaveMark C n m e w =
      (Inr (), cupd n (\<lambda>c. c\<lparr>c_Mark := m, c_MarkExtra := e\<rparr>) w)"
    and cdelete: "cr_Delete C n w = (Inr (), cdel n w)"
    and by_applicant: "ok w \<Longrightarrow> \<exists>r. cr_FindByApplicant C s w = (Inr r, w) \<and>
      (\<forall>c. r = Some c \<longrightarrow> clook w (c_Name c) = Some c \<and> s \<in> ap_SteamID ` set (c_Applicants c)) \<and>
      (r = None \<longrightarrow> (\<forall>n c. clook w n = Some c \<longrightarrow> s \<notin> ap_SteamID ` set (c_Applicants c)))"
    and by_mark: "ok w \<Longrightarrow> \<exists>r. cr_FindByMark C m x w = (Inr r, w) \<and>
      (\<forall>c. r = Some c \<longrightarrow> clook w (c_Name c) = Some c \<and> c_Name c \<noteq> x \<and> c_Mark c = m) \<and>
      (r = None \<longrightarrow> (\<forall>n c. clook w n = Some c \<and> n \<noteq> x \<longrightarrow> c_Mark c \<noteq> m))"

section \<open>The in-memory repositories keep the contracts\<close>

definition filed :: "('a \<Rightarrow> string) \<Rightarrow> (string \<times> 'a) list \<Rightarrow> bool" where
  "filed key m \<longleftrightarrow> distinct (map fst m) \<and> (\<forall>(k, a) \<in> set m. key a = k)"

definition db_ok :: "db \<Rightarrow> bool" where
  "db_ok w \<longleftrightarrow> filed p_SteamID (db_players w) \<and> filed c_Name (db_clans w)"

lemma map_of_map_entry' [simp]: "map_of (AList.map_entry k f m) j = (if j = k then map_option f (map_of m k) else map_of m j)"
  by (induction m) auto

lemma filed_map_entry: "filed key m \<Longrightarrow> (\<And>a. key (f a) = key a) \<Longrightarrow> filed key (AList.map_entry k f m)"
proof (induction m)
  case (Cons x m)
  have "fst ` set (AList.map_entry k f m) = fst ` set m" by (induction m) auto
  with Cons show ?case by (auto simp: filed_def)
qed (simp add: filed_def)

lemma filed_update: "filed key m \<Longrightarrow> filed key (AList.update (key a) a m)"
proof -
  assume m: "filed key m"
  have "set (AList.update (key a) a m) \<subseteq> insert (key a, a) (set m)" by (induction m) auto
  with m show ?thesis by (auto simp: filed_def distinct_update)
qed

lemma filed_delete: "filed key m \<Longrightarrow> filed key (AList.delete k m)"
  by (auto simp: filed_def AList.delete_eq distinct_map_filter)

lemma filed_map_of: "filed key m \<Longrightarrow> map_of m k = Some a \<longleftrightarrow> (k, a) \<in> set m"
  by (simp add: filed_def map_of_eq_Some_iff)

lemma filed_key: "filed key m \<Longrightarrow> map_of m k = Some a \<Longrightarrow> key a = k"
  by (auto simp: filed_def dest: map_of_SomeD)

lemma find_filed_Some:
  assumes "filed key m" and "List.find P (map snd m) = Some a"
  shows "map_of m (key a) = Some a \<and> P a"
proof -
  have "a \<in> set (map snd m)" "P a" using assms(2) by (auto simp: find_Some_iff)
  then obtain k where "(k, a) \<in> set m" by auto
  moreover from this have "key a = k" using assms(1) by (auto simp: filed_def)
  ultimately show ?thesis using assms(1) \<open>P a\<close> by (simp add: filed_map_of)
qed

lemma find_filed_None:
  assumes "List.find P (map snd m) = None" and "map_of m k = Some a"
  shows "\<not> P a"
  using assms by (force simp: find_None_iff dest: map_of_SomeD)

lemma mem_FindMany_map:
  "map_of (fold (\<lambda>s found. case look s of None \<Rightarrow> found | Some p \<Rightarrow> AList.update s p found) ks m) k
    = (if k \<in> set ks \<and> look k \<noteq> None then look k else map_of m k)"
  by (induction ks arbitrary: m) (auto simp: update_conv' split: option.splits)

lemmas db_defs = db_player_def db_clan_def update_player_def update_clan_def insert_player_def
  insert_clan_def delete_clan_def

lemmas mem_defs = mem_player_repo_def mem_change_player_def mem_Find_def mem_FindMany_def
  mem_Create_def mem_Touch_def mem_SaveLoadout_def mem_SaveAttachments_def mem_FindByName_def
  mem_SaveSocial_def mem_SetName_def mem_SetClanName_def mem_CommitInventory_def

lemmas mem_clan_defs = mem_clan_repo_def mem_clan_Find_def mem_clan_Create_def
  mem_clan_FindByMark_def mem_clan_update_def mem_clan_SaveMark_def mem_clan_Delete_def
  mem_clan_SearchByName_def mem_clan_FindByApplicant_def mem_clan_SaveApplicants_def
  mem_clan_SaveMembers_def mem_clan_SaveRoster_def mem_clan_SaveLeadership_def

lemma find_filed:
  assumes "filed key m"
  shows "(\<forall>a. List.find P (map snd m) = Some a \<longrightarrow> map_of m (key a) = Some a \<and> P a) \<and>
    (List.find P (map snd m) = None \<longrightarrow> (\<forall>k a. map_of m k = Some a \<longrightarrow> key a = k \<and> \<not> P a))"
  using find_filed_Some [OF assms] find_filed_None filed_key [OF assms] by metis

lemma mem_by_name:
  assumes "db_ok w"
  shows "\<exists>r. mem_FindByName n w = (Inr r, w) \<and>
    (\<forall>p. r = Some p \<longrightarrow> db_player w (p_SteamID p) = Some p \<and> p_Name p = n) \<and>
    (r = None \<longrightarrow> (\<forall>k p. db_player w k = Some p \<longrightarrow> p_Name p \<noteq> n))"
  using assms find_filed [of p_SteamID "db_players w" "\<lambda>p. p_Name p = n"]
  unfolding mem_FindByName_def db_player_def db_ok_def by blast

lemma mem_by_applicant:
  assumes "db_ok w"
  shows "\<exists>r. mem_clan_FindByApplicant s w = (Inr r, w) \<and>
    (\<forall>c. r = Some c \<longrightarrow> db_clan w (c_Name c) = Some c \<and> s \<in> ap_SteamID ` set (c_Applicants c)) \<and>
    (r = None \<longrightarrow> (\<forall>n c. db_clan w n = Some c \<longrightarrow> s \<notin> ap_SteamID ` set (c_Applicants c)))"
  using assms find_filed [of c_Name "db_clans w" "\<lambda>c. s \<in> ap_SteamID ` set (c_Applicants c)"]
  unfolding mem_clan_FindByApplicant_def db_clan_def db_ok_def by blast

lemma mem_by_mark:
  assumes "db_ok w"
  shows "\<exists>r. mem_clan_FindByMark m x w = (Inr r, w) \<and>
    (\<forall>c. r = Some c \<longrightarrow> db_clan w (c_Name c) = Some c \<and> c_Name c \<noteq> x \<and> c_Mark c = m) \<and>
    (r = None \<longrightarrow> (\<forall>n c. db_clan w n = Some c \<and> n \<noteq> x \<longrightarrow> c_Mark c \<noteq> m))"
  using assms find_filed [of c_Name "db_clans w" "\<lambda>c. c_Name c \<noteq> x \<and> c_Mark c = m"]
  unfolding mem_clan_FindByMark_def db_clan_def db_ok_def by blast

lemma mem_find_many:
  "\<exists>m. mem_FindMany ks w = (Inr m, w) \<and> (\<forall>k. map_of m k = (if k \<in> set ks then db_player w k else None))"
  by (simp add: mem_FindMany_def mem_FindMany_map)

lemma mem_commit:
  "mem_CommitInventory k items wallet price w =
    (case db_player w k of
       None \<Rightarrow> (Inr False, w)
     | Some p \<Rightarrow> if price > 0 \<and> Balance p wallet < price then (Inr False, w)
                 else (Inr True, update_player k (\<lambda>p. (Debit p wallet price)\<lparr>p_Inventory := items\<rparr>) w))"
  by (rule mem_CommitInventory_def)

interpretation mem: player_store mem_player_repo db_player update_player insert_player db_ok
proof unfold_locales
  show "db_ok w \<Longrightarrow> db_player w k = Some p \<Longrightarrow> p_SteamID p = k" for w k p
    by (auto simp: db_ok_def db_player_def dest: filed_key)
qed (simp_all add: mem_player_repo_def mem_by_name mem_find_many mem_commit,
     simp_all add: mem_defs db_defs update_conv' db_ok_def filed_map_entry filed_update)

interpretation mem: clan_store mem_player_repo db_player update_player insert_player db_ok
    "mem_clan_repo lower_rune" db_clan update_clan insert_clan delete_clan
  for lower_rune
proof unfold_locales
  show "db_ok w \<Longrightarrow> db_clan w n = Some c \<Longrightarrow> c_Name c = n" for w n c
    by (auto simp: db_ok_def db_clan_def dest: filed_key)
qed (simp_all add: mem_clan_repo_def mem_by_applicant mem_by_mark,
     simp_all add: mem_clan_defs db_defs update_conv' db_ok_def filed_map_entry filed_update
       filed_delete delete_conv')

end
