(* ===== verification/Catalog.thy ===== *)
theory Catalog
  imports Go_Text
begin

text \<open>
  The static reference data (catalog/catalog.go): the row records, the CSV cell readers with
  Go's \<open>strconv\<close> semantics, \<open>Load\<close> over the parsed rows of the embedded files, and the queries.
  The embedded files themselves and \<open>encoding/csv\<close> are an argument: for a file name, its rows of
  cells, the header first, or \<open>None\<close> where reading fails. Maps are association lists in insertion
  order.
\<close>

section \<open>Numbers in cells (strconv)\<close>

definition digit_value :: "char \<Rightarrow> nat option" where
  "digit_value c = (let n = of_char c :: nat in if 48 \<le> n \<and> n \<le> 57 then Some (n - 48) else None)"

text \<open>
  The digit loop of \<open>ParseUint\<close>: \<open>None\<close> is a syntax error, for which the code reads 0; once the
  value passes the maximum the loop stops there with the maximum.
\<close>

fun ParseUint_loop :: "nat \<Rightarrow> nat \<Rightarrow> string \<Rightarrow> nat option" where
  "ParseUint_loop limit n [] = Some n"
| "ParseUint_loop limit n (c # cs) =
     (case digit_value c of
        None \<Rightarrow> None
      | Some d \<Rightarrow> if n * 10 + d > limit then Some limit else ParseUint_loop limit (n * 10 + d) cs)"

definition ParseUint :: "nat \<Rightarrow> string \<Rightarrow> nat option" where
  "ParseUint bits s = (if s = [] then None else ParseUint_loop (2 ^ bits - 1) 0 s)"

definition Atoi :: "string \<Rightarrow> int" where
  "Atoi s =
     (let (neg, digits) = (case s of
          CHR ''-'' # cs \<Rightarrow> (True, cs) | CHR ''+'' # cs \<Rightarrow> (False, cs) | _ \<Rightarrow> (False, s))
      in case ParseUint 64 digits of
           None \<Rightarrow> 0
         | Some n \<Rightarrow> if neg then - min (2 ^ 63) (int n) else min (2 ^ 63 - 1) (int n))"

section \<open>Rows\<close>

record csv_record =
  row_index :: "(string \<times> nat) list"
  row_fields :: "string list"

definition record_str :: "csv_record \<Rightarrow> string \<Rightarrow> string" where
  "record_str r column =
     (case map_of (row_index r) column of
        Some i \<Rightarrow> if i < length (row_fields r) then trim_space (row_fields r ! i) else []
      | None \<Rightarrow> [])"

definition record_int :: "csv_record \<Rightarrow> string \<Rightarrow> int" where
  "record_int r column = Atoi (record_str r column)"

definition record_u32 :: "csv_record \<Rightarrow> string \<Rightarrow> u32" where
  "record_u32 r column = (case ParseUint 32 (record_str r column) of None \<Rightarrow> 0 | Some n \<Rightarrow> word_of_nat n)"

definition record_u64 :: "csv_record \<Rightarrow> string \<Rightarrow> u64" where
  "record_u64 r column = (case ParseUint 64 (record_str r column) of None \<Rightarrow> 0 | Some n \<Rightarrow> word_of_nat n)"

definition record_bool :: "csv_record \<Rightarrow> string \<Rightarrow> bool" where
  "record_bool r column \<longleftrightarrow> record_str r column = ''1''"

text \<open>\<open>Atoi\<close> with its error: \<open>pipeInts\<close> keeps the parts that parse without one.\<close>

definition Atoi_ok :: "string \<Rightarrow> bool" where
  "Atoi_ok s \<longleftrightarrow>
     (let (neg, digits) = (case s of
          CHR ''-'' # cs \<Rightarrow> (True, cs) | CHR ''+'' # cs \<Rightarrow> (False, cs) | _ \<Rightarrow> (False, s))
      in digits \<noteq> [] \<and> list_all (\<lambda>c. digit_value c \<noteq> None) digits \<and>
         (let n = foldl (\<lambda>n c. n * 10 + the (digit_value c)) 0 digits
          in if neg then n \<le> 2 ^ 63 else n < 2 ^ 63))"

definition record_pipeInts :: "csv_record \<Rightarrow> string \<Rightarrow> int list" where
  "record_pipeInts r column =
     (let raw = record_str r column
      in if raw = [] then []
         else map Atoi (filter Atoi_ok (map trim_space (split_on (CHR ''|'') raw))))"

section \<open>Row types\<close>

record CustomPart =
  cp_PartIndex :: u32
  cp_Attack :: int
  cp_Accuracy :: int
  cp_Stability :: int
  cp_ShotSpeed :: int
  cp_AbleToMode :: string

record FunctionItem =
  fn_FunctionIndex :: u32
  fn_FunctionType :: int
  fn_ItemDesc :: string
  fn_Value :: int

record GameItem =
  g_ItemIndex :: u32
  g_RecordName :: string
  g_EngName :: string
  g_HighGroup :: int
  g_MiddleGroup :: int
  g_FunctionIndex :: int
  g_PointPrice :: u64
  g_CashPrice :: u64
  g_BonusPoint :: u64
  g_CashType :: int
  g_IsResell :: bool
  g_ResellPoint :: u64
  g_IsSell :: bool
  g_IsShopShow :: bool
  g_IsSale :: bool
  g_SalePrice :: u64
  g_RepairPoint :: u64
  g_CanGift :: bool
  g_UseType :: int
  g_UseTime :: int
  g_UseCount :: int
  g_Durability :: int
  g_IsMerge :: bool
  g_OnlyPvE :: bool
  g_BuyLevelLimit :: int
  g_EquipLevelLimit :: int
  g_WeaponType :: int
  g_SlotCount :: int
  g_CapsuleGrade :: int
  g_Attack :: int
  g_Accuracy :: int
  g_Stability :: int
  g_ShotSpeed :: int
  g_Carry :: int
  g_Magazine :: int
  g_Supply :: int

record MapInfo =
  m_MapIndex :: u32
  m_MapMode :: int
  m_PlayNormal :: bool
  m_PlayPvE :: bool
  m_User :: "int list"
  m_UserMin :: int
  m_UserDefault :: int
  m_MapName :: string
  m_ModeName :: string
  m_Difficulty :: int
  m_WinRewardItem :: u32
  m_LoseRewardIndex :: u32
  m_DrawRewardIndex :: u32

record RewardItem =
  rw_RewardIndex :: u32
  rw_Min :: int
  rw_Max :: int
  rw_RandomMax :: int
  rw_RewardItem :: u32
  rw_RewardExp :: u64
  rw_RewardPoint :: u64
  rw_RewardType :: int

record ClassInfo =
  ci_ClassIndex :: u32
  ci_ClassLevel :: int
  ci_Type :: int
  ci_Career :: int
  ci_ClassName :: string
  ci_ExpMin :: u64
  ci_ExpMax :: u64
  ci_PointValue :: u64
  ci_RewardItemIndex :: "u32 \<times> u32 \<times> u32"

record RecipeMaterial =
  rm_ItemIndex :: u32
  rm_Count :: int

record Recipe =
  rc_ID :: u32
  rc_Exist :: bool
  rc_RepresentIndex :: u32
  rc_RequireLevel :: int
  rc_PriceType :: int
  rc_PricePoint :: u64
  rc_PriceCash :: u64
  rc_Materials :: "RecipeMaterial list"
  rc_ItemOutput :: u32
  rc_CountOutput :: int

record Catalog =
  Items :: "(u32 \<times> GameItem) list"
  Maps :: "(u32 \<times> MapInfo) list"
  Rewards :: "(u32 \<times> RewardItem list) list"
  Classes :: "ClassInfo list"
  Recipes :: "(u32 \<times> Recipe) list"
  Functions :: "(u32 \<times> FunctionItem) list"
  PartsFor :: "(u32 \<times> (u32 \<times> bool) list) list"
  Parts :: "(u32 \<times> CustomPart) list"

section \<open>Building the rows\<close>

definition gameItemFromRow :: "csv_record \<Rightarrow> GameItem" where
  "gameItemFromRow r =
     \<lparr>g_ItemIndex = record_u32 r ''ItemIndex'',
       g_RecordName = record_str r ''RecordName'',
       g_EngName = record_str r ''EngName'',
       g_HighGroup = record_int r ''HighGroup'',
       g_MiddleGroup = record_int r ''MiddleGroup'',
       g_FunctionIndex = record_int r ''FunctionIndex'',
       g_PointPrice = record_u64 r ''PointPrice'',
       g_CashPrice = record_u64 r ''CashPrice'',
       g_BonusPoint = record_u64 r ''BonusPoint'',
       g_CashType = record_int r ''CashType'',
       g_IsResell = record_bool r ''IsResell'',
       g_ResellPoint = record_u64 r ''ResellPoint'',
       g_IsSell = record_bool r ''IsSell'',
       g_IsShopShow = record_bool r ''IsShopShow'',
       g_IsSale = record_bool r ''IsSale'',
       g_SalePrice = record_u64 r ''SalePrice'',
       g_RepairPoint = record_u64 r ''RepairPoint'',
       g_CanGift = record_bool r ''Cangift'',
       g_UseType = record_int r ''UseType'',
       g_UseTime = record_int r ''UseTime'',
       g_UseCount = record_int r ''UseCount'',
       g_Durability = record_int r ''Durability'',
       g_IsMerge = record_bool r ''IsMerge'',
       g_OnlyPvE = record_bool r ''OnlyPvE'',
       g_BuyLevelLimit = record_int r ''BuyLevelLimit'',
       g_EquipLevelLimit = record_int r ''EquipLevelLimit'',
       g_WeaponType = record_int r ''WeaponType'',
       g_SlotCount = record_int r ''SlotCount'',
       g_CapsuleGrade = record_int r ''CapsuleGrade'',
       g_Attack = record_int r ''Attack'',
       g_Accuracy = record_int r ''Accuracy'',
       g_Stability = record_int r ''Stability'',
       g_ShotSpeed = record_int r ''ShotSpeed'',
       g_Carry = record_int r ''Carry'',
       g_Magazine = record_int r ''Magazine'',
       g_Supply = record_int r ''Supply''\<rparr>"

definition mapInfoFromRow :: "csv_record \<Rightarrow> MapInfo" where
  "mapInfoFromRow r =
     \<lparr>m_MapIndex = record_u32 r ''MapIndex'',
       m_MapMode = record_int r ''MapMode'',
       m_PlayNormal = record_bool r ''PlayNormal'',
       m_PlayPvE = record_bool r ''PlayPve'',
       m_User = record_pipeInts r ''User'',
       m_UserMin = record_int r ''UserMin'',
       m_UserDefault = record_int r ''UserDefault'',
       m_MapName = record_str r ''MapName'',
       m_ModeName = record_str r ''ModeName'',
       m_Difficulty = record_int r ''Difficulty'',
       m_WinRewardItem = record_u32 r ''WinRewardItem'',
       m_LoseRewardIndex = record_u32 r ''LoseRewardIndex'',
       m_DrawRewardIndex = record_u32 r ''DrawRewardIndex''\<rparr>"

definition rewardItemFromRow :: "csv_record \<Rightarrow> RewardItem" where
  "rewardItemFromRow r =
     \<lparr>rw_RewardIndex = record_u32 r ''RewardIndex'',
       rw_Min = record_int r ''Min'',
       rw_Max = record_int r ''Max'',
       rw_RandomMax = record_int r ''RandomMax'',
       rw_RewardItem = record_u32 r ''RewardItem'',
       rw_RewardExp = record_u64 r ''RewardExp'',
       rw_RewardPoint = record_u64 r ''RewardPoint'',
       rw_RewardType = record_int r ''RewardType''\<rparr>"

definition classInfoFromRow :: "csv_record \<Rightarrow> ClassInfo" where
  "classInfoFromRow r =
     \<lparr>ci_ClassIndex = record_u32 r ''ClassIndex'',
       ci_ClassLevel = record_int r ''ClassLevel'',
       ci_Type = record_int r ''Type'',
       ci_Career = record_int r ''Career'',
       ci_ClassName = record_str r ''ClassName'',
       ci_ExpMin = record_u64 r ''ExpMin'',
       ci_ExpMax = record_u64 r ''ExpMax'',
       ci_PointValue = record_u64 r ''PointValue'',
       ci_RewardItemIndex = (record_u32 r ''RewardItemIndex1'', record_u32 r ''RewardItemIndex2'',
         record_u32 r ''RewardItemIndex3'')\<rparr>"

text \<open>Material columns 1 to 6; an index of 0 is an empty column.\<close>

definition recipe_material :: "csv_record \<Rightarrow> char \<Rightarrow> RecipeMaterial list" where
  "recipe_material r suffix =
     (let itemIndex = record_u32 r (''Material'' @ [suffix])
      in if itemIndex = 0 then []
         else [\<lparr>rm_ItemIndex = itemIndex, rm_Count = record_int r (''mCount'' @ [suffix])\<rparr>])"

definition recipeFromRow :: "csv_record \<Rightarrow> Recipe" where
  "recipeFromRow r =
     \<lparr>rc_ID = record_u32 r ''id'',
       rc_Exist = record_bool r ''exist'',
       rc_RepresentIndex = record_u32 r ''RepresentIndex'',
       rc_RequireLevel = record_int r ''requireLv'',
       rc_PriceType = record_int r ''priceType'',
       rc_PricePoint = record_u64 r ''priceP'',
       rc_PriceCash = record_u64 r ''priceC'',
       rc_Materials = concat (map (recipe_material r) ''123456''),
       rc_ItemOutput = record_u32 r ''itemOutput'',
       rc_CountOutput = record_int r ''countOutput''\<rparr>"

definition customPartFromRow :: "csv_record \<Rightarrow> CustomPart" where
  "customPartFromRow r =
     \<lparr>cp_PartIndex = record_u32 r ''PartIndex'',
       cp_Attack = record_int r ''Attack'',
       cp_Accuracy = record_int r ''Accuracy'',
       cp_Stability = record_int r ''Stability'',
       cp_ShotSpeed = record_int r ''ShotSpeed'',
       cp_AbleToMode = record_str r ''AbleToMode''\<rparr>"

definition functionItemFromRow :: "csv_record \<Rightarrow> FunctionItem" where
  "functionItemFromRow r =
     \<lparr>fn_FunctionIndex = word_of_int (record_int r ''FunctionIndex''),
       fn_FunctionType = record_int r ''FunctionType'',
       fn_ItemDesc = record_str r ''ItemDesc'',
       fn_Value = record_int r ''Value''\<rparr>"

section \<open>Loading\<close>

text \<open>\<open>each\<close>: the header names the columns, a repeated name means its last column.\<close>

definition header_index :: "string list \<Rightarrow> (string \<times> nat) list" where
  "header_index header = fold (\<lambda>(i, h). AList.update (trim_space h) i) (enumerate 0 header) []"

definition each_row :: "(string \<Rightarrow> string list list option) \<Rightarrow> string \<Rightarrow>
    (csv_record \<Rightarrow> Catalog \<Rightarrow> Catalog) \<Rightarrow> Catalog \<Rightarrow> Catalog option" where
  "each_row files name fn c =
     (case files name of
        None \<Rightarrow> None
      | Some [] \<Rightarrow> Some c
      | Some (header # rows) \<Rightarrow>
          Some (fold (\<lambda>fs. fn \<lparr>row_index = header_index header, row_fields = fs\<rparr>) rows c))"

definition add_item :: "csv_record \<Rightarrow> Catalog \<Rightarrow> Catalog" where
  "add_item r c = (let item = gameItemFromRow r in c\<lparr>Items := AList.update (g_ItemIndex item) item (Items c)\<rparr>)"

definition add_map :: "csv_record \<Rightarrow> Catalog \<Rightarrow> Catalog" where
  "add_map r c = (let info = mapInfoFromRow r in c\<lparr>Maps := AList.update (m_MapIndex info) info (Maps c)\<rparr>)"

definition add_reward :: "csv_record \<Rightarrow> Catalog \<Rightarrow> Catalog" where
  "add_reward r c =
     (let reward = rewardItemFromRow r; i = rw_RewardIndex reward;
          old = (case map_of (Rewards c) i of None \<Rightarrow> [] | Some rs \<Rightarrow> rs)
      in c\<lparr>Rewards := AList.update i (old @ [reward]) (Rewards c)\<rparr>)"

definition add_class :: "csv_record \<Rightarrow> Catalog \<Rightarrow> Catalog" where
  "add_class r c = c\<lparr>Classes := Classes c @ [classInfoFromRow r]\<rparr>"

definition add_recipe :: "csv_record \<Rightarrow> Catalog \<Rightarrow> Catalog" where
  "add_recipe r c = (let recipe = recipeFromRow r in c\<lparr>Recipes := AList.update (rc_ID recipe) recipe (Recipes c)\<rparr>)"

definition add_link :: "csv_record \<Rightarrow> Catalog \<Rightarrow> Catalog" where
  "add_link r c =
     (let weapon = record_u32 r ''WeaponIndex''; part = record_u32 r ''PartIndex'';
          parts = (case map_of (PartsFor c) weapon of None \<Rightarrow> [] | Some ps \<Rightarrow> ps)
      in c\<lparr>PartsFor := AList.update weapon (AList.update part True parts) (PartsFor c)\<rparr>)"

definition add_part :: "csv_record \<Rightarrow> Catalog \<Rightarrow> Catalog" where
  "add_part r c = (let part = customPartFromRow r in c\<lparr>Parts := AList.update (cp_PartIndex part) part (Parts c)\<rparr>)"

definition add_function :: "csv_record \<Rightarrow> Catalog \<Rightarrow> Catalog" where
  "add_function r c =
     (let fn = functionItemFromRow r in c\<lparr>Functions := AList.update (fn_FunctionIndex fn) fn (Functions c)\<rparr>)"

definition empty_catalog :: Catalog where
  "empty_catalog = \<lparr>Items = [], Maps = [], Rewards = [], Classes = [], Recipes = [], Functions = [],
     PartsFor = [], Parts = []\<rparr>"

definition Load :: "(string \<Rightarrow> string list list option) \<Rightarrow> Catalog option" where
  "Load files =
     Option.bind (each_row files ''data/GameItem.csv'' add_item empty_catalog)
     (\<lambda>c. Option.bind (each_row files ''data/MapInfo.csv'' add_map c)
     (\<lambda>c. Option.bind (each_row files ''data/RewardItem.csv'' add_reward c)
     (\<lambda>c. Option.bind (each_row files ''data/ClassInfo.csv'' add_class c)
     (\<lambda>c. Option.bind (each_row files ''data/Recipe.csv'' add_recipe c)
     (\<lambda>c. Option.bind (each_row files ''data/PartLinkTable.csv'' add_link c)
     (\<lambda>c. Option.bind (each_row files ''data/CustomPartItem.csv'' add_part c)
     (\<lambda>c. each_row files ''data/FunctionItem.csv'' add_function c)))))))"

section \<open>Queries\<close>

definition StarterItems :: "u32 list" where
  "StarterItems = [11100101, 12100101, 21102201]"

definition Accepts :: "Catalog \<Rightarrow> u32 \<Rightarrow> u32 \<Rightarrow> bool" where
  "Accepts c weaponIndex partIndex =
     (case map_of (PartsFor c) weaponIndex of
        None \<Rightarrow> False
      | Some parts \<Rightarrow> (case map_of parts partIndex of None \<Rightarrow> False | Some b \<Rightarrow> b))"

definition FunctionType :: "Catalog \<Rightarrow> u32 \<Rightarrow> byte" where
  "FunctionType c itemIndex =
     (case map_of (Items c) itemIndex of
        None \<Rightarrow> 0
      | Some item \<Rightarrow>
          if g_FunctionIndex item = 0 then 0
          else (case map_of (Functions c) (word_of_int (g_FunctionIndex item)) of
              None \<Rightarrow> 0
            | Some fn \<Rightarrow>
                if fn_FunctionType fn < 0 \<or> fn_FunctionType fn > 0xFF then 0
                else word_of_int (fn_FunctionType fn)))"

definition ItemType :: "GameItem \<Rightarrow> u8" where
  "ItemType g = word_of_int (0x0B + (g_HighGroup g - 1) * 0x0A + (g_MiddleGroup g - 1))"

text \<open>The zero value of a row, which an absent map entry reads as.\<close>

definition zero_item :: GameItem where
  "zero_item = gameItemFromRow \<lparr>row_index = [], row_fields = []\<rparr>"

definition installedOpenMaps :: "string list" where
  "installedOpenMaps =
     [''TAM_Rooftop'', ''TAM_Rooftop_Light'', ''TAM_Killhouse'',
      ''TAM_Mansion'', ''TAM_Arsenal'', ''TAM_RuinCity'',
      ''TAM_Gore_Mansion'', ''SSM_Downfall'', ''TDM_PentHouse'',
      ''TDM__Laboratory'', ''TDM_Airport'', ''TCP_EPA_TH_01'',
      ''PVE_Act01Ms02_E'', ''PVE_Act01Ms02_N'', ''PVE_Act01Ms02_H'',
      ''PVE_Runaway_E'', ''PVE_Runaway_N'', ''PVE_Runaway_H'',
      ''PVE_Runaway02_E'', ''PVE_Runaway02_N'', ''PVE_Runaway02_H'',
      ''Rag_Town'', ''Rag_Retake'']"

definition OpenMaps :: "Catalog \<Rightarrow> MapInfo list" where
  "OpenMaps c = sort_key m_MapIndex
     (filter (\<lambda>info. m_MapName info \<in> set installedOpenMaps) (map snd (Maps c)))"

section \<open>What loading establishes\<close>

text \<open>The rows of a file as the callbacks of \<open>each\<close> see them.\<close>

definition rows_of :: "(string \<Rightarrow> string list list option) \<Rightarrow> string \<Rightarrow> csv_record list" where
  "rows_of files name =
     (case files name of
        Some (header # rows) \<Rightarrow> map (\<lambda>fs. \<lparr>row_index = header_index header, row_fields = fs\<rparr>) rows
      | _ \<Rightarrow> [])"

lemma each_row_fold: "each_row files name fn c = Some c' \<Longrightarrow> c' = fold fn (rows_of files name) c"
  by (auto simp: each_row_def rows_of_def fold_map comp_def split: option.splits list.splits)

lemma each_row_invariant:
  assumes "P c" and "each_row files name fn c = Some c'" and "\<And>r c. P c \<Longrightarrow> P (fn r c)"
  shows "P c'"
proof -
  have "P (fold fn rs c)" if "P c" for rs c using that assms(3) by (induction rs arbitrary: c) auto
  with assms(1) each_row_fold [OF assms(2)] show ?thesis by simp
qed

lemma Load_steps:
  assumes "Load files = Some c"
  obtains c1 c2 c3 c4 c5 c6 c7 where
    "each_row files ''data/GameItem.csv'' add_item empty_catalog = Some c1"
    "each_row files ''data/MapInfo.csv'' add_map c1 = Some c2"
    "each_row files ''data/RewardItem.csv'' add_reward c2 = Some c3"
    "each_row files ''data/ClassInfo.csv'' add_class c3 = Some c4"
    "each_row files ''data/Recipe.csv'' add_recipe c4 = Some c5"
    "each_row files ''data/PartLinkTable.csv'' add_link c5 = Some c6"
    "each_row files ''data/CustomPartItem.csv'' add_part c6 = Some c7"
    "each_row files ''data/FunctionItem.csv'' add_function c7 = Some c"
  using assms unfolding Load_def by (auto simp: Option.bind_eq_Some_conv)

text \<open>Every map is keyed by the index its row carries, and no key occurs twice.\<close>

definition keyed_by :: "('a \<Rightarrow> 'k) \<Rightarrow> ('k \<times> 'a) list \<Rightarrow> bool" where
  "keyed_by key m \<longleftrightarrow> distinct (map fst m) \<and> (\<forall>(k, a) \<in> set m. key a = k)"

lemma keyed_by_update: "keyed_by key m \<Longrightarrow> keyed_by key (AList.update (key a) a m)"
proof -
  assume m: "keyed_by key m"
  have "set (AList.update (key a) a m) \<subseteq> insert (key a, a) (set m)" by (induction m) auto
  with m show ?thesis by (auto simp: keyed_by_def distinct_update)
qed

definition catalog_ok :: "Catalog \<Rightarrow> bool" where
  "catalog_ok c \<longleftrightarrow> keyed_by g_ItemIndex (Items c) \<and> keyed_by m_MapIndex (Maps c) \<and>
     keyed_by rc_ID (Recipes c) \<and> keyed_by cp_PartIndex (Parts c) \<and>
     keyed_by fn_FunctionIndex (Functions c)"

lemma catalog_ok_add:
  "catalog_ok c \<Longrightarrow> catalog_ok (add_item r c)" "catalog_ok c \<Longrightarrow> catalog_ok (add_map r c)"
  "catalog_ok c \<Longrightarrow> catalog_ok (add_reward r c)" "catalog_ok c \<Longrightarrow> catalog_ok (add_class r c)"
  "catalog_ok c \<Longrightarrow> catalog_ok (add_recipe r c)" "catalog_ok c \<Longrightarrow> catalog_ok (add_link r c)"
  "catalog_ok c \<Longrightarrow> catalog_ok (add_part r c)" "catalog_ok c \<Longrightarrow> catalog_ok (add_function r c)"
  by (simp_all add: catalog_ok_def add_item_def add_map_def add_reward_def add_class_def
      add_recipe_def add_link_def add_part_def add_function_def Let_def keyed_by_update)

lemma Load_ok: "Load files = Some c \<Longrightarrow> catalog_ok c"
proof (erule Load_steps)
  note step = each_row_invariant [where P = catalog_ok]
  fix c1 c2 c3 c4 c5 c6 c7
  have "catalog_ok empty_catalog" by (simp add: catalog_ok_def empty_catalog_def keyed_by_def)
  moreover assume "each_row files ''data/GameItem.csv'' add_item empty_catalog = Some c1"
  ultimately have "catalog_ok c1" by (rule step) (rule catalog_ok_add(1))
  moreover assume "each_row files ''data/MapInfo.csv'' add_map c1 = Some c2"
  ultimately have "catalog_ok c2" by (rule step) (rule catalog_ok_add(2))
  moreover assume "each_row files ''data/RewardItem.csv'' add_reward c2 = Some c3"
  ultimately have "catalog_ok c3" by (rule step) (rule catalog_ok_add(3))
  moreover assume "each_row files ''data/ClassInfo.csv'' add_class c3 = Some c4"
  ultimately have "catalog_ok c4" by (rule step) (rule catalog_ok_add(4))
  moreover assume "each_row files ''data/Recipe.csv'' add_recipe c4 = Some c5"
  ultimately have "catalog_ok c5" by (rule step) (rule catalog_ok_add(5))
  moreover assume "each_row files ''data/PartLinkTable.csv'' add_link c5 = Some c6"
  ultimately have "catalog_ok c6" by (rule step) (rule catalog_ok_add(6))
  moreover assume "each_row files ''data/CustomPartItem.csv'' add_part c6 = Some c7"
  ultimately have "catalog_ok c7" by (rule step) (rule catalog_ok_add(7))
  moreover assume "each_row files ''data/FunctionItem.csv'' add_function c7 = Some c"
  ultimately show "catalog_ok c" by (rule step) (rule catalog_ok_add(8))
qed

lemma Accepts_add_link:
  "Accepts (add_link r c) w p \<longleftrightarrow>
    Accepts c w p \<or> (w = record_u32 r ''WeaponIndex'' \<and> p = record_u32 r ''PartIndex'')"
  by (auto simp: Accepts_def add_link_def Let_def update_conv' split: option.splits)

lemma Accepts_fold:
  "Accepts (fold add_link rs c) w p \<longleftrightarrow>
    Accepts c w p \<or> (\<exists>r \<in> set rs. w = record_u32 r ''WeaponIndex'' \<and> p = record_u32 r ''PartIndex'')"
  by (induction rs arbitrary: c) (auto simp: Accepts_add_link)

lemma PartsFor_other [simp]:
  "PartsFor (add_item r c) = PartsFor c" "PartsFor (add_map r c) = PartsFor c"
  "PartsFor (add_reward r c) = PartsFor c" "PartsFor (add_class r c) = PartsFor c"
  "PartsFor (add_recipe r c) = PartsFor c" "PartsFor (add_part r c) = PartsFor c"
  "PartsFor (add_function r c) = PartsFor c"
  by (simp_all add: add_item_def add_map_def add_reward_def add_class_def add_recipe_def
      add_part_def add_function_def Let_def)

lemma PartsFor_kept:
  "(\<And>r c. PartsFor (fn r c) = PartsFor c) \<Longrightarrow> each_row files name fn c = Some c' \<Longrightarrow> PartsFor c' = PartsFor c"
  by (rule each_row_invariant [where P = "\<lambda>x. PartsFor x = PartsFor c" and c = c and fn = fn]) simp_all

lemma Accepts_cong: "PartsFor c = PartsFor d \<Longrightarrow> Accepts c w p = Accepts d w p"
  by (simp add: Accepts_def)

lemma Load_Accepts:
  assumes "Load files = Some c"
  shows "Accepts c w p \<longleftrightarrow> (\<exists>r \<in> set (rows_of files ''data/PartLinkTable.csv'').
    w = record_u32 r ''WeaponIndex'' \<and> p = record_u32 r ''PartIndex'')"
  using assms
proof (rule Load_steps)
  fix c1 c2 c3 c4 c5 c6 c7
  assume s: "each_row files ''data/GameItem.csv'' add_item empty_catalog = Some c1"
    "each_row files ''data/MapInfo.csv'' add_map c1 = Some c2"
    "each_row files ''data/RewardItem.csv'' add_reward c2 = Some c3"
    "each_row files ''data/ClassInfo.csv'' add_class c3 = Some c4"
    "each_row files ''data/Recipe.csv'' add_recipe c4 = Some c5"
    and link: "each_row files ''data/PartLinkTable.csv'' add_link c5 = Some c6"
    and after: "each_row files ''data/CustomPartItem.csv'' add_part c6 = Some c7"
    "each_row files ''data/FunctionItem.csv'' add_function c7 = Some c"
  have "PartsFor c5 = PartsFor empty_catalog"
    using s [THEN PartsFor_kept [rotated]] by simp
  then have none: "\<not> Accepts c5 w p" by (simp add: Accepts_def empty_catalog_def)
  have "PartsFor c = PartsFor c6" using after [THEN PartsFor_kept [rotated]] by simp
  then have "Accepts c w p = Accepts c6 w p" by (rule Accepts_cong)
  also have "\<dots> = Accepts (fold add_link (rows_of files ''data/PartLinkTable.csv'') c5) w p"
    using each_row_fold [OF link] by simp
  finally show ?thesis using none by (simp add: Accepts_fold)
qed

lemma OpenMaps_set:
  "catalog_ok c \<Longrightarrow> set (OpenMaps c) = {info. map_of (Maps c) (m_MapIndex info) = Some info \<and> m_MapName info \<in> set installedOpenMaps}"
proof -
  assume "catalog_ok c"
  then have d: "distinct (map fst (Maps c))" and k: "\<And>k i. (k, i) \<in> set (Maps c) \<Longrightarrow> m_MapIndex i = k"
    unfolding catalog_ok_def keyed_by_def by blast+
  have "info \<in> set (map snd (Maps c)) \<longleftrightarrow> (m_MapIndex info, info) \<in> set (Maps c)" for info
  proof
    assume "info \<in> set (map snd (Maps c))"
    then obtain j where j: "(j, info) \<in> set (Maps c)" by auto
    with k [OF j] show "(m_MapIndex info, info) \<in> set (Maps c)" by (simp only:)
  next
    assume "(m_MapIndex info, info) \<in> set (Maps c)"
    then have "snd (m_MapIndex info, info) \<in> snd ` set (Maps c)" by (rule imageI)
    then show "info \<in> set (map snd (Maps c))" by (simp only: set_map snd_conv)
  qed
  then show ?thesis
    unfolding OpenMaps_def map_of_eq_Some_iff [OF d] set_sort set_filter by presburger
qed

lemma OpenMaps_sorted:
  assumes "catalog_ok c"
  shows "sorted_wrt (\<lambda>a b. m_MapIndex a < m_MapIndex b) (OpenMaps c)"
proof -
  have "map m_MapIndex (map snd (Maps c)) = map fst (Maps c)"
    using assms by (auto simp: catalog_ok_def keyed_by_def)
  then have "distinct (map m_MapIndex (map snd (Maps c)))"
    using assms unfolding catalog_ok_def keyed_by_def by metis
  then have "distinct (map m_MapIndex (filter (\<lambda>info. m_MapName info \<in> set installedOpenMaps) (map snd (Maps c))))"
    by (rule distinct_map_filter)
  then have "distinct (map m_MapIndex (OpenMaps c))"
    by (simp add: OpenMaps_def distinct_map) 
  moreover have "sorted (map m_MapIndex (OpenMaps c))" by (simp add: OpenMaps_def)
  ultimately have "sorted_wrt (<) (map m_MapIndex (OpenMaps c))" by (simp add: strict_sorted_iff)
  then show ?thesis by (simp add: sorted_wrt_map)
qed

end
