(* ===== verification/Room.thy ===== *)
theory Room
  imports Wire Store Catalog
begin

text \<open>
  Rooms (proudnet/room.go, game_round.go): the room record with its seats, the operations on it, the
  score of a match, and the rows that describe a room to clients. The operations run under the
  room's lock, so each is one function on the record; a room is mutated in place by the code, which
  here returns the new record.
\<close>

section \<open>Data\<close>

record Score =
  sc_Kills :: u16
  sc_Deaths :: u16
  sc_Assists :: u16
  sc_Points :: u16

definition zero_score :: Score where
  "zero_score = \<lparr>sc_Kills = 0, sc_Deaths = 0, sc_Assists = 0, sc_Points = 0\<rparr>"

record RoomUser =
  ru_ID :: u32
  ru_Name :: string
  ru_Level :: u8
  ru_Team :: u8
  ru_WireState :: u8
  ru_SteamID :: string
  ru_ClanName :: string
  ru_Clan :: Clan
  ru_Score :: Score

record Room =
  rm_Number :: u16
  rm_Title :: string
  rm_Password :: string
  rm_MapIndex :: u32
  rm_MapName :: string
  rm_Host :: string
  rm_MaxUsers :: u8
  rm_DisplayModeIndex :: u8
  rm_ObjectiveLimit :: u8
  rm_RoundLimit :: u8
  rm_RoomType :: u8
  rm_Public :: bool
  rm_State :: u8
  rm_TeamBalance :: bool
  rm_Instruction :: bool
  rm_DeathChat :: bool
  rm_PerkUse :: bool
  rm_ThirdViewUse :: bool
  rm_LeaderID :: u32
  rm_Users :: "RoomUser list"
  rm_Ready :: bool
  rm_Round :: u8

definition wireStateWait :: u8 where "wireStateWait = 0"
definition wireStateReady :: u8 where "wireStateReady = 2"

text \<open>The zero values of \<open>models.Clan\<close> and of a room.\<close>

definition zero_clan :: Clan where
  "zero_clan = \<lparr>c_Name = [], c_Mark = (0, 0, 0), c_MarkExtra = 0, c_Level = 0, c_MemberCapacity = 0,
     c_Master = [], c_Members = [], c_Applicants = [], c_Records = no_clan_record, c_CreatedAt = zero_time\<rparr>"

definition zero_room :: Room where
  "zero_room = \<lparr>rm_Number = 0, rm_Title = [], rm_Password = [], rm_MapIndex = 0, rm_MapName = [], rm_Host = [],
     rm_MaxUsers = 0, rm_DisplayModeIndex = 0, rm_ObjectiveLimit = 0, rm_RoundLimit = 0, rm_RoomType = 0,
     rm_Public = False, rm_State = 0, rm_TeamBalance = False, rm_Instruction = False, rm_DeathChat = False,
     rm_PerkUse = False, rm_ThirdViewUse = False, rm_LeaderID = 0, rm_Users = [], rm_Ready = False, rm_Round = 0\<rparr>"

section \<open>Seats\<close>

definition Room_Member :: "Room \<Rightarrow> u32 \<Rightarrow> RoomUser option" where
  "Room_Member r i = lookup_by ru_ID i (rm_Users r)"

definition Members :: "Room \<Rightarrow> RoomUser list" where
  "Members r = rm_Users r"

definition Room_IsFull :: "Room \<Rightarrow> bool" where
  "Room_IsFull r \<longleftrightarrow> length (rm_Users r) \<ge> unat (rm_MaxUsers r)"

definition AddUser :: "Room \<Rightarrow> RoomUser \<Rightarrow> RoomUser option \<times> Room" where
  "AddUser r user =
     (if length (rm_Users r) \<ge> unat (rm_MaxUsers r) then (None, r)
      else (let user = user\<lparr>ru_ID := highest_by ru_ID 0 (rm_Users r) + 1\<rparr>
            in (Some user, r\<lparr>rm_Users := rm_Users r @ [user]\<rparr>)))"

text \<open>The removed seat, whether the room is empty afterwards, and the room.\<close>

definition RemoveUser :: "Room \<Rightarrow> u32 \<Rightarrow> (RoomUser option \<times> bool) \<times> Room" where
  "RemoveUser r i =
     (case lookup_by ru_ID i (rm_Users r) of
        None \<Rightarrow> ((None, rm_Users r = []), r)
      | Some user \<Rightarrow>
          (let r = r\<lparr>rm_Users := remove_by ru_ID i (rm_Users r)\<rparr>
           in ((Some user, rm_Users r = []), r)))"

definition allReadyLocked :: "Room \<Rightarrow> bool" where
  "allReadyLocked r \<longleftrightarrow>
     list_all (\<lambda>user. ru_ID user = rm_LeaderID r \<or> ru_WireState user = wireStateReady) (rm_Users r)"

definition toggled :: "RoomUser \<Rightarrow> RoomUser" where
  "toggled user = user\<lparr>ru_WireState := if ru_WireState user = wireStateReady then wireStateWait else wireStateReady\<rparr>"

definition ToggleReady :: "Room \<Rightarrow> u32 \<Rightarrow> u8 option \<times> Room" where
  "ToggleReady r i =
     (case lookup_by ru_ID i (rm_Users r) of
        None \<Rightarrow> (None, r)
      | Some user \<Rightarrow>
          (let r = r\<lparr>rm_Users := update_by ru_ID i toggled (rm_Users r)\<rparr>
           in (Some (ru_WireState (toggled user)), r\<lparr>rm_Ready := allReadyLocked r\<rparr>)))"

definition NextTeam :: "Room \<Rightarrow> u8" where
  "NextTeam r = (if count_by ru_Team 1 (rm_Users r) * 2 \<le> length (rm_Users r) then 1 else 2)"

section \<open>Rounds and score\<close>

definition NextRound :: "Room \<Rightarrow> u8 \<times> Room" where
  "NextRound r = (let r = (if rm_Round r = 0 then r\<lparr>rm_Round := 1\<rparr> else r) in (rm_Round r, r))"

definition FinishRound :: "Room \<Rightarrow> (u8 \<times> bool) \<times> Room" where
  "FinishRound r =
     (let r = (if rm_Round r = 0 then r\<lparr>rm_Round := 1\<rparr> else r); played = rm_Round r
      in if rm_RoundLimit r \<noteq> 0 \<and> played \<ge> rm_RoundLimit r then ((played, True), r)
         else ((played, False), r\<lparr>rm_Round := played + 1\<rparr>))"

definition scored :: "u32 \<Rightarrow> u32 \<Rightarrow> u32 \<Rightarrow> RoomUser \<Rightarrow> RoomUser" where
  "scored killer victim assist user =
     (let i = ru_ID user; s = ru_Score user in
      if i = victim then user\<lparr>ru_Score := s\<lparr>sc_Deaths := sc_Deaths s + 1\<rparr>\<rparr>
      else if i = killer \<and> killer \<noteq> victim then user\<lparr>ru_Score := s\<lparr>sc_Kills := sc_Kills s + 1\<rparr>\<rparr>
      else if i = assist \<and> assist \<noteq> 0 then user\<lparr>ru_Score := s\<lparr>sc_Assists := sc_Assists s + 1\<rparr>\<rparr>
      else user)"

definition RecordDeath :: "Room \<Rightarrow> u32 \<Rightarrow> u32 \<Rightarrow> u32 \<Rightarrow> Room" where
  "RecordDeath r killer victim assist = r\<lparr>rm_Users := map (scored killer victim assist) (rm_Users r)\<rparr>"

text \<open>\<open>totals[user.Team] += user.Score.Kills\<close>, a uint16 per team.\<close>

definition team_kills :: "RoomUser list \<Rightarrow> u8 \<Rightarrow> u16" where
  "team_kills users team = foldl (\<lambda>total user. if ru_Team user = team then total + sc_Kills (ru_Score user) else total) 0 users"

definition winningTeam :: "RoomUser list \<Rightarrow> byte" where
  "winningTeam users =
     (if team_kills users 1 > team_kills users 2 then 1
      else if team_kills users 2 > team_kills users 1 then 2 else 0)"

text \<open>The position of a seat counted from 1, as a byte; 1 when it is not there.\<close>

fun seat_from :: "nat \<Rightarrow> RoomUser list \<Rightarrow> u32 \<Rightarrow> u8" where
  "seat_from n [] i = 1"
| "seat_from n (user # users) i = (if ru_ID user = i then of_nat (n + 1) else seat_from (n + 1) users i)"

definition seatIndex :: "RoomUser list \<Rightarrow> u32 \<Rightarrow> u8" where
  "seatIndex users i = seat_from 0 users i"

section \<open>Rows\<close>

definition clamp16 :: "i32 \<Rightarrow> u16" where
  "clamp16 v = (let v = (if sint v < 0 then 0 else v); v = (if sint v > 0xFFFF then 0xFFFF else v) in ucast v)"

definition appendClanMark :: "byte list \<Rightarrow> Clan \<Rightarrow> byte list" where
  "appendClanMark dst clan =
     (case c_Mark clan of (a, b, c) \<Rightarrow>
        appendUint16 (appendUint16 (appendUint16 (appendUint16 dst (clamp16 a)) (clamp16 b)) (clamp16 c)) (c_MarkExtra clan))"

definition openMapInfo :: "Room \<Rightarrow> byte list" where
  "openMapInfo r = appendUint16 [] (ucast (rm_MapIndex r)) @ [1]"

definition roomMapInfo :: "Room \<Rightarrow> byte list" where
  "roomMapInfo r = appendUint16 [] (ucast (rm_MapIndex r)) @ [rm_DisplayModeIndex r, rm_RoundLimit r, rm_ObjectiveLimit r]"

definition roomInfo :: "Room \<Rightarrow> byte list" where
  "roomInfo r =
     (let users = Members r;
          body = appendUint16 [] (rm_Number r);
          body = WriteProudString body (rm_Title r);
          body = WriteProudString body (rm_Password r);
          body = WriteProudString body (rm_MapName r);
          body = appendUint32 body (rm_LeaderID r);
          body = body @ roomMapInfo r
      in body @ [clampByte (int (length users)), rm_MaxUsers r, rm_RoomType r, boolByte (rm_Public r), rm_State r,
           boolByte (rm_TeamBalance r), boolByte (rm_Instruction r), boolByte (rm_DeathChat r),
           boolByte (rm_PerkUse r), boolByte (rm_ThirdViewUse r)])"

definition appendRoomUser :: "byte list \<Rightarrow> RoomUser \<Rightarrow> byte list" where
  "appendRoomUser dst user =
     (let dst = appendUint32 dst (ru_ID user);
          dst = WriteProudString dst (ru_Name user);
          dst = WriteProudString dst (ru_ClanName user);
          dst = appendClanMark dst (ru_Clan user)
      in dst @ [ru_Level user, ru_Team user, ru_WireState user, boolByte (ru_ClanName user \<noteq> [])])"

definition roomUserList :: "RoomUser list \<Rightarrow> byte list" where
  "roomUserList users = foldl appendRoomUser (EncodeVarInt (int (length users))) users"

definition teamList :: "RoomUser list \<Rightarrow> byte list" where
  "teamList users =
     foldl (\<lambda>body user. appendUint32 body (ru_ID user) @ [ru_Team user]) (EncodeVarInt (int (length users))) users"

definition roomInvite :: "Room \<Rightarrow> byte list" where
  "roomInvite r = WriteProudString ((appendUint16 [] (rm_Number r) @ [0]) @ roomMapInfo r) (rm_Title r) @ [1, 0]"

definition notifyDeathRow :: "byte list \<Rightarrow> byte list option" where
  "notifyDeathRow report = those (map (at_index report) [0, 1, 2, 7, 8, 9])"

definition appendUserResult :: "byte list \<Rightarrow> u8 \<Rightarrow> RoomUser \<Rightarrow> byte list" where
  "appendUserResult dst seat user =
     (let s = ru_Score user
      in foldl appendUint16 (dst @ [seat, ru_Team user]) [sc_Deaths s, sc_Assists s, sc_Kills s, sc_Points s, 0]
           @ replicate 7 0)"

text \<open>\<open>for index, user := range users { body = append(body, uint8(index+1), user) }\<close>\<close>

fun append_seats :: "(byte list \<Rightarrow> u8 \<Rightarrow> RoomUser \<Rightarrow> byte list) \<Rightarrow> nat \<Rightarrow> byte list \<Rightarrow> RoomUser list \<Rightarrow> byte list" where
  "append_seats row n body [] = body"
| "append_seats row n body (user # users) = append_seats row (n + 1) (row body (of_nat (n + 1)) user) users"

definition userResultList :: "RoomUser list \<Rightarrow> byte list" where
  "userResultList users = append_seats appendUserResult 0 (EncodeVarInt (int (length users))) users"

definition appendGameUserScore :: "byte list \<Rightarrow> Score \<Rightarrow> byte list" where
  "appendGameUserScore dst score = foldl appendUint16 dst [sc_Kills score, sc_Deaths score, sc_Assists score, sc_Points score]"

definition appendGameUser :: "byte list \<Rightarrow> u8 \<Rightarrow> RoomUser \<Rightarrow> byte list" where
  "appendGameUser dst seat user =
     (let dst = WriteProudString (WriteProudString (dst @ [seat]) (ru_Name user)) (ru_ClanName user);
          dst = appendClanMark dst (ru_Clan user) @ [boolByte (ru_ClanName user \<noteq> []), ru_Team user]
      in appendGameUserScore dst (ru_Score user) @ [0, 0])"

definition gameUserList :: "RoomUser list \<Rightarrow> byte list" where
  "gameUserList users = append_seats appendGameUser 0 (EncodeVarInt (int (length users))) users"

section \<open>Creating a room\<close>

text \<open>
  Errors of request handlers; the text is the constant part of the code's message. The last two are no
  errors of the code: \<open>NeverReturns\<close> marks a request whose handler loops forever, and \<open>Panic\<close> one whose
  handler indexes a slice or an array out of range. Nothing in the server recovers from a panic, so
  that request would end the process.
\<close>

datatype handler_error =
    HandlerError string
  | WireFailure wire_error
  | ServiceFailure go_error
  | SendFailed
  | NeverReturns
  | Panic

definition levelByte :: "Player \<Rightarrow> byte" where
  "levelByte p = (if p_Level p = 0 then 1 else if p_Level p > 0xFF then 0xFF else ucast (p_Level p))"

definition new_user :: "Player \<Rightarrow> u8 \<Rightarrow> RoomUser" where
  "new_user player team = \<lparr>ru_ID = 0, ru_Name = p_Name player, ru_Level = levelByte player, ru_Team = team,
     ru_WireState = 0, ru_SteamID = p_SteamID player, ru_ClanName = p_ClanName player, ru_Clan = zero_clan,
     ru_Score = zero_score\<rparr>"

definition need :: "'a option \<Rightarrow> ('a \<Rightarrow> handler_error + 'b) \<Rightarrow> handler_error + 'b" where
  "need access k = (case access of None \<Rightarrow> Inl Panic | Some a \<Rightarrow> k a)"

lemma need_simps [simp]: "need (Some a) k = k a" "need None k = Inl Panic"
  by (simp_all add: need_def)

definition parseCreate :: "Catalog \<Rightarrow> byte list \<Rightarrow> Player \<Rightarrow> handler_error + Room" where
  "parseCreate c body player =
     (case ReadProudString body 0 of
        Inl e \<Rightarrow> Inl (WireFailure e)
      | Inr (title, next) \<Rightarrow>
     (case ReadProudString body next of
        Inl e \<Rightarrow> Inl (WireFailure e)
      | Inr (password, next) \<Rightarrow>
          (let fixed = drop next body in
           if length fixed < 13 then Inl (HandlerError ''room create fixed block too short'')
           else
             need (at_index fixed 2) (\<lambda>users. need (read16 fixed 0) (\<lambda>index.
             need (at_index fixed 3) (\<lambda>display. need (at_index fixed 4) (\<lambda>objective. need (at_index fixed 5) (\<lambda>rounds.
             need (at_index fixed 8) (\<lambda>public. need (at_index fixed 9) (\<lambda>state. need (at_index fixed 10) (\<lambda>balance.
             need (at_index fixed 11) (\<lambda>instruction. need (at_index fixed 12) (\<lambda>deathChat.
                (let maxUsers = (if users = 0 then 16 else users);
                     mapIndex = ucast index;
                     room = zero_room\<lparr>rm_Title := title, rm_Password := password, rm_MapIndex := mapIndex,
                       rm_MapName := (case map_of (Maps c) mapIndex of None \<Rightarrow> [] | Some info \<Rightarrow> m_MapName info),
                       rm_MaxUsers := maxUsers, rm_DisplayModeIndex := display, rm_ObjectiveLimit := objective,
                       rm_RoundLimit := rounds, rm_Public := (public \<noteq> 0), rm_State := state,
                       rm_TeamBalance := (balance \<noteq> 0), rm_Instruction := (instruction \<noteq> 0),
                       rm_DeathChat := (deathChat \<noteq> 0)\<rparr>
                 in case AddUser room (new_user player 1) of
                      (None, _) \<Rightarrow> Inl (HandlerError ''room created with no room for its own creator'')
                    | (Some leader, room) \<Rightarrow> Inr (room\<lparr>rm_LeaderID := ru_ID leader\<rparr>)))))))))))))))"

lemma parseCreate_reads:
  "parseCreate c body player \<noteq> Inl Panic"
  "parseCreate c body player = Inr room \<Longrightarrow> rm_Users room \<noteq> []"
  by (auto simp: parseCreate_def in_bounds Let_def AddUser_def split: sum.splits prod.splits option.splits if_splits)

section \<open>The seats of a room\<close>

text \<open>A room never seats more users than it allows, and a seat is known by one nonzero id.\<close>

definition room_ok :: "Room \<Rightarrow> bool" where
  "room_ok r \<longleftrightarrow> length (rm_Users r) \<le> unat (rm_MaxUsers r) \<and> distinct (map ru_ID (rm_Users r)) \<and>
     0 \<notin> ru_ID ` set (rm_Users r)"

definition seat_ids :: "Room \<Rightarrow> u32 set" where
  "seat_ids r = ru_ID ` set (rm_Users r)"

definition top_seat :: "Room \<Rightarrow> u32" where
  "top_seat r = highest_by ru_ID 0 (rm_Users r)"

definition next_seat :: "Room \<Rightarrow> u32" where
  "next_seat r = highest_by ru_ID 0 (rm_Users r) + 1"

interpretation seats: id_allocator seat_ids top_seat next_seat
proof
  fix i :: u32 and r :: Room
  assume "i \<in> seat_ids r"
  then show "i \<le> top_seat r"
    using highest_by_ge [of 0 ru_ID "rm_Users r"] by (auto simp: seat_ids_def top_seat_def)
qed (simp add: next_seat_def top_seat_def)

lemma AddUser_cases:
  fixes r :: Room and user :: RoomUser
  obtains (full) "Room_IsFull r" "AddUser r user = (None, r)"
  | (seated) "\<not> Room_IsFull r" "AddUser r user = (Some (user\<lparr>ru_ID := next_seat r\<rparr>),
      r\<lparr>rm_Users := rm_Users r @ [user\<lparr>ru_ID := next_seat r\<rparr>]\<rparr>)"
  by (cases "Room_IsFull r") (auto simp: AddUser_def Room_IsFull_def next_seat_def Let_def)

lemma room_ok_AddUser:
  assumes "room_ok r" and "top_seat r \<noteq> - 1"
  shows "room_ok (snd (AddUser r user))"
proof (cases rule: AddUser_cases [where r = r and user = user])
  case seated
  then show ?thesis
    using assms(1) seats.next_fresh [OF assms(2)] seats.next_nonzero [OF assms(2)]
    by (auto simp: room_ok_def seat_ids_def Room_IsFull_def)
qed (use assms in simp)

lemma RemoveUser_room: "snd (RemoveUser r i) = r\<lparr>rm_Users := remove_by ru_ID i (rm_Users r)\<rparr>"
  by (auto simp: RemoveUser_def Let_def keyed split: option.split)

lemma RemoveUser_empty: "snd (fst (RemoveUser r i)) \<longleftrightarrow> rm_Users (snd (RemoveUser r i)) = []"
  by (auto simp: RemoveUser_def Let_def split: option.split)

lemma room_ok_RemoveUser: "room_ok r \<Longrightarrow> room_ok (snd (RemoveUser r i))"
  using set_remove_by_subset [of ru_ID i "rm_Users r"] length_remove_by [of ru_ID i "rm_Users r"]
  by (auto simp: RemoveUser_room room_ok_def remove_by_distinct_map dest: subsetD)

lemma toggled_id [simp]: "ru_ID (toggled user) = ru_ID user"
  by (simp add: toggled_def)

lemma update_images: "(\<And>x. g (f x) = g x) \<Longrightarrow> g ` set (update_by key k f xs) = g ` set xs"
  by (simp add: map_update_by flip: set_map)

lemma room_ok_ToggleReady: "room_ok r \<Longrightarrow> room_ok (snd (ToggleReady r i))"
  by (auto simp: ToggleReady_def room_ok_def map_update_by update_images Let_def split: option.split)

lemma scored_id [simp]: "ru_ID (scored k v a user) = ru_ID user" "ru_Team (scored k v a user) = ru_Team user"
  by (simp_all add: scored_def Let_def)

lemma room_ok_RecordDeath: "room_ok r \<Longrightarrow> room_ok (RecordDeath r k v a)"
  by (simp add: room_ok_def RecordDeath_def image_image comp_def)

lemma room_ok_rounds: "room_ok r \<Longrightarrow> room_ok (snd (NextRound r))" "room_ok r \<Longrightarrow> room_ok (snd (FinishRound r))"
  by (simp_all add: room_ok_def NextRound_def FinishRound_def Let_def)

end
