(* ===== verification/Registries.thy ===== *)
theory Registries
  imports Room
begin

text \<open>
  The indexes the handlers share (room_registry.go, session_registry.go, identity.go,
  game_session.go): open rooms by number, connections by account, login tokens, match tickets and
  the connections in a match. Rooms and connections are shared pointers in the code; here they are
  numbers, and the maps are association lists. Each operation runs under its registry's lock.
\<close>

type_synonym room_ref = nat
type_synonym conn = nat

section \<open>Rooms by number (room_registry.go)\<close>

record RoomRegistry =
  rr_rooms :: "(u16 \<times> room_ref) list"
  rr_lastRoom :: u16

definition new_room_registry :: RoomRegistry where
  "new_room_registry = \<lparr>rr_rooms = [], rr_lastRoom = 0\<rparr>"

text \<open>\<open>r.lastRoom++; if r.lastRoom == 0 { r.lastRoom = 1 }\<close>, until a number is free.\<close>

definition following :: "u16 \<Rightarrow> u16" where
  "following n = (if n + 1 = 0 then 1 else n + 1)"

partial_function (option) free_number :: "(u16 \<times> room_ref) list \<Rightarrow> u16 \<Rightarrow> u16 option" where
  "free_number rooms lastRoom =
     (let n = following lastRoom
      in if map_of rooms n \<noteq> None then free_number rooms n else Some n)"

declare free_number.simps [code]

text \<open>
  The number given to the room and the registry; \<open>None\<close> when the loop never ends. The caller writes
  the number into the room.
\<close>

definition Open :: "room_ref \<Rightarrow> RoomRegistry \<Rightarrow> (u16 \<times> RoomRegistry) option" where
  "Open room r =
     (case free_number (rr_rooms r) (rr_lastRoom r) of
        None \<Rightarrow> None
      | Some n \<Rightarrow> Some (n, r\<lparr>rr_lastRoom := n, rr_rooms := AList.update n room (rr_rooms r)\<rparr>))"

definition RoomRegistry_Find :: "u16 \<Rightarrow> RoomRegistry \<Rightarrow> room_ref option" where
  "RoomRegistry_Find n r = map_of (rr_rooms r) n"

definition Close :: "u16 \<Rightarrow> RoomRegistry \<Rightarrow> RoomRegistry" where
  "Close n r = r\<lparr>rr_rooms := AList.delete n (rr_rooms r)\<rparr>"

text \<open>\<open>sort.Slice\<close> by number; \<open>number\<close> reads it off the room.\<close>

definition RoomRegistry_List :: "(room_ref \<Rightarrow> u16) \<Rightarrow> RoomRegistry \<Rightarrow> room_ref list" where
  "RoomRegistry_List number r = sort_key number (map snd (rr_rooms r))"

subsection \<open>A free number is found whenever there is one\<close>

lemma following_nonzero: "following n \<noteq> 0"
  by (simp add: following_def)

lemma following_unat: "unat (following n) = (if unat n = 65535 then 1 else unat n + 1)"
proof -
  have s: "unat (n + 1) = (unat n + 1) mod 65536" by (simp add: unat_word_ariths)
  have "unat n < 2 ^ LENGTH(16)" by (rule unsigned_less)
  then have "unat n < 65536" by simp
  moreover have "n + 1 = 0 \<longleftrightarrow> unat (n + 1) = 0" by (simp only: unat_eq_zero)
  ultimately show ?thesis using s by (cases "unat n = 65535") (auto simp: following_def)
qed

text \<open>How many steps the counter takes from one value to another.\<close>

definition steps_to :: "u16 \<Rightarrow> u16 \<Rightarrow> nat" where
  "steps_to target n = (if unat n < unat target then unat target - unat n else 65535 - unat n + unat target)"

lemma steps_to_following:
  assumes "target \<noteq> 0" and "following n \<noteq> target"
  shows "steps_to target (following n) < steps_to target n"
proof -
  have "unat n < 2 ^ LENGTH(16)" "unat target < 2 ^ LENGTH(16)" by (rule unsigned_less)+
  then have "unat n < 65536" "unat target < 65536" by simp_all
  moreover have "unat target \<noteq> 0" using assms(1) by (metis unat_0_iff)
  moreover have "unat (following n) \<noteq> unat target" using assms(2) by (metis word_unat_eq_iff)
  ultimately show ?thesis by (auto simp: steps_to_def following_unat split: if_splits)
qed

lemma free_number_total:
  assumes "target \<noteq> 0" and "map_of rooms target = None"
  shows "\<exists>k. free_number rooms n = Some k \<and> k \<noteq> 0 \<and> map_of rooms k = None"
proof (induction "steps_to target n" arbitrary: n rule: less_induct)
  case less
  show ?case
  proof (cases "map_of rooms (following n)")
    case None
    then show ?thesis using following_nonzero by (simp add: free_number.simps [of rooms n])
  next
    case (Some r)
    then have "following n \<noteq> target" using assms(2) by auto
    from less [OF steps_to_following [OF assms(1) this]] Some show ?thesis
      by (simp add: free_number.simps [of rooms n])
  qed
qed

lemma free_number_result:
  assumes "free_number rooms n = Some k"
  shows "k \<noteq> 0 \<and> map_of rooms k = None"
proof (rule free_number.raw_induct [where P = "\<lambda>rooms n k. k \<noteq> 0 \<and> map_of rooms k = None", OF _ assms])
  fix f :: "(u16 \<times> room_ref) list \<Rightarrow> u16 \<Rightarrow> u16 option" and rooms n k
  assume "\<And>rooms n k. f rooms n = Some k \<Longrightarrow> k \<noteq> 0 \<and> map_of rooms k = None"
    and "(let n = following n in if map_of rooms n \<noteq> None then f rooms n else Some n) = Some k"
  then show "k \<noteq> 0 \<and> map_of rooms k = None"
    using following_nonzero [of n] by (cases "map_of rooms (following n)") (auto simp: Let_def)
qed

text \<open>When every number is taken the loop never ends; it holds the registry's lock.\<close>

lemma free_number_none:
  assumes "\<And>k. k \<noteq> 0 \<Longrightarrow> map_of rooms k \<noteq> None"
  shows "free_number rooms n = None"
proof (rule ccontr)
  assume "free_number rooms n \<noteq> None"
  then obtain k where "free_number rooms n = Some k" by blast
  then show False using free_number_result assms by blast
qed

section \<open>Connections by account (session_registry.go)\<close>

record SessionRegistry =
  sr_bySteamID :: "(string \<times> conn list) list"
  sr_bySessionID :: "(conn \<times> string) list"

definition new_session_registry :: SessionRegistry where
  "new_session_registry = \<lparr>sr_bySteamID = [], sr_bySessionID = []\<rparr>"

definition conns_of :: "SessionRegistry \<Rightarrow> string \<Rightarrow> conn list" where
  "conns_of r steamID = (case map_of (sr_bySteamID r) steamID of None \<Rightarrow> [] | Some cs \<Rightarrow> cs)"

definition removeLocked :: "string \<Rightarrow> conn \<Rightarrow> SessionRegistry \<Rightarrow> SessionRegistry" where
  "removeLocked steamID session r =
     (let r = r\<lparr>sr_bySessionID := AList.delete session (sr_bySessionID r)\<rparr>;
          rest = removeAll session (conns_of r steamID)
      in if rest = [] then r\<lparr>sr_bySteamID := AList.delete steamID (sr_bySteamID r)\<rparr>
         else r\<lparr>sr_bySteamID := AList.update steamID rest (sr_bySteamID r)\<rparr>)"

definition Bind :: "string \<Rightarrow> conn \<Rightarrow> SessionRegistry \<Rightarrow> SessionRegistry" where
  "Bind steamID session r =
     (if steamID = [] then r
      else (let r = (case map_of (sr_bySessionID r) session of
                       None \<Rightarrow> r | Some previous \<Rightarrow> removeLocked previous session r);
                sessions = List.insert session (conns_of r steamID)
            in r\<lparr>sr_bySteamID := AList.update steamID sessions (sr_bySteamID r),
                 sr_bySessionID := AList.update session steamID (sr_bySessionID r)\<rparr>))"

definition Unbind :: "conn \<Rightarrow> SessionRegistry \<Rightarrow> SessionRegistry" where
  "Unbind session r =
     (case map_of (sr_bySessionID r) session of None \<Rightarrow> r | Some steamID \<Rightarrow> removeLocked steamID session r)"

definition Sessions :: "SessionRegistry \<Rightarrow> string \<Rightarrow> conn list" where
  "Sessions r steamID = (if steamID = [] then [] else conns_of r steamID)"

definition IsOnline :: "SessionRegistry \<Rightarrow> string \<Rightarrow> bool" where
  "IsOnline r steamID \<longleftrightarrow> steamID \<noteq> [] \<and> conns_of r steamID \<noteq> []"

definition Online :: "SessionRegistry \<Rightarrow> string list" where
  "Online r = map fst (sr_bySteamID r)"

subsection \<open>The two indexes agree\<close>

text \<open>
  The abstract registry is one map from connections to accounts; the second index lists, for each
  account, exactly the connections mapped to it, each once, and only accounts that have one.
\<close>

definition owner :: "SessionRegistry \<Rightarrow> conn \<Rightarrow> string option" where
  "owner r = map_of (sr_bySessionID r)"

definition registry_ok :: "SessionRegistry \<Rightarrow> bool" where
  "registry_ok r \<longleftrightarrow>
     (\<forall>k. set (conns_of r k) = {s. owner r s = Some k}) \<and>
     (\<forall>k cs. map_of (sr_bySteamID r) k = Some cs \<longrightarrow> cs \<noteq> []) \<and>
     (\<forall>s. owner r s \<noteq> Some []) \<and> distinct (map fst (sr_bySteamID r)) \<and> (\<forall>k. distinct (conns_of r k))"


lemma conns_of_update: "conns_of (r\<lparr>sr_bySteamID := AList.update k cs m\<rparr>) j = (if j = k then cs else (case map_of m j of None \<Rightarrow> [] | Some x \<Rightarrow> x))"
  by (simp add: conns_of_def update_conv')

lemma removeLocked_index:
  "conns_of (removeLocked k s r) j = (if j = k then removeAll s (conns_of r k) else conns_of r j)"
  "owner (removeLocked k s r) = (owner r)(s := None)"
  by (auto simp: removeLocked_def conns_of_def owner_def Let_def update_conv' delete_conv')

lemma removeLocked_ok:
  assumes ok: "registry_ok r" and s: "owner r s = Some k"
  shows "registry_ok (removeLocked k s r)"
proof -
  have sets: "set (conns_of r j) = {x. owner r x = Some j}" for j using ok by (simp add: registry_ok_def)
  have "cs \<noteq> []" if "map_of (sr_bySteamID (removeLocked k s r)) j = Some cs" for j cs
    using that ok by (auto simp: registry_ok_def removeLocked_def Let_def update_conv' delete_conv' split: if_splits)
  moreover have "distinct (map fst (sr_bySteamID (removeLocked k s r)))"
    using ok by (auto simp: registry_ok_def removeLocked_def Let_def distinct_update AList.delete_eq distinct_map_filter)
  moreover have "set (conns_of (removeLocked k s r) j) = {x. owner (removeLocked k s r) x = Some j}" for j
    using s by (auto simp: removeLocked_index sets)
  moreover have "owner (removeLocked k s r) x \<noteq> Some []" for x
    using ok by (simp add: removeLocked_index registry_ok_def)
  moreover have "distinct (conns_of (removeLocked k s r) j)" for j
    using ok by (simp add: removeLocked_index registry_ok_def distinct_removeAll)
  ultimately show ?thesis unfolding registry_ok_def by blast
qed

lemma removeLocked_other:
  assumes "registry_ok r" and "owner r s = Some k"
  shows "owner (removeLocked k s r) s = None"
  by (simp add: removeLocked_index)

definition forget :: "conn \<Rightarrow> SessionRegistry \<Rightarrow> SessionRegistry" where
  "forget s r = (case owner r s of None \<Rightarrow> r | Some k \<Rightarrow> removeLocked k s r)"

lemma forget_index: "owner (forget s r) = (owner r)(s := None)"
  by (auto simp: forget_def removeLocked_index split: option.split)

lemma forget_ok: "registry_ok r \<Longrightarrow> registry_ok (forget s r)"
  by (auto simp: forget_def removeLocked_ok split: option.split)

lemma Unbind_forget: "Unbind = forget"
  by (intro ext) (simp add: Unbind_def forget_def owner_def)

lemma Bind_forget:
  "k \<noteq> [] \<Longrightarrow> Bind k s r = (let r = forget s r in
     r\<lparr>sr_bySteamID := AList.update k (List.insert s (conns_of r k)) (sr_bySteamID r),
       sr_bySessionID := AList.update s k (sr_bySessionID r)\<rparr>)"
  by (simp add: Bind_def forget_def owner_def Let_def)

lemma Bind_index: "k \<noteq> [] \<Longrightarrow> owner (Bind k s r) = (owner r)(s \<mapsto> k)"
  using forget_index [of s r]
  by (simp add: Bind_forget owner_def [of "_\<lparr>sr_bySessionID := _\<rparr>"] Let_def update_conv') (simp add: owner_def)

lemma Bind_ok:
  assumes ok: "registry_ok r"
  shows "registry_ok (Bind k s r)"
proof (cases "k = []")
  case False
  let ?f = "forget s r"
  have f: "registry_ok ?f" using ok by (rule forget_ok)
  then have sets: "set (conns_of ?f j) = {x. owner ?f x = Some j}" for j by (simp add: registry_ok_def)
  have o: "owner (Bind k s r) = (owner ?f)(s \<mapsto> k)" "owner ?f s = None"
    using Bind_index [OF False, of s r] by (simp_all add: forget_index)
  have c: "conns_of (Bind k s r) j = (if j = k then List.insert s (conns_of ?f k) else conns_of ?f j)" for j
    by (simp add: Bind_forget [OF False] Let_def conns_of_def update_conv')
  have "set (conns_of (Bind k s r) j) = {x. owner (Bind k s r) x = Some j}" for j
    using o(2) by (auto simp: c o(1) sets)
  moreover have "cs \<noteq> []" if "map_of (sr_bySteamID (Bind k s r)) j = Some cs" for j cs
  proof (cases "j = k")
    case True
    then have "cs = List.insert s (conns_of ?f k)"
      using that by (simp add: Bind_forget [OF False] Let_def update_conv')
    then have "s \<in> set cs" by simp
    then show ?thesis by auto
  next
    case False
    then have "map_of (sr_bySteamID ?f) j = Some cs"
      using that by (simp add: Bind_forget [OF \<open>k \<noteq> []\<close>] Let_def update_conv')
    then show ?thesis using f by (simp add: registry_ok_def)
  qed
  moreover have "owner (Bind k s r) x \<noteq> Some []" for x
    using f False by (simp add: o(1) registry_ok_def)
  moreover have "distinct (conns_of (Bind k s r) j)" for j
    using f by (simp add: c registry_ok_def)
  moreover have "distinct (map fst (sr_bySteamID (Bind k s r)))"
    using f by (simp add: Bind_forget [OF False] Let_def distinct_update registry_ok_def)
  ultimately show ?thesis unfolding registry_ok_def by blast
qed (use ok in \<open>simp add: Bind_def\<close>)


lemma new_registry_ok: "registry_ok new_session_registry"
  by (simp add: registry_ok_def new_session_registry_def conns_of_def owner_def)

text \<open>
  What chat, friends, clans and the lobby rely on when they address an account: after a login its
  connections are exactly those that were bound to it last.
\<close>

locale session_directory =
  fixes owns :: "'r \<Rightarrow> 's \<Rightarrow> string option"
    and bind :: "string \<Rightarrow> 's \<Rightarrow> 'r \<Rightarrow> 'r"
    and unbind :: "'s \<Rightarrow> 'r \<Rightarrow> 'r"
    and conns :: "'r \<Rightarrow> string \<Rightarrow> 's list"
    and good :: "'r \<Rightarrow> bool"
  assumes owns_bind: "k \<noteq> [] \<Longrightarrow> owns (bind k s r) = (owns r)(s \<mapsto> k)"
    and owns_unbind: "owns (unbind s r) = (owns r)(s := None)"
    and conns_owns: "good r \<Longrightarrow> set (conns r k) = {s. owns r s = Some k}"
    and good_bind: "good r \<Longrightarrow> good (bind k s r)"
    and good_unbind: "good r \<Longrightarrow> good (unbind s r)"
begin

lemma reached_after_bind: "good r \<Longrightarrow> k \<noteq> [] \<Longrightarrow> s \<in> set (conns (bind k s r) k)"
  by (simp add: conns_owns good_bind owns_bind)

lemma moved_by_bind: "good r \<Longrightarrow> k \<noteq> [] \<Longrightarrow> j \<noteq> k \<Longrightarrow> s \<notin> set (conns (bind k s r) j)"
  by (simp add: conns_owns good_bind owns_bind)

lemma gone_after_unbind: "good r \<Longrightarrow> s \<notin> set (conns (unbind s r) k)"
  by (simp add: conns_owns good_unbind owns_unbind)

lemma others_kept: "good r \<Longrightarrow> t \<noteq> s \<Longrightarrow> t \<in> set (conns (unbind s r) k) \<longleftrightarrow> t \<in> set (conns r k)"
  by (simp add: conns_owns good_unbind owns_unbind)

end

lemma Sessions_owner: "registry_ok r \<Longrightarrow> set (Sessions r k) = {s. owner r s = Some k}"
  by (auto simp: Sessions_def registry_ok_def)

interpretation directory: session_directory owner Bind Unbind Sessions registry_ok
  by unfold_locales (simp_all add: Bind_index Unbind_forget forget_index Sessions_owner Bind_ok forget_ok)

section \<open>Login tokens (identity.go)\<close>

type_synonym Credentials = "(string \<times> Player) list"

definition hex_digit :: "byte \<Rightarrow> char" where
  "hex_digit d = ''0123456789abcdef'' ! unat d"

definition hex_encode :: "byte list \<Rightarrow> string" where
  "hex_encode bs = concat (map (\<lambda>b. [hex_digit (drop_bit 4 b), hex_digit (b AND 0xf)]) bs)"

definition Issue :: "byte list \<Rightarrow> Player \<Rightarrow> Credentials \<Rightarrow> Credentials" where
  "Issue token player c = AList.update (hex_encode token) player c"

definition Redeem :: "byte list \<Rightarrow> Credentials \<Rightarrow> Player option" where
  "Redeem token c = map_of c (hex_encode token)"

section \<open>Match tickets (game_session.go)\<close>

record matchTickets =
  mt_next :: u16
  mt_bySeat :: "((u16 \<times> u32) \<times> room_ref) list"

definition newMatchTickets :: matchTickets where
  "newMatchTickets = \<lparr>mt_next = 0, mt_bySeat = []\<rparr>"

definition ticket_issue :: "room_ref \<Rightarrow> u32 \<Rightarrow> matchTickets \<Rightarrow> u16 \<times> matchTickets" where
  "ticket_issue room userID t =
     (let t = t\<lparr>mt_next := mt_next t + 1\<rparr>
      in (mt_next t, t\<lparr>mt_bySeat := AList.update (mt_next t, userID) room (mt_bySeat t)\<rparr>))"

definition ticket_redeem :: "u16 \<Rightarrow> u32 \<Rightarrow> matchTickets \<Rightarrow> room_ref option" where
  "ticket_redeem ticket userID t = map_of (mt_bySeat t) (ticket, userID)"

section \<open>Connections in a match (game_session.go)\<close>

record matchSessions =
  ms_byRoom :: "(u16 \<times> conn list) list"
  ms_loaded :: "conn list"

definition newMatchSessions :: matchSessions where
  "newMatchSessions = \<lparr>ms_byRoom = [], ms_loaded = []\<rparr>"

definition match_in :: "u16 \<Rightarrow> matchSessions \<Rightarrow> conn list" where
  "match_in room m = (case map_of (ms_byRoom m) room of None \<Rightarrow> [] | Some cs \<Rightarrow> cs)"

definition match_join :: "u16 \<Rightarrow> conn \<Rightarrow> matchSessions \<Rightarrow> matchSessions" where
  "match_join room session m = m\<lparr>ms_byRoom := AList.update room (match_in room m @ [session]) (ms_byRoom m)\<rparr>"

definition markLoaded :: "u16 \<Rightarrow> conn \<Rightarrow> matchSessions \<Rightarrow> bool \<times> matchSessions" where
  "markLoaded room session m =
     (let m = m\<lparr>ms_loaded := List.insert session (ms_loaded m)\<rparr>
      in (list_all (\<lambda>member. member \<in> set (ms_loaded m)) (match_in room m), m))"

definition match_leave :: "u16 \<Rightarrow> conn \<Rightarrow> matchSessions \<Rightarrow> matchSessions" where
  "match_leave room session m =
     (let m = m\<lparr>ms_loaded := removeAll session (ms_loaded m)\<rparr>;
          rest = filter (\<lambda>member. member \<noteq> session) (match_in room m)
      in if rest = [] then m\<lparr>ms_byRoom := AList.delete room (ms_byRoom m)\<rparr>
         else m\<lparr>ms_byRoom := AList.update room rest (ms_byRoom m)\<rparr>)"

lemma match_in_join: "match_in n (match_join room s m) = (if n = room then match_in room m @ [s] else match_in n m)"
  by (simp add: match_in_def match_join_def update_conv')

lemma match_in_leave: "match_in n (match_leave room s m) = (if n = room then filter (\<lambda>c. c \<noteq> s) (match_in room m) else match_in n m)"
  by (auto simp: match_in_def match_leave_def Let_def update_conv' delete_conv')

end
