(* ===== verification/Player_Service.thy ===== *)
theory Player_Service
  imports Store Catalog
begin

text \<open>
  The account service (services/player_service.go, consumables.go): login, equipment, shop, crafting
  and consumables over any \<open>PlayerRepository\<close>. Every \<open>time.Now()\<close> of the code is an argument. The
  lemmas are proved once against the \<open>player_store\<close> contract and instantiated for the in-memory
  repository at the end.
\<close>

section \<open>The service\<close>

record 'w PlayerService =
  ps_players :: "'w PlayerRepository"
  ps_catalog :: Catalog
  ps_startingPoint :: u64
  ps_startingCash :: u64

definition duration_seconds :: "int \<Rightarrow> int" where
  "duration_seconds n = wrap64 (n * second)"

definition expiryFor :: "GameItem \<Rightarrow> time \<Rightarrow> time" where
  "expiryFor def now = (if g_UseTime def \<le> 0 then zero_time else now + duration_seconds (g_UseTime def))"

definition placeholderName :: "string \<Rightarrow> string" where
  "placeholderName steamID =
     (if length steamID \<ge> 5 then ''Player'' @ drop (length steamID - 5) steamID else ''Player'' @ steamID)"

text \<open>\<open>newAccount\<close>: the starter items in the catalog, with serials 1, 2, ... in order.\<close>

fun grant_starters :: "Catalog \<Rightarrow> time \<Rightarrow> u32 list \<Rightarrow> u16 \<Rightarrow> Player \<Rightarrow> Player" where
  "grant_starters c now [] serial p = p"
| "grant_starters c now (itemIndex # rest) serial p =
     (case map_of (Items c) itemIndex of
        None \<Rightarrow> grant_starters c now rest serial p
      | Some item \<Rightarrow>
          grant_starters c now rest (serial + 1)
            (p\<lparr>p_Inventory := p_Inventory p @ [\<lparr>i_Serial = serial, i_ItemIndex = itemIndex, i_Value = 1,
                 i_State = 1, i_ItemType = ItemType item, i_InstanceAux = 0, i_ExpiresAt = expiryFor item now\<rparr>],
               p_Loadout := p_Loadout p @ [\<lparr>e_Slot = ItemType item, e_Serial = serial\<rparr>]\<rparr>))"

definition newAccount :: "'w PlayerService \<Rightarrow> time \<Rightarrow> string \<Rightarrow> Player" where
  "newAccount s now steamID =
     grant_starters (ps_catalog s) now StarterItems 1
       (empty_player\<lparr>p_SteamID := steamID, p_Name := placeholderName steamID, p_Level := 1,
          p_Point := ps_startingPoint s, p_Cash := ps_startingCash s\<rparr>)"

section \<open>Login\<close>

text \<open>
  The repair of the character slots: a slot counts as equipped when its loadout entry is an owned
  item of that type; every unequipped character type gets the first owned item of the type.
\<close>

definition equipped_slots :: "Player \<Rightarrow> u8 set" where
  "equipped_slots p = e_Slot ` {e \<in> set (p_Loadout p).
     case Item p (e_Serial e) of None \<Rightarrow> False | Some item \<Rightarrow> i_ItemType item = e_Slot e}"

fun equip_characters :: "InventoryItem list \<Rightarrow> u8 set \<Rightarrow> Loadout \<Rightarrow> bool \<Rightarrow> Loadout \<times> bool" where
  "equip_characters [] equipped l changed = (l, changed)"
| "equip_characters (item # items) equipped l changed =
     (if (i_ItemType item = SlotCharacterATC \<or> i_ItemType item = SlotCharacterTF) \<and> i_ItemType item \<notin> equipped
      then equip_characters items (insert (i_ItemType item) equipped)
             (Loadout_Equip l (i_ItemType item) (i_Serial item)) True
      else equip_characters items equipped l changed)"

definition refresh_login :: "'w PlayerService \<Rightarrow> string \<Rightarrow> time \<Rightarrow> Player \<Rightarrow> (go_error, 'w, Player) io" where
  "refresh_login s steamID now player =
     (let R = ps_players s in
      io_bind (pr_Touch R steamID now) (\<lambda>_.
      let (removed, player) = PurgeExpired (player\<lparr>p_LastLogin := now\<rparr>) now; purged = removed \<noteq> [] in
      io_bind (if purged
               then io_bind (pr_CommitInventory R steamID (p_Inventory player) WalletNone 0)
                      (\<lambda>_. pr_SaveAttachments R steamID (p_Attachments player))
               else io_ret ()) (\<lambda>_.
      let (loadout, changed) =
            equip_characters (p_Inventory player) (equipped_slots player) (p_Loadout player) purged;
          player = player\<lparr>p_Loadout := loadout\<rparr> in
      io_bind (if changed then pr_SaveLoadout R steamID loadout else io_ret ()) (\<lambda>_.
      io_ret player))))"

definition LoginBySteam :: "'w PlayerService \<Rightarrow> string \<Rightarrow> time \<Rightarrow> time \<Rightarrow> (go_error, 'w, Player) io" where
  "LoginBySteam s steamID now now' =
     io_bind (pr_Find (ps_players s) steamID) (\<lambda>found. case found of
       Some player \<Rightarrow> refresh_login s steamID now player
     | None \<Rightarrow>
         (let newPlayer = (newAccount s now' steamID)\<lparr>p_CreatedAt := now, p_LastLogin := now\<rparr> in
          (\<lambda>w. case pr_Create (ps_players s) newPlayer w of
              (Inr _, w') \<Rightarrow> (Inr newPlayer, w')
            | (Inl e, w') \<Rightarrow>
                if e = ErrAlreadyExists
                then io_bind (pr_Find (ps_players s) steamID)
                       (\<lambda>existing. io_ret (case existing of Some p \<Rightarrow> p | None \<Rightarrow> empty_player)) w'
                else (Inl e, w'))))"

definition PlayerService_FindMany :: "'w PlayerService \<Rightarrow> string list \<Rightarrow> (go_error, 'w, (string \<times> Player) list) io" where
  "PlayerService_FindMany s steamIDs = pr_FindMany (ps_players s) steamIDs"

section \<open>Equipment\<close>

text \<open>\<open>Find\<close> followed by \<open>if !found { return ErrPlayerNotFound }\<close>.\<close>

definition require_player :: "'w PlayerRepository \<Rightarrow> string \<Rightarrow> (go_error, 'w, Player) io" where
  "require_player R steamID =
     io_bind (pr_Find R steamID) (\<lambda>found. case found of None \<Rightarrow> io_fail ErrPlayerNotFound | Some p \<Rightarrow> io_ret p)"

definition PlayerService_Equip :: "'w PlayerService \<Rightarrow> string \<Rightarrow> u16 \<Rightarrow> time \<Rightarrow> (go_error, 'w, Player) io" where
  "PlayerService_Equip s steamID serial now =
     io_bind (require_player (ps_players s) steamID) (\<lambda>player.
     case Item player serial of
       None \<Rightarrow> io_fail ErrItemNotOwned
     | Some item \<Rightarrow>
         if IsExpired item now then io_fail ErrItemExpired
         else (let player = player\<lparr>p_Loadout := Loadout_Equip (p_Loadout player) (i_ItemType item) serial\<rparr>
               in io_bind (pr_SaveLoadout (ps_players s) steamID (p_Loadout player)) (\<lambda>_. io_ret player)))"

fun equip_serials :: "Player \<Rightarrow> time \<Rightarrow> u16 list \<Rightarrow> Loadout \<Rightarrow> go_error + Loadout" where
  "equip_serials p now [] loadout = Inr loadout"
| "equip_serials p now (serial # serials) loadout =
     (if serial = 0 then equip_serials p now serials loadout
      else (case Item p serial of
          None \<Rightarrow> Inl ErrItemNotOwned
        | Some item \<Rightarrow>
            if IsExpired item now then Inl ErrItemExpired
            else equip_serials p now serials (Loadout_Equip loadout (i_ItemType item) serial)))"

definition ChangeWeapons :: "'w PlayerService \<Rightarrow> string \<Rightarrow> u16 list \<Rightarrow> time \<Rightarrow> (go_error, 'w, Player) io" where
  "ChangeWeapons s steamID serials now =
     io_bind (require_player (ps_players s) steamID) (\<lambda>player.
     case equip_serials player now serials (p_Loadout player) of
       Inl e \<Rightarrow> io_fail e
     | Inr loadout \<Rightarrow>
         io_bind (pr_SaveLoadout (ps_players s) steamID loadout) (\<lambda>_. io_ret (player\<lparr>p_Loadout := loadout\<rparr>)))"

definition PlayerService_Attach ::
  "'w PlayerService \<Rightarrow> string \<Rightarrow> u16 \<Rightarrow> u16 \<Rightarrow> time \<Rightarrow> (go_error, 'w, Player \<times> InventoryItem) io" where
  "PlayerService_Attach s steamID parentSerial childSerial now =
     io_bind (require_player (ps_players s) steamID) (\<lambda>player.
     case (Item player childSerial, Item player parentSerial) of
       (Some child, Some parent) \<Rightarrow>
         if IsExpired child now then io_fail ErrItemExpired
         else if IsCustomSlot (i_ItemType child) \<and> \<not> Accepts (ps_catalog s) (i_ItemIndex parent) (i_ItemIndex child)
         then io_fail ErrPartNotCompatible
         else (let attachments = Attachments_Attach (p_Attachments player) parentSerial childSerial (i_ItemType child)
               in io_bind (pr_SaveAttachments (ps_players s) steamID attachments)
                    (\<lambda>_. io_ret (player\<lparr>p_Attachments := attachments\<rparr>, child)))
     | _ \<Rightarrow> io_fail ErrItemNotOwned)"

definition PlayerService_Detach ::
  "'w PlayerService \<Rightarrow> string \<Rightarrow> u16 \<Rightarrow> u16 \<Rightarrow> (go_error, 'w, Player \<times> InventoryItem) io" where
  "PlayerService_Detach s steamID parentSerial childSerial =
     io_bind (require_player (ps_players s) steamID) (\<lambda>player.
     case Item player childSerial of
       None \<Rightarrow> io_fail ErrItemNotOwned
     | Some child \<Rightarrow>
         (let attachments = Attachments_Detach (p_Attachments player) parentSerial childSerial
          in io_bind (pr_SaveAttachments (ps_players s) steamID attachments)
               (\<lambda>_. io_ret (player\<lparr>p_Attachments := attachments\<rparr>, child))))"

section \<open>Shop\<close>

record BuyResult =
  b_Player :: Player
  b_Item :: InventoryItem
  b_IsNew :: bool
  b_Wallet :: Wallet
  b_Price :: u64

definition storePrice :: "GameItem \<Rightarrow> Wallet \<times> u64" where
  "storePrice def =
     (let pointPrice = (if g_IsSale def \<and> g_SalePrice def > 0 then g_SalePrice def else g_PointPrice def)
      in if g_CashType def = 1 \<and> g_CashPrice def > 0 then (WalletCash, g_CashPrice def)
         else if g_CashType def \<noteq> 1 \<and> pointPrice > 0 then (WalletPoint, pointPrice)
         else if g_CashPrice def > 0 then (WalletCash, g_CashPrice def)
         else (WalletNone, 0))"

definition new_item :: "Player \<Rightarrow> GameItem \<Rightarrow> u32 \<Rightarrow> time \<Rightarrow> InventoryItem" where
  "new_item player def itemIndex now =
     \<lparr>i_Serial = NextSerial player, i_ItemIndex = itemIndex, i_Value = 1, i_State = 1,
       i_ItemType = ItemType def, i_InstanceAux = 0, i_ExpiresAt = expiryFor def now\<rparr>"

definition extend_rental :: "GameItem \<Rightarrow> time \<Rightarrow> InventoryItem \<Rightarrow> InventoryItem" where
  "extend_rental def now item =
     (let from' = (if i_ExpiresAt item < now then now else i_ExpiresAt item)
      in item\<lparr>i_ExpiresAt := from' + duration_seconds (g_UseTime def)\<rparr>)"

definition add_unit :: "InventoryItem \<Rightarrow> InventoryItem" where
  "add_unit item = item\<lparr>i_Value := i_Value item + 1\<rparr>"

text \<open>The first stack of the item, rewritten in place, or a new item with a free serial.\<close>

definition addToInventory ::
  "Player \<Rightarrow> GameItem \<Rightarrow> u32 \<Rightarrow> time \<Rightarrow> (InventoryItem \<times> bool) \<times> Player" where
  "addToInventory player def itemIndex now =
     (let change = (if g_UseTime def > 0 then Some (extend_rental def now)
                    else if g_IsMerge def then Some add_unit else None)
      in case (change, itemByIndex player itemIndex) of
           (Some f, Some item) \<Rightarrow>
             ((f item, False),
              player\<lparr>p_Inventory := update_by i_ItemIndex itemIndex f (p_Inventory player)\<rparr>)
         | _ \<Rightarrow>
             (let item = new_item player def itemIndex now
              in ((item, True),
                  if i_Serial item \<noteq> 0 then player\<lparr>p_Inventory := p_Inventory player @ [item]\<rparr> else player)))"

definition Buy :: "'w PlayerService \<Rightarrow> string \<Rightarrow> u32 \<Rightarrow> time \<Rightarrow> (go_error, 'w, BuyResult) io" where
  "Buy s steamID itemIndex now =
     io_bind (require_player (ps_players s) steamID) (\<lambda>player.
     case map_of (Items (ps_catalog s)) itemIndex of
       None \<Rightarrow> io_fail ErrItemUnknown
     | Some def \<Rightarrow>
         if \<not> g_IsSell def then io_fail ErrItemNotForSale
         else if uint (p_Level player) < g_BuyLevelLimit def then io_fail ErrLevelTooLow
         else (let (wallet, price) = storePrice def in
           if price > 0 \<and> Balance player wallet < price then io_fail ErrInsufficientFunds
           else (let ((item, isNew), player) = addToInventory player def itemIndex now in
             if isNew \<and> i_Serial item = 0 then io_fail ErrInventoryFull
             else io_bind (pr_CommitInventory (ps_players s) steamID (p_Inventory player) wallet price) (\<lambda>applied.
               if \<not> applied then io_fail ErrInsufficientFunds
               else io_ret \<lparr>b_Player = Debit player wallet price, b_Item = item, b_IsNew = isNew,
                      b_Wallet = wallet, b_Price = price\<rparr>))))"

definition BuyCustomPart ::
  "'w PlayerService \<Rightarrow> string \<Rightarrow> u16 \<Rightarrow> u32 \<Rightarrow> time \<Rightarrow> time \<Rightarrow> (go_error, 'w, BuyResult) io" where
  "BuyCustomPart s steamID weaponSerial itemIndex now now' =
     io_bind (require_player (ps_players s) steamID) (\<lambda>player.
     case Item player weaponSerial of
       None \<Rightarrow> io_fail ErrItemNotOwned
     | Some weapon \<Rightarrow>
         if \<not> Accepts (ps_catalog s) (i_ItemIndex weapon) itemIndex then io_fail ErrPartNotCompatible
         else io_bind (Buy s steamID itemIndex now) (\<lambda>result.
              io_bind (PlayerService_Attach s steamID weaponSerial (i_Serial (b_Item result)) now') (\<lambda>(mounted, _).
              io_ret (result\<lparr>b_Player := mounted\<rparr>))))"

section \<open>Crafting\<close>

record CraftResult =
  k_Player :: Player
  k_Output :: InventoryItem
  k_Deleted :: "u16 list"
  k_Updated :: "InventoryItem list"
  k_PricePoint :: u64

text \<open>\<open>need[material.ItemIndex] += material.Count\<close> over the materials of the recipe.\<close>

definition materials_needed :: "Recipe \<Rightarrow> (u32 \<times> int) list" where
  "materials_needed recipe =
     foldl (\<lambda>need m. AList.update (rm_ItemIndex m) (wrap64 (map_get need (rm_ItemIndex m) + rm_Count m)) need)
       [] (rc_Materials recipe)"

definition Craft :: "'w PlayerService \<Rightarrow> string \<Rightarrow> u32 \<Rightarrow> time \<Rightarrow> (go_error, 'w, CraftResult) io" where
  "Craft s steamID recipeID now =
     io_bind (require_player (ps_players s) steamID) (\<lambda>player.
     case map_of (Recipes (ps_catalog s)) recipeID of
       None \<Rightarrow> io_fail ErrRecipeUnknown
     | Some recipe \<Rightarrow>
         if \<not> rc_Exist recipe then io_fail ErrRecipeUnknown
         else if uint (p_Level player) < rc_RequireLevel recipe then io_fail ErrLevelTooLow
         else if rc_PricePoint recipe > 0 \<and> p_Point player < rc_PricePoint recipe then io_fail ErrInsufficientFunds
         else (case ConsumeMaterials player (materials_needed recipe) of
             None \<Rightarrow> io_fail ErrMaterialMissing
           | Some ((deleted, updated), player) \<Rightarrow>
               if NextSerial player = 0 then io_fail ErrInventoryFull
               else (let def = (case map_of (Items (ps_catalog s)) (rc_ItemOutput recipe) of
                                  None \<Rightarrow> zero_item | Some d \<Rightarrow> d);
                         output = new_item player def (rc_ItemOutput recipe) now;
                         player = player\<lparr>p_Inventory := p_Inventory player @ [output]\<rparr>
                     in io_bind (pr_CommitInventory (ps_players s) steamID (p_Inventory player) WalletPoint
                          (rc_PricePoint recipe)) (\<lambda>applied.
                        if \<not> applied then io_fail ErrInsufficientFunds
                        else io_ret \<lparr>k_Player = Debit player WalletPoint (rc_PricePoint recipe), k_Output = output,
                               k_Deleted = deleted, k_Updated = updated, k_PricePoint = rc_PricePoint recipe\<rparr>))))"

section \<open>Names and consumables\<close>

definition PlayerService_FindByName :: "'w PlayerService \<Rightarrow> string \<Rightarrow> (go_error, 'w, Player option) io" where
  "PlayerService_FindByName s name = pr_FindByName (ps_players s) name"

definition Rename :: "'w PlayerService \<Rightarrow> string \<Rightarrow> string \<Rightarrow> (go_error, 'w, Player) io" where
  "Rename s steamID name =
     io_bind (pr_SetName (ps_players s) steamID name) (\<lambda>_. require_player (ps_players s) steamID)"

definition FunctionClanMarkChange :: int where
  "FunctionClanMarkChange = 1901"

definition ItemFunctionType :: "'w PlayerService \<Rightarrow> u32 \<Rightarrow> byte" where
  "ItemFunctionType s itemIndex = FunctionType (ps_catalog s) itemIndex"

definition FindConsumable :: "'w PlayerService \<Rightarrow> Player \<Rightarrow> int \<Rightarrow> InventoryItem option" where
  "FindConsumable s player functionIndex =
     List.find (\<lambda>item. (case map_of (Items (ps_catalog s)) (i_ItemIndex item) of
         None \<Rightarrow> False
       | Some def \<Rightarrow> g_FunctionIndex def = functionIndex \<and> i_Value item > 0)) (p_Inventory player)"

definition SpendConsumable :: "'w PlayerService \<Rightarrow> string \<Rightarrow> int \<Rightarrow> (go_error, 'w, Player \<times> SpentItem) io" where
  "SpendConsumable s steamID functionIndex =
     io_bind (require_player (ps_players s) steamID) (\<lambda>player.
     case FindConsumable s player functionIndex of
       None \<Rightarrow> io_fail ErrConsumableMissing
     | Some item \<Rightarrow>
         (case SpendUnit player (i_Serial item) of
            None \<Rightarrow> io_fail ErrConsumableMissing
          | Some (spent, player) \<Rightarrow>
              io_bind (pr_CommitInventory (ps_players s) steamID (p_Inventory player) WalletNone 0)
                (\<lambda>_. io_ret (player, spent))))"

lemmas player_service_defs [service_defs] = LoginBySteam_def refresh_login_def require_player_def
  PlayerService_Equip_def ChangeWeapons_def PlayerService_Attach_def PlayerService_Detach_def Buy_def
  BuyCustomPart_def Craft_def Rename_def SpendConsumable_def

section \<open>Account transactions\<close>

text \<open>
  What almost every operation of the service is to a caller: one account is read, a pure function
  decides, and either the error is returned and nothing is stored, or the account becomes the new
  one and no other account changes.
\<close>

definition transacts ::
  "('w \<Rightarrow> string \<Rightarrow> Player option) \<Rightarrow> (go_error, 'w, 'a) io \<Rightarrow> string \<Rightarrow> (Player \<Rightarrow> go_error + 'a \<times> Player) \<Rightarrow> bool" where
  "transacts look m k f \<longleftrightarrow>
     (\<forall>w. case look w k of
        None \<Rightarrow> m w = (Inl ErrPlayerNotFound, w)
      | Some p \<Rightarrow> (case f p of
            Inl e \<Rightarrow> m w = (Inl e, w)
          | Inr (a, p') \<Rightarrow> (\<exists>w'. m w = (Inr a, w') \<and> look w' = (look w)(k \<mapsto> p'))))"

definition equip_account :: "u16 \<Rightarrow> time \<Rightarrow> Player \<Rightarrow> go_error + Player \<times> Player" where
  "equip_account serial now p =
     (case Item p serial of
        None \<Rightarrow> Inl ErrItemNotOwned
      | Some item \<Rightarrow>
          if IsExpired item now then Inl ErrItemExpired
          else (let p' = p\<lparr>p_Loadout := Loadout_Equip (p_Loadout p) (i_ItemType item) serial\<rparr> in Inr (p', p')))"

definition weapons_account :: "u16 list \<Rightarrow> time \<Rightarrow> Player \<Rightarrow> go_error + Player \<times> Player" where
  "weapons_account ws now p =
     map_sum id (\<lambda>l. let p' = p\<lparr>p_Loadout := l\<rparr> in (p', p')) (equip_serials p now ws (p_Loadout p))"

definition attach_account ::
  "Catalog \<Rightarrow> u16 \<Rightarrow> u16 \<Rightarrow> time \<Rightarrow> Player \<Rightarrow> go_error + (Player \<times> InventoryItem) \<times> Player" where
  "attach_account c parentSerial childSerial now p =
     (case (Item p childSerial, Item p parentSerial) of
        (Some child, Some parent) \<Rightarrow>
          if IsExpired child now then Inl ErrItemExpired
          else if IsCustomSlot (i_ItemType child) \<and> \<not> Accepts c (i_ItemIndex parent) (i_ItemIndex child)
          then Inl ErrPartNotCompatible
          else (let p' = p\<lparr>p_Attachments := Attachments_Attach (p_Attachments p) parentSerial childSerial (i_ItemType child)\<rparr>
                in Inr ((p', child), p'))
      | _ \<Rightarrow> Inl ErrItemNotOwned)"

definition detach_account :: "u16 \<Rightarrow> u16 \<Rightarrow> Player \<Rightarrow> go_error + (Player \<times> InventoryItem) \<times> Player" where
  "detach_account parentSerial childSerial p =
     (case Item p childSerial of
        None \<Rightarrow> Inl ErrItemNotOwned
      | Some child \<Rightarrow>
          (let p' = p\<lparr>p_Attachments := Attachments_Detach (p_Attachments p) parentSerial childSerial\<rparr>
           in Inr ((p', child), p')))"

text \<open>Buying: the reasons to refuse, in the order of the checks, then the purchase itself.\<close>

definition buy_account :: "Catalog \<Rightarrow> u32 \<Rightarrow> time \<Rightarrow> Player \<Rightarrow> go_error + BuyResult \<times> Player" where
  "buy_account c itemIndex now p =
     (case map_of (Items c) itemIndex of
        None \<Rightarrow> Inl ErrItemUnknown
      | Some def \<Rightarrow>
          if \<not> g_IsSell def then Inl ErrItemNotForSale
          else if uint (p_Level p) < g_BuyLevelLimit def then Inl ErrLevelTooLow
          else if snd (storePrice def) > 0 \<and> Balance p (fst (storePrice def)) < snd (storePrice def)
          then Inl ErrInsufficientFunds
          else (case addToInventory p def itemIndex now of ((item, isNew), q) \<Rightarrow>
            if isNew \<and> i_Serial item = 0 then Inl ErrInventoryFull
            else (let p' = Debit q (fst (storePrice def)) (snd (storePrice def))
                  in Inr (\<lparr>b_Player = p', b_Item = item, b_IsNew = isNew,
                           b_Wallet = fst (storePrice def), b_Price = snd (storePrice def)\<rparr>, p'))))"

definition craft_account :: "Catalog \<Rightarrow> u32 \<Rightarrow> time \<Rightarrow> Player \<Rightarrow> go_error + CraftResult \<times> Player" where
  "craft_account c recipeID now p =
     (case map_of (Recipes c) recipeID of
        None \<Rightarrow> Inl ErrRecipeUnknown
      | Some recipe \<Rightarrow>
          if \<not> rc_Exist recipe then Inl ErrRecipeUnknown
          else if uint (p_Level p) < rc_RequireLevel recipe then Inl ErrLevelTooLow
          else if rc_PricePoint recipe > 0 \<and> p_Point p < rc_PricePoint recipe then Inl ErrInsufficientFunds
          else (case ConsumeMaterials p (materials_needed recipe) of
              None \<Rightarrow> Inl ErrMaterialMissing
            | Some ((deleted, updated), q) \<Rightarrow>
                if NextSerial q = 0 then Inl ErrInventoryFull
                else (let def = (case map_of (Items c) (rc_ItemOutput recipe) of None \<Rightarrow> zero_item | Some d \<Rightarrow> d);
                          output = new_item q def (rc_ItemOutput recipe) now;
                          p' = Debit (q\<lparr>p_Inventory := p_Inventory q @ [output]\<rparr>) WalletPoint (rc_PricePoint recipe)
                      in Inr (\<lparr>k_Player = p', k_Output = output, k_Deleted = deleted, k_Updated = updated,
                               k_PricePoint = rc_PricePoint recipe\<rparr>, p'))))"

definition spend_account :: "'w PlayerService \<Rightarrow> int \<Rightarrow> Player \<Rightarrow> go_error + (Player \<times> SpentItem) \<times> Player" where
  "spend_account s functionIndex p =
     (case FindConsumable s p functionIndex of
        None \<Rightarrow> Inl ErrConsumableMissing
      | Some item \<Rightarrow> (case SpendUnit p (i_Serial item) of
            None \<Rightarrow> Inl ErrConsumableMissing
          | Some (spent, p') \<Rightarrow> Inr ((p', spent), p')))"

lemma Debit_fields [simp]:
  "p_SteamID (Debit p w a) = p_SteamID p" "p_Inventory (Debit p w a) = p_Inventory p"
  "p_Loadout (Debit p w a) = p_Loadout p" "p_Attachments (Debit p w a) = p_Attachments p"
  "p_Level (Debit p w a) = p_Level p" "p_Friends (Debit p w a) = p_Friends p"
  "p_FriendRequests (Debit p w a) = p_FriendRequests p" "p_ClanName (Debit p w a) = p_ClanName p"
  by (cases w; simp)+

lemma Debit_inventory_update:
  "(Debit p w a)\<lparr>p_Inventory := items\<rparr> = Debit (p\<lparr>p_Inventory := items\<rparr>) w a"
  by (cases w) simp_all

lemma addToInventory_inventory:
  "addToInventory p def i now = (r, q) \<Longrightarrow> q = p\<lparr>p_Inventory := p_Inventory q\<rparr>"
  by (auto simp: addToInventory_def Let_def split: option.splits if_splits prod.splits)

lemma ConsumeMaterials_inventory:
  "ConsumeMaterials p need = Some (r, q) \<Longrightarrow> q = p\<lparr>p_Inventory := p_Inventory q\<rparr>"
  by (auto simp: ConsumeMaterials_def split: if_splits prod.splits)

lemma SpendUnit_inventory: "SpendUnit p k = Some (r, q) \<Longrightarrow> q = p\<lparr>p_Inventory := p_Inventory q\<rparr>"
  by (auto simp: SpendUnit_def Let_def split: option.splits if_splits)

lemma Balance_inventory [simp]: "Balance (p\<lparr>p_Inventory := items\<rparr>) w = Balance p w"
  by (simp add: Balance_def)

context player_store begin

lemma require [io_simps]:
  "require_player R k w = (case look w k of None \<Rightarrow> (Inl ErrPlayerNotFound, w) | Some p \<Rightarrow> (Inr p, w))"
  by (simp add: require_player_def io_eval find split: option.splits)

lemma look_changed: "look w k = Some p \<Longrightarrow> look (upd k f w) = (look w)(k \<mapsto> f p)"
  by (rule ext) (simp add: look_upd)

lemma transactsI:
  assumes "\<And>w. look w k = None \<Longrightarrow> m w = (Inl ErrPlayerNotFound, w)"
    and "\<And>w p e. look w k = Some p \<Longrightarrow> f p = Inl e \<Longrightarrow> m w = (Inl e, w)"
    and "\<And>w p a p'. look w k = Some p \<Longrightarrow> f p = Inr (a, p') \<Longrightarrow>
      \<exists>w'. m w = (Inr a, w') \<and> look w' = (look w)(k \<mapsto> p')"
  shows "transacts look m k f"
  using assms by (auto simp: transacts_def split: option.splits sum.splits)

lemma Equip_transacts:
  "ps_players s = R \<Longrightarrow> transacts look (PlayerService_Equip s k serial now) k (equip_account serial now)"
  by (rule transactsI)
     (auto simp: PlayerService_Equip_def equip_account_def io_eval require save_loadout look_changed Let_def
        split: option.splits if_splits)

lemma ChangeWeapons_transacts:
  "ps_players s = R \<Longrightarrow> transacts look (ChangeWeapons s k ws now) k (weapons_account ws now)"
  by (rule transactsI)
     (auto simp: ChangeWeapons_def weapons_account_def io_eval require save_loadout look_changed Let_def
        split: sum.splits)

lemma Attach_transacts:
  "ps_players s = R \<Longrightarrow> ps_catalog s = c \<Longrightarrow>
    transacts look (PlayerService_Attach s k parent child now) k (attach_account c parent child now)"
  by (rule transactsI)
     (auto simp: PlayerService_Attach_def attach_account_def io_eval require save_attachments look_changed Let_def
        split: option.splits if_splits)

lemma Detach_transacts:
  "ps_players s = R \<Longrightarrow> transacts look (PlayerService_Detach s k parent child) k (detach_account parent child)"
  by (rule transactsI)
     (auto simp: PlayerService_Detach_def detach_account_def io_eval require save_attachments look_changed Let_def
        split: option.splits)

lemma commit_done:
  assumes "look w k = Some p" and "\<not> (price > 0 \<and> Balance p wallet < price)" and "q = p\<lparr>p_Inventory := p_Inventory q\<rparr>"
  shows "\<exists>w'. pr_CommitInventory R k (p_Inventory q) wallet price w = (Inr True, w') \<and>
    look w' = (look w)(k \<mapsto> Debit q wallet price)"
proof -
  have "(Debit p wallet price)\<lparr>p_Inventory := p_Inventory q\<rparr> = Debit q wallet price"
    unfolding Debit_inventory_update using assms(3) by simp
  then have "look (upd k (\<lambda>p. (Debit p wallet price)\<lparr>p_Inventory := p_Inventory q\<rparr>) w) = (look w)(k \<mapsto> Debit q wallet price)"
    using look_changed [OF assms(1)] by simp
  with assms(1,2) show ?thesis by (auto simp: commit)
qed

lemma Buy_transacts:
  assumes R: "ps_players s = R" and c: "ps_catalog s = c"
  shows "transacts look (Buy s k i now) k (buy_account c i now)"
proof (rule transactsI)
  fix w p e
  assume "look w k = Some p" "buy_account c i now p = Inl e"
  then show "Buy s k i now w = (Inl e, w)"
    using R c by (auto simp: Buy_def buy_account_def io_eval require Let_def split: option.splits if_splits prod.splits)
next
  fix w p a p'
  assume p: "look w k = Some p" and ok: "buy_account c i now p = Inr (a, p')"
  obtain def' where d: "map_of (Items c) i = Some def'" using ok by (auto simp: buy_account_def split: option.splits)
  obtain item isNew q where q: "addToInventory p def' i now = ((item, isNew), q)" by (metis surj_pair)
  have funds: "\<not> (snd (storePrice def') > 0 \<and> Balance p (fst (storePrice def')) < snd (storePrice def'))"
    using ok d by (auto simp: buy_account_def split: if_splits)
  obtain w' where w': "pr_CommitInventory R k (p_Inventory q) (fst (storePrice def')) (snd (storePrice def')) w = (Inr True, w')"
      "look w' = (look w)(k \<mapsto> Debit q (fst (storePrice def')) (snd (storePrice def')))"
    using commit_done [OF p funds addToInventory_inventory [OF q]] by blast
  show "\<exists>w'. Buy s k i now w = (Inr a, w') \<and> look w' = (look w)(k \<mapsto> p')"
    using ok d q p w' R c
    by (auto simp: Buy_def buy_account_def io_eval require Let_def split: if_splits prod.splits)
qed (use R in \<open>simp add: Buy_def io_eval require\<close>)

lemma Craft_transacts:
  assumes R: "ps_players s = R" and c: "ps_catalog s = c"
  shows "transacts look (Craft s k i now) k (craft_account c i now)"
proof (rule transactsI)
  fix w p e
  assume "look w k = Some p" "craft_account c i now p = Inl e"
  then show "Craft s k i now w = (Inl e, w)"
    using R c by (auto simp: Craft_def craft_account_def io_eval require Let_def split: option.splits if_splits prod.splits)
next
  fix w p a p'
  assume p: "look w k = Some p" and ok: "craft_account c i now p = Inr (a, p')"
  obtain r where r: "map_of (Recipes c) i = Some r" using ok by (auto simp: craft_account_def split: option.splits)
  obtain del u q where q: "ConsumeMaterials p (materials_needed r) = Some ((del, u), q)"
    using ok r by (auto simp: craft_account_def split: option.splits if_splits)
  define out where "out = new_item q (case map_of (Items c) (rc_ItemOutput r) of None \<Rightarrow> zero_item | Some d \<Rightarrow> d) (rc_ItemOutput r) now"
  let ?q = "q\<lparr>p_Inventory := p_Inventory q @ [out]\<rparr>"
  have funds: "\<not> (rc_PricePoint r > 0 \<and> Balance p WalletPoint < rc_PricePoint r)"
    using ok r by (auto simp: craft_account_def Balance_def split: if_splits)
  have "?q = p\<lparr>p_Inventory := p_Inventory ?q\<rparr>"
    by (subst ConsumeMaterials_inventory [OF q]) simp
  then obtain w' where w': "pr_CommitInventory R k (p_Inventory ?q) WalletPoint (rc_PricePoint r) w = (Inr True, w')"
      "look w' = (look w)(k \<mapsto> Debit ?q WalletPoint (rc_PricePoint r))"
    using commit_done [OF p funds] by blast
  show "\<exists>w'. Craft s k i now w = (Inr a, w') \<and> look w' = (look w)(k \<mapsto> p')"
    using ok r q p w' R c
    by (auto simp: Craft_def craft_account_def io_eval require Let_def out_def split: if_splits option.splits)
qed (use R in \<open>simp add: Craft_def io_eval require\<close>)

lemma Spend_transacts:
  assumes R: "ps_players s = R"
  shows "transacts look (SpendConsumable s k fi) k (spend_account s fi)"
proof (rule transactsI)
  fix w p a p'
  assume p: "look w k = Some p" and ok: "spend_account s fi p = Inr (a, p')"
  obtain item where i: "FindConsumable s p fi = Some item" using ok by (auto simp: spend_account_def split: option.splits)
  obtain sp q where q: "SpendUnit p (i_Serial item) = Some (sp, q)"
    using ok i by (auto simp: spend_account_def split: option.splits)
  obtain w' where w': "pr_CommitInventory R k (p_Inventory q) WalletNone 0 w = (Inr True, w')"
      "look w' = (look w)(k \<mapsto> Debit q WalletNone 0)"
    using commit_done [OF p, of 0 WalletNone q] SpendUnit_inventory [OF q] by auto
  show "\<exists>w'. SpendConsumable s k fi w = (Inr a, w') \<and> look w' = (look w)(k \<mapsto> p')"
    using ok i q p w' R by (auto simp: SpendConsumable_def spend_account_def io_eval require)
qed (use R in \<open>auto simp: SpendConsumable_def spend_account_def io_eval require split: option.splits prod.splits\<close>)

end

section \<open>Login, on one account\<close>

definition login_account :: "time \<Rightarrow> Player \<Rightarrow> Player" where
  "login_account now p =
     (let (removed, q) = PurgeExpired (p\<lparr>p_LastLogin := now\<rparr>) now
      in q\<lparr>p_Loadout := fst (equip_characters (p_Inventory q) (equipped_slots q) (p_Loadout q) (removed \<noteq> []))\<rparr>)"

lemma grant_starters_SteamID: "p_SteamID (grant_starters c now items serial p) = p_SteamID p"
  by (induction items arbitrary: serial p) (auto split: option.splits)

lemma newAccount_SteamID: "p_SteamID (newAccount s now k) = k"
  by (simp add: newAccount_def grant_starters_SteamID)

definition starting_account :: "'w PlayerService \<Rightarrow> time \<Rightarrow> time \<Rightarrow> string \<Rightarrow> Player" where
  "starting_account s now now' k = (newAccount s now' k)\<lparr>p_CreatedAt := now, p_LastLogin := now\<rparr>"

lemma equip_characters_True: "equip_characters items eq l True = (l', b) \<Longrightarrow> b"
  by (induction items arbitrary: eq l) (auto split: if_splits)

lemma equip_characters_unchanged: "equip_characters items eq l False = (l', False) \<Longrightarrow> l' = l"
  by (induction items) (auto split: if_splits dest: equip_characters_True)

lemma PurgeExpired_cases:
  obtains (none) "PurgeExpired p now = ([], p)" "\<forall>item \<in> set (p_Inventory p). \<not> IsExpired item now"
  | (some) removed q where "PurgeExpired p now = (removed, q)" "removed \<noteq> []"
      "q = p\<lparr>p_Inventory := p_Inventory q, p_Attachments := p_Attachments q, p_Loadout := p_Loadout q\<rparr>"
proof (cases "filter (\<lambda>item. IsExpired item now) (p_Inventory p) = []")
  case True
  then show thesis by (intro none) (auto simp: PurgeExpired_def Let_def filter_empty_conv)
next
  case False
  then show thesis by (intro some [of "fst (PurgeExpired p now)" "snd (PurgeExpired p now)"])
      (auto simp: PurgeExpired_def Let_def)
qed

context player_store begin

lemma login_known:
  assumes R: "ps_players s = R" and p: "look w k = Some p"
  shows "\<exists>w'. LoginBySteam s k now now' w = (Inr (login_account now p), w') \<and>
    look w' = (look w)(k \<mapsto> login_account now p)"
proof -
  let ?p = "p\<lparr>p_LastLogin := now\<rparr>"
  obtain w1 where w1: "pr_Touch R k now w = (Inr (), w1)" "look w1 = (look w)(k \<mapsto> ?p)"
    using p by (simp add: touch look_changed)
  show ?thesis
  proof (cases ?p now rule: PurgeExpired_cases)
    case none
    obtain l b where l: "equip_characters (p_Inventory ?p) (equipped_slots ?p) (p_Loadout ?p) False = (l, b)" by force
    have acc: "login_account now p = ?p\<lparr>p_Loadout := l\<rparr>" using none(1) l by (simp add: login_account_def)
    show ?thesis
    proof (cases b)
      case True
      with l none w1 R p acc show ?thesis
        by (simp add: LoginBySteam_def refresh_login_def io_eval find save_loadout Let_def look_changed)
    next
      case False
      have "LoginBySteam s k now now' w = (Inr (?p\<lparr>p_Loadout := l\<rparr>), w1)"
        using False l none w1 R p by (simp add: LoginBySteam_def refresh_login_def io_eval find Let_def)
      moreover have "?p\<lparr>p_Loadout := l\<rparr> = ?p" using l False by (auto dest: equip_characters_unchanged)
      ultimately show ?thesis using w1 acc by simp
    qed
  next
    case (some removed q)
    obtain l b where l: "equip_characters (p_Inventory q) (equipped_slots q) (p_Loadout q) True = (l, b)" by force
    then have b: b by (rule equip_characters_True)
    have acc: "login_account now p = q\<lparr>p_Loadout := l\<rparr>" using some(1,2) l by (simp add: login_account_def)
    let ?w = "upd k (\<lambda>p. p\<lparr>p_Loadout := l\<rparr>) (upd k (\<lambda>p. p\<lparr>p_Attachments := p_Attachments q\<rparr>)
      (upd k (\<lambda>p. (Debit p WalletNone 0)\<lparr>p_Inventory := p_Inventory q\<rparr>) w1))"
    have "LoginBySteam s k now now' w = (Inr (login_account now p), ?w)"
      using l b some w1 R p acc
      by (simp add: LoginBySteam_def refresh_login_def io_eval find save_loadout save_attachments commit Let_def)
    moreover have "look ?w = (look w)(k \<mapsto> ?p\<lparr>p_Inventory := p_Inventory q, p_Attachments := p_Attachments q, p_Loadout := l\<rparr>)"
      by (rule ext) (simp add: look_upd w1)
    moreover have "?p\<lparr>p_Inventory := p_Inventory q, p_Attachments := p_Attachments q, p_Loadout := l\<rparr> = login_account now p"
      unfolding acc by (subst (3) some(3)) simp
    ultimately show ?thesis by simp
  qed
qed

lemma login_unknown:
  assumes "ps_players s = R" and "look w k = None"
  shows "\<exists>w'. LoginBySteam s k now now' w = (Inr (starting_account s now now' k), w') \<and>
    look w' = (look w)(k \<mapsto> starting_account s now now' k)"
proof -
  have id: "p_SteamID (starting_account s now now' k) = k"
    by (simp add: starting_account_def newAccount_SteamID)
  then have "look (ins (starting_account s now now' k) w) = (look w)(k \<mapsto> starting_account s now now' k)"
    by (intro ext) (simp add: look_ins)
  with assms id show ?thesis
    by (simp add: LoginBySteam_def io_eval find create Let_def flip: starting_account_def)
qed

end

section \<open>Every operation keeps accounts well-formed\<close>

lemma player_ok_Debit [simp]: "player_ok (Debit p w a) = player_ok p"
  by (simp add: player_ok_def)

lemma Item_SomeD: "Item p serial = Some item \<Longrightarrow> item \<in> set (p_Inventory p) \<and> i_Serial item = serial"
  unfolding Item_def by (rule lookup_by_SomeD)

lemma player_ok_equip: "player_ok p \<Longrightarrow> equip_account serial now p = Inr (a, p') \<Longrightarrow> player_ok p'"
  by (auto simp: equip_account_def player_ok_def Let_def Equip_distinct split: option.splits if_splits)

lemma equip_serials_distinct:
  "equip_serials p now ws l = Inr l' \<Longrightarrow> distinct (map e_Slot l) \<Longrightarrow> distinct (map e_Slot l')"
  by (induction ws arbitrary: l) (auto simp: Equip_distinct split: if_splits option.splits)

lemma player_ok_weapons: "player_ok p \<Longrightarrow> weapons_account ws now p = Inr (a, p') \<Longrightarrow> player_ok p'"
  by (cases "equip_serials p now ws (p_Loadout p)")
     (auto simp: weapons_account_def player_ok_def Let_def dest: equip_serials_distinct)

lemma player_ok_attach: "player_ok p \<Longrightarrow> attach_account c i j now p = Inr (a, p') \<Longrightarrow> player_ok p'"
  by (auto simp: attach_account_def player_ok_def Let_def Attach_distinct split: option.splits if_splits)

lemma player_ok_detach: "player_ok p \<Longrightarrow> detach_account i j p = Inr (a, p') \<Longrightarrow> player_ok p'"
  by (auto simp: detach_account_def player_ok_def Let_def Detach_distinct split: option.splits)

lemma player_ok_append:
  "player_ok p \<Longrightarrow> NextSerial p \<noteq> 0 \<Longrightarrow> player_ok (p\<lparr>p_Inventory := p_Inventory p @ [new_item p d i now]\<rparr>)"
  using NextSerial_fresh [of p] by (auto simp: player_ok_def new_item_def)

lemma player_ok_update:
  assumes "player_ok p" and "\<And>x. i_Serial (f x) = i_Serial x"
  shows "player_ok (p\<lparr>p_Inventory := update_by key k f (p_Inventory p)\<rparr>)"
proof -
  have m: "map i_Serial (update_by key k f (p_Inventory p)) = map i_Serial (p_Inventory p)"
    using assms(2) by (rule map_update_by)
  then have "i_Serial ` set (update_by key k f (p_Inventory p)) = item_serials p"
    by (metis list.set_map)
  with m assms(1) show ?thesis by (simp add: player_ok_def)
qed

lemma add_serials [simp]: "i_Serial (extend_rental d now x) = i_Serial x" "i_Serial (add_unit x) = i_Serial x"
  by (simp_all add: extend_rental_def add_unit_def Let_def)

lemma player_ok_addToInventory:
  assumes "player_ok p" and "addToInventory p d i now = ((item, isNew), q)" and "\<not> (isNew \<and> i_Serial item = 0)"
  shows "player_ok q"
  using assms player_ok_append [OF assms(1), of d i now]
    player_ok_update [OF assms(1), of add_unit] player_ok_update [OF assms(1), of "extend_rental d now"]
  by (auto simp: addToInventory_def Let_def new_item_def split: option.splits if_splits)

lemma player_ok_buy: "player_ok p \<Longrightarrow> buy_account c i now p = Inr (a, p') \<Longrightarrow> player_ok p'"
  by (auto simp: buy_account_def Let_def split: option.splits if_splits prod.splits
      dest: player_ok_addToInventory)

lemma ConsumeMaterials_ok:
  assumes "player_ok p" and "ConsumeMaterials p need = Some ((d, u), q)"
  shows "player_ok q"
proof -
  obtain n where c: "consume_loop need (p_Inventory p) = (d, u, n)" and q: "q = p\<lparr>p_Inventory := n\<rparr>"
    using assms(2) by (auto simp: ConsumeMaterials_def split: if_splits prod.splits)
  have m: "map i_Serial n = filter (\<lambda>s. s \<notin> set d) (map i_Serial (p_Inventory p))"
    using consume_loop_serials [OF c] assms(1) by (auto simp: player_ok_def)
  then have "i_Serial ` set n \<subseteq> item_serials p" by (metis filter_is_subset list.set_map)
  then show ?thesis
    using assms(1) m by (auto simp: q player_ok_def distinct_filter simp del: filter_map)
qed

lemma craft_accountD:
  assumes "craft_account c i now p = Inr (a, p')"
  obtains r d u q g where "map_of (Recipes c) i = Some r" and "rc_Exist r"
    and "rc_RequireLevel r \<le> uint (p_Level p)" and "rc_PricePoint r \<le> p_Point p"
    and "ConsumeMaterials p (materials_needed r) = Some ((d, u), q)" and "NextSerial q \<noteq> 0"
    and "g = (case map_of (Items c) (rc_ItemOutput r) of None \<Rightarrow> zero_item | Some x \<Rightarrow> x)"
    and "p' = Debit (q\<lparr>p_Inventory := p_Inventory q @ [new_item q g (rc_ItemOutput r) now]\<rparr>) WalletPoint (rc_PricePoint r)"
    and "a = \<lparr>k_Player = p', k_Output = new_item q g (rc_ItemOutput r) now, k_Deleted = d, k_Updated = u,
      k_PricePoint = rc_PricePoint r\<rparr>"
proof -
  obtain r where r: "map_of (Recipes c) i = Some r" "rc_Exist r" "\<not> uint (p_Level p) < rc_RequireLevel r"
      "\<not> (rc_PricePoint r > 0 \<and> p_Point p < rc_PricePoint r)"
    using assms by (auto simp only: craft_account_def split: option.splits if_splits)
  obtain d u q where q: "ConsumeMaterials p (materials_needed r) = Some ((d, u), q)"
  proof (cases "ConsumeMaterials p (materials_needed r)")
    case None
    with assms r show ?thesis by (simp add: craft_account_def)
  next
    case (Some x)
    with that show ?thesis by (metis surj_pair)
  qed
  have n: "NextSerial q \<noteq> 0"
    using assms r q by (auto simp: craft_account_def)
  have "rc_PricePoint r \<le> p_Point p"
    using r(4) by (meson not_less word_gt_0 word_zero_le order.trans)
  moreover have "Inr (a, p') = craft_account c i now p" using assms by simp
  ultimately show thesis
    using r q n by (intro that) (simp_all add: craft_account_def Let_def if_not_P [OF r(4)] del: not_less)
qed

lemma player_ok_craft: "player_ok p \<Longrightarrow> craft_account c i now p = Inr (a, p') \<Longrightarrow> player_ok p'"
  by (erule craft_accountD, simp only: player_ok_Debit) (blast intro: player_ok_append ConsumeMaterials_ok)

lemma player_ok_remove:
  assumes "player_ok p"
  shows "player_ok (p\<lparr>p_Inventory := remove_by i_Serial k (p_Inventory p)\<rparr>)"
  using assms set_remove_by_subset [of i_Serial k "p_Inventory p"]
  by (auto simp: player_ok_def remove_by_distinct_map)

lemma SpendUnit_ok: "player_ok p \<Longrightarrow> SpendUnit p k = Some (r, q) \<Longrightarrow> player_ok q"
  using player_ok_remove [of p k] player_ok_update [of p "\<lambda>i. i\<lparr>i_Value := i_Value i - 1\<rparr>" i_Serial k]
  by (auto simp: SpendUnit_def Let_def split: option.splits if_splits)

lemma player_ok_spend: "player_ok p \<Longrightarrow> spend_account s fi p = Inr (a, p') \<Longrightarrow> player_ok p'"
  by (auto simp: spend_account_def split: option.splits dest: SpendUnit_ok)

lemma equip_characters_distinct:
  "distinct (map e_Slot l) \<Longrightarrow> distinct (map e_Slot (fst (equip_characters items eq l b)))"
  by (induction items eq l b rule: equip_characters.induct) (auto simp: Equip_distinct)

lemma player_ok_login: "player_ok p \<Longrightarrow> player_ok (login_account now p)"
proof -
  assume "player_ok p"
  then have "player_ok (p\<lparr>p_LastLogin := now\<rparr>)" by (simp add: player_ok_def)
  then have "player_ok (snd (PurgeExpired (p\<lparr>p_LastLogin := now\<rparr>) now))" by (rule PurgeExpired_ok)
  then show ?thesis
    by (cases "PurgeExpired (p\<lparr>p_LastLogin := now\<rparr>) now")
       (simp add: login_account_def player_ok_def equip_characters_distinct)
qed

lemma transacts_keeps:
  assumes "transacts look m k f" and "\<And>p a p'. I k p \<Longrightarrow> f p = Inr (a, p') \<Longrightarrow> I k p'"
  shows "keeps (\<lambda>w. \<forall>k p. look w k = Some p \<longrightarrow> I k p) m"
  unfolding keeps_def
proof (intro allI impI)
  fix w j q
  assume all: "\<forall>k p. look w k = Some p \<longrightarrow> I k p" and j: "look (snd (m w)) j = Some q"
  show "I j q"
  proof (cases "look w k")
    case None
    with assms(1) j all show ?thesis by (auto simp: transacts_def dest!: spec [of _ w])
  next
    case (Some p)
    show ?thesis
    proof (cases "f p")
      case (Inl e)
      with assms(1) Some j all show ?thesis by (auto simp: transacts_def dest!: spec [of _ w])
    next
      case (Inr b)
      then obtain a p' where f: "f p = Inr (a, p')" by (metis surj_pair)
      with assms(1) Some have "look (snd (m w)) = (look w)(k \<mapsto> p')"
        by (auto simp: transacts_def dest!: spec [of _ w])
      with j all assms(2) [OF _ f] Some show ?thesis by (auto split: if_splits)
    qed
  qed
qed

end
