(* ===== verification/Clan_Service.thy ===== *)
theory Clan_Service
  imports Store
begin

text \<open>
  The clan service (services/clan_service.go, clan_membership.go) over any pair of repositories:
  founding, applications, the roster operations with their authorisation checks, and the emblem.
  The actor of an operation is the account record the caller holds. Each roster operation is shown
  to be a transaction on the actor's clan given by a pure function, proved once against the
  \<open>clan_store\<close> contract.
\<close>

section \<open>The service\<close>

record 'w ClanService =
  cs_clans :: "'w ClanRepository"
  cs_players :: "'w PlayerRepository"

definition NameAvailable :: "'w ClanService \<Rightarrow> string \<Rightarrow> (go_error, 'w, bool) io" where
  "NameAvailable s name = io_bind (cr_Find (cs_clans s) name) (\<lambda>found. io_ret (found = None))"

definition PendingApplication :: "'w ClanService \<Rightarrow> string \<Rightarrow> (go_error, 'w, Clan option) io" where
  "PendingApplication s steamID = cr_FindByApplicant (cs_clans s) steamID"

definition MarkAvailable :: "'w ClanService \<Rightarrow> Player \<Rightarrow> mark \<Rightarrow> (go_error, 'w, bool) io" where
  "MarkAvailable s actor mark =
     io_bind (cr_FindByMark (cs_clans s) mark (p_ClanName actor)) (\<lambda>taken. io_ret (taken = None))"

definition actorClan :: "'w ClanService \<Rightarrow> Player \<Rightarrow> (go_error, 'w, Clan \<times> ClanMember) io" where
  "actorClan s actor =
     (if p_ClanName actor = [] then io_fail ErrNotInClan
      else io_bind (cr_Find (cs_clans s) (p_ClanName actor)) (\<lambda>found. case found of
          None \<Rightarrow> io_fail ErrClanNotFound
        | Some clan \<Rightarrow> (case Clan_Member clan (p_SteamID actor) of
              None \<Rightarrow> io_fail ErrNotInClan
            | Some member \<Rightarrow> io_ret (clan, member))))"

definition reviewerClan :: "'w ClanService \<Rightarrow> Player \<Rightarrow> (go_error, 'w, Clan \<times> ClanMember) io" where
  "reviewerClan s actor =
     io_bind (actorClan s actor) (\<lambda>(clan, member).
       if \<not> CanReviewClanApplications (cm_Rank member) then io_fail ErrNotAllowed
       else io_ret (clan, member))"

definition detach :: "'w ClanService \<Rightarrow> Clan \<Rightarrow> ClanMember \<Rightarrow> (go_error, 'w, unit) io" where
  "detach s clan member =
     io_bind (cr_SaveMembers (cs_clans s) (c_Name clan) (c_Members clan))
       (\<lambda>_. pr_SetClanName (cs_players s) (cm_SteamID member) [])"

definition ChangeMark :: "'w ClanService \<Rightarrow> Player \<Rightarrow> mark \<Rightarrow> u16 \<Rightarrow> (go_error, 'w, Clan) io" where
  "ChangeMark s actor mark markExtra =
     io_bind (actorClan s actor) (\<lambda>(clan, member).
       if cm_Rank member \<noteq> ClanRankMaster then io_fail ErrNotAllowed
       else io_bind (cr_FindByMark (cs_clans s) mark (c_Name clan)) (\<lambda>taken.
         if taken \<noteq> None then io_fail ErrMarkTaken
         else io_bind (cr_SaveMark (cs_clans s) (c_Name clan) mark markExtra) (\<lambda>_.
           io_ret (clan\<lparr>c_Mark := mark, c_MarkExtra := markExtra\<rparr>))))"

definition Search :: "'w ClanService \<Rightarrow> string \<Rightarrow> (go_error, 'w, Clan list) io" where
  "Search s name = cr_SearchByName (cs_clans s) name 50"

definition ClanService_Find :: "'w ClanService \<Rightarrow> string \<Rightarrow> (go_error, 'w, Clan option) io" where
  "ClanService_Find s name = cr_Find (cs_clans s) name"

section \<open>Applications\<close>

definition new_applicant :: "Clan \<Rightarrow> Player \<Rightarrow> time \<Rightarrow> ClanApplicant" where
  "new_applicant clan player now =
     \<lparr>ap_ApplicantID = nextApplicantID clan, ap_SteamID = p_SteamID player, ap_Name = p_Name player,
       ap_Level = p_Level player, ap_Message = [], ap_AppliedAt = now\<rparr>"

definition RequestJoin :: "'w ClanService \<Rightarrow> Player \<Rightarrow> string \<Rightarrow> time \<Rightarrow> (go_error, 'w, Clan) io" where
  "RequestJoin s player clanName now =
     (if p_ClanName player \<noteq> [] then io_fail ErrAlreadyInClan
      else io_bind (cr_Find (cs_clans s) clanName) (\<lambda>found. case found of
          None \<Rightarrow> io_fail ErrClanNotFound
        | Some clan \<Rightarrow>
            if p_SteamID player \<in> cm_SteamID ` set (c_Members clan) then io_fail ErrAlreadyMember
            else if p_SteamID player \<in> ap_SteamID ` set (c_Applicants clan) then io_ret clan
            else (let clan = clan\<lparr>c_Applicants := c_Applicants clan @ [new_applicant clan player now]\<rparr>
                  in io_bind (cr_SaveApplicants (cs_clans s) (c_Name clan) (c_Applicants clan))
                       (\<lambda>_. io_ret clan))))"

definition founded_clan :: "string \<Rightarrow> string \<Rightarrow> string \<Rightarrow> mark \<Rightarrow> u16 \<Rightarrow> time \<Rightarrow> Clan" where
  "founded_clan steamID playerName clanName mark markExtra now =
     \<lparr>c_Name = clanName, c_Mark = mark, c_MarkExtra = markExtra, c_Level = 1,
       c_MemberCapacity = DefaultClanMemberCapacity, c_Master = steamID,
       c_Members = [\<lparr>cm_MemberID = 1, cm_SteamID = steamID, cm_Name = playerName,
         cm_Rank = ClanRankMaster, cm_Records = no_clan_record\<rparr>],
       c_Applicants = [], c_Records = no_clan_record, c_CreatedAt = now\<rparr>"

definition ClanService_Create ::
  "'w ClanService \<Rightarrow> string \<Rightarrow> string \<Rightarrow> string \<Rightarrow> mark \<Rightarrow> u16 \<Rightarrow> time \<Rightarrow> (go_error, 'w, Clan) io" where
  "ClanService_Create s steamID playerName clanName mark markExtra now =
     (let clan = founded_clan steamID playerName clanName mark markExtra now in
      io_bind (cr_Create (cs_clans s) clan) (\<lambda>_.
      io_bind (pr_SetClanName (cs_players s) steamID clanName) (\<lambda>_. io_ret clan)))"

definition enrolled :: "ClanApplicant \<Rightarrow> ClanMember" where
  "enrolled applicant = \<lparr>cm_MemberID = ap_ApplicantID applicant, cm_SteamID = ap_SteamID applicant,
     cm_Name = ap_Name applicant, cm_Rank = ClanRankMember, cm_Records = no_clan_record\<rparr>"

definition AcceptApplication :: "'w ClanService \<Rightarrow> Player \<Rightarrow> u16 \<Rightarrow> (go_error, 'w, Clan \<times> ClanMember) io" where
  "AcceptApplication s actor applicantID =
     io_bind (reviewerClan s actor) (\<lambda>(clan, _).
       case RemoveApplicant clan applicantID of
         (None, _) \<Rightarrow> io_fail ErrApplicantNotFound
       | (Some applicant, clan) \<Rightarrow>
           if IsFull clan then io_fail ErrClanFull
           else (let member = enrolled applicant; clan = clan\<lparr>c_Members := c_Members clan @ [member]\<rparr> in
             io_bind (cr_SaveRoster (cs_clans s) (c_Name clan) (c_Members clan) (c_Applicants clan)) (\<lambda>_.
             io_bind (pr_SetClanName (cs_players s) (cm_SteamID member) (c_Name clan)) (\<lambda>_.
             io_ret (clan, member)))))"

definition RejectApplication :: "'w ClanService \<Rightarrow> Player \<Rightarrow> u16 \<Rightarrow> (go_error, 'w, Clan \<times> ClanApplicant) io" where
  "RejectApplication s actor applicantID =
     io_bind (reviewerClan s actor) (\<lambda>(clan, _).
       case RemoveApplicant clan applicantID of
         (None, _) \<Rightarrow> io_fail ErrApplicantNotFound
       | (Some applicant, clan) \<Rightarrow>
           io_bind (cr_SaveApplicants (cs_clans s) (c_Name clan) (c_Applicants clan))
             (\<lambda>_. io_ret (clan, applicant)))"

text \<open>
  The search for the withdrawn entry falls back to the zero value of an applicant when the clan has
  none, which \<open>FindByApplicant\<close> excludes.
\<close>

definition zero_applicant :: ClanApplicant where
  "zero_applicant = \<lparr>ap_ApplicantID = 0, ap_SteamID = [], ap_Name = [], ap_Level = 0, ap_Message = [],
     ap_AppliedAt = zero_time\<rparr>"

definition CancelApplication :: "'w ClanService \<Rightarrow> Player \<Rightarrow> (go_error, 'w, Clan \<times> ClanApplicant) io" where
  "CancelApplication s actor =
     io_bind (cr_FindByApplicant (cs_clans s) (p_SteamID actor)) (\<lambda>found. case found of
       None \<Rightarrow> io_fail ErrNoApplication
     | Some clan \<Rightarrow>
         (let withdrawn = (case lookup_by ap_SteamID (p_SteamID actor) (c_Applicants clan) of
                None \<Rightarrow> zero_applicant | Some a \<Rightarrow> a);
              clan = snd (RemoveApplicant clan (ap_ApplicantID withdrawn))
          in io_bind (cr_SaveApplicants (cs_clans s) (c_Name clan) (c_Applicants clan))
               (\<lambda>_. io_ret (clan, withdrawn))))"

section \<open>The roster\<close>

definition KickMember :: "'w ClanService \<Rightarrow> Player \<Rightarrow> u16 \<Rightarrow> (go_error, 'w, Clan \<times> ClanMember) io" where
  "KickMember s actor memberID =
     io_bind (reviewerClan s actor) (\<lambda>(clan, actorMember).
       case MemberByID clan memberID of
         None \<Rightarrow> io_fail ErrMemberNotFound
       | Some target \<Rightarrow>
           if cm_Rank target = ClanRankMaster \<or> cm_MemberID target = cm_MemberID actorMember
           then io_fail ErrNotAllowed
           else if cm_Rank actorMember = ClanRankManager \<and> cm_Rank target = ClanRankManager
           then io_fail ErrNotAllowed
           else (let clan = snd (RemoveMember clan memberID)
                 in io_bind (detach s clan target) (\<lambda>_. io_ret (clan, target))))"

definition Leave :: "'w ClanService \<Rightarrow> Player \<Rightarrow> (go_error, 'w, Clan \<times> ClanMember) io" where
  "Leave s actor =
     io_bind (actorClan s actor) (\<lambda>(clan, member).
       if cm_Rank member = ClanRankMaster \<and> length (c_Members clan) > 1 then io_fail ErrMasterMustTransfer
       else (let clan = snd (RemoveMember clan (cm_MemberID member))
             in io_bind (detach s clan member) (\<lambda>_. io_ret (clan, member))))"

definition ChangePosition :: "'w ClanService \<Rightarrow> Player \<Rightarrow> u16 \<Rightarrow> u8 \<Rightarrow> (go_error, 'w, Clan \<times> ClanMember) io" where
  "ChangePosition s actor memberID rank =
     io_bind (actorClan s actor) (\<lambda>(clan, actorMember).
       if cm_Rank actorMember \<noteq> ClanRankMaster then io_fail ErrNotAllowed
       else if \<not> IsAssignableClanRank rank then io_fail ErrInvalidRank
       else (case MemberByID clan memberID of
           None \<Rightarrow> io_fail ErrMemberNotFound
         | Some target \<Rightarrow>
             if cm_MemberID target = cm_MemberID actorMember then io_fail ErrNotAllowed
             else (let clan = snd (SetRank clan memberID rank)
                   in io_bind (cr_SaveMembers (cs_clans s) (c_Name clan) (c_Members clan))
                        (\<lambda>_. io_ret (clan, target\<lparr>cm_Rank := rank\<rparr>)))))"

definition ChangeMaster ::
  "'w ClanService \<Rightarrow> Player \<Rightarrow> u16 \<Rightarrow> (go_error, 'w, Clan \<times> ClanMember \<times> ClanMember) io" where
  "ChangeMaster s actor memberID =
     io_bind (actorClan s actor) (\<lambda>(clan, actorMember).
       if cm_Rank actorMember \<noteq> ClanRankMaster then io_fail ErrNotAllowed
       else (case MemberByID clan memberID of
           None \<Rightarrow> io_fail ErrMemberNotFound
         | Some target \<Rightarrow>
             if cm_MemberID target = cm_MemberID actorMember then io_fail ErrMemberNotFound
             else (let clan = snd (SetRank clan (cm_MemberID target) ClanRankMaster);
                       clan = snd (SetRank clan (cm_MemberID actorMember) ClanRankManager);
                       clan = clan\<lparr>c_Master := cm_SteamID target\<rparr>
                   in io_bind (cr_SaveLeadership (cs_clans s) (c_Name clan) (c_Master clan) (c_Members clan))
                        (\<lambda>_. io_ret (clan, target\<lparr>cm_Rank := ClanRankMaster\<rparr>,
                           actorMember\<lparr>cm_Rank := ClanRankManager\<rparr>)))))"

definition Disband :: "'w ClanService \<Rightarrow> Player \<Rightarrow> (go_error, 'w, Clan) io" where
  "Disband s actor =
     io_bind (actorClan s actor) (\<lambda>(clan, member).
       if cm_Rank member \<noteq> ClanRankMaster then io_fail ErrNotAllowed
       else io_bind (cr_Delete (cs_clans s) (c_Name clan)) (\<lambda>_.
            io_bind (io_each (\<lambda>enrolled. pr_SetClanName (cs_players s) (cm_SteamID enrolled) []) (c_Members clan))
              (\<lambda>_. io_ret clan)))"

lemmas clan_service_defs [service_defs] = actorClan_def reviewerClan_def detach_def ChangeMark_def
  RequestJoin_def ClanService_Create_def AcceptApplication_def RejectApplication_def
  CancelApplication_def KickMember_def Leave_def ChangePosition_def ChangeMaster_def Disband_def

section \<open>Transactions on the actor's clan\<close>

text \<open>
  The pure counterpart of a roster operation maps the actor's clan and membership to an error or to
  a result, the clan afterwards (\<open>None\<close> when it is deleted) and the accounts whose clan name is
  rewritten. \<open>acts_on_clan\<close> says that a program is that and nothing more.
\<close>

definition rename_accounts ::
  "(string \<times> string) list \<Rightarrow> (string \<Rightarrow> Player option) \<Rightarrow> string \<Rightarrow> Player option" where
  "rename_accounts names look =
     fold (\<lambda>(k, n) l. l(k := map_option (\<lambda>p. p\<lparr>p_ClanName := n\<rparr>) (l k))) names look"

type_synonym 'a clan_outcome = "go_error + 'a \<times> Clan option \<times> (string \<times> string) list"

definition acts_on_clan ::
  "('w \<Rightarrow> string \<Rightarrow> Player option) \<Rightarrow> ('w \<Rightarrow> string \<Rightarrow> Clan option) \<Rightarrow> ('w \<Rightarrow> bool) \<Rightarrow>
    (go_error, 'w, 'a) io \<Rightarrow> Player \<Rightarrow> (Clan \<Rightarrow> ClanMember \<Rightarrow> 'a clan_outcome) \<Rightarrow> bool" where
  "acts_on_clan look clook ok m actor f \<longleftrightarrow>
     (\<forall>w. ok w \<longrightarrow>
       (if p_ClanName actor = [] then m w = (Inl ErrNotInClan, w)
        else (case clook w (p_ClanName actor) of
            None \<Rightarrow> m w = (Inl ErrClanNotFound, w)
          | Some c \<Rightarrow> (case Clan_Member c (p_SteamID actor) of
                None \<Rightarrow> m w = (Inl ErrNotInClan, w)
              | Some me \<Rightarrow> (case f c me of
                    Inl e \<Rightarrow> m w = (Inl e, w)
                  | Inr (a, c', names) \<Rightarrow>
                      (\<exists>w'. m w = (Inr a, w') \<and> ok w' \<and> clook w' = (clook w)(c_Name c := c') \<and>
                        look w' = rename_accounts names (look w)))))))"

definition reviewed :: "ClanMember \<Rightarrow> 'a clan_outcome \<Rightarrow> 'a clan_outcome" where
  "reviewed me r = (if \<not> CanReviewClanApplications (cm_Rank me) then Inl ErrNotAllowed else r)"

definition accept_outcome :: "u16 \<Rightarrow> Clan \<Rightarrow> ClanMember \<Rightarrow> (Clan \<times> ClanMember) clan_outcome" where
  "accept_outcome i c me = reviewed me
     (case lookup_by ap_ApplicantID i (c_Applicants c) of
        None \<Rightarrow> Inl ErrApplicantNotFound
      | Some a \<Rightarrow>
          if IsFull c then Inl ErrClanFull
          else (let c' = c\<lparr>c_Members := c_Members c @ [enrolled a],
                     c_Applicants := remove_by ap_ApplicantID i (c_Applicants c)\<rparr>
                in Inr ((c', enrolled a), Some c', [(ap_SteamID a, c_Name c)])))"

definition reject_outcome :: "u16 \<Rightarrow> Clan \<Rightarrow> ClanMember \<Rightarrow> (Clan \<times> ClanApplicant) clan_outcome" where
  "reject_outcome i c me = reviewed me
     (case lookup_by ap_ApplicantID i (c_Applicants c) of
        None \<Rightarrow> Inl ErrApplicantNotFound
      | Some a \<Rightarrow>
          (let c' = c\<lparr>c_Applicants := remove_by ap_ApplicantID i (c_Applicants c)\<rparr>
           in Inr ((c', a), Some c', [])))"

definition kick_outcome :: "u16 \<Rightarrow> Clan \<Rightarrow> ClanMember \<Rightarrow> (Clan \<times> ClanMember) clan_outcome" where
  "kick_outcome i c me = reviewed me
     (case MemberByID c i of
        None \<Rightarrow> Inl ErrMemberNotFound
      | Some t \<Rightarrow>
          if is_master t \<or> cm_MemberID t = cm_MemberID me \<or>
            (cm_Rank me = ClanRankManager \<and> cm_Rank t = ClanRankManager)
          then Inl ErrNotAllowed
          else (let c' = c\<lparr>c_Members := remove_by cm_MemberID i (c_Members c)\<rparr>
                in Inr ((c', t), Some c', [(cm_SteamID t, [])])))"

definition leave_outcome :: "Clan \<Rightarrow> ClanMember \<Rightarrow> (Clan \<times> ClanMember) clan_outcome" where
  "leave_outcome c me =
     (if is_master me \<and> length (c_Members c) > 1 then Inl ErrMasterMustTransfer
      else (let c' = c\<lparr>c_Members := remove_by cm_MemberID (cm_MemberID me) (c_Members c)\<rparr>
            in Inr ((c', me), Some c', [(cm_SteamID me, [])])))"

definition position_outcome :: "u16 \<Rightarrow> u8 \<Rightarrow> Clan \<Rightarrow> ClanMember \<Rightarrow> (Clan \<times> ClanMember) clan_outcome" where
  "position_outcome i rank c me =
     (if \<not> is_master me then Inl ErrNotAllowed
      else if \<not> IsAssignableClanRank rank then Inl ErrInvalidRank
      else (case MemberByID c i of
          None \<Rightarrow> Inl ErrMemberNotFound
        | Some t \<Rightarrow>
            if cm_MemberID t = cm_MemberID me then Inl ErrNotAllowed
            else (let c' = c\<lparr>c_Members := update_by cm_MemberID i (with_rank rank) (c_Members c)\<rparr>
                  in Inr ((c', with_rank rank t), Some c', []))))"

definition master_outcome :: "u16 \<Rightarrow> Clan \<Rightarrow> ClanMember \<Rightarrow> (Clan \<times> ClanMember \<times> ClanMember) clan_outcome" where
  "master_outcome i c me =
     (if \<not> is_master me then Inl ErrNotAllowed
      else (case MemberByID c i of
          None \<Rightarrow> Inl ErrMemberNotFound
        | Some t \<Rightarrow>
            if cm_MemberID t = cm_MemberID me then Inl ErrMemberNotFound
            else (let c' = c\<lparr>c_Master := cm_SteamID t, c_Members :=
                      update_by cm_MemberID (cm_MemberID me) (with_rank ClanRankManager)
                        (update_by cm_MemberID i (with_rank ClanRankMaster) (c_Members c))\<rparr>
                  in Inr ((c', with_rank ClanRankMaster t, with_rank ClanRankManager me), Some c', []))))"

definition disband_outcome :: "Clan \<Rightarrow> ClanMember \<Rightarrow> Clan clan_outcome" where
  "disband_outcome c me =
     (if \<not> is_master me then Inl ErrNotAllowed
      else Inr (c, None, map (\<lambda>m. (cm_SteamID m, [])) (c_Members c)))"

lemma rename_accounts_simps [simp]:
  "rename_accounts [] look = look"
  "rename_accounts ((k, n) # names) look =
     rename_accounts names (look(k := map_option (\<lambda>p. p\<lparr>p_ClanName := n\<rparr>) (look k)))"
  by (simp_all add: rename_accounts_def)

context clan_store begin

lemma clook_changed: "clook w n = Some c \<Longrightarrow> clook (cupd n f w) = (clook w)(n \<mapsto> f c)"
  by (rule ext) (simp add: clook_cupd)

lemma clan_name_set: "look (upd k (\<lambda>p. p\<lparr>p_ClanName := n\<rparr>) w) = rename_accounts [(k, n)] (look w)"
  by (rule ext) (simp add: look_upd)

lemma actor_clan:
  assumes "cs_clans s = C"
  shows "actorClan s actor w =
    (if p_ClanName actor = [] then (Inl ErrNotInClan, w)
     else (case clook w (p_ClanName actor) of
         None \<Rightarrow> (Inl ErrClanNotFound, w)
       | Some c \<Rightarrow> (case Clan_Member c (p_SteamID actor) of
             None \<Rightarrow> (Inl ErrNotInClan, w) | Some me \<Rightarrow> (Inr (c, me), w))))"
  using assms by (simp add: actorClan_def io_eval cfind split: option.splits)

text \<open>
  A program that starts with \<open>actorClan\<close>: it suffices to look at what follows in a store where the
  actor's clan is filed under its name.
\<close>

lemma acts_on_clanI:
  assumes "cs_clans s = C"
    and "\<And>w c me e. ok w \<Longrightarrow> clook w (c_Name c) = Some c \<Longrightarrow> Clan_Member c (p_SteamID actor) = Some me \<Longrightarrow>
      f c me = Inl e \<Longrightarrow> k (c, me) w = (Inl e, w)"
    and "\<And>w c me a c' names. ok w \<Longrightarrow> clook w (c_Name c) = Some c \<Longrightarrow> Clan_Member c (p_SteamID actor) = Some me \<Longrightarrow>
      f c me = Inr (a, c', names) \<Longrightarrow>
      \<exists>w'. k (c, me) w = (Inr a, w') \<and> ok w' \<and> clook w' = (clook w)(c_Name c := c') \<and>
        look w' = rename_accounts names (look w)"
  shows "acts_on_clan look clook ok (io_bind (actorClan s actor) k) actor f"
proof -
  have "c_Name c = p_ClanName actor" if "ok w" "clook w (p_ClanName actor) = Some c" for w c
    using ok_ckey that by blast
  then show ?thesis
    using assms(2,3)
    by (auto simp: acts_on_clan_def io_bind_def actor_clan [OF assms(1)] split: option.splits sum.splits)
       metis
qed

lemmas clan_eval = io_eval reviewed_def save_applicants save_members save_roster save_leadership set_clan_name
  clook_changed clan_name_set frame_look frame_clook clook_cdel ok_cupd ok_upd ok_cdel

lemma Accept_acts:
  "cs_clans s = C \<Longrightarrow> cs_players s = R \<Longrightarrow>
    acts_on_clan look clook ok (AcceptApplication s actor i) actor (accept_outcome i)"
  unfolding AcceptApplication_def reviewerClan_def io_bind_assoc
  by (rule acts_on_clanI)
     (auto simp: clan_eval accept_outcome_def RemoveApplicant_def enrolled_def IsFull_def Capacity_def Let_def
        split: option.splits if_splits)

lemma Reject_acts:
  "cs_clans s = C \<Longrightarrow> acts_on_clan look clook ok (RejectApplication s actor i) actor (reject_outcome i)"
  unfolding RejectApplication_def reviewerClan_def io_bind_assoc
  by (rule acts_on_clanI)
     (auto simp: clan_eval reject_outcome_def RemoveApplicant_def Let_def split: option.splits if_splits)

lemma Kick_acts:
  "cs_clans s = C \<Longrightarrow> cs_players s = R \<Longrightarrow> acts_on_clan look clook ok (KickMember s actor i) actor (kick_outcome i)"
  unfolding KickMember_def reviewerClan_def io_bind_assoc
  by (rule acts_on_clanI)
     (auto simp: clan_eval kick_outcome_def RemoveMember_def detach_def is_master_def Let_def
        split: option.splits if_splits)

lemma Leave_acts:
  "cs_clans s = C \<Longrightarrow> cs_players s = R \<Longrightarrow> acts_on_clan look clook ok (Leave s actor) actor leave_outcome"
  unfolding Leave_def
  by (rule acts_on_clanI)
     (auto simp: clan_eval leave_outcome_def RemoveMember_def detach_def is_master_def Let_def
        split: option.splits if_splits)

lemma Position_acts:
  "cs_clans s = C \<Longrightarrow> acts_on_clan look clook ok (ChangePosition s actor i rank) actor (position_outcome i rank)"
  unfolding ChangePosition_def
  by (rule acts_on_clanI)
     (auto simp: clan_eval position_outcome_def SetRank_def is_master_def Let_def
        split: option.splits if_splits)

lemma Master_acts:
  "cs_clans s = C \<Longrightarrow> acts_on_clan look clook ok (ChangeMaster s actor i) actor (master_outcome i)"
  unfolding ChangeMaster_def
  by (rule acts_on_clanI)
     (auto simp: clan_eval master_outcome_def SetRank_def is_master_def MemberByID_def Let_def
        split: option.splits if_splits dest: lookup_by_SomeD)

lemma clear_names:
  assumes "ok w"
  shows "\<exists>w'. io_each (\<lambda>m. pr_SetClanName R (cm_SteamID m) []) ms w = (Inr (), w') \<and> ok w' \<and>
    clook w' = clook w \<and> look w' = rename_accounts (map (\<lambda>m. (cm_SteamID m, [])) ms) (look w)"
  using assms
proof (induction ms arbitrary: w)
  case (Cons m ms)
  let ?w = "upd (cm_SteamID m) (\<lambda>p. p\<lparr>p_ClanName := []\<rparr>) w"
  have "ok ?w" using Cons.prems by (simp add: ok_upd)
  then obtain w' where "io_each (\<lambda>m. pr_SetClanName R (cm_SteamID m) []) ms ?w = (Inr (), w')" "ok w'"
      "clook w' = clook ?w" "look w' = rename_accounts (map (\<lambda>m. (cm_SteamID m, [])) ms) (look ?w)"
    using Cons.IH by blast
  moreover have "pr_SetClanName R (cm_SteamID m) [] w = (Inr (), ?w)" by (simp add: set_clan_name)
  ultimately show ?case by (simp add: io_eval frame_clook clan_name_set)
qed (simp add: io_eval)

lemma Disband_acts:
  assumes "cs_clans s = C" and "cs_players s = R"
  shows "acts_on_clan look clook ok (Disband s actor) actor disband_outcome"
  unfolding Disband_def
proof (rule acts_on_clanI)
  fix w c me a c' names
  assume ok: "ok w" and "clook w (c_Name c) = Some c" and f: "disband_outcome c me = Inr (a, c', names)"
  then have m: "\<not> cm_Rank me \<noteq> ClanRankMaster" and r: "a = c" "c' = None" "names = map (\<lambda>m. (cm_SteamID m, [])) (c_Members c)"
    by (auto simp: disband_outcome_def is_master_def split: if_splits)
  have "ok (cdel (c_Name c) w)" using ok by (rule ok_cdel)
  then obtain w' where w': "io_each (\<lambda>m. pr_SetClanName R (cm_SteamID m) []) (c_Members c) (cdel (c_Name c) w) = (Inr (), w')"
      "ok w'" "clook w' = clook (cdel (c_Name c) w)" "look w' = rename_accounts names (look (cdel (c_Name c) w))"
    using clear_names r(3) by blast
  have "clook (cdel (c_Name c) w) = (clook w)(c_Name c := None)" by (rule ext) (simp add: clook_cdel)
  with w' m r show "\<exists>w'. (case (c, me) of (clan, member) \<Rightarrow>
      if cm_Rank member \<noteq> ClanRankMaster then io_fail ErrNotAllowed
      else io_bind (cr_Delete (cs_clans s) (c_Name clan)) (\<lambda>_.
           io_bind (io_each (\<lambda>enrolled. pr_SetClanName (cs_players s) (cm_SteamID enrolled) []) (c_Members clan))
             (\<lambda>_. io_ret clan))) w = (Inr a, w') \<and> ok w' \<and> clook w' = (clook w)(c_Name c := c') \<and>
      look w' = rename_accounts names (look w)"
    using assms by (simp add: io_eval cdelete frame_look)
qed (use assms in \<open>auto simp: io_eval disband_outcome_def is_master_def split: if_splits\<close>)

end

end
