(* ===== verification/Friend_Service.thy ===== *)
theory Friend_Service
  imports Player_Service
begin

text \<open>
  The friend service (services/friend_service.go) over any player repository: requests, answers,
  removal, the data of the friend panel and the resolution of an invitation. Each operation is then
  characterised by what it reads and which account records it rewrites, proved once against the
  \<open>player_store\<close> contract.
\<close>

section \<open>The service\<close>

record 'w FriendService =
  fs_players :: "'w PlayerRepository"

definition FriendService_actor :: "'w FriendService \<Rightarrow> string \<Rightarrow> (go_error, 'w, Player) io" where
  "FriendService_actor s steamID =
     io_bind (pr_Find (fs_players s) steamID) (\<lambda>found. case found of
       None \<Rightarrow> io_fail ErrPlayerNotFound | Some player \<Rightarrow> io_ret player)"

definition FriendService_Request ::
  "'w FriendService \<Rightarrow> string \<Rightarrow> string \<Rightarrow> time \<Rightarrow> (go_error, 'w, Player \<times> FriendRequest) io" where
  "FriendService_Request s senderID targetName now =
     io_bind (FriendService_actor s senderID) (\<lambda>sender.
     io_bind (pr_FindByName (fs_players s) (trim_space targetName)) (\<lambda>found. case found of
       None \<Rightarrow> io_fail ErrFriendNotFound
     | Some target \<Rightarrow>
         if p_SteamID target = p_SteamID sender then io_fail ErrFriendSelf
         else if IsFriendOf target (p_SteamID sender) then io_fail ErrAlreadyFriends
         else (case FriendRequestFrom target (p_SteamID sender) of
             Some existing \<Rightarrow> io_fail (ErrRequestPending target existing)
           | None \<Rightarrow>
               (let request = \<lparr>q_RequestID = NextSocialID target, q_SteamID = p_SteamID sender, q_SentAt = now\<rparr>;
                    target = target\<lparr>p_FriendRequests := p_FriendRequests target @ [request]\<rparr>
                in io_bind (pr_SaveSocial (fs_players s) (p_SteamID target) (p_Friends target) (p_FriendRequests target))
                     (\<lambda>_. io_ret (target, request))))))"

definition zero_friend :: Friend where
  "zero_friend = \<lparr>f_FriendID = 0, f_SteamID = [], f_Since = zero_time\<rparr>"

definition save_social :: "'w FriendService \<Rightarrow> Player \<Rightarrow> (go_error, 'w, unit) io" where
  "save_social s p = pr_SaveSocial (fs_players s) (p_SteamID p) (p_Friends p) (p_FriendRequests p)"

definition FriendService_Accept ::
  "'w FriendService \<Rightarrow> string \<Rightarrow> u16 \<Rightarrow> time \<Rightarrow> (go_error, 'w, Friend \<times> Friend \<times> Player) io" where
  "FriendService_Accept s actorID requestID now =
     io_bind (FriendService_actor s actorID) (\<lambda>actor.
     case RemoveFriendRequest actor requestID of
       None \<Rightarrow> io_fail ErrRequestNotFound
     | Some (request, actor) \<Rightarrow>
         io_bind (pr_Find (fs_players s) (q_SteamID request)) (\<lambda>found. case found of
           None \<Rightarrow> io_bind (save_social s actor) (\<lambda>_. io_ret (zero_friend, zero_friend, empty_player))
         | Some sender \<Rightarrow>
             (let mine = \<lparr>f_FriendID = requestID, f_SteamID = p_SteamID sender, f_Since = now\<rparr>;
                  theirs = \<lparr>f_FriendID = NextSocialID sender, f_SteamID = p_SteamID actor, f_Since = now\<rparr>;
                  actor = actor\<lparr>p_Friends := p_Friends actor @ [mine]\<rparr>;
                  sender = sender\<lparr>p_Friends := p_Friends sender @ [theirs]\<rparr>
              in io_bind (save_social s actor) (\<lambda>_.
                 io_bind (save_social s sender) (\<lambda>_. io_ret (mine, theirs, sender))))))"

definition FriendService_Reject :: "'w FriendService \<Rightarrow> string \<Rightarrow> u16 \<Rightarrow> (go_error, 'w, FriendRequest) io" where
  "FriendService_Reject s actorID requestID =
     io_bind (FriendService_actor s actorID) (\<lambda>actor.
     case RemoveFriendRequest actor requestID of
       None \<Rightarrow> io_fail ErrRequestNotFound
     | Some (request, actor) \<Rightarrow> io_bind (save_social s actor) (\<lambda>_. io_ret request))"

definition FriendService_Delete :: "'w FriendService \<Rightarrow> string \<Rightarrow> u16 \<Rightarrow> (go_error, 'w, Friend \<times> Friend) io" where
  "FriendService_Delete s actorID friendID =
     io_bind (FriendService_actor s actorID) (\<lambda>actor.
     case RemoveFriend actor friendID of
       None \<Rightarrow> io_fail ErrFriendListMissing
     | Some (friend, actor) \<Rightarrow>
         io_bind (save_social s actor) (\<lambda>_.
         io_bind (pr_Find (fs_players s) (f_SteamID friend)) (\<lambda>found. case found of
           None \<Rightarrow> io_ret (friend, zero_friend)
         | Some other \<Rightarrow> (case RemoveFriendOf other (p_SteamID actor) of
               None \<Rightarrow> io_ret (friend, zero_friend)
             | Some (mirrored, other) \<Rightarrow> io_bind (save_social s other) (\<lambda>_. io_ret (friend, mirrored))))))"

definition accounts :: "'w FriendService \<Rightarrow> Player \<Rightarrow> (go_error, 'w, (string \<times> Player) list) io" where
  "accounts s player =
     (let steamIDs = map f_SteamID (p_Friends player) @ map q_SteamID (p_FriendRequests player)
      in if steamIDs = [] then io_ret [] else pr_FindMany (fs_players s) steamIDs)"

definition Lists :: "'w FriendService \<Rightarrow> string \<Rightarrow> (go_error, 'w, Player \<times> (string \<times> Player) list) io" where
  "Lists s steamID =
     io_bind (FriendService_actor s steamID) (\<lambda>player.
     io_bind (accounts s player) (\<lambda>found. io_ret (player, found)))"

definition FriendService_Find :: "'w FriendService \<Rightarrow> string \<Rightarrow> (go_error, 'w, Player option) io" where
  "FriendService_Find s steamID = pr_Find (fs_players s) steamID"

definition InviteTarget :: "'w FriendService \<Rightarrow> string \<Rightarrow> u16 \<Rightarrow> (go_error, 'w, Player \<times> u16) io" where
  "InviteTarget s actorID friendID =
     io_bind (FriendService_actor s actorID) (\<lambda>actor.
     case Player_Friend actor friendID of
       None \<Rightarrow> io_fail ErrFriendListMissing
     | Some friend \<Rightarrow>
         io_bind (pr_Find (fs_players s) (f_SteamID friend)) (\<lambda>found. case found of
           None \<Rightarrow> io_fail ErrPlayerNotFound
         | Some target \<Rightarrow> (case FriendEntryFor target actorID of
               None \<Rightarrow> io_fail ErrFriendListMissing
             | Some mirrored \<Rightarrow> io_ret (target, f_FriendID mirrored))))"

lemmas friend_service_defs [service_defs] = FriendService_actor_def FriendService_Request_def save_social_def
  FriendService_Accept_def FriendService_Reject_def FriendService_Delete_def accounts_def Lists_def
  FriendService_Find_def InviteTarget_def

section \<open>What an operation does to the store\<close>

abbreviation with_social :: "Friend list \<Rightarrow> FriendRequest list \<Rightarrow> Player \<Rightarrow> Player" where
  "with_social friends requests p \<equiv> p\<lparr>p_Friends := friends, p_FriendRequests := requests\<rparr>"

lemma removal_social:
  "RemoveFriendRequest p i = Some (q, p') \<Longrightarrow> p' = with_social (p_Friends p') (p_FriendRequests p') p \<and> p_SteamID p' = p_SteamID p"
  "RemoveFriend p i = Some (f, p') \<Longrightarrow> p' = with_social (p_Friends p') (p_FriendRequests p') p \<and> p_SteamID p' = p_SteamID p"
  "RemoveFriendOf p k = Some (f, p') \<Longrightarrow> p' = with_social (p_Friends p') (p_FriendRequests p') p \<and> p_SteamID p' = p_SteamID p"
  by (auto simp: RemoveFriendRequest_def RemoveFriend_def RemoveFriendOf_def)

context player_store begin

lemma friend_actor [io_simps]:
  "fs_players s = R \<Longrightarrow>
    FriendService_actor s k w = (case look w k of None \<Rightarrow> (Inl ErrPlayerNotFound, w) | Some p \<Rightarrow> (Inr p, w))"
  by (simp add: FriendService_actor_def io_eval find split: option.splits)

lemma social_saved:
  assumes "fs_players s = R" and "look w (p_SteamID p) = Some q" and "p = with_social (p_Friends p) (p_FriendRequests p) q"
  shows "\<exists>w'. save_social s p w = (Inr (), w') \<and> look w' = (look w)(p_SteamID p \<mapsto> p) \<and> (ok w \<longrightarrow> ok w')"
proof -
  have "p_SteamID p = p_SteamID q" by (subst assms(3)) simp
  with assms show ?thesis
    using look_changed [OF assms(2), of "with_social (p_Friends p) (p_FriendRequests p)"]
    by (auto simp: save_social_def save_social intro!: ok_upd)
qed

lemma Request_outcome:
  assumes s: "fs_players s = R" and ok: "ok w" and run: "FriendService_Request s a name now w = (r, w')"
  shows "(\<exists>e. r = Inl e) \<and> w' = w \<or>
    (\<exists>p t q. look w a = Some p \<and> look w (p_SteamID t) = Some t \<and> p_Name t = trim_space name \<and> p_SteamID t \<noteq> a \<and>
      \<not> IsFriendOf t a \<and> FriendRequestFrom t a = None \<and>
      q = \<lparr>q_RequestID = NextSocialID t, q_SteamID = a, q_SentAt = now\<rparr> \<and>
      r = Inr (t\<lparr>p_FriendRequests := p_FriendRequests t @ [q]\<rparr>, q) \<and> ok w' \<and>
      look w' = (look w)(p_SteamID t \<mapsto> t\<lparr>p_FriendRequests := p_FriendRequests t @ [q]\<rparr>))"
proof -
  obtain f where f: "pr_FindByName R (trim_space name) w = (Inr f, w)"
      "\<And>t. f = Some t \<Longrightarrow> look w (p_SteamID t) = Some t \<and> p_Name t = trim_space name"
    using by_name [OF ok, of "trim_space name"] by blast
  show ?thesis
  proof (cases "\<exists>p t. look w a = Some p \<and> f = Some t \<and> p_SteamID t \<noteq> a \<and> \<not> IsFriendOf t a \<and> FriendRequestFrom t a = None")
    case False
    then show ?thesis using run s f(1) ok_key [OF ok, of a]
      by (auto simp: FriendService_Request_def io_eval friend_actor split: option.splits if_splits)
  next
    case True
    then obtain p t where t: "look w a = Some p" "f = Some t" "p_SteamID t \<noteq> a" "\<not> IsFriendOf t a" "FriendRequestFrom t a = None"
      by blast
    let ?q = "\<lparr>q_RequestID = NextSocialID t, q_SteamID = a, q_SentAt = now\<rparr>"
    let ?t = "t\<lparr>p_FriendRequests := p_FriendRequests t @ [?q]\<rparr>"
    have "p_SteamID p = a" by (rule ok_key [OF ok t(1)])
    moreover have "look w (p_SteamID ?t) = Some t" using f(2) [OF t(2)] by simp
    from social_saved [OF s this] obtain w1 where "save_social s ?t w = (Inr (), w1)"
        "look w1 = (look w)(p_SteamID t \<mapsto> ?t)" "ok w1" using ok by auto
    ultimately show ?thesis
      using run s f(1) t f(2) [OF t(2)]
      by (auto simp: FriendService_Request_def io_eval friend_actor Let_def save_social_def)
  qed
qed

lemma Reject_outcome:
  assumes s: "fs_players s = R" and ok: "ok w" and run: "FriendService_Reject s a i w = (r, w')"
  shows "(\<exists>e. r = Inl e) \<and> w' = w \<or>
    (\<exists>p p' q. look w a = Some p \<and> RemoveFriendRequest p i = Some (q, p') \<and> r = Inr q \<and> ok w' \<and>
      look w' = (look w)(a \<mapsto> p'))"
proof (cases "\<exists>p q p'. look w a = Some p \<and> RemoveFriendRequest p i = Some (q, p')")
  case False
  then show ?thesis using run s
    by (auto simp: FriendService_Reject_def io_eval friend_actor split: option.splits)
next
  case True
  then obtain p q p' where p: "look w a = Some p" "RemoveFriendRequest p i = Some (q, p')" by blast
  have k: "p_SteamID p = a" by (rule ok_key [OF ok p(1)])
  have p': "p' = with_social (p_Friends p') (p_FriendRequests p') p" "p_SteamID p' = a"
    using removal_social(1) [OF p(2)] k by simp_all
  from social_saved [OF s _ p'(1)] obtain w1 where "save_social s p' w = (Inr (), w1)" "look w1 = (look w)(a \<mapsto> p')" "ok w1"
    using ok p(1) p'(2) by auto
  with run s p show ?thesis
    by (auto simp: FriendService_Reject_def io_eval friend_actor)
qed

lemma Accept_outcome:
  assumes s: "fs_players s = R" and ok: "ok w" and run: "FriendService_Accept s a i now w = (r, w')"
  shows "(\<exists>e. r = Inl e) \<and> w' = w \<or>
    (\<exists>p p' q. look w a = Some p \<and> RemoveFriendRequest p i = Some (q, p') \<and> ok w' \<and>
      (case look w (q_SteamID q) of
         None \<Rightarrow> r = Inr (zero_friend, zero_friend, empty_player) \<and> look w' = (look w)(a \<mapsto> p')
       | Some sn \<Rightarrow> (\<exists>mine theirs sn'. mine = \<lparr>f_FriendID = i, f_SteamID = q_SteamID q, f_Since = now\<rparr> \<and>
           theirs = \<lparr>f_FriendID = NextSocialID sn, f_SteamID = a, f_Since = now\<rparr> \<and>
           sn' = sn\<lparr>p_Friends := p_Friends sn @ [theirs]\<rparr> \<and> r = Inr (mine, theirs, sn') \<and>
           look w' = (look w)(a \<mapsto> p'\<lparr>p_Friends := p_Friends p' @ [mine]\<rparr>, q_SteamID q \<mapsto> sn'))))"
proof (cases "\<exists>p q p'. look w a = Some p \<and> RemoveFriendRequest p i = Some (q, p')")
  case False
  then show ?thesis using run s
    by (auto simp: FriendService_Accept_def io_eval friend_actor split: option.splits)
next
  case True
  then obtain p q p' where p: "look w a = Some p" "RemoveFriendRequest p i = Some (q, p')" by blast
  have k: "p_SteamID p = a" by (rule ok_key [OF ok p(1)])
  have p': "p' = with_social (p_Friends p') (p_FriendRequests p') p" "p_SteamID p' = a"
    using removal_social(1) [OF p(2)] k by simp_all
  show ?thesis
  proof (cases "look w (q_SteamID q)")
    case None
    from social_saved [OF s _ p'(1)] obtain w1 where "save_social s p' w = (Inr (), w1)" "look w1 = (look w)(a \<mapsto> p')" "ok w1"
      using ok p(1) p'(2) by auto
    with run s p None show ?thesis by (auto simp: FriendService_Accept_def io_eval friend_actor find)
  next
    case (Some sn)
    have sk: "p_SteamID sn = q_SteamID q" by (rule ok_key [OF ok Some])
    let ?mine = "\<lparr>f_FriendID = i, f_SteamID = q_SteamID q, f_Since = now\<rparr>"
    let ?theirs = "\<lparr>f_FriendID = NextSocialID sn, f_SteamID = a, f_Since = now\<rparr>"
    let ?p = "p'\<lparr>p_Friends := p_Friends p' @ [?mine]\<rparr>" and ?s = "sn\<lparr>p_Friends := p_Friends sn @ [?theirs]\<rparr>"
    have "look w (p_SteamID ?p) = Some p" "?p = with_social (p_Friends ?p) (p_FriendRequests ?p) p"
      using p(1) p'(2) by (simp, subst p'(1), simp)
    from social_saved [OF s this] obtain w1 where w1: "save_social s ?p w = (Inr (), w1)" "look w1 = (look w)(a \<mapsto> ?p)" "ok w1"
      using ok p'(2) by auto
    have "\<exists>x. look w1 (p_SteamID ?s) = Some x \<and> ?s = with_social (p_Friends ?s) (p_FriendRequests ?s) x"
    proof (cases "q_SteamID q = a")
      case True
      with Some p(1) have "sn = p" by simp
      obtain fs rs where "p' = with_social fs rs p" using p'(1) by blast
      then show ?thesis unfolding \<open>sn = p\<close> using True w1(2) k by (intro exI [of _ ?p]) simp
    next
      case False
      then show ?thesis using Some w1(2) sk by simp
    qed
    then obtain x where "look w1 (p_SteamID ?s) = Some x" "?s = with_social (p_Friends ?s) (p_FriendRequests ?s) x" by blast
    from social_saved [OF s this] obtain w2 where w2: "save_social s ?s w1 = (Inr (), w2)"
        "look w2 = (look w1)(q_SteamID q \<mapsto> ?s)" "ok w2" using w1(3) sk by auto
    show ?thesis using run s p p'(2) Some sk w1 w2
      by (auto simp: FriendService_Accept_def io_eval friend_actor find Let_def)
  qed
qed

lemma Delete_outcome:
  assumes s: "fs_players s = R" and ok: "ok w" and run: "FriendService_Delete s a i w = (r, w')"
  shows "(\<exists>e. r = Inl e) \<and> w' = w \<or>
    (\<exists>p p' f l1. look w a = Some p \<and> RemoveFriend p i = Some (f, p') \<and> l1 = (look w)(a \<mapsto> p') \<and> ok w' \<and>
      (case l1 (f_SteamID f) of
         None \<Rightarrow> r = Inr (f, zero_friend) \<and> look w' = l1
       | Some other \<Rightarrow> (case RemoveFriendOf other a of
             None \<Rightarrow> r = Inr (f, zero_friend) \<and> look w' = l1
           | Some (m, other') \<Rightarrow> r = Inr (f, m) \<and> look w' = l1(f_SteamID f \<mapsto> other'))))"
proof (cases "\<exists>p f p'. look w a = Some p \<and> RemoveFriend p i = Some (f, p')")
  case False
  then show ?thesis using run s
    by (auto simp: FriendService_Delete_def io_eval friend_actor split: option.splits)
next
  case True
  then obtain p f p' where p: "look w a = Some p" "RemoveFriend p i = Some (f, p')" by blast
  have k: "p_SteamID p = a" by (rule ok_key [OF ok p(1)])
  have p': "p' = with_social (p_Friends p') (p_FriendRequests p') p" "p_SteamID p' = a"
    using removal_social(2) [OF p(2)] k by simp_all
  from social_saved [OF s _ p'(1)] obtain w1 where w1: "save_social s p' w = (Inr (), w1)" "look w1 = (look w)(a \<mapsto> p')" "ok w1"
    using ok p(1) p'(2) by auto
  show ?thesis
  proof (cases "\<exists>x m y. look w1 (f_SteamID f) = Some x \<and> RemoveFriendOf x a = Some (m, y)")
    case False
    then show ?thesis using run s p p'(2) w1
      by (auto simp: FriendService_Delete_def io_eval friend_actor find simp del: fun_upd_apply split: option.splits)
  next
    case True
    then obtain x m y where x: "look w1 (f_SteamID f) = Some x" "RemoveFriendOf x a = Some (m, y)" by blast
    have y: "y = with_social (p_Friends y) (p_FriendRequests y) x" "p_SteamID y = f_SteamID f"
      using removal_social(3) [OF x(2)] ok_key [OF w1(3) x(1)] by simp_all
    from social_saved [OF s _ y(1)] obtain w2 where w2: "save_social s y w1 = (Inr (), w2)"
        "look w2 = (look w1)(f_SteamID f \<mapsto> y)" "ok w2" using x(1) y(2) w1(3) by auto
    then show ?thesis using run s p p'(2) w1 x
      by (auto simp: FriendService_Delete_def io_eval friend_actor find simp del: fun_upd_apply split: option.splits)
  qed
qed

end

end
