(* ===== verification/Server_State.thy ===== *)
theory Server_State
  imports Rmi Rmi_Ids Registries Player_Service Clan_Service Friend_Service
begin

text \<open>
  What a running server holds and what every handler does with it: the per-connection application
  data (identity.go), the pushes to connections, accounts and rooms (session_registry.go, room.go),
  and access to the shared rooms, the registries and the store. A handler runs as one step; the
  transport of each connection is the \<open>Session\<close> of the theory Rmi, written to byte by byte.
\<close>

section \<open>State\<close>

text \<open>\<open>Session.State\<close>, the application data of an identified connection (identity.go).\<close>

record sessionData =
  sd_player :: Player
  sd_room :: "room_ref option"
  sd_roomUser :: u32
  sd_channel :: u8

text \<open>
  \<open>hub_wires\<close> gives the transport of a connection, \<open>hub_state\<close> its application data, \<open>hub_rooms\<close> the
  rooms ever created (a room is referred to by its position). \<open>hub_sent\<close> has no counterpart: it lists
  the plain messages that went out whole, in order.
\<close>

record hub =
  hub_db :: db
  hub_wires :: "conn \<Rightarrow> Session"
  hub_state :: "conn \<Rightarrow> sessionData option"
  hub_rooms :: "Room list"
  hub_registry :: RoomRegistry
  hub_sessions :: SessionRegistry
  hub_credentials :: Credentials
  hub_tickets :: matchTickets
  hub_matches :: matchSessions
  hub_sent :: "(conn \<times> Message) list"

text \<open>
  What the handler groups are constructed with: the services, the catalog, the channels, the address
  the server advertises, and the environment they ask: the remote address of a connection, the AES
  constructor, the readings of the clock during one request and Unicode's lower-case mapping.
\<close>

record Channel =
  ch_ServerID :: i32
  ch_ID :: u8
  ch_Kind :: u8
  ch_Name :: string
  ch_Host :: string
  ch_Port :: u16
  ch_MaxUsers :: u16

record conf =
  cf_players :: "db PlayerService"
  cf_clans :: "db ClanService"
  cf_friends :: "db FriendService"
  cf_catalog :: Catalog
  cf_channels :: "Channel list"
  cf_gameHost :: string
  cf_gamePort :: u16
  cf_address :: "conn \<Rightarrow> string option"
  cf_cipher :: new_cipher
  cf_now :: "nat \<Rightarrow> time"
  cf_lower :: "nat \<Rightarrow> nat"

type_synonym 'a act = "(handler_error, hub, 'a) io"

text \<open>A service call: its error is a value for the handler to look at.\<close>

definition on_db :: "(go_error, db, 'a) io \<Rightarrow> (go_error + 'a) act" where
  "on_db m w = (case m (hub_db w) of (r, d) \<Rightarrow> (Inr r, w\<lparr>hub_db := d\<rparr>))"

text \<open>A missing key of a Go map reads as the zero value.\<close>

definition account_of :: "(string \<times> Player) list \<Rightarrow> string \<Rightarrow> Player" where
  "account_of known steamID = (case map_of known steamID of None \<Rightarrow> empty_player | Some p \<Rightarrow> p)"

text \<open>\<open>indexBySerial[serial]\<close>: the last item with the serial, 0 when there is none.\<close>

definition indexBySerial :: "Player \<Rightarrow> u16 \<Rightarrow> u32" where
  "indexBySerial player serial =
     (case map_of (rev (map (\<lambda>item. (i_Serial item, i_ItemIndex item)) (p_Inventory player))) serial of
        None \<Rightarrow> 0 | Some i \<Rightarrow> i)"

text \<open>
  An access that panics when it is out of range, and a call whose error is only logged or answered with
  a refusal: a panic, or a loop without end, is no error that could be looked at.
\<close>

definition checked :: "'a option \<Rightarrow> ('a \<Rightarrow> 'b act) \<Rightarrow> 'b act" where
  "checked access k = (case access of None \<Rightarrow> io_fail Panic | Some a \<Rightarrow> k a)"

lemma checked_simps [simp]: "checked (Some a) k = k a" "checked None k = io_fail Panic"
  by (simp_all add: checked_def)

definition fatal_error :: "handler_error \<Rightarrow> bool" where
  "fatal_error e \<longleftrightarrow> e = Panic \<or> e = NeverReturns"

definition io_try :: "'a act \<Rightarrow> unit act" where
  "io_try m w = (case m w of
     (Inl e, w') \<Rightarrow> (if fatal_error e then Inl e else Inr (), w')
   | (Inr _, w') \<Rightarrow> (Inr (), w'))"

lemma keeps_try [keeps_intros]: "keeps P m \<Longrightarrow> keeps P (io_try m)"
  by (auto simp: keeps_def io_try_def split: prod.split sum.split)

lemma keeps_checked [keeps_intros]: "(\<And>a. keeps P (k a)) \<Longrightarrow> keeps P (checked access k)"
  by (auto simp: checked_def keeps_basic split: option.split)

section \<open>Sending\<close>

definition session_SendPlain :: "conn \<Rightarrow> Message \<Rightarrow> unit act" where
  "session_SendPlain c msg w =
     (case SendPlain msg (hub_wires w c) of
        (Inl e, s) \<Rightarrow> (Inl SendFailed, w\<lparr>hub_wires := (hub_wires w)(c := s)\<rparr>)
      | (Inr _, s) \<Rightarrow> (Inr (), w\<lparr>hub_wires := (hub_wires w)(c := s), hub_sent := hub_sent w @ [(c, msg)]\<rparr>))"

definition session_SendEncrypted :: "new_cipher \<Rightarrow> conn \<Rightarrow> Message \<Rightarrow> unit act" where
  "session_SendEncrypted newCipher c msg w =
     (case SendEncrypted newCipher msg (hub_wires w c) of
        (Inl e, s) \<Rightarrow> (Inl SendFailed, w\<lparr>hub_wires := (hub_wires w)(c := s)\<rparr>)
      | (Inr _, s) \<Rightarrow> (Inr (), w\<lparr>hub_wires := (hub_wires w)(c := s)\<rparr>))"

text \<open>\<open>session.SendPlain(Message{ID: i, Body: b})\<close>, and a list of them up to the first failure.\<close>

definition send :: "conn \<Rightarrow> u16 \<Rightarrow> byte list \<Rightarrow> unit act" where
  "send c i b = session_SendPlain c \<lparr>ID = i, Body = b\<rparr>"

definition send_all :: "conn \<Rightarrow> (u16 \<times> byte list) list \<Rightarrow> unit act" where
  "send_all c = io_each (\<lambda>(i, b). send c i b)"

text \<open>A push whose failure is only logged.\<close>

definition push :: "conn \<Rightarrow> u16 \<Rightarrow> byte list \<Rightarrow> unit act" where
  "push c i b = io_try (send c i b)"

section \<open>The account of a connection (identity.go)\<close>

definition bindPlayer :: "conn \<Rightarrow> Player \<Rightarrow> hub \<Rightarrow> hub" where
  "bindPlayer c player w =
     w\<lparr>hub_state := (hub_state w)(c \<mapsto> \<lparr>sd_player = player, sd_room = None, sd_roomUser = 0, sd_channel = 0\<rparr>),
       hub_sessions := Bind (p_SteamID player) c (hub_sessions w)\<rparr>"

definition resolvePlayer :: "conn \<Rightarrow> hub \<Rightarrow> Player option" where
  "resolvePlayer c w = map_option sd_player (hub_state w c)"

definition change_data :: "conn \<Rightarrow> (sessionData \<Rightarrow> sessionData) \<Rightarrow> hub \<Rightarrow> hub" where
  "change_data c f w = (case hub_state w c of None \<Rightarrow> w | Some d \<Rightarrow> w\<lparr>hub_state := (hub_state w)(c \<mapsto> f d)\<rparr>)"

definition updatePlayer :: "conn \<Rightarrow> Player \<Rightarrow> hub \<Rightarrow> hub" where
  "updatePlayer c player = change_data c (\<lambda>d. d\<lparr>sd_player := player\<rparr>)"

definition sessionRoom :: "conn \<Rightarrow> hub \<Rightarrow> room_ref option" where
  "sessionRoom c w = (case hub_state w c of None \<Rightarrow> None | Some d \<Rightarrow> sd_room d)"

definition sessionChannel :: "conn \<Rightarrow> hub \<Rightarrow> u8" where
  "sessionChannel c w = (case hub_state w c of None \<Rightarrow> 0 | Some d \<Rightarrow> sd_channel d)"

definition setSessionChannel :: "conn \<Rightarrow> u8 \<Rightarrow> hub \<Rightarrow> hub" where
  "setSessionChannel c channel = change_data c (\<lambda>d. d\<lparr>sd_channel := channel\<rparr>)"

definition sessionRoomUser :: "conn \<Rightarrow> hub \<Rightarrow> u32" where
  "sessionRoomUser c w = (case hub_state w c of None \<Rightarrow> 0 | Some d \<Rightarrow> sd_roomUser d)"

definition setSessionRoomUser :: "conn \<Rightarrow> u32 \<Rightarrow> hub \<Rightarrow> hub" where
  "setSessionRoomUser c i = change_data c (\<lambda>d. d\<lparr>sd_roomUser := i\<rparr>)"

definition setSessionRoom :: "conn \<Rightarrow> room_ref option \<Rightarrow> hub \<Rightarrow> hub" where
  "setSessionRoom c room = change_data c (\<lambda>d. d\<lparr>sd_room := room\<rparr>)"

text \<open>\<open>player, ok := resolvePlayer(session); if !ok { refused }\<close>\<close>

definition with_player :: "conn \<Rightarrow> 'a act \<Rightarrow> (Player \<Rightarrow> 'a act) \<Rightarrow> 'a act" where
  "with_player c refused k = io_bind (io_get (resolvePlayer c)) (\<lambda>found. case found of
     None \<Rightarrow> refused | Some player \<Rightarrow> k player)"

text \<open>\<open>room := sessionRoom(session); if room == nil { refused }\<close>\<close>

definition with_room :: "conn \<Rightarrow> 'a act \<Rightarrow> (room_ref \<Rightarrow> 'a act) \<Rightarrow> 'a act" where
  "with_room c refused k = io_bind (io_get (sessionRoom c)) (\<lambda>found. case found of
     None \<Rightarrow> refused | Some room \<Rightarrow> k room)"

section \<open>Rooms\<close>

definition room_at :: "room_ref \<Rightarrow> hub \<Rightarrow> Room" where
  "room_at room w = (if room < length (hub_rooms w) then hub_rooms w ! room else zero_room)"

text \<open>An operation of a room, under its lock.\<close>

definition on_room :: "room_ref \<Rightarrow> (Room \<Rightarrow> 'a \<times> Room) \<Rightarrow> 'a act" where
  "on_room room f w = (case f (room_at room w) of (a, r) \<Rightarrow> (Inr a, w\<lparr>hub_rooms := (hub_rooms w)[room := r]\<rparr>))"

definition on_tickets :: "(matchTickets \<Rightarrow> 'a \<times> matchTickets) \<Rightarrow> 'a act" where
  "on_tickets f w = (case f (hub_tickets w) of (a, t) \<Rightarrow> (Inr a, w\<lparr>hub_tickets := t\<rparr>))"

definition on_matches :: "(matchSessions \<Rightarrow> 'a \<times> matchSessions) \<Rightarrow> 'a act" where
  "on_matches f w = (case f (hub_matches w) of (a, m) \<Rightarrow> (Inr a, w\<lparr>hub_matches := m\<rparr>))"

text \<open>A room just built gets a place, and \<open>RoomRegistry.Open\<close> its number.\<close>

definition open_room :: "Room \<Rightarrow> room_ref act" where
  "open_room room w =
     (let new = length (hub_rooms w)
      in case Open new (hub_registry w) of
           None \<Rightarrow> (Inl NeverReturns, w)
         | Some (n, registry) \<Rightarrow>
             (Inr new, w\<lparr>hub_rooms := hub_rooms w @ [room\<lparr>rm_Number := n\<rparr>], hub_registry := registry\<rparr>))"

definition close_room :: "u16 \<Rightarrow> hub \<Rightarrow> hub" where
  "close_room n w = w\<lparr>hub_registry := Close n (hub_registry w)\<rparr>"

section \<open>Pushes to accounts and rooms (session_registry.go, room.go)\<close>

definition InRoom :: "u16 \<Rightarrow> hub \<Rightarrow> conn list" where
  "InRoom n w = filter (\<lambda>c. case sessionRoom c w of None \<Rightarrow> False | Some room \<Rightarrow> rm_Number (room_at room w) = n)
     (map fst (sr_bySessionID (hub_sessions w)))"

text \<open>\<open>SessionRegistry.SendPlain\<close>: every connection of the account, the first error last.\<close>

fun send_each :: "conn list \<Rightarrow> Message \<Rightarrow> handler_error option \<Rightarrow> unit act" where
  "send_each [] msg firstErr w = (case firstErr of None \<Rightarrow> (Inr (), w) | Some e \<Rightarrow> (Inl e, w))"
| "send_each (c # cs) msg firstErr w =
     (case session_SendPlain c msg w of
        (Inl e, w) \<Rightarrow> send_each cs msg (if firstErr = None then Some e else firstErr) w
      | (Inr _, w) \<Rightarrow> send_each cs msg firstErr w)"

definition registry_SendPlain :: "string \<Rightarrow> Message \<Rightarrow> unit act" where
  "registry_SendPlain steamID msg w = send_each (Sessions (hub_sessions w) steamID) msg None w"

text \<open>\<open>push\<close> of the friend and chat handlers: the error is logged.\<close>

definition push_account :: "string \<Rightarrow> u16 \<Rightarrow> byte list \<Rightarrow> unit act" where
  "push_account steamID i b = io_try (registry_SendPlain steamID \<lparr>ID = i, Body = b\<rparr>)"

record Presence =
  pc_Channel :: u8
  pc_Lobby :: u8
  pc_Room :: u16
  pc_Online :: bool
  pc_InGame :: bool

definition no_presence :: Presence where
  "no_presence = \<lparr>pc_Channel = 0, pc_Lobby = 0, pc_Room = 0, pc_Online = False, pc_InGame = False\<rparr>"

definition seen_on :: "hub \<Rightarrow> conn \<Rightarrow> Presence \<Rightarrow> Presence" where
  "seen_on w c p =
     (let p = p\<lparr>pc_Online := True\<rparr>;
          p = (if sessionChannel c w \<noteq> 0 then p\<lparr>pc_Channel := sessionChannel c w\<rparr> else p)
      in case sessionRoom c w of None \<Rightarrow> p | Some room \<Rightarrow> p\<lparr>pc_Room := rm_Number (room_at room w)\<rparr>)"

definition account_presence :: "string \<Rightarrow> hub \<Rightarrow> Presence" where
  "account_presence steamID w = fold (seen_on w) (Sessions (hub_sessions w) steamID) no_presence"

definition broadcastRoomExcept :: "room_ref \<Rightarrow> conn option \<Rightarrow> u16 \<Rightarrow> byte list \<Rightarrow> unit act" where
  "broadcastRoomExcept room skip i b =
     io_bind (io_get (\<lambda>w. InRoom (rm_Number (room_at room w)) w)) (\<lambda>members.
       io_each (\<lambda>c. if Some c = skip then io_ret () else push c i b) members)"

definition broadcastRoom :: "room_ref \<Rightarrow> u16 \<Rightarrow> byte list \<Rightarrow> unit act" where
  "broadcastRoom room i b = broadcastRoomExcept room None i b"

definition tellMatch :: "room_ref \<Rightarrow> u16 \<Rightarrow> byte list \<Rightarrow> unit act" where
  "tellMatch room i b =
     io_bind (io_get (\<lambda>w. match_in (rm_Number (room_at room w)) (hub_matches w))) (\<lambda>members.
       io_each (\<lambda>c. push c i b) members)"

end
