(* ===== verification/Lobby.thy ===== *)
theory Lobby
  imports Server_State
begin

text \<open>
  The lobby and the match (lobby.go, room.go, game_start.go, game_session.go, game_round.go,
  game_equip.go, solo_start_hack.go): one definition per handler, over the connection that sent the
  request and the request's body, and the rows they send. Log lines are left out.
\<close>

section \<open>Lists of the lobby (lobby.go)\<close>

definition empty_row :: "byte list" where
  "empty_row = [0]"

definition openMapList :: "conf \<Rightarrow> byte list" where
  "openMapList cf =
     (let maps = OpenMaps (cf_catalog cf)
      in foldl (\<lambda>body info. appendUint16 body (ucast (m_MapIndex info)) @ [1]) (EncodeVarInt (int (length maps))) maps)"

definition lobby_join :: "conf \<Rightarrow> conn \<Rightarrow> byte list \<Rightarrow> unit act" where
  "lobby_join cf c body = io_seq (send c rmiAnswerLobbyJoin [1]) (send c rmiNotifyOpenMapList (openMapList cf))"

definition lobby_leave :: "conn \<Rightarrow> byte list \<Rightarrow> unit act" where
  "lobby_leave c body = send c rmiAnswerLobbyLeave []"

definition lobbyList :: "conn \<Rightarrow> byte list \<Rightarrow> unit act" where
  "lobbyList c body = io_seq (send c rmiAnswerLobbyList []) (send c rmiSendLobbyList empty_row)"

definition room_rows :: "Room list \<Rightarrow> byte list" where
  "room_rows rooms = foldl (\<lambda>body room. body @ roomInfo room) (EncodeVarInt (int (length rooms))) rooms"

definition open_rooms :: "hub \<Rightarrow> Room list" where
  "open_rooms w = map (\<lambda>room. room_at room w) (RoomRegistry_List (\<lambda>room. rm_Number (room_at room w)) (hub_registry w))"

definition roomList :: "conn \<Rightarrow> byte list \<Rightarrow> unit act" where
  "roomList c body =
     io_seq (send c rmiAnswerRoomList [])
       (io_bind (io_get open_rooms) (\<lambda>rooms. send c rmiSendRoomList (room_rows rooms)))"

definition clanRoomList :: "conn \<Rightarrow> byte list \<Rightarrow> unit act" where
  "clanRoomList c body = io_seq (send c rmiAnswerClanRoomList []) (send c rmiSendClanRoomList empty_row)"

definition userList :: "conn \<Rightarrow> byte list \<Rightarrow> unit act" where
  "userList c body = io_seq (send c rmiAnswerLobbyUserList []) (send c rmiSendLobbyUserList empty_row)"

section \<open>Rooms (room.go)\<close>

text \<open>The state of a room, sent to the player who enters it.\<close>

definition room_state :: "Room \<Rightarrow> (u16 \<times> byte list) list" where
  "room_state room =
     [(rmiNotifyOpenMapInfo, openMapInfo room), (rmiNotifyRoomInfo, roomInfo room), (rmiNotifyRoomMapInfo, roomMapInfo room),
      (rmiSendRoomUserList, roomUserList (Members room)), (rmiNotifyTeamList, teamList (Members room)),
      (rmiNotifyRoomLeader, appendUint32 [] (rm_LeaderID room))]"

definition createRoom :: "conf \<Rightarrow> conn \<Rightarrow> byte list \<Rightarrow> unit act" where
  "createRoom cf c body =
     with_player c (io_fail (HandlerError ''room create before authentication'')) (\<lambda>player.
       case parseCreate (cf_catalog cf) body player of
         Inl e \<Rightarrow> io_fail e
       | Inr new \<Rightarrow>
           io_bind (open_room new) (\<lambda>room.
           io_seq (io_set (setSessionRoom c (Some room)))
           (io_bind (io_get (room_at room)) (\<lambda>r.
           checked (at_index (rm_Users r) 0) (\<lambda>creator.
           io_seq (io_set (setSessionRoomUser c (ru_ID creator)))
           (io_seq (send_all c (room_state r))
             (send c rmiAnswerRoomCreate [])))))))"

definition refuseJoin :: "conn \<Rightarrow> unit act" where
  "refuseJoin c = send c rmiAnswerRoomJoinFail (appendUint32 [] 0)"

definition joining_user :: "Player \<Rightarrow> Room \<Rightarrow> RoomUser" where
  "joining_user player r = \<lparr>ru_ID = 0, ru_Name = p_Name player, ru_Level = levelByte player, ru_Team = NextTeam r,
     ru_WireState = 0, ru_SteamID = p_SteamID player, ru_ClanName = p_ClanName player, ru_Clan = zero_clan,
     ru_Score = zero_score\<rparr>"

definition joinRoom :: "conn \<Rightarrow> byte list \<Rightarrow> unit act" where
  "joinRoom c body =
     with_player c (io_fail (HandlerError ''room join before authentication'')) (\<lambda>player.
       if length body < 2 then refuseJoin c
       else (case ReadProudString body 2 of
         Inl _ \<Rightarrow> refuseJoin c
       | Inr (password, _) \<Rightarrow>
           checked (read16 body 0) (\<lambda>number.
           io_bind (io_get (\<lambda>w. RoomRegistry_Find number (hub_registry w))) (\<lambda>found. case found of
             None \<Rightarrow> refuseJoin c
           | Some room \<Rightarrow>
           io_bind (io_get (room_at room)) (\<lambda>r.
           if rm_Password r \<noteq> [] \<and> rm_Password r \<noteq> password then refuseJoin c
           else io_bind (on_room room (\<lambda>r. AddUser r (joining_user player r))) (\<lambda>seated. case seated of
             None \<Rightarrow> refuseJoin c
           | Some user \<Rightarrow>
           io_seq (io_set (setSessionRoom c (Some room)))
           (io_seq (io_set (setSessionRoomUser c (ru_ID user)))
           (io_bind (io_get (room_at room)) (\<lambda>r.
           io_seq (send_all c (room_state r))
           (io_seq (send c rmiAnswerRoomJoinOK [])
           (io_seq (broadcastRoomExcept room (Some c) rmiNotifyRoomUserInfo (appendRoomUser [] user))
             (broadcastRoomExcept room (Some c) rmiNotifyTeamInfo (appendUint32 [] (ru_ID user) @ [ru_Team user])))))))))))))"

text \<open>The seat is given up; a room nobody sits in any more is closed.\<close>

definition vacate :: "room_ref \<Rightarrow> u32 \<Rightarrow> bool act" where
  "vacate room i =
     io_bind (on_room room (\<lambda>r. RemoveUser r i)) (\<lambda>(_, empty).
       if empty then io_seq (io_set (\<lambda>w. close_room (rm_Number (room_at room w)) w)) (io_ret True)
       else io_ret False)"

definition leaveRoom :: "conn \<Rightarrow> byte list \<Rightarrow> unit act" where
  "leaveRoom c body =
     io_seq
       (with_room c (io_ret ()) (\<lambda>room.
         io_bind (io_get (sessionRoomUser c)) (\<lambda>i.
         io_bind (vacate room i) (\<lambda>empty.
           if empty then io_ret ()
           else io_bind (io_get (room_at room)) (\<lambda>r. broadcastRoom room rmiSendRoomUserList (roomUserList (Members r)))))))
       (io_seq (io_set (setSessionRoom c None)) (send c rmiAnswerRoomLeave []))"

section \<open>Starting a match (game_start.go, solo_start_hack.go)\<close>

definition lithTechPort :: u16 where
  "lithTechPort = 27889"

definition userKeyKind :: u8 where
  "userKeyKind = 1"

definition notifyGameStartRow :: "string \<Rightarrow> u16 \<Rightarrow> u32 \<Rightarrow> u16 \<Rightarrow> byte list" where
  "notifyGameStartRow addr at userID ticket =
     (let body = WriteProudString [] addr;
          body = appendUint16 body at;
          body = appendUint32 body userID;
          body = body @ [userKeyKind]
      in body @ appendUint16 [] ticket @ replicate 14 0)"

definition notifyHostServerRow :: "string \<Rightarrow> u16 \<Rightarrow> bool \<Rightarrow> bool \<Rightarrow> byte list" where
  "notifyHostServerRow addr at isHost intrude =
     appendUint16 (WriteProudString [] addr) at @ [boolByte isHost, boolByte intrude]"

text \<open>One player of the room is told to connect to the match; a failed send is only logged.\<close>

definition start_member :: "conf \<Rightarrow> room_ref \<Rightarrow> conn \<Rightarrow> unit act" where
  "start_member cf room member =
     io_bind (io_get (sessionRoomUser member)) (\<lambda>seat.
     io_bind (on_tickets (ticket_issue room seat)) (\<lambda>ticket.
       io_try (io_seq (send member rmiAnswerGameStartOK [])
         (send member rmiNotifyGameStart (notifyGameStartRow (cf_gameHost cf) (cf_gamePort cf) seat ticket)))))"

definition beginMatch :: "conf \<Rightarrow> conn \<Rightarrow> room_ref \<Rightarrow> unit act" where
  "beginMatch cf leader room =
     (case cf_address cf leader of
        None \<Rightarrow> send leader rmiAnswerGameStartFail (appendUint32 [] 0)
      | Some addr \<Rightarrow>
          io_seq (on_room room (\<lambda>r. ((), r\<lparr>rm_Host := addr\<rparr>)))
          (io_seq (broadcastRoom room rmiNotifyRoomGame [1])
          (io_bind (io_get (\<lambda>w. InRoom (rm_Number (room_at room w)) w)) (\<lambda>members.
             io_each (start_member cf room) members))))"

definition gameStart :: "conf \<Rightarrow> conn \<Rightarrow> byte list \<Rightarrow> unit act" where
  "gameStart cf c body =
     with_room c (send c rmiAnswerGameStartFail (appendUint32 [] 0)) (\<lambda>room.
       io_bind (io_get (\<lambda>w. (sessionRoomUser c w, rm_LeaderID (room_at room w)))) (\<lambda>(user, leader).
         if user \<noteq> leader then send c rmiAnswerGameStartFail (appendUint32 [] 0)
         else beginMatch cf c room))"

definition soloStartOnReady :: "conf \<Rightarrow> conn \<Rightarrow> room_ref \<Rightarrow> u8 \<Rightarrow> unit act" where
  "soloStartOnReady cf c room state =
     io_bind (io_get (\<lambda>w. (sessionRoomUser c w, rm_LeaderID (room_at room w)))) (\<lambda>(user, leader).
       if state \<noteq> wireStateReady \<or> user \<noteq> leader then io_ret ()
       else io_try (beginMatch cf c room))"

definition ready :: "conf \<Rightarrow> conn \<Rightarrow> byte list \<Rightarrow> unit act" where
  "ready cf c body =
     with_room c (io_fail (HandlerError ''ready without a room'')) (\<lambda>room.
       io_bind (io_get (sessionRoomUser c)) (\<lambda>userID.
       io_bind (on_room room (\<lambda>r. ToggleReady r userID)) (\<lambda>toggled. case toggled of
         None \<Rightarrow> io_fail (HandlerError ''ready from someone not seated in room'')
       | Some state \<Rightarrow>
           io_seq (send c rmiAnswerRoomReady [])
           (io_seq (broadcastRoom room rmiNotifyStateInfo (appendUint32 [] userID @ [state]))
             (soloStartOnReady cf c room state)))))"

end
