(* ===== verification/Match.thy ===== *)
theory Match
  imports Lobby
begin

text \<open>
  The match (game_session.go, game_round.go, game_equip.go): admission by ticket, loading, rounds,
  deaths and equipment, one definition per handler, with the rows they send.
\<close>

section \<open>Equipment rows (game_equip.go)\<close>

text \<open>The arrays \<open>[5]uint32\<close>, \<open>[6]uint32\<close>, \<open>[3]uint32\<close> and \<open>[5]uint32\<close> are lists of these lengths.\<close>

record gameUserEquip =
  ue_UserIndex :: u8
  ue_Weapon :: "u32 list"
  ue_Custom :: "u32 list"
  ue_Perk :: "u32 list"
  ue_Unkn :: "u32 list"

definition equip_row :: "gameUserEquip \<Rightarrow> byte list" where
  "equip_row e = foldl appendUint32 [ue_UserIndex e] (ue_Weapon e @ ue_Custom e @ ue_Perk e @ ue_Unkn e)"

text \<open>One iteration of each of the two loops; a write beyond the array is a panic.\<close>

definition put_weapon :: "Player \<Rightarrow> EquippedItem \<Rightarrow> gameUserEquip \<Rightarrow> gameUserEquip option" where
  "put_weapon player equipped equip =
     (if e_Slot equipped \<ge> SlotWeaponFirst \<and> e_Slot equipped \<le> SlotWeaponLast
      then map_option (\<lambda>weapons. equip\<lparr>ue_Weapon := weapons\<rparr>)
        (set_index (ue_Weapon equip) (unat (e_Slot equipped - SlotWeaponFirst)) (indexBySerial player (e_Serial equipped)))
      else Some equip)"

definition put_mounted :: "Player \<Rightarrow> AttachedItem \<Rightarrow> gameUserEquip \<Rightarrow> gameUserEquip option" where
  "put_mounted player mounted equip =
     (if a_Slot mounted \<ge> SlotCustomPartFirst \<and> a_Slot mounted \<le> SlotCustomPartLast
      then map_option (\<lambda>customs. equip\<lparr>ue_Custom := customs\<rparr>)
        (set_index (ue_Custom equip) (unat (a_Slot mounted - SlotCustomPartFirst)) (indexBySerial player (a_ChildSerial mounted)))
      else if a_Slot mounted \<ge> SlotPerkFirst \<and> a_Slot mounted \<le> SlotPerkLast
      then map_option (\<lambda>perks. equip\<lparr>ue_Perk := perks\<rparr>)
        (set_index (ue_Perk equip) (unat (a_Slot mounted - SlotPerkFirst)) (indexBySerial player (a_ChildSerial mounted)))
      else Some equip)"

definition buildUserEquip :: "u8 \<Rightarrow> Player \<Rightarrow> gameUserEquip option" where
  "buildUserEquip index player =
     (let equip = \<lparr>ue_UserIndex = index, ue_Weapon = replicate 5 0, ue_Custom = replicate 6 0, ue_Perk = replicate 3 0,
        ue_Unkn = replicate 5 0\<rparr>
      in Option.bind (try_fold (put_weapon player) (p_Loadout player) equip)
           (try_fold (put_mounted player) (p_Attachments player)))"

text \<open>
  What the two loops leave in the arrays: each position holds the item of the last entry of its slot,
  and no write is out of range.
\<close>

definition equip_shape :: "gameUserEquip \<Rightarrow> bool" where
  "equip_shape e \<longleftrightarrow> length (ue_Weapon e) = 5 \<and> length (ue_Custom e) = 6 \<and> length (ue_Perk e) = 3 \<and> length (ue_Unkn e) = 5"

definition slot_item :: "('a \<Rightarrow> u8) \<Rightarrow> ('a \<Rightarrow> u16) \<Rightarrow> Player \<Rightarrow> 'a list \<Rightarrow> u8 \<Rightarrow> u32 \<Rightarrow> u32" where
  "slot_item slot_of serial_of player entries slot unused =
     (case lookup_by slot_of slot (rev entries) of None \<Rightarrow> unused | Some entry \<Rightarrow> indexBySerial player (serial_of entry))"

lemma slot_item_simps:
  "slot_item s f p [] slot v = v"
  "slot_item s f p (x # xs) slot v = slot_item s f p xs slot (if s x = slot then indexBySerial p (f x) else v)"
proof -
  have "lookup_by s slot (ys @ [x]) = (case lookup_by s slot ys of None \<Rightarrow> if s x = slot then Some x else None | Some y \<Rightarrow> Some y)" for ys
    by (induction ys) auto
  then show "slot_item s f p (x # xs) slot v = slot_item s f p xs slot (if s x = slot then indexBySerial p (f x) else v)"
    by (simp add: slot_item_def split: option.split)
qed (simp add: slot_item_def)

lemma slot_position:
  fixes first slot :: u8
  assumes "k < n" and "unat first + n \<le> 256"
  shows "slot = first + of_nat k \<longleftrightarrow> first \<le> slot \<and> unat (slot - first) = k"
proof -
  have k: "unat (first + of_nat k) = unat first + k" using assms by (simp add: unat_word_ariths unat_of_nat)
  have "unat (slot - first) = unat slot - unat first" if "first \<le> slot" using that by (rule unat_sub)
  then show ?thesis unfolding word_unat_eq_iff k word_le_nat_alt by auto
qed

lemmas slot_ranges = SlotWeaponFirst_def SlotWeaponLast_def SlotCustomPartFirst_def SlotCustomPartLast_def SlotPerkFirst_def SlotPerkLast_def

lemma slot_bounds:
  "SlotWeaponFirst \<le> s \<and> s \<le> SlotWeaponLast \<longleftrightarrow> SlotWeaponFirst \<le> s \<and> unat (s - SlotWeaponFirst) < 5"
  "SlotCustomPartFirst \<le> s \<and> s \<le> SlotCustomPartLast \<longleftrightarrow> SlotCustomPartFirst \<le> s \<and> unat (s - SlotCustomPartFirst) < 6"
  "SlotPerkFirst \<le> s \<and> s \<le> SlotPerkLast \<longleftrightarrow> SlotPerkFirst \<le> s \<and> unat (s - SlotPerkFirst) < 3"
  by (auto simp: slot_ranges unat_sub word_le_nat_alt)

lemma put_weapons:
  assumes "equip_shape e"
  shows "\<exists>e'. try_fold (put_weapon player) xs e = Some e' \<and> equip_shape e' \<and> ue_UserIndex e' = ue_UserIndex e \<and>
    ue_Custom e' = ue_Custom e \<and> ue_Perk e' = ue_Perk e \<and> ue_Unkn e' = ue_Unkn e \<and>
    (\<forall>k<5. ue_Weapon e' ! k = slot_item e_Slot e_Serial player xs (SlotWeaponFirst + of_nat k) (ue_Weapon e ! k))"
  using assms
proof (induction xs arbitrary: e)
  case (Cons x xs)
  let ?ok = "SlotWeaponFirst \<le> e_Slot x \<and> e_Slot x \<le> SlotWeaponLast" and ?k = "unat (e_Slot x - SlotWeaponFirst)"
  let ?e = "if ?ok then e\<lparr>ue_Weapon := (ue_Weapon e)[?k := indexBySerial player (e_Serial x)]\<rparr> else e"
  have put: "put_weapon player x e = Some ?e" "equip_shape ?e"
    using Cons.prems slot_bounds(1) [of "e_Slot x"] by (auto simp: put_weapon_def equip_shape_def in_bounds)
  have at: "ue_Weapon ?e ! k = (if e_Slot x = SlotWeaponFirst + of_nat k then indexBySerial player (e_Serial x) else ue_Weapon e ! k)"
    if "k < 5" for k
    using that Cons.prems slot_bounds(1) [of "e_Slot x"] slot_position [of k 5 SlotWeaponFirst "e_Slot x"]
    by (auto simp: equip_shape_def nth_list_update slot_ranges)
  from Cons.IH [OF put(2)] show ?case by (auto simp: put slot_item_simps at)
qed (simp add: slot_item_simps)

lemma put_attachments:
  assumes "equip_shape e"
  shows "\<exists>e'. try_fold (put_mounted player) xs e = Some e' \<and> equip_shape e' \<and> ue_UserIndex e' = ue_UserIndex e \<and>
    ue_Weapon e' = ue_Weapon e \<and> ue_Unkn e' = ue_Unkn e \<and>
    (\<forall>k<6. ue_Custom e' ! k = slot_item a_Slot a_ChildSerial player xs (SlotCustomPartFirst + of_nat k) (ue_Custom e ! k)) \<and>
    (\<forall>k<3. ue_Perk e' ! k = slot_item a_Slot a_ChildSerial player xs (SlotPerkFirst + of_nat k) (ue_Perk e ! k))"
  using assms
proof (induction xs arbitrary: e)
  case (Cons x xs)
  let ?c = "SlotCustomPartFirst \<le> a_Slot x \<and> a_Slot x \<le> SlotCustomPartLast" and ?k = "unat (a_Slot x - SlotCustomPartFirst)"
  let ?p = "SlotPerkFirst \<le> a_Slot x \<and> a_Slot x \<le> SlotPerkLast" and ?j = "unat (a_Slot x - SlotPerkFirst)"
  let ?v = "indexBySerial player (a_ChildSerial x)"
  let ?e = "if ?c then e\<lparr>ue_Custom := (ue_Custom e)[?k := ?v]\<rparr> else if ?p then e\<lparr>ue_Perk := (ue_Perk e)[?j := ?v]\<rparr> else e"
  note bounds = slot_bounds(2,3) [of "a_Slot x"]
  have apart: "\<not> (?c \<and> ?p)" by (auto simp: slot_ranges word_le_nat_alt)
  have put: "put_mounted player x e = Some ?e" "equip_shape ?e"
    using Cons.prems bounds by (auto simp: put_mounted_def equip_shape_def in_bounds)
  have custom: "ue_Custom ?e ! k = (if a_Slot x = SlotCustomPartFirst + of_nat k then ?v else ue_Custom e ! k)" if "k < 6" for k
    using that Cons.prems bounds slot_position [of k 6 SlotCustomPartFirst "a_Slot x"]
    by (auto simp: equip_shape_def nth_list_update slot_ranges)
  have perk: "ue_Perk ?e ! k = (if a_Slot x = SlotPerkFirst + of_nat k then ?v else ue_Perk e ! k)" if "k < 3" for k
    using that Cons.prems bounds apart slot_position [of k 3 SlotPerkFirst "a_Slot x"]
    by (auto simp: equip_shape_def nth_list_update slot_ranges)
  from Cons.IH [OF put(2)] show ?case by (auto simp: put slot_item_simps custom perk)
qed (simp add: slot_item_simps)

lemma row_length: "length (foldl appendUint32 row vs) = length row + 4 * length vs"
  by (induction vs arbitrary: row) (simp_all add: appendUint32_def)

lemma equip_row_length: "equip_shape e \<Longrightarrow> length (equip_row e) = 77"
  by (simp add: equip_shape_def equip_row_def row_length)

lemma buildUserEquip_done:
  obtains e where "buildUserEquip index player = Some e" and "equip_shape e" and "ue_UserIndex e = index"
    and "ue_Unkn e = replicate 5 0"
    and "\<forall>k<5. ue_Weapon e ! k = slot_item e_Slot e_Serial player (p_Loadout player) (SlotWeaponFirst + of_nat k) 0"
    and "\<forall>k<6. ue_Custom e ! k = slot_item a_Slot a_ChildSerial player (p_Attachments player) (SlotCustomPartFirst + of_nat k) 0"
    and "\<forall>k<3. ue_Perk e ! k = slot_item a_Slot a_ChildSerial player (p_Attachments player) (SlotPerkFirst + of_nat k) 0"
proof -
  let ?empty = "\<lparr>ue_UserIndex = index, ue_Weapon = replicate 5 0, ue_Custom = replicate 6 0, ue_Perk = replicate 3 0, ue_Unkn = replicate 5 0\<rparr>"
  have empty: "equip_shape ?empty" by (simp add: equip_shape_def)
  from put_weapons [OF empty, of player "p_Loadout player"] obtain e where
    e: "try_fold (put_weapon player) (p_Loadout player) ?empty = Some e" "equip_shape e" "ue_UserIndex e = index"
      "ue_Custom e = replicate 6 0" "ue_Perk e = replicate 3 0" "ue_Unkn e = replicate 5 0"
      "\<forall>k<5. ue_Weapon e ! k = slot_item e_Slot e_Serial player (p_Loadout player) (SlotWeaponFirst + of_nat k) 0" by auto
  from put_attachments [OF e(2), of player "p_Attachments player"] e show ?thesis
    by (auto simp: buildUserEquip_def intro: that)
qed

section \<open>Joining a match (game_session.go)\<close>

definition userKeyBytes :: nat where
  "userKeyBytes = 21"

definition loadSeat :: "conf \<Rightarrow> RoomUser \<Rightarrow> Player act" where
  "loadSeat cf seat =
     io_bind (on_db (PlayerService_FindMany (cf_players cf) [ru_SteamID seat])) (\<lambda>found. case found of
       Inl _ \<Rightarrow> io_ret empty_player
     | Inr known \<Rightarrow> io_ret (account_of known (ru_SteamID seat)))"

definition matchEquip :: "conf \<Rightarrow> u8 \<Rightarrow> RoomUser \<Rightarrow> gameUserEquip act" where
  "matchEquip cf index user = io_bind (loadSeat cf user) (\<lambda>player. checked (buildUserEquip index player) io_ret)"

fun equip_rows :: "conf \<Rightarrow> nat \<Rightarrow> byte list \<Rightarrow> RoomUser list \<Rightarrow> byte list act" where
  "equip_rows cf n equipList [] = io_ret equipList"
| "equip_rows cf n equipList (user # users) =
     io_bind (matchEquip cf (of_nat (n + 1)) user) (\<lambda>equip. equip_rows cf (n + 1) (equipList @ equip_row equip) users)"

definition matchSnapshot :: "conf \<Rightarrow> Room \<Rightarrow> RoomUser list \<Rightarrow> u32 \<Rightarrow> (u16 \<times> byte list) list act" where
  "matchSnapshot cf room users viewer =
     (let viewerTeam = (case Room_Member room viewer of None \<Rightarrow> 0 | Some seat \<Rightarrow> ru_Team seat)
      in io_bind (equip_rows cf 0 (EncodeVarInt (int (length users))) users) (\<lambda>equipList.
         io_ret
           [(rmiNotifyMapInfo, roomMapInfo room @ [0]),
            (rmiNotifyGameInfo, [seatIndex users viewer, seatIndex users (rm_LeaderID room), viewerTeam, viewerTeam]),
            (rmiNotifyInGameItem, replicate 3 0),
            (rmiNotifyGameUserList, gameUserList users),
            (rmiNotifyTeamEquipList, EncodeVarInt 0),
            (rmiNotifyUserEquipList, equipList),
            (rmiNotifyUserFunctionList, EncodeVarInt 0),
            (rmiNotifyHostServer, notifyHostServerRow (rm_Host room) lithTechPort (viewer = rm_LeaderID room) False)]))"

text \<open>The match connection takes over the seat; it is not bound in the session registry.\<close>

definition bindMatchSession :: "conn \<Rightarrow> Player \<Rightarrow> room_ref \<Rightarrow> u32 \<Rightarrow> hub \<Rightarrow> hub" where
  "bindMatchSession c player room userID w =
     w\<lparr>hub_state := (hub_state w)(c \<mapsto> \<lparr>sd_player = player, sd_room = Some room, sd_roomUser = userID, sd_channel = 0\<rparr>)\<rparr>"

definition matchStart :: "conf \<Rightarrow> conn \<Rightarrow> byte list \<Rightarrow> unit act" where
  "matchStart cf c body =
     (if length body < userKeyBytes then send c rmiAnswerMatchStartFail (appendUint32 [] 0)
      else checked (read32 body 0) (\<lambda>userID. checked (read16 body 5) (\<lambda>ticket.
           io_bind (io_get (\<lambda>w. ticket_redeem ticket userID (hub_tickets w))) (\<lambda>redeemed. case redeemed of
             None \<Rightarrow> send c rmiAnswerMatchStartFail (appendUint32 [] 0)
           | Some room \<Rightarrow>
           io_bind (io_get (\<lambda>w. Room_Member (room_at room w) userID)) (\<lambda>seated. case seated of
             None \<Rightarrow> send c rmiAnswerMatchStartFail (appendUint32 [] 0)
           | Some seat \<Rightarrow>
           io_bind (loadSeat cf seat) (\<lambda>player.
           io_seq (io_set (bindMatchSession c player room userID))
           (io_bind (io_get (room_at room)) (\<lambda>r.
           io_seq (on_matches (\<lambda>m. ((), match_join (rm_Number r) c m)))
           (io_bind (matchSnapshot cf r (Members r) userID) (\<lambda>snapshot.
           io_seq (send_all c snapshot)
             (send c rmiAnswerMatchStartOK []))))))))))) "

definition connectServer :: "conn \<Rightarrow> byte list \<Rightarrow> unit act" where
  "connectServer c body = io_ret ()"

definition loadPercent :: "conn \<Rightarrow> byte list \<Rightarrow> unit act" where
  "loadPercent c body =
     with_room c (io_ret ()) (\<lambda>room.
       if length body < 1 then io_ret ()
       else io_seq (send c rmiAnswerLoadPercentOK [])
         (io_bind (io_get (\<lambda>w. seatIndex (Members (room_at room w)) (sessionRoomUser c w))) (\<lambda>seat.
           checked (at_index body 0) (\<lambda>percent. tellMatch room rmiNotifyLoadPercent [seat, percent]))))"

definition loadComplete :: "conn \<Rightarrow> byte list \<Rightarrow> unit act" where
  "loadComplete c body =
     with_room c (io_ret ()) (\<lambda>room.
       io_seq (send c rmiAnswerLoadCompleteOK [])
       (io_bind (io_get (\<lambda>w. seatIndex (Members (room_at room w)) (sessionRoomUser c w))) (\<lambda>seat.
       io_seq (tellMatch room rmiNotifyUserLoadComplete [seat])
       (io_bind (io_get (\<lambda>w. rm_Number (room_at room w))) (\<lambda>number.
       io_bind (on_matches (markLoaded number c)) (\<lambda>complete.
         if complete then tellMatch room rmiNotifyLoadComplete [] else io_ret ()))))))"

definition matchLeave :: "conn \<Rightarrow> byte list \<Rightarrow> unit act" where
  "matchLeave c body =
     with_room c (io_ret ()) (\<lambda>room.
       io_bind (io_get (\<lambda>w. rm_Number (room_at room w))) (\<lambda>number.
         on_matches (\<lambda>m. ((), match_leave number c m))))"

definition timeStart :: "conn \<Rightarrow> byte list \<Rightarrow> unit act" where
  "timeStart c body = send c rmiAnswerTimeStartOK []"

definition beginRound :: "conn \<Rightarrow> byte list \<Rightarrow> unit act" where
  "beginRound c body =
     with_room c (send c rmiAnswerBeginRoundFail []) (\<lambda>room.
       io_seq (send c rmiAnswerBeginRoundOK [])
       (io_bind (on_room room NextRound) (\<lambda>round. tellMatch room rmiNotifyRoundBegin [round])))"

section \<open>Rounds (game_round.go)\<close>

definition deathReportBytes :: nat where
  "deathReportBytes = 10"

definition seatOf :: "conn \<Rightarrow> hub \<Rightarrow> byte" where
  "seatOf c w = (case sessionRoom c w of
     None \<Rightarrow> 1 | Some room \<Rightarrow> seatIndex (Members (room_at room w)) (sessionRoomUser c w))"

definition dediUserPing :: "conn \<Rightarrow> byte list \<Rightarrow> unit act" where
  "dediUserPing c body = send c rmiAnswerDediUserPingOK []"

definition hitCount :: "conn \<Rightarrow> byte list \<Rightarrow> unit act" where
  "hitCount c body = send c rmiAnswerHitCountOK []"

definition checkRespawn :: "conn \<Rightarrow> byte list \<Rightarrow> unit act" where
  "checkRespawn c body = io_bind (io_get (seatOf c)) (\<lambda>seat. send c rmiAnswerCheckRespawnOK [seat])"

definition checkRespawnInstant :: "conn \<Rightarrow> byte list \<Rightarrow> unit act" where
  "checkRespawnInstant c body = io_bind (io_get (seatOf c)) (\<lambda>seat. send c rmiAnswerRespawnInstantOK [seat])"

definition respawn :: "conn \<Rightarrow> byte list \<Rightarrow> unit act" where
  "respawn c body =
     with_room c (io_ret ()) (\<lambda>room.
       io_bind (io_get (seatOf c)) (\<lambda>seat.
       io_seq (send c rmiAnswerRespawnOK [seat]) (tellMatch room rmiNotifyRespawn [seat])))"

definition death :: "conn \<Rightarrow> byte list \<Rightarrow> unit act" where
  "death c body =
     with_room c (io_ret ()) (\<lambda>room.
       if length body < deathReportBytes then send c rmiAnswerDeathOK []
       else checked (at_index body 0) (\<lambda>killer. checked (at_index body 1) (\<lambda>victim. checked (at_index body 2) (\<lambda>assist.
         io_seq (on_room room (\<lambda>r. ((), RecordDeath r (ucast killer) (ucast victim) (ucast assist))))
         (io_seq (send c rmiAnswerDeathOK [])
           (checked (notifyDeathRow body) (tellMatch room rmiNotifyDeath)))))))"

definition timeOut :: "conn \<Rightarrow> byte list \<Rightarrow> unit act" where
  "timeOut c body =
     with_room c (io_ret ()) (\<lambda>room.
       io_seq (send c rmiAnswerTimeOutOK [])
       (io_bind (io_get (\<lambda>w. Members (room_at room w))) (\<lambda>users.
       io_seq (tellMatch room rmiNotifyUserResultList (userResultList users))
       (io_bind (on_room room FinishRound) (\<lambda>(round, last).
         if last
         then io_seq (tellMatch room rmiNotifyRoundEnd []) (tellMatch room rmiNotifyGameEnd [winningTeam users])
         else io_seq (tellMatch room rmiNotifyRoundEnd []) (tellMatch room rmiNotifyRoundBegin [round + 1]))))))"

section \<open>Equipment in a match (game_equip.go)\<close>

definition userEquip :: "conf \<Rightarrow> conn \<Rightarrow> byte list \<Rightarrow> unit act" where
  "userEquip cf c body =
     with_room c (send c rmiAnswerUserEquipFail (appendUint32 [] 0)) (\<lambda>room.
       if length body < 1 then send c rmiAnswerUserEquipFail (appendUint32 [] 0)
       else checked (at_index body 0) (\<lambda>asked.
            io_bind (io_get (\<lambda>w. Room_Member (room_at room w) (ucast asked))) (\<lambda>found. case found of
              None \<Rightarrow> send c rmiAnswerUserEquipFail (appendUint32 [] 0)
            | Some seat \<Rightarrow>
            io_bind (on_db (PlayerService_FindMany (cf_players cf) [ru_SteamID seat])) (\<lambda>loaded. case loaded of
              Inl _ \<Rightarrow> send c rmiAnswerUserEquipFail (appendUint32 [] 0)
            | Inr known \<Rightarrow>
                (let account = account_of known (ru_SteamID seat)
                 in checked (buildUserEquip asked account) (\<lambda>equip.
                      io_seq (send c rmiAnswerUserEquipOK [asked]) (send c rmiNotifyUserEquipInfo (equip_row equip))))))))"

definition changeWeaponSlots :: nat where
  "changeWeaponSlots = 5"

definition changeWeaponBytes :: nat where
  "changeWeaponBytes = 1 + changeWeaponSlots * 2"

definition changeWeapon :: "conf \<Rightarrow> conn \<Rightarrow> byte list \<Rightarrow> unit act" where
  "changeWeapon cf c body =
     with_player c (io_fail (HandlerError ''weapon change before authentication'')) (\<lambda>player.
       if length body < changeWeaponBytes then send c rmiAnswerChangeWeaponFail [0]
       else checked (those (map (\<lambda>slot. read16 body (1 + slot * 2)) [0..<changeWeaponSlots])) (\<lambda>serials.
            io_bind (on_db (ChangeWeapons (cf_players cf) (p_SteamID player) serials (cf_now cf 0))) (\<lambda>changed. case changed of
              Inl _ \<Rightarrow> send c rmiAnswerChangeWeaponFail [0]
            | Inr updated \<Rightarrow>
            io_seq (io_set (updatePlayer c updated))
            (checked (at_index body 0) (\<lambda>first.
            io_seq (send c rmiAnswerChangeWeaponOK [first])
              (with_room c (io_ret ()) (\<lambda>room.
                io_bind (io_get (seatOf c)) (\<lambda>seat.
                checked (buildUserEquip seat updated) (\<lambda>equip.
                checked (slice_of (equip_row equip) 0 (1 + (5 + 6) * 4)) (tellMatch room rmiNotifyUserWeaponInfo)))))))))) "

end
