(* ===== verification/Go_Hash.thy ===== *)
theory Go_Hash
  imports Prelude
begin

text \<open>
  Standard library routines the wire rows use: \<open>hash/crc32\<close> (the IEEE polynomial), \<open>hash/fnv\<close> (64-bit
  FNV-1a) and the calendar date of a \<open>time.Time\<close> in UTC.
\<close>

section \<open>Hashes\<close>

definition string_bytes :: "string \<Rightarrow> byte list" where
  "string_bytes s = map of_char s"

definition crc_bit :: "u32 \<Rightarrow> u32" where
  "crc_bit crc = (if bit crc 0 then drop_bit 1 crc XOR 0xEDB88320 else drop_bit 1 crc)"

definition crc_byte :: "u32 \<Rightarrow> byte \<Rightarrow> u32" where
  "crc_byte crc b = fold (\<lambda>_. crc_bit) [0..<8::nat] (crc XOR ucast b)"

definition ChecksumIEEE :: "byte list \<Rightarrow> u32" where
  "ChecksumIEEE bs = NOT (foldl crc_byte 0xFFFFFFFF bs)"

definition fnv64a :: "byte list \<Rightarrow> u64" where
  "fnv64a bs = foldl (\<lambda>h b. (h XOR ucast b) * 1099511628211) 14695981039346656037 bs"

text \<open>The check values of both algorithms.\<close>

lemma ChecksumIEEE_check: "ChecksumIEEE (string_bytes ''123456789'') = 0xCBF43926"
  by (simp add: ChecksumIEEE_def crc_byte_def crc_bit_def string_bytes_def upt_rec)

lemma fnv64a_check: "fnv64a (string_bytes ''a'') = 0xAF63DC4C8601EC8C"
  by code_simp

section \<open>Calendar dates\<close>

text \<open>Days since January 1 of the year 1, in the proleptic Gregorian calendar.\<close>

definition leap_year :: "int \<Rightarrow> bool" where
  "leap_year y \<longleftrightarrow> y mod 4 = 0 \<and> (y mod 100 \<noteq> 0 \<or> y mod 400 = 0)"

definition month_lengths :: "int \<Rightarrow> int list" where
  "month_lengths y = [31, if leap_year y then 29 else 28, 31, 30, 31, 30, 31, 31, 30, 31, 30, 31]"

definition year_start :: "int \<Rightarrow> int" where
  "year_start y = (let n = y - 1 in 365 * n + n div 4 - n div 100 + n div 400)"

text \<open>Cycles of 400, 100, 4 and 1 years; the last year of a cycle may be a day longer.\<close>

definition year_of_days :: "int \<Rightarrow> int" where
  "year_of_days d =
     (let n400 = d div 146097; d = d mod 146097;
          n100 = min 3 (d div 36524); d = d - 36524 * n100;
          n4 = d div 1461; d = d mod 1461;
          n1 = min 3 (d div 365)
      in 400 * n400 + 100 * n100 + 4 * n4 + n1 + 1)"

fun month_day :: "int \<Rightarrow> int list \<Rightarrow> int \<Rightarrow> int \<times> int" where
  "month_day m [] d = (m, d + 1)"
| "month_day m (n # ns) d = (if d < n then (m, d + 1) else month_day (m + 1) ns (d - n))"

definition go_date :: "time \<Rightarrow> int \<times> int \<times> int" where
  "go_date t =
     (let d = t div (86400 * second); y = year_of_days d
      in (y, month_day 1 (month_lengths y) (d - year_start y)))"

definition unix_epoch :: time where
  "unix_epoch = 62135596800 * second"

lemma go_date_epoch: "go_date unix_epoch = (1970, 1, 1)" "go_date 0 = (1, 1, 1)"
  by code_simp+

lemma year_of_days_start:
  assumes "0 \<le> d"
  shows "year_start (year_of_days d) \<le> d \<and> d < year_start (year_of_days d + 1)"
proof -
  define n400 where "n400 = d div 146097"
  define d1 where "d1 = d mod 146097"
  define n100 where "n100 = min 3 (d1 div 36524)"
  define d2 where "d2 = d1 - 36524 * n100"
  define n4 where "n4 = d2 div 1461"
  define d3 where "d3 = d2 mod 1461"
  define n1 where "n1 = min 3 (d3 div 365)"
  have d: "d = 146097 * n400 + d1" "0 \<le> d1" "d1 < 146097" by (simp_all add: n400_def d1_def)
  have d1: "d1 = 36524 * n100 + d2" "0 \<le> n100" "n100 \<le> 3" "0 \<le> d2" "n100 < 3 \<longrightarrow> d2 < 36524" "d2 < 36525"
    using d by (auto simp: n100_def d2_def min_def)
  have d2: "d2 = 1461 * n4 + d3" "0 \<le> d3" "d3 < 1461" "0 \<le> n4" "n4 \<le> 24"
    using d1 by (simp_all add: n4_def d3_def)
  have d3: "0 \<le> n1" "n1 \<le> 3" "365 * n1 \<le> d3" "d3 < 365 * n1 + 366" "n1 < 3 \<longrightarrow> d3 < 365 * n1 + 365"
    using d2 by (auto simp: n1_def min_def)
  have y: "year_of_days d = 400 * n400 + 100 * n100 + 4 * n4 + n1 + 1"
    by (simp add: year_of_days_def Let_def n400_def n100_def n4_def n1_def d3_def d2_def d1_def)
  let ?n = "400 * n400 + 100 * n100 + 4 * n4 + n1"
  have bound: "0 \<le> 4 * n4 + n1" "4 * n4 + n1 < 100" using d2 d3 by auto
  have q4: "?n div 4 = 100 * n400 + 25 * n100 + n4" using d3 by auto
  have q100: "?n div 100 = 4 * n400 + n100" using bound by auto
  have q400: "?n div 400 = n400" using bound d1 by auto
  have start: "year_start (year_of_days d) = 146097 * n400 + 36524 * n100 + 1461 * n4 + 365 * n1"
    unfolding y year_start_def Let_def using q4 q100 q400 by simp
  have "d3 < 1461" "d2 < 36525" using d1 d2 by auto
  moreover have "year_start (year_of_days d + 1) \<ge> 146097 * n400 + 36524 * n100 + 1461 * n4 + 365 * n1 + 365 +
      (if n1 = 3 \<and> (n4 < 24 \<or> n100 = 3) then 1 else 0)"
  proof -
    have r4: "(?n + 1) div 4 = 100 * n400 + 25 * n100 + n4 + (if n1 = 3 then 1 else 0)" using d3 by auto
    have r100: "(?n + 1) div 100 = 4 * n400 + n100 + (if n1 = 3 \<and> n4 = 24 then 1 else 0)" using bound d2 d3 by auto
    have r400: "(?n + 1) div 400 = n400 + (if n1 = 3 \<and> n4 = 24 \<and> n100 = 3 then 1 else 0)" 
    proof -
      let ?r = "100 * n100 + 4 * n4 + n1"
      have div: "(400 * a + r + 1) div 400 = a + (if r = 399 then 1 else 0)" if "0 \<le> r" "r < 400" for a r :: int
        using that by auto
      have "?r < 400" "0 \<le> ?r" using bound d1 by auto
      then have "(400 * n400 + ?r + 1) div 400 = n400 + (if ?r = 399 then 1 else 0)" by (rule div [rotated])
      moreover have "?r = 399 \<longleftrightarrow> n1 = 3 \<and> n4 = 24 \<and> n100 = 3"
        using bound(2) d1(3) d2(5) d3(2) by auto
      moreover have "400 * n400 + ?r + 1 = ?n + 1" by simp
      ultimately show ?thesis by (simp only:)
    qed
    have e: "year_start (year_of_days d + 1) = 365 * (?n + 1) + (?n + 1) div 4 - (?n + 1) div 100 + (?n + 1) div 400"
      unfolding y year_start_def Let_def by (simp only: add_diff_cancel_right')
    show ?thesis unfolding e r4 r100 r400 using d2 d1 by (auto split: if_splits)
  qed
  moreover have "d2 < 36524 \<or> n100 = 3" using d1 by auto
  ultimately show ?thesis using start d d1 d2 d3 by (auto split: if_splits)
qed

end
