(* ===== verification/Clan_Rows.thy ===== *)
theory Clan_Rows
  imports Server_State Go_Hash
begin

text \<open>
  The rows that describe clans, members and applicants to clients (clan.go, clan_member.go,
  clan_request.go, clan_mark.go), field by field as the client's deserializers read them.
\<close>

section \<open>Identity and counters\<close>

definition steamAccountBase :: nat where
  "steamAccountBase = 76561197960265728"

definition characterID :: "string \<Rightarrow> u64" where
  "characterID steamID =
     (case ParseUint 64 steamID of
        Some n \<Rightarrow> if n > steamAccountBase then of_nat (n - steamAccountBase) else fnv64a (string_bytes steamID)
      | None \<Rightarrow> fnv64a (string_bytes steamID))"

definition incrementByte :: "byte \<Rightarrow> byte" where
  "incrementByte value = (if value = 0xFF then value else value + 1)"

definition clanLevel :: "Clan \<Rightarrow> byte" where
  "clanLevel clan = (if c_Level clan = 0 then 1 else c_Level clan)"

definition clanWireID :: "(nat \<Rightarrow> nat) \<Rightarrow> string \<Rightarrow> u32" where
  "clanWireID lower_rune name =
     (let i = ChecksumIEEE (string_bytes (to_lower lower_rune (trim_space name))) in if i = 0 then 1 else i)"

definition clanMasterName :: "Clan \<Rightarrow> string" where
  "clanMasterName clan =
     (case List.find (\<lambda>m. cm_SteamID m = c_Master clan \<and> cm_Name m \<noteq> []) (c_Members clan) of
        Some m \<Rightarrow> cm_Name m
      | None \<Rightarrow> (case List.find (\<lambda>m. cm_Rank m = 0 \<and> cm_Name m \<noteq> []) (c_Members clan) of
            Some m \<Rightarrow> cm_Name m
          | None \<Rightarrow> c_Master clan))"

record clanMemberCounts =
  ct_CurrentTotal :: byte
  ct_Managers :: byte
  ct_Members :: byte
  ct_Associates :: byte
  ct_Capacity :: byte

definition count_rank :: "clanMemberCounts \<Rightarrow> ClanMember \<Rightarrow> clanMemberCounts" where
  "count_rank counts member =
     (if cm_Rank member = ClanRankManager then counts\<lparr>ct_Managers := incrementByte (ct_Managers counts)\<rparr>
      else if cm_Rank member = ClanRankMember then counts\<lparr>ct_Members := incrementByte (ct_Members counts)\<rparr>
      else if cm_Rank member = ClanRankAssociate then counts\<lparr>ct_Associates := incrementByte (ct_Associates counts)\<rparr>
      else counts)"

definition makeClanMemberCounts :: "Clan \<Rightarrow> clanMemberCounts" where
  "makeClanMemberCounts clan =
     (let counts = \<lparr>ct_CurrentTotal = clampByte (int (length (c_Members clan))), ct_Managers = 0, ct_Members = 0,
            ct_Associates = 0, ct_Capacity = 0\<rparr>;
          counts = foldl count_rank counts (c_Members clan);
          capacity = (if c_MemberCapacity clan = 0 then DefaultClanMemberCapacity else c_MemberCapacity clan);
          capacity = (if ct_CurrentTotal counts > capacity then ct_CurrentTotal counts else capacity)
      in counts\<lparr>ct_Capacity := capacity\<rparr>)"

definition counts_row :: "clanMemberCounts \<Rightarrow> byte list" where
  "counts_row counts = [ct_CurrentTotal counts, ct_Managers counts, ct_Members counts, ct_Associates counts, ct_Capacity counts]"

section \<open>Clans (clan.go)\<close>

text \<open>\<open>[u16 year][u8 month][u8 day]\<close>\<close>

definition append_date :: "byte list \<Rightarrow> time \<Rightarrow> byte list" where
  "append_date dst t = (case go_date t of (y, m, d) \<Rightarrow> appendUint16 dst (word_of_int y) @ [word_of_int m, word_of_int d])"

definition appendClanInfo :: "(nat \<Rightarrow> nat) \<Rightarrow> byte list \<Rightarrow> Clan \<Rightarrow> byte list" where
  "appendClanInfo lower_rune dst clan =
     (let dst = appendUint32 dst (clanWireID lower_rune (c_Name clan));
          dst = WriteProudString dst (c_Name clan);
          dst = WriteProudString dst (clanMasterName clan);
          dst = dst @ [0, clanLevel clan];
          dst = appendUint64 dst 0;
          dst = foldl (\<lambda>dst value. appendUint32 dst (nonNegativeUint32 value)) dst
            [cr_Win (c_Records clan), cr_Draw (c_Records clan), cr_Lose (c_Records clan), cr_Kill (c_Records clan),
             cr_Death (c_Records clan), 0];
          dst = dst @ [0];
          dst = appendClanMark dst clan;
          dst = dst @ [0];
          dst = dst @ counts_row (makeClanMemberCounts clan);
          dst = WriteProudString dst [];
          dst = WriteProudString dst []
      in append_date dst (if c_CreatedAt clan = zero_time then unix_epoch else c_CreatedAt clan))"

definition clanInfoList :: "(nat \<Rightarrow> nat) \<Rightarrow> Clan list \<Rightarrow> byte list" where
  "clanInfoList lower_rune clans = foldl (appendClanInfo lower_rune) (EncodeVarInt (int (length clans))) clans"

definition notifyUserClanInfoRow :: "u16 \<Rightarrow> Clan \<Rightarrow> byte list" where
  "notifyUserClanInfoRow userIndex clan = appendClanMark (WriteProudString (appendUint16 [] userIndex) (c_Name clan)) clan"

section \<open>Members (clan_member.go)\<close>

record clanMemberPresence =
  mp_Channel :: byte
  mp_Lobby :: byte
  mp_Room :: u16
  mp_Online :: bool
  mp_InGame :: bool

record clanMemberRecordWire =
  rw_Win :: u32
  rw_Lose :: u32
  rw_Draw :: u32
  rw_Kill :: u32
  rw_Death :: u32
  rw_Extra :: u32

record clanMemberWire =
  mw_MemberID :: u16
  mw_Name :: string
  mw_Level :: byte
  mw_PvP :: clanMemberRecordWire
  mw_ClanRecord :: clanMemberRecordWire
  mw_Channel :: byte
  mw_Lobby :: byte
  mw_Room :: u16
  mw_Position :: byte
  mw_Online :: bool
  mw_InGame :: bool

definition presence_online :: "bool \<Rightarrow> clanMemberPresence" where
  "presence_online online = \<lparr>mp_Channel = 0, mp_Lobby = 0, mp_Room = 0, mp_Online = online, mp_InGame = False\<rparr>"

definition pvp_draws :: "PvPRecord \<Rightarrow> u32" where
  "pvp_draws r =
     (if pvp_Draw r = 0 \<and> pvp_Games r \<ge> pvp_Win r + pvp_Lose r then pvp_Games r - pvp_Win r - pvp_Lose r else pvp_Draw r)"

definition makeClanMemberWire :: "ClanMember \<Rightarrow> Player \<Rightarrow> clanMemberPresence \<Rightarrow> clanMemberWire" where
  "makeClanMemberWire member player presence =
     (let pvp = r_PvP (p_Records player); record = cm_Records member
      in \<lparr>mw_MemberID = cm_MemberID member,
           mw_Name = (if cm_Name member = [] then p_Name player else cm_Name member),
           mw_Level = levelByte player,
           mw_PvP = \<lparr>rw_Win = pvp_Win pvp, rw_Lose = pvp_Lose pvp, rw_Draw = pvp_draws pvp, rw_Kill = pvp_Kill pvp,
             rw_Death = pvp_Death pvp, rw_Extra = pvp_Headshot pvp\<rparr>,
           mw_ClanRecord = \<lparr>rw_Win = nonNegativeUint32 (cr_Win record), rw_Lose = nonNegativeUint32 (cr_Lose record),
             rw_Draw = nonNegativeUint32 (cr_Draw record), rw_Kill = nonNegativeUint32 (cr_Kill record),
             rw_Death = nonNegativeUint32 (cr_Death record), rw_Extra = 0\<rparr>,
           mw_Channel = mp_Channel presence, mw_Lobby = mp_Lobby presence, mw_Room = mp_Room presence,
           mw_Position = cm_Rank member, mw_Online = mp_Online presence, mw_InGame = mp_InGame presence\<rparr>)"

definition appendClanMemberRecord :: "byte list \<Rightarrow> clanMemberRecordWire \<Rightarrow> byte list" where
  "appendClanMemberRecord dst r =
     foldl appendUint32 dst [rw_Win r, rw_Lose r, rw_Draw r, rw_Kill r, rw_Death r, rw_Extra r]"

definition appendClanMember :: "byte list \<Rightarrow> clanMemberWire \<Rightarrow> byte list" where
  "appendClanMember dst member =
     (let dst = appendUint16 dst (mw_MemberID member);
          dst = WriteProudString dst (mw_Name member);
          dst = dst @ [mw_Level member];
          dst = appendClanMemberRecord dst (mw_PvP member);
          dst = appendClanMemberRecord dst (mw_ClanRecord member);
          dst = dst @ [mw_Channel member, mw_Lobby member];
          dst = appendUint16 dst (mw_Room member)
      in dst @ [mw_Position member, boolByte (mw_Online member), boolByte (mw_InGame member)])"

definition clanMemberList :: "clanMemberWire list \<Rightarrow> byte list" where
  "clanMemberList members = foldl appendClanMember (EncodeVarInt (int (length members))) members"

definition memberPositionRow :: "ClanMember \<Rightarrow> byte list" where
  "memberPositionRow member = appendUint32 (appendUint16 [] (cm_MemberID member)) (ucast (cm_Rank member))"

section \<open>Applicants (clan_request.go)\<close>

definition appendClanRequest :: "byte list \<Rightarrow> ClanApplicant \<Rightarrow> Player \<Rightarrow> byte list" where
  "appendClanRequest dst applicant player =
     (let dst = appendUint16 dst (ap_ApplicantID applicant);
          dst = WriteProudString dst (ap_Name applicant);
          dst = dst @ [clampByte (uint (ap_Level applicant))];
          pvp = r_PvP (p_Records player);
          dst = appendClanMemberRecord dst \<lparr>rw_Win = pvp_Win pvp, rw_Lose = pvp_Lose pvp, rw_Draw = pvp_Draw pvp,
            rw_Kill = pvp_Kill pvp, rw_Death = pvp_Death pvp, rw_Extra = pvp_Headshot pvp\<rparr>
      in append_date dst (ap_AppliedAt applicant))"

definition clanRequestList :: "ClanApplicant list \<Rightarrow> (string \<times> Player) list \<Rightarrow> byte list" where
  "clanRequestList applicants known =
     foldl (\<lambda>body applicant. appendClanRequest body applicant (account_of known (ap_SteamID applicant)))
       (EncodeVarInt (int (length applicants))) applicants"

definition packed_mark :: "i32 \<Rightarrow> u32 \<Rightarrow> u32" where
  "packed_mark value bits = (if sint value < 0 then 0 else if value > bits then bits else value)"

definition packClanMark :: "Clan \<Rightarrow> u32" where
  "packClanMark clan = (case c_Mark clan of (a, b, c) \<Rightarrow>
     packed_mark a 0xFFFF OR push_bit 16 (packed_mark b 0xFF) OR push_bit 24 (packed_mark c 0xFF))"

definition appendRequestClanInfo :: "(nat \<Rightarrow> nat) \<Rightarrow> byte list \<Rightarrow> Clan \<Rightarrow> byte list" where
  "appendRequestClanInfo lower_rune dst clan =
     appendUint32 (appendUint32 (WriteProudString dst (c_Name clan)) (clanWireID lower_rune (c_Name clan))) (packClanMark clan)"

section \<open>Marks (clan_mark.go)\<close>

definition clanMarkSize :: nat where
  "clanMarkSize = 8"

text \<open>The outer \<open>None\<close> is a read out of range, the inner one the refusal.\<close>

definition parseClanMark :: "byte list \<Rightarrow> (mark \<times> u16) option option" where
  "parseClanMark body =
     (if length body < clanMarkSize then Some None
      else case (read16 body 0, read16 body 2, read16 body 4, read16 body 6) of
          (Some a, Some b, Some c, Some extra) \<Rightarrow> Some (Some ((ucast a, ucast b, ucast c), extra))
        | _ \<Rightarrow> None)"

lemma parseClanMark_reads: "parseClanMark body \<noteq> None"
  by (simp add: parseClanMark_def clanMarkSize_def in_bounds)

definition checkMarkVerdict :: "bool \<Rightarrow> byte list" where
  "checkMarkVerdict available = [boolByte available]"

end
