(* ===== verification/Profile.thy ===== *)
theory Profile
  imports Clan_Rows
begin

text \<open>
  Login, the channel list and the profile (login.go, auth.go, channel.go, profile.go), and the item
  rows they share with the shop: one definition per handler, over the connection and the request's
  body. \<open>cf_now cf k\<close> is the k-th reading of the clock while the request is served.
\<close>

section \<open>Item rows\<close>

definition slotInactive :: byte where "slotInactive = 0"
definition slotActive :: byte where "slotActive = 1"

definition appendItem :: "time \<Rightarrow> byte list \<Rightarrow> InventoryItem \<Rightarrow> byte \<Rightarrow> byte list" where
  "appendItem now dst item functionCode =
     (let dst = appendUint16 dst (i_Serial item);
          dst = appendUint32 dst (i_ItemIndex item);
          dst = appendUint32 dst (WireValue item now)
      in dst @ [i_State item, i_InstanceAux item, i_ItemType item, functionCode])"

text \<open>One row per item; the clock is read for each of them.\<close>

fun append_items :: "(nat \<Rightarrow> time) \<Rightarrow> (u32 \<Rightarrow> byte) \<Rightarrow> nat \<Rightarrow> byte list \<Rightarrow> InventoryItem list \<Rightarrow> byte list" where
  "append_items now functionOf k body [] = body"
| "append_items now functionOf k body (item # items) =
     append_items now functionOf (k + 1) (appendItem (now k) body item (functionOf (i_ItemIndex item))) items"

definition itemList :: "(nat \<Rightarrow> time) \<Rightarrow> InventoryItem list \<Rightarrow> (u32 \<Rightarrow> byte) \<Rightarrow> byte list" where
  "itemList now items functionOf = append_items now functionOf 0 (EncodeVarInt (int (length items))) items"

definition itemValueRow :: "time \<Rightarrow> InventoryItem \<Rightarrow> byte list" where
  "itemValueRow now item = appendUint32 (appendUint16 [] (i_Serial item)) (WireValue item now) @ [i_State item]"

definition customEquipRow :: "AttachedItem \<Rightarrow> byte \<Rightarrow> byte list" where
  "customEquipRow mounted active =
     appendUint16 (appendUint16 [] (a_ChildSerial mounted)) (a_ParentSerial mounted) @ [a_Slot mounted, active]"

definition slotRow :: "AttachedItem \<Rightarrow> u32 \<Rightarrow> byte \<Rightarrow> byte list" where
  "slotRow mounted childItemIndex active =
     appendUint32 (appendUint16 (appendUint16 [] (a_ParentSerial mounted)) (a_ChildSerial mounted)) childItemIndex
       @ [a_Slot mounted, active]"

definition slotList :: "Player \<Rightarrow> byte list" where
  "slotList p =
     (let mounts = filter (\<lambda>m. \<not> IsCustomSlot (a_Slot m)) (p_Attachments p)
      in foldl (\<lambda>body m. body @ slotRow m (indexBySerial p (a_ChildSerial m)) slotActive)
           (EncodeVarInt (int (length mounts))) mounts)"

definition customEquipList :: "Player \<Rightarrow> byte list" where
  "customEquipList p =
     (let mounts = filter (\<lambda>m. IsCustomSlot (a_Slot m)) (p_Attachments p)
      in foldl (\<lambda>body m. body @ customEquipRow m slotActive) (EncodeVarInt (int (length mounts))) mounts)"

definition equipSlotList :: "Player \<Rightarrow> byte list" where
  "equipSlotList p =
     foldl (\<lambda>body e. appendUint32 (appendUint16 body (e_Serial e)) (indexBySerial p (e_Serial e)) @ [e_Slot e])
       (EncodeVarInt (int (length (p_Loadout p)))) (p_Loadout p)"

section \<open>Records and progression\<close>

definition appendPvP :: "byte list \<Rightarrow> PvPRecord \<Rightarrow> byte list" where
  "appendPvP dst r =
     (let games = (if pvp_Games r = 0 \<and> pvp_Win r + pvp_Lose r > 0 then pvp_Win r + pvp_Lose r else pvp_Games r)
      in foldl appendUint32 dst [games, pvp_Win r, pvp_Lose r, pvp_Kill r, pvp_Death r, pvp_Headshot r])"

definition appendPvE :: "byte list \<Rightarrow> PvERecord \<Rightarrow> byte list" where
  "appendPvE dst r = foldl appendUint32 dst [pve_Complete r, pve_Games r, pve_NpcKill r, pve_Death r]"

definition appendHit :: "byte list \<Rightarrow> HitRecord \<Rightarrow> byte list" where
  "appendHit dst r = foldl appendUint32 dst [hit_Head r, hit_Arms r, hit_Body r, hit_Legs r, hit_Miss r]"

definition notifyCharacter :: "Player \<Rightarrow> byte list" where
  "notifyCharacter p =
     (let body = WriteProudString [] (p_Name p);
          body = appendUint64 body (characterID (p_SteamID p));
          body = body @ [levelByte p];
          body = appendUint32 body (p_Level p);
          body = appendUint32 body (ucast (p_Exp p));
          body = appendPvP body (r_PvP (p_Records p));
          body = appendPvE body (r_PvE (p_Records p));
          body = appendHit body (r_Hit (p_Records p))
      in appendUint32 body 0)"

definition notifyRecord :: "Player \<Rightarrow> byte list" where
  "notifyRecord p =
     (let body = appendUint64 [] (characterID (p_SteamID p));
          body = body @ [levelByte p];
          body = appendPvP body (r_PvP (p_Records p));
          body = appendPvE body (r_PvE (p_Records p))
      in appendUint32 body 0)"

definition mapQuestPvPMap :: u16 where "mapQuestPvPMap = 204"
definition mapQuestPvEMap :: u16 where "mapQuestPvEMap = 704"

record mapQuestRow =
  mq_Outcome0 :: u32
  mq_Outcome1 :: u32
  mq_Outcome2 :: u32
  mq_Kill :: u32
  mq_Headshot :: u32
  mq_Death :: u32

definition appendMapQuestRow :: "byte list \<Rightarrow> u16 \<Rightarrow> mapQuestRow \<Rightarrow> byte list" where
  "appendMapQuestRow dst mapIndex row =
     foldl appendUint32 (appendUint16 dst mapIndex)
       [mq_Outcome0 row, mq_Outcome1 row, mq_Outcome2 row, mq_Kill row, mq_Headshot row, 0, mq_Death row, 0, 0, 0, 0]"

definition mapQuestList :: "Player \<Rightarrow> byte list" where
  "mapQuestList p =
     (let pvp = r_PvP (p_Records p); pve = r_PvE (p_Records p);
          body = EncodeVarInt 2;
          body = appendMapQuestRow body mapQuestPvPMap \<lparr>mq_Outcome0 = pvp_Win pvp, mq_Outcome1 = pvp_Draw pvp,
            mq_Outcome2 = pvp_Lose pvp, mq_Kill = pvp_Kill pvp, mq_Headshot = pvp_Headshot pvp, mq_Death = pvp_Death pvp\<rparr>;
          incomplete = (if pve_Games pve > pve_Complete pve then pve_Games pve - pve_Complete pve else 0)
      in appendMapQuestRow body mapQuestPvEMap \<lparr>mq_Outcome0 = pve_Complete pve, mq_Outcome1 = incomplete,
           mq_Outcome2 = 0, mq_Kill = pve_NpcKill pve, mq_Headshot = 0, mq_Death = pve_Death pve\<rparr>)"

section \<open>Channels (channel.go)\<close>

definition Channel_appendTo :: "Channel \<Rightarrow> byte list \<Rightarrow> byte list" where
  "Channel_appendTo ch dst =
     (let dst = appendUint32 dst (ch_ServerID ch);
          dst = dst @ [ch_ID ch, ch_Kind ch];
          dst = WriteProudString dst (ch_Name ch);
          dst = WriteProudString dst (ch_Host ch);
          dst = appendUint16 dst (ch_Port ch);
          dst = WriteProudString dst (ch_Host ch);
          dst = appendUint16 dst (ch_Port ch);
          dst = appendUint16 dst 0
      in appendUint16 dst (ch_MaxUsers ch))"

definition joinChannel :: "conf \<Rightarrow> conn \<Rightarrow> byte list \<Rightarrow> unit act" where
  "joinChannel cf c body =
     io_seq (case cf_channels cf of [] \<Rightarrow> io_ret () | ch # _ \<Rightarrow> io_set (setSessionChannel c (ch_ID ch)))
       (send c rmiAnswerChannelJoin [1])"

definition sendChannelList :: "conf \<Rightarrow> conn \<Rightarrow> unit act" where
  "sendChannelList cf c =
     send c rmiSendChannelList
       (foldl (\<lambda>body ch. Channel_appendTo ch body) (EncodeVarInt (int (length (cf_channels cf)))) (cf_channels cf))"

definition requestChannelList :: "conf \<Rightarrow> conn \<Rightarrow> byte list \<Rightarrow> unit act" where
  "requestChannelList cf c body = io_seq (send c rmiAnswerChannelList []) (sendChannelList cf c)"

section \<open>Authentication (auth.go, login.go)\<close>

definition sendResponse :: "conn \<Rightarrow> u16 \<Rightarrow> (u16 \<times> byte list) list \<Rightarrow> unit act" where
  "sendResponse c answer followUps = io_seq (send c answer []) (send_all c followUps)"

definition sendBoth :: "conf \<Rightarrow> conn \<Rightarrow> Message \<Rightarrow> unit act" where
  "sendBoth cf c msg = io_seq (session_SendEncrypted (cf_cipher cf) c msg) (session_SendPlain c msg)"

definition aeriaAuth :: "conf \<Rightarrow> conn \<Rightarrow> byte list \<Rightarrow> unit act" where
  "aeriaAuth cf c body =
     (case ReadProudString body 0 of
        Inl e \<Rightarrow> io_fail (WireFailure e)
      | Inr (_, next) \<Rightarrow>
     (case ReadProudString body next of
        Inl e \<Rightarrow> io_fail (WireFailure e)
      | Inr (steamID, _) \<Rightarrow>
     io_bind (on_db (LoginBySteam (cf_players cf) steamID (cf_now cf 0) (cf_now cf 1))) (\<lambda>loaded. case loaded of
        Inl e \<Rightarrow> io_fail (ServiceFailure e)
      | Inr player \<Rightarrow>
     io_seq (io_set (bindPlayer c player))
     (io_seq (sendBoth cf c \<lparr>ID = rmiAnswerAeriaAuth, Body = []\<rparr>)
     (io_seq (sendBoth cf c \<lparr>ID = rmiAnswerAeriaLauncher, Body = []\<rparr>)
       (sendChannelList cf c))))))"

definition aeriaLauncher :: "conf \<Rightarrow> conn \<Rightarrow> byte list \<Rightarrow> unit act" where
  "aeriaLauncher cf c body = sendBoth cf c \<lparr>ID = rmiAnswerAeriaLauncher, Body = []\<rparr>"

definition createCredential :: "conn \<Rightarrow> byte list \<Rightarrow> unit act" where
  "createCredential c body =
     with_player c (io_fail (HandlerError ''create credential before authentication'')) (\<lambda>player.
       io_bind (io_get (\<lambda>w. connectGUID (hub_wires w c))) (\<lambda>guid.
         if length guid \<noteq> 16 then io_fail (HandlerError ''create credential before client connect'')
         else io_seq (io_set (\<lambda>w. w\<lparr>hub_credentials := Issue guid player (hub_credentials w)\<rparr>))
           (send c rmiAnswerCreateCredential guid)))"

definition checkCredential :: "conf \<Rightarrow> conn \<Rightarrow> byte list \<Rightarrow> unit act" where
  "checkCredential cf c body =
     (if length body < 16 then io_fail (HandlerError ''check credential without a token'')
      else checked (slice_of body 0 16) (\<lambda>token.
      io_bind (io_get (\<lambda>w. Redeem token (hub_credentials w))) (\<lambda>redeemed. case redeemed of
        None \<Rightarrow> io_fail (HandlerError ''check credential: unknown token'')
      | Some player \<Rightarrow>
          io_seq (io_set (bindPlayer c player))
          (io_seq (send c rmiAnswerCheckCredential (int32LE 0))
            (sendChannelList cf c)))))"

section \<open>Profile (profile.go)\<close>

definition playerClan :: "conf \<Rightarrow> Player \<Rightarrow> Clan option act" where
  "playerClan cf player =
     (if p_ClanName player = [] then io_ret None
      else io_bind (on_db (ClanService_Find (cf_clans cf) (p_ClanName player))) (\<lambda>found. case found of
        Inl _ \<Rightarrow> io_ret None
      | Inr clan \<Rightarrow> io_ret clan))"

text \<open>\<open>accounts, err := FindMany(...); if err != nil { accounts = nil }\<close>\<close>

definition load_accounts :: "conf \<Rightarrow> string list \<Rightarrow> (string \<times> Player) list act" where
  "load_accounts cf steamIDs =
     io_bind (on_db (PlayerService_FindMany (cf_players cf) steamIDs)) (\<lambda>loaded. case loaded of
       Inl _ \<Rightarrow> io_ret []
     | Inr known \<Rightarrow> io_ret known)"

definition pendingClanPushes :: "conf \<Rightarrow> Player \<Rightarrow> (u16 \<times> byte list) list act" where
  "pendingClanPushes cf player =
     io_bind (on_db (PendingApplication (cf_clans cf) (p_SteamID player))) (\<lambda>found. case found of
       Inl _ \<Rightarrow> io_ret []
     | Inr None \<Rightarrow> io_ret []
     | Inr (Some clan) \<Rightarrow> io_ret [(rmiSendRequestClanInfo, appendRequestClanInfo (cf_lower cf) [] clan)])"

definition clanRequests :: "conf \<Rightarrow> Clan \<Rightarrow> string \<Rightarrow> byte list option act" where
  "clanRequests cf clan steamID =
     (if \<not> list_ex (\<lambda>m. cm_SteamID m = steamID \<and> CanReviewClanApplications (cm_Rank m)) (c_Members clan) \<or>
         c_Applicants clan = []
      then io_ret None
      else io_bind (load_accounts cf (map ap_SteamID (c_Applicants clan))) (\<lambda>known.
        io_ret (Some (clanRequestList (c_Applicants clan) known))))"

text \<open>The roster with the online flag of each member, also used by the clan handlers.\<close>

definition clanRoster :: "conf \<Rightarrow> Clan \<Rightarrow> clanMemberWire list act" where
  "clanRoster cf clan =
     io_bind (load_accounts cf (map cm_SteamID (c_Members clan))) (\<lambda>known.
     io_get (\<lambda>w. map (\<lambda>m. makeClanMemberWire m (account_of known (cm_SteamID m))
       (presence_online (IsOnline (hub_sessions w) (cm_SteamID m)))) (c_Members clan)))"

definition clanPushes :: "conf \<Rightarrow> Player \<Rightarrow> (u16 \<times> byte list) list act" where
  "clanPushes cf player =
     io_bind (playerClan cf player) (\<lambda>found. case found of
       None \<Rightarrow> pendingClanPushes cf player
     | Some clan \<Rightarrow>
         io_bind (clanRoster cf clan) (\<lambda>roster.
         io_bind (clanRequests cf clan (p_SteamID player)) (\<lambda>requests.
         io_ret ([(rmiSendClanInfo, appendClanInfo (cf_lower cf) [] clan),
              (rmiSendMemberList, clanMemberList roster),
              (rmiNotifyMemberCount, counts_row (makeClanMemberCounts clan)),
              (rmiNotifyUserClanInfo, notifyUserClanInfoRow (ucast (characterID (p_SteamID player))) clan)]
            @ (case requests of None \<Rightarrow> [] | Some rows \<Rightarrow> [(rmiSendRequestList, rows)])))))"

definition login :: "conf \<Rightarrow> conn \<Rightarrow> byte list \<Rightarrow> unit act" where
  "login cf c body =
     with_player c (io_fail (HandlerError ''login without an authenticated account'')) (\<lambda>player.
       io_bind (clanPushes cf player) (\<lambda>pushes.
         sendResponse c rmiAnswerLogin
           ([(rmiNotifyCharacter, notifyCharacter player), (rmiNotifyRecord, notifyRecord player)] @ pushes)))"

definition itemLogin :: "conf \<Rightarrow> conn \<Rightarrow> byte list \<Rightarrow> unit act" where
  "itemLogin cf c body =
     with_player c (io_fail (HandlerError ''item login without an authenticated account'')) (\<lambda>player.
       sendResponse c rmiItemAnswerLogin
         [(rmiSendPoint, uint64LE (p_Point player)),
          (rmiSendCash, uint64LE (p_Cash player)),
          (0x76F5, [0]),
          (0x76F6, [0]),
          (rmiSendItemList, itemList (cf_now cf) (p_Inventory player) (ItemFunctionType (cf_players cf))),
          (0x76F9, [0]),
          (rmiSendSlotList, slotList player),
          (0x76FD, [0]),
          (rmiSendEquipSlotList, equipSlotList player),
          (rmiSendEquipList, customEquipList player)])"

definition mapQuestLogin :: "conn \<Rightarrow> byte list \<Rightarrow> unit act" where
  "mapQuestLogin c body =
     with_player c (io_fail (HandlerError ''map quest login without an authenticated account'')) (\<lambda>player.
       sendResponse c rmiMapQuestAnswerLogin [(rmiSendMapQuestList, mapQuestList player)])"

end
