(* ===== verification/Items.thy ===== *)
theory Items
  imports Profile
begin

text \<open>
  Equipment, shop and crafting requests (items.go): each handler checks the body, calls the account
  service, caches the account it returns on the connection and sends the changes to the client.
\<close>

text \<open>\<open>kind\<close> only names the request in log lines and error texts.\<close>

definition sendAttachment :: "conn \<Rightarrow> u16 \<Rightarrow> InventoryItem \<Rightarrow> byte \<Rightarrow> unit act" where
  "sendAttachment c parentSerial child active =
     (let mounted = \<lparr>a_ParentSerial = parentSerial, a_ChildSerial = i_Serial child, a_Slot = i_ItemType child\<rparr>
      in if IsCustomSlot (i_ItemType child) then send c rmiSendEquip (customEquipRow mounted active)
         else send c rmiSendSlot (slotRow mounted (i_ItemIndex child) active))"

definition items_attach :: "conf \<Rightarrow> string \<Rightarrow> u16 \<Rightarrow> u16 \<Rightarrow> conn \<Rightarrow> byte list \<Rightarrow> unit act" where
  "items_attach cf kind okID failID c body =
     with_player c (io_fail (HandlerError (kind @ '' attach before authentication''))) (\<lambda>player.
       if length body < 4 then send c failID (int32LE 0)
       else checked (read16 body 0) (\<lambda>parentSerial. checked (read16 body 2) (\<lambda>childSerial.
            io_bind (on_db (PlayerService_Attach (cf_players cf) (p_SteamID player) parentSerial childSerial (cf_now cf 0))) (\<lambda>done. case done of
              Inl _ \<Rightarrow> send c failID (int32LE 0)
            | Inr (updated, child) \<Rightarrow>
                io_seq (io_set (updatePlayer c updated))
                (io_seq (sendAttachment c parentSerial child slotActive)
                  (checked (slice_of body 0 4) (send c okID)))))))"

definition items_detach :: "conf \<Rightarrow> string \<Rightarrow> u16 \<Rightarrow> u16 \<Rightarrow> conn \<Rightarrow> byte list \<Rightarrow> unit act" where
  "items_detach cf kind okID failID c body =
     with_player c (io_fail (HandlerError (kind @ '' detach before authentication''))) (\<lambda>player.
       if length body < 4 then send c failID (int32LE 0)
       else checked (read16 body 0) (\<lambda>parentSerial. checked (read16 body 2) (\<lambda>childSerial.
            io_bind (on_db (PlayerService_Detach (cf_players cf) (p_SteamID player) parentSerial childSerial)) (\<lambda>done. case done of
              Inl _ \<Rightarrow> send c failID (int32LE 0)
            | Inr (updated, child) \<Rightarrow>
                io_seq (io_set (updatePlayer c updated))
                (io_seq (sendAttachment c parentSerial child slotInactive)
                  (checked (slice_of body 0 4) (send c okID)))))))"

definition equip_slot_row :: "InventoryItem \<Rightarrow> byte list" where
  "equip_slot_row item = appendUint32 (appendUint16 [] (i_Serial item)) (i_ItemIndex item) @ [i_ItemType item]"

text \<open>\<open>item, _ := updated.Item(serial)\<close>: the zero item when there is none.\<close>

definition item_or_zero :: "InventoryItem option \<Rightarrow> InventoryItem" where
  "item_or_zero found = (case found of
     None \<Rightarrow> \<lparr>i_Serial = 0, i_ItemIndex = 0, i_Value = 0, i_State = 0, i_ItemType = 0, i_InstanceAux = 0, i_ExpiresAt = zero_time\<rparr>
   | Some item \<Rightarrow> item)"

definition equipSerial :: "conf \<Rightarrow> conn \<Rightarrow> u16 \<Rightarrow> u16 \<Rightarrow> unit act" where
  "equipSerial cf c serial answerID =
     with_player c (io_fail (HandlerError ''equip before authentication'')) (\<lambda>player.
       io_bind (on_db (PlayerService_Equip (cf_players cf) (p_SteamID player) serial (cf_now cf 0))) (\<lambda>done. case done of
         Inl e \<Rightarrow> io_fail (ServiceFailure e)
       | Inr updated \<Rightarrow>
           io_seq (io_set (updatePlayer c updated))
           (io_seq (send c rmiSendEquipSlot (equip_slot_row (item_or_zero (Item updated serial))))
             (send c answerID (appendUint16 [] serial)))))"

definition items_equip :: "conf \<Rightarrow> conn \<Rightarrow> byte list \<Rightarrow> unit act" where
  "items_equip cf c body =
     (if length body < 2 then io_fail (HandlerError ''equip request too short'')
      else checked (read16 body 0) (\<lambda>serial.
           if serial = 0 then send c rmiAnswerEquipItem (appendUint16 [] 0)
           else equipSerial cf c serial rmiAnswerEquipItem))"

text \<open>\<open>if err := m; err != nil { handle; } else return nil\<close>\<close>

definition io_catch :: "unit act \<Rightarrow> unit act \<Rightarrow> unit act" where
  "io_catch m handle w = (case m w of
     (Inl e, w') \<Rightarrow> if fatal_error e then (Inl e, w') else handle w'
   | (Inr u, w') \<Rightarrow> (Inr u, w'))"

definition kindGear :: string where "kindGear = ''gear''"
definition kindCustom :: string where "kindCustom = ''custom''"
definition kindPerk :: string where "kindPerk = ''perk''"

definition perkEquip :: "conf \<Rightarrow> conn \<Rightarrow> byte list \<Rightarrow> unit act" where
  "perkEquip cf c body =
     (if length body = 2
      then checked (read16 body 0) (\<lambda>serial.
        io_catch (equipSerial cf c serial rmiAnswerEquipPerkItem) (send c rmiAnswerEquipPerkFail (int32LE 0)))
      else items_attach cf kindPerk rmiAnswerEquipPerkItem rmiAnswerEquipPerkFail c body)"

definition perkBreak :: "conf \<Rightarrow> conn \<Rightarrow> byte list \<Rightarrow> unit act" where
  "perkBreak cf = items_detach cf kindPerk rmiAnswerBreakPerkItem rmiAnswerBreakPerkFail"

definition perkIncreaseSlot :: "conn \<Rightarrow> byte list \<Rightarrow> unit act" where
  "perkIncreaseSlot c body = send c rmiAnswerIncPerkSlot body"

definition gearEquip :: "conf \<Rightarrow> conn \<Rightarrow> byte list \<Rightarrow> unit act" where
  "gearEquip cf = items_attach cf kindGear rmiAnswerEquipGearItem rmiAnswerEquipGearFail"

definition gearBreak :: "conf \<Rightarrow> conn \<Rightarrow> byte list \<Rightarrow> unit act" where
  "gearBreak cf = items_detach cf kindGear rmiAnswerBreakGearItem rmiAnswerBreakGearFail"

definition equipCustom :: "conf \<Rightarrow> conn \<Rightarrow> byte list \<Rightarrow> unit act" where
  "equipCustom cf = items_attach cf kindCustom rmiAnswerEquipCustomItem rmiAnswerEquipCustomFail"

definition breakCustom :: "conf \<Rightarrow> conn \<Rightarrow> byte list \<Rightarrow> unit act" where
  "breakCustom cf = items_detach cf kindCustom rmiAnswerBreakCustomItem rmiAnswerBreakCustomFail"

section \<open>Shop\<close>

text \<open>The wallet that paid and the item, as the client has to show them; \<open>now\<close> is the clock for the row.\<close>

definition completeDeltas :: "conf \<Rightarrow> time \<Rightarrow> conn \<Rightarrow> BuyResult \<Rightarrow> unit act" where
  "completeDeltas cf now c result =
     io_seq
       (case b_Wallet result of
          WalletPoint \<Rightarrow> send c rmiSendPoint (uint64LE (p_Point (b_Player result)))
        | WalletCash \<Rightarrow> send c rmiSendCash (uint64LE (p_Cash (b_Player result)))
        | WalletNone \<Rightarrow> io_ret ())
       (if b_IsNew result
        then send c rmiSendItem (appendItem now [] (b_Item result) (ItemFunctionType (cf_players cf) (i_ItemIndex (b_Item result))))
        else send c rmiSendItemValue (itemValueRow now (b_Item result)))"

definition completePurchase :: "conf \<Rightarrow> time \<Rightarrow> conn \<Rightarrow> BuyResult \<Rightarrow> u16 \<Rightarrow> unit act" where
  "completePurchase cf now c result answerID =
     io_seq (completeDeltas cf now c result) (send c answerID (appendUint16 [] (i_Serial (b_Item result))))"

definition items_buy :: "conf \<Rightarrow> conn \<Rightarrow> byte list \<Rightarrow> unit act" where
  "items_buy cf c body =
     with_player c (io_fail (HandlerError ''buy before authentication'')) (\<lambda>player.
       if length body < 4 then send c rmiAnswerBuyItemFail (int32LE 0)
       else checked (read32 body 0) (\<lambda>itemIndex.
         io_bind (on_db (Buy (cf_players cf) (p_SteamID player) itemIndex (cf_now cf 0))) (\<lambda>done. case done of
           Inl _ \<Rightarrow> send c rmiAnswerBuyItemFail (int32LE 0)
         | Inr result \<Rightarrow>
             io_seq (io_set (updatePlayer c (b_Player result)))
               (completePurchase cf (cf_now cf 1) c result rmiAnswerBuyItem))))"

definition buyCustom :: "conf \<Rightarrow> conn \<Rightarrow> byte list \<Rightarrow> unit act" where
  "buyCustom cf c body =
     with_player c (io_fail (HandlerError ''buy custom before authentication'')) (\<lambda>player.
       if length body < 6 then send c rmiAnswerBuyCustomItemFail (int32LE 0)
       else checked (read16 body 0) (\<lambda>weaponSerial. checked (read32 body 2) (\<lambda>itemIndex.
            io_bind (on_db (BuyCustomPart (cf_players cf) (p_SteamID player) weaponSerial itemIndex (cf_now cf 0) (cf_now cf 1))) (\<lambda>done. case done of
              Inl _ \<Rightarrow> send c rmiAnswerBuyCustomItemFail (int32LE 0)
            | Inr result \<Rightarrow>
                io_seq (io_set (updatePlayer c (b_Player result)))
                (io_seq (completeDeltas cf (cf_now cf 2) c result)
                (io_seq (sendAttachment c weaponSerial (b_Item result) slotActive)
                  (send c rmiAnswerBuyCustomItem (appendUint32 (appendUint16 [] (i_Serial (b_Item result))) itemIndex))))))))"

section \<open>Crafting\<close>

definition failCraft :: "conn \<Rightarrow> unit act" where
  "failCraft c = send c rmiAnswerRecipeItemFail (int32LE 0)"

fun send_values :: "(nat \<Rightarrow> time) \<Rightarrow> nat \<Rightarrow> conn \<Rightarrow> InventoryItem list \<Rightarrow> unit act" where
  "send_values now k c [] = io_ret ()"
| "send_values now k c (item # items) =
     io_seq (send c rmiSendItemValue (itemValueRow (now k) item)) (send_values now (k + 1) c items)"

definition items_craft :: "conf \<Rightarrow> conn \<Rightarrow> byte list \<Rightarrow> unit act" where
  "items_craft cf c body =
     with_player c (io_fail (HandlerError ''craft before authentication'')) (\<lambda>player.
       if length body < 4 then failCraft c
       else checked (read32 body 0) (\<lambda>recipeID.
            io_bind (on_db (Craft (cf_players cf) (p_SteamID player) recipeID (cf_now cf 0))) (\<lambda>done. case done of
              Inl _ \<Rightarrow> failCraft c
            | Inr result \<Rightarrow>
                io_seq (io_set (updatePlayer c (k_Player result)))
                (io_seq (io_each (\<lambda>serial. send c rmiSendDeleteItem (appendUint16 [] serial)) (k_Deleted result))
                (io_seq (send_values (cf_now cf) 1 c (k_Updated result))
                (io_seq (if k_PricePoint result > 0 then send c rmiSendPoint (uint64LE (p_Point (k_Player result))) else io_ret ())
                (io_seq (send c rmiSendItem (appendItem (cf_now cf (1 + length (k_Updated result))) [] (k_Output result)
                    (ItemFunctionType (cf_players cf) (i_ItemIndex (k_Output result)))))
                  (send c rmiAnswerRecipeItem (appendUint32 (appendUint32 [] recipeID) (i_ItemIndex (k_Output result))))))))))) "

section \<open>Screens that only need an acknowledgement (actions_ack.go)\<close>

text \<open>Request, answer and the default destination of the close acknowledgements.\<close>

definition staticResponses :: "(u16 \<times> u16 \<times> byte) list" where
  "staticResponses =
     [(0x759A, 0x75DF, 0), (0x759B, 0x75E1, 0), (0x759C, 0x75E3, 0), (0x759D, 0x75E5, 0), (0x759E, 0x75E7, 0),
      (0x75F9, 0x762B, 0), (0x765D, 0x768F, 0), (0x765F, 0x7694, 0), (0x7725, 0x7757, 0), (0x7789, 0x77BB, 0),
      (0x7919, 0x794B, 0), (0x797D, 0x79AF, 0), (0x9C41, 0x9CA5, 0), (0xA411, 0xA605, 0), (0xA412, 0xA607, 0),
      (0xA413, 0xA609, 0), (0x9859, 0x98BD, 0), (0x985A, 0x98BF, 4), (0x99E9, 0x9A4D, 0), (0x99EA, 0x9A4F, 0),
      (0x99EB, 0x9A51, 4), (0x9AB1, 0x9B15, 0), (0x9AB2, 0x9B17, 0), (0x9AB3, 0x9B19, 4)]"

definition static_response :: "u16 \<Rightarrow> byte \<Rightarrow> conn \<Rightarrow> byte list \<Rightarrow> unit act" where
  "static_response answer destination c body =
     io_bind (io_get (sessionRoom c)) (\<lambda>room.
       send c answer (if destination \<noteq> 0 then [if room \<noteq> None then 5 else destination] else []))"

end
