(* ===== verification/Clan_Handlers.thy ===== *)
theory Clan_Handlers
  imports Items
begin

text \<open>
  Clan requests (clan.go, clan_actions.go, clan_mark.go, clan_chat.go): each handler calls the clan
  service with the account cached on the connection, answers, and pushes the change to the members,
  the reviewers or the applicant concerned, whose cached clan name it keeps in step.
\<close>

section \<open>Pushes to a clan (clan_actions.go)\<close>

text \<open>Every message to every connection of the account; a connection that fails gets no more of them.\<close>

definition sendTo :: "string \<Rightarrow> (u16 \<times> byte list) list \<Rightarrow> unit act" where
  "sendTo steamID msgs =
     io_bind (io_get (\<lambda>w. Sessions (hub_sessions w) steamID)) (\<lambda>conns.
       io_each (\<lambda>c. io_try (send_all c msgs)) conns)"

definition broadcast :: "Clan \<Rightarrow> (u16 \<times> byte list) list \<Rightarrow> unit act" where
  "broadcast clan msgs = io_each (\<lambda>m. sendTo (cm_SteamID m) msgs) (c_Members clan)"

definition broadcastReviewers :: "Clan \<Rightarrow> (u16 \<times> byte list) list \<Rightarrow> unit act" where
  "broadcastReviewers clan msgs =
     io_each (\<lambda>m. if CanReviewClanApplications (cm_Rank m) then sendTo (cm_SteamID m) msgs else io_ret ()) (c_Members clan)"

definition rename_cached :: "string \<Rightarrow> conn \<Rightarrow> hub \<Rightarrow> hub" where
  "rename_cached clanName c w =
     (case resolvePlayer c w of None \<Rightarrow> w | Some player \<Rightarrow> updatePlayer c (player\<lparr>p_ClanName := clanName\<rparr>) w)"

definition setSessionClan :: "string \<Rightarrow> string \<Rightarrow> unit act" where
  "setSessionClan steamID clanName =
     io_bind (io_get (\<lambda>w. Sessions (hub_sessions w) steamID)) (\<lambda>conns.
       io_each (\<lambda>c. io_set (rename_cached clanName c)) conns)"

definition memberWire :: "conf \<Rightarrow> ClanMember \<Rightarrow> clanMemberWire act" where
  "memberWire cf member =
     io_bind (load_accounts cf [cm_SteamID member]) (\<lambda>known.
     io_get (\<lambda>w. makeClanMemberWire member (account_of known (cm_SteamID member))
       (presence_online (IsOnline (hub_sessions w) (cm_SteamID member)))))"

definition member_count :: "Clan \<Rightarrow> u16 \<times> byte list" where
  "member_count clan = (rmiNotifyMemberCount, counts_row (makeClanMemberCounts clan))"

definition clan_welcome :: "conf \<Rightarrow> Clan \<Rightarrow> ClanMember \<Rightarrow> unit act" where
  "clan_welcome cf clan member =
     io_seq (setSessionClan (cm_SteamID member) (c_Name clan))
     (io_bind (clanRoster cf clan) (\<lambda>roster.
       sendTo (cm_SteamID member)
         [(rmiSendClearRequestInfo, []),
          (rmiSendClanInfo, appendClanInfo (cf_lower cf) [] clan),
          (rmiSendMemberList, clanMemberList roster),
          member_count clan,
          (rmiNotifyUserClanInfo, notifyUserClanInfoRow (ucast (characterID (cm_SteamID member))) clan)]))"

definition announceDeparture :: "Clan \<Rightarrow> ClanMember \<Rightarrow> unit act" where
  "announceDeparture clan member =
     io_seq (broadcast clan [(rmiNotifyDeleteMember, appendUint16 [] (cm_MemberID member))])
     (io_seq (broadcast clan [member_count clan])
     (io_seq (setSessionClan (cm_SteamID member) [])
       (sendTo (cm_SteamID member) [(rmiSendClearMember, []), (rmiSendClearClanInfo, [])])))"

text \<open>\<open>player, id, ok := actorAndID(session, msg); if !ok { refused }\<close>\<close>

definition with_actor_id :: "conn \<Rightarrow> byte list \<Rightarrow> unit act \<Rightarrow> (Player \<Rightarrow> u16 \<Rightarrow> unit act) \<Rightarrow> unit act" where
  "with_actor_id c body refused k =
     with_player c refused (\<lambda>player. if length body < 2 then refused else checked (read16 body 0) (k player))"

section \<open>Membership (clan_actions.go)\<close>

definition deleteClan :: "conf \<Rightarrow> conn \<Rightarrow> byte list \<Rightarrow> unit act" where
  "deleteClan cf c body =
     with_player c (io_fail (HandlerError ''delete clan before authentication'')) (\<lambda>player.
       io_bind (on_db (Disband (cf_clans cf) player)) (\<lambda>done. case done of
         Inl _ \<Rightarrow> send c rmiAnswerDeleteFail []
       | Inr clan \<Rightarrow>
           io_seq (send c rmiAnswerDeleteOK [])
           (io_seq (io_each (\<lambda>m. setSessionClan (cm_SteamID m) []) (c_Members clan))
           (io_seq (broadcast clan [(rmiSendClearMember, []), (rmiSendClearClanInfo, [])])
             (io_each (\<lambda>a. sendTo (ap_SteamID a) [(rmiSendClearRequestInfo, [])]) (c_Applicants clan))))))"

definition acceptMember :: "conf \<Rightarrow> conn \<Rightarrow> byte list \<Rightarrow> unit act" where
  "acceptMember cf c body =
     with_actor_id c body (send c rmiAnswerAcceptFail []) (\<lambda>player applicantID.
       io_bind (on_db (AcceptApplication (cf_clans cf) player applicantID)) (\<lambda>done. case done of
         Inl _ \<Rightarrow> send c rmiAnswerAcceptFail []
       | Inr (clan, member) \<Rightarrow>
           io_seq (send c rmiAnswerAcceptMemberOK [])
           (io_seq (broadcastReviewers clan [(rmiNotifyDeleteRequest, appendUint16 [] applicantID)])
           (io_bind (memberWire cf member) (\<lambda>row.
           io_seq (broadcast clan [(rmiNotifyMemberInfo, appendClanMember [] row)])
           (io_seq (broadcast clan [member_count clan])
             (clan_welcome cf clan member)))))))"

definition rejectMember :: "conf \<Rightarrow> conn \<Rightarrow> byte list \<Rightarrow> unit act" where
  "rejectMember cf c body =
     with_actor_id c body (send c rmiAnswerRejectFail []) (\<lambda>player applicantID.
       io_bind (on_db (RejectApplication (cf_clans cf) player applicantID)) (\<lambda>done. case done of
         Inl _ \<Rightarrow> send c rmiAnswerRejectFail []
       | Inr (clan, applicant) \<Rightarrow>
           io_seq (send c rmiAnswerRejectMemberOK [])
           (io_seq (broadcastReviewers clan [(rmiNotifyDeleteRequest, appendUint16 [] applicantID)])
             (sendTo (ap_SteamID applicant) [(rmiSendClearRequestInfo, [])]))))"

definition clan_cancelApplication :: "conf \<Rightarrow> conn \<Rightarrow> byte list \<Rightarrow> unit act" where
  "clan_cancelApplication cf c body =
     with_player c (io_fail (HandlerError ''cancel clan application before authentication'')) (\<lambda>player.
       io_bind (on_db (CancelApplication (cf_clans cf) player)) (\<lambda>done. case done of
         Inl _ \<Rightarrow> send c rmiAnswerJoinCancelFail []
       | Inr (clan, applicant) \<Rightarrow>
           io_seq (send c rmiAnswerJoinCancelOK [])
           (io_seq (send c rmiSendClearRequestInfo [])
             (broadcastReviewers clan [(rmiNotifyDeleteRequest, appendUint16 [] (ap_ApplicantID applicant))]))))"

definition clan_kickMember :: "conf \<Rightarrow> conn \<Rightarrow> byte list \<Rightarrow> unit act" where
  "clan_kickMember cf c body =
     with_actor_id c body (send c rmiAnswerKickOutFail []) (\<lambda>player memberID.
       io_bind (on_db (KickMember (cf_clans cf) player memberID)) (\<lambda>done. case done of
         Inl _ \<Rightarrow> send c rmiAnswerKickOutFail []
       | Inr (clan, member) \<Rightarrow> io_seq (send c rmiAnswerKickOutOK []) (announceDeparture clan member)))"

definition leaveClan :: "conf \<Rightarrow> conn \<Rightarrow> byte list \<Rightarrow> unit act" where
  "leaveClan cf c body =
     with_player c (io_fail (HandlerError ''leave clan before authentication'')) (\<lambda>player.
       io_bind (on_db (Leave (cf_clans cf) player)) (\<lambda>done. case done of
         Inl _ \<Rightarrow> send c rmiAnswerGetOutFail []
       | Inr (clan, member) \<Rightarrow> io_seq (send c rmiAnswerGetOutOK []) (announceDeparture clan member)))"

definition clan_changePosition :: "conf \<Rightarrow> conn \<Rightarrow> byte list \<Rightarrow> unit act" where
  "clan_changePosition cf c body =
     with_player c (io_fail (HandlerError ''change clan position before authentication'')) (\<lambda>player.
       if length body < 3 then send c rmiAnswerChangePosFail []
       else checked (read16 body 0) (\<lambda>memberID. checked (at_index body 2) (\<lambda>rank.
         io_bind (on_db (ChangePosition (cf_clans cf) player memberID rank)) (\<lambda>done. case done of
         Inl _ \<Rightarrow> send c rmiAnswerChangePosFail []
       | Inr (clan, member) \<Rightarrow>
           io_seq (send c rmiAnswerChangePosOK [])
           (io_seq (broadcast clan [(rmiNotifyMemberPosition, memberPositionRow member)])
             (broadcast clan [member_count clan]))))))"

definition clan_changeMaster :: "conf \<Rightarrow> conn \<Rightarrow> byte list \<Rightarrow> unit act" where
  "clan_changeMaster cf c body =
     with_actor_id c body (send c rmiAnswerChangeMasterNo []) (\<lambda>player memberID.
       io_bind (on_db (ChangeMaster (cf_clans cf) player memberID)) (\<lambda>done. case done of
         Inl _ \<Rightarrow> send c rmiAnswerChangeMasterNo []
       | Inr (clan, successor, previous) \<Rightarrow>
           io_seq (send c rmiAnswerChangeMasterOK [])
           (io_seq (broadcast clan [(rmiNotifyMemberPosition, memberPositionRow successor)])
           (io_seq (broadcast clan [(rmiNotifyMemberPosition, memberPositionRow previous)])
             (broadcast clan [member_count clan])))))"

section \<open>Founding, joining and finding clans (clan.go)\<close>

definition sendUserClanInfo :: "conn \<Rightarrow> Clan \<Rightarrow> unit act" where
  "sendUserClanInfo c clan =
     with_player c (io_fail (HandlerError ''clan info for an unauthenticated connection'')) (\<lambda>player.
       send c rmiNotifyUserClanInfo (notifyUserClanInfoRow (ucast (characterID (p_SteamID player))) clan))"

definition clan_create :: "conf \<Rightarrow> conn \<Rightarrow> byte list \<Rightarrow> unit act" where
  "clan_create cf c body =
     with_player c (io_fail (HandlerError ''create clan before authentication'')) (\<lambda>player.
       checked (parseClanMark body) (\<lambda>parsed. case parsed of
         None \<Rightarrow> send c rmiAnswerCreateFail []
       | Some (mark, markExtra) \<Rightarrow>
       (case ReadProudString body clanMarkSize of
         Inl e \<Rightarrow> io_fail (WireFailure e)
       | Inr (name, _) \<Rightarrow>
       io_bind (on_db (ClanService_Create (cf_clans cf) (p_SteamID player) (p_Name player) name mark markExtra (cf_now cf 0))) (\<lambda>done. case done of
         Inl _ \<Rightarrow> send c rmiAnswerCreateFail []
       | Inr clan \<Rightarrow>
           io_seq (io_set (rename_cached name c))
           (io_seq (send c rmiAnswerCreateOK [])
           (io_seq (send c rmiSendClanInfo (appendClanInfo (cf_lower cf) [] clan))
           (checked (at_index (c_Members clan) 0) (\<lambda>master.
            io_seq (send c rmiSendMemberList (clanMemberList [makeClanMemberWire master player (presence_online True)]))
           (io_seq (send_all c [member_count clan])
             (sendUserClanInfo c clan))))))))))"

definition lastApplicant :: "Clan \<Rightarrow> string \<Rightarrow> ClanApplicant option" where
  "lastApplicant clan steamID = lookup_by ap_SteamID steamID (c_Applicants clan)"

definition notifyApplication :: "Clan \<Rightarrow> Player \<Rightarrow> unit act" where
  "notifyApplication clan applicant =
     (case lastApplicant clan (p_SteamID applicant) of
        None \<Rightarrow> io_ret ()
      | Some pending \<Rightarrow>
          io_each (\<lambda>m. if \<not> CanReviewClanApplications (cm_Rank m) then io_ret ()
            else io_bind (io_get (\<lambda>w. Sessions (hub_sessions w) (cm_SteamID m))) (\<lambda>conns.
              io_each (\<lambda>c. push c rmiNotifyRequestInfo (appendClanRequest [] pending applicant)) conns))
            (c_Members clan))"

definition requestJoin :: "conf \<Rightarrow> conn \<Rightarrow> byte list \<Rightarrow> unit act" where
  "requestJoin cf c body =
     with_player c (io_fail (HandlerError ''join clan before authentication'')) (\<lambda>player.
       case ReadProudString body 0 of
         Inl _ \<Rightarrow> send c rmiAnswerJoinFail []
       | Inr (name, _) \<Rightarrow>
       io_bind (on_db (RequestJoin (cf_clans cf) player (trim_space name) (cf_now cf 0))) (\<lambda>done. case done of
         Inl _ \<Rightarrow> send c rmiAnswerJoinFail []
       | Inr clan \<Rightarrow>
           io_seq (send c rmiAnswerJoinOK [])
           (io_seq (send c rmiSendRequestClanInfo (appendRequestClanInfo (cf_lower cf) [] clan))
             (notifyApplication clan player))))"

definition searchName :: "conf \<Rightarrow> conn \<Rightarrow> byte list \<Rightarrow> unit act" where
  "searchName cf c body =
     (case ReadProudString body 0 of
        Inl _ \<Rightarrow> send c rmiAnswerSearchNameFail []
      | Inr (name, _) \<Rightarrow>
          io_bind (on_db (Search (cf_clans cf) (trim_space name))) (\<lambda>done. case done of
            Inl _ \<Rightarrow> send c rmiAnswerSearchNameFail []
          | Inr clans \<Rightarrow> send c rmiAnswerSearchNameOK (clanInfoList (cf_lower cf) clans)))"

definition checkName :: "conf \<Rightarrow> conn \<Rightarrow> byte list \<Rightarrow> unit act" where
  "checkName cf c body =
     (case ReadProudString body 0 of
        Inl e \<Rightarrow> io_fail (WireFailure e)
      | Inr (name, _) \<Rightarrow>
          io_bind (on_db (NameAvailable (cf_clans cf) name)) (\<lambda>done. case done of
            Inl e \<Rightarrow> io_fail (ServiceFailure e)
          | Inr available \<Rightarrow> send c (if available then rmiAnswerCheckNameOK else rmiAnswerCheckNameFail) []))"

text \<open>The ids that are only logged.\<close>

definition clan_unmapped :: "conn \<Rightarrow> byte list \<Rightarrow> unit act" where
  "clan_unmapped c body = io_ret ()"

section \<open>Marks (clan_mark.go)\<close>

definition clan_checkMark :: "conf \<Rightarrow> conn \<Rightarrow> byte list \<Rightarrow> unit act" where
  "clan_checkMark cf c body =
     with_player c (io_fail (HandlerError ''check clan mark before authentication'')) (\<lambda>player.
       checked (parseClanMark body) (\<lambda>parsed. case parsed of
         None \<Rightarrow> send c rmiAnswerCheckMarkNo []
       | Some (mark, _) \<Rightarrow>
       io_bind (on_db (MarkAvailable (cf_clans cf) player mark)) (\<lambda>done. case done of
         Inl _ \<Rightarrow> send c rmiAnswerCheckMarkNo []
       | Inr available \<Rightarrow> send c rmiAnswerCheckMarkOK (checkMarkVerdict available))))"

definition spendMarkChange :: "conf \<Rightarrow> conn \<Rightarrow> Player \<Rightarrow> unit act" where
  "spendMarkChange cf c player =
     io_bind (on_db (SpendConsumable (cf_players cf) (p_SteamID player) FunctionClanMarkChange)) (\<lambda>done. case done of
       Inl _ \<Rightarrow> io_ret ()
     | Inr (updated, spent) \<Rightarrow>
         io_seq (io_set (updatePlayer c updated))
           (if s_UsedUp spent then send c rmiSendDeleteItem (appendUint16 [] (s_Serial spent))
            else send c rmiSendItemValue (itemValueRow (cf_now cf 0) (item_or_zero (s_Remaining spent)))))"

definition clan_changeMark :: "conf \<Rightarrow> conn \<Rightarrow> byte list \<Rightarrow> unit act" where
  "clan_changeMark cf c body =
     with_player c (io_fail (HandlerError ''change clan mark before authentication'')) (\<lambda>player.
       checked (parseClanMark body) (\<lambda>parsed. case parsed of
         None \<Rightarrow> send c rmiAnswerChangeMarkNo []
       | Some (mark, markExtra) \<Rightarrow>
       io_bind (on_db (ClanService_Find (cf_clans cf) (p_ClanName player))) (\<lambda>current.
         if (case current of Inr (Some clan) \<Rightarrow> c_Mark clan = mark \<and> c_MarkExtra clan = markExtra | _ \<Rightarrow> False)
         then send c rmiAnswerChangeMarkOK []
         else if FindConsumable (cf_players cf) player FunctionClanMarkChange = None then send c rmiAnswerChangeMarkNo []
         else io_bind (on_db (ChangeMark (cf_clans cf) player mark markExtra)) (\<lambda>done. case done of
             Inl _ \<Rightarrow> send c rmiAnswerChangeMarkNo []
           | Inr clan \<Rightarrow>
               io_seq (send c rmiAnswerChangeMarkOK [])
               (io_seq (broadcast clan [(rmiNotifyClanMark, appendClanMark [] clan)])
                 (spendMarkChange cf c player))))))"

section \<open>Chat (clan_chat.go)\<close>

definition maxChatLength :: nat where
  "maxChatLength = 200"

definition clanChatRow :: "string \<Rightarrow> string \<Rightarrow> byte list" where
  "clanChatRow speaker line = WriteProudString (WriteProudString [] speaker) line"

definition refuseChat :: "conn \<Rightarrow> unit act" where
  "refuseChat c = send c rmiAnswerClanChatFail (appendUint32 [] 0)"

definition clan_chat :: "conf \<Rightarrow> conn \<Rightarrow> byte list \<Rightarrow> unit act" where
  "clan_chat cf c body =
     with_player c (io_fail (HandlerError ''clan chat before authentication'')) (\<lambda>player.
       case ReadProudString body 0 of
         Inl _ \<Rightarrow> refuseChat c
       | Inr (line, _) \<Rightarrow>
           (let line = trim_space line
            in if line = [] then refuseChat c
               else io_bind (on_db (ClanService_Find (cf_clans cf) (p_ClanName player))) (\<lambda>found. case found of
                 Inr (Some clan) \<Rightarrow>
                   io_seq (send c rmiAnswerClanChatOK [])
                     (broadcast clan [(rmiNotifyClanChat, clanChatRow (p_Name player) (take maxChatLength line))])
               | _ \<Rightarrow> refuseChat c)))"

end
