(* ===== verification/Social_Handlers.thy ===== *)
theory Social_Handlers
  imports Clan_Handlers
begin

text \<open>
  Friend and chat requests (friend.go, chat.go): the lists sent at login, requests, answers,
  invitations to rooms, and the general chat with its scopes.
\<close>

section \<open>Rows (friend.go)\<close>

definition appendFriendInfo :: "byte list \<Rightarrow> Friend \<Rightarrow> Player \<Rightarrow> Clan \<Rightarrow> Presence \<Rightarrow> byte list" where
  "appendFriendInfo dst friend account clan presence =
     (let dst = appendUint16 dst (f_FriendID friend);
          dst = WriteProudString dst (p_Name account);
          dst = WriteProudString dst (c_Name clan);
          dst = appendClanMark dst clan;
          dst = dst @ [boolByte (c_Name clan \<noteq> []), levelByte account, pc_Channel presence, pc_Lobby presence];
          dst = appendUint16 dst (pc_Room presence)
      in dst @ [boolByte (pc_Online presence), boolByte (pc_InGame presence)])"

definition appendFriendRequest :: "byte list \<Rightarrow> FriendRequest \<Rightarrow> Player \<Rightarrow> byte list" where
  "appendFriendRequest dst request account =
     WriteProudString (appendUint16 dst (q_RequestID request)) (p_Name account) @ [levelByte account]"

definition friendRow :: "conf \<Rightarrow> Friend \<Rightarrow> Player \<Rightarrow> byte list act" where
  "friendRow cf friend account =
     io_bind (if p_ClanName account \<noteq> [] then on_db (ClanService_Find (cf_clans cf) (p_ClanName account)) else io_ret (Inr None))
       (\<lambda>found. let clan = (case found of Inr (Some clan) \<Rightarrow> clan | _ \<Rightarrow> zero_clan)
         in io_get (\<lambda>w. appendFriendInfo [] friend account clan (account_presence (f_SteamID friend) w)))"

fun append_friends :: "conf \<Rightarrow> (string \<times> Player) list \<Rightarrow> byte list \<Rightarrow> Friend list \<Rightarrow> byte list act" where
  "append_friends cf known body [] = io_ret body"
| "append_friends cf known body (friend # friends) =
     io_bind (friendRow cf friend (account_of known (f_SteamID friend))) (\<lambda>row. append_friends cf known (body @ row) friends)"

definition friendList :: "conf \<Rightarrow> Player \<Rightarrow> (string \<times> Player) list \<Rightarrow> byte list act" where
  "friendList cf player known = append_friends cf known (EncodeVarInt (int (length (p_Friends player)))) (p_Friends player)"

definition friendRequestList :: "Player \<Rightarrow> (string \<times> Player) list \<Rightarrow> byte list" where
  "friendRequestList player known =
     foldl (\<lambda>body request. appendFriendRequest body request (account_of known (q_SteamID request)))
       (EncodeVarInt (int (length (p_FriendRequests player)))) (p_FriendRequests player)"

section \<open>Friend requests (friend.go)\<close>

definition friends_login :: "conf \<Rightarrow> conn \<Rightarrow> byte list \<Rightarrow> unit act" where
  "friends_login cf c body =
     with_player c (io_fail (HandlerError ''friend login without an authenticated account'')) (\<lambda>player.
       io_seq (send c rmiFriendAnswerLogin [])
       (io_bind (on_db (Lists (cf_friends cf) (p_SteamID player))) (\<lambda>loaded.
         let (current, known) = (case loaded of Inl _ \<Rightarrow> (player, []) | Inr found \<Rightarrow> found)
         in io_bind (friendList cf current known) (\<lambda>rows.
            io_seq (send c rmiSendFriendList rows)
              (send c rmiSendRequestFriendList (friendRequestList current known))))))"

definition friends_refuse :: "conn \<Rightarrow> u16 \<Rightarrow> unit act" where
  "friends_refuse c i = send c i (appendUint32 [] 0)"

definition friends_request :: "conf \<Rightarrow> conn \<Rightarrow> byte list \<Rightarrow> unit act" where
  "friends_request cf c body =
     with_player c (io_fail (HandlerError ''friend request without an authenticated account'')) (\<lambda>player.
       case ReadProudString body 0 of
         Inl _ \<Rightarrow> friends_refuse c rmiAnswerFriendAskFail
       | Inr (name, _) \<Rightarrow>
       io_bind (on_db (FriendService_Request (cf_friends cf) (p_SteamID player) name (cf_now cf 0))) (\<lambda>done. case done of
         Inl _ \<Rightarrow> friends_refuse c rmiAnswerFriendAskFail
       | Inr (target, request) \<Rightarrow>
           io_seq (send c rmiAnswerFriendAskOK [])
             (push_account (p_SteamID target) rmiSendRequestFriendInfo (appendFriendRequest [] request player))))"

definition friends_accept :: "conf \<Rightarrow> conn \<Rightarrow> byte list \<Rightarrow> unit act" where
  "friends_accept cf c body =
     with_actor_id c body (friends_refuse c rmiAnswerFriendAcceptFail) (\<lambda>player requestID.
       io_bind (on_db (FriendService_Accept (cf_friends cf) (p_SteamID player) requestID (cf_now cf 0))) (\<lambda>done. case done of
         Inl _ \<Rightarrow> friends_refuse c rmiAnswerFriendAcceptFail
       | Inr (mine, theirs, sender) \<Rightarrow>
           io_seq (send c rmiAnswerFriendAcceptOK (appendUint16 [] requestID))
           (io_bind (friendRow cf mine sender) (\<lambda>row.
           io_seq (send c rmiSendFriendInfo row)
           (io_bind (friendRow cf theirs player) (\<lambda>row.
             push_account (p_SteamID sender) rmiSendFriendInfo row))))))"

definition friends_reject :: "conf \<Rightarrow> conn \<Rightarrow> byte list \<Rightarrow> unit act" where
  "friends_reject cf c body =
     with_actor_id c body (friends_refuse c rmiAnswerFriendRejectFail) (\<lambda>player requestID.
       io_bind (on_db (FriendService_Reject (cf_friends cf) (p_SteamID player) requestID)) (\<lambda>done. case done of
         Inl _ \<Rightarrow> friends_refuse c rmiAnswerFriendRejectFail
       | Inr _ \<Rightarrow> send c rmiAnswerFriendRejectOK (appendUint16 [] requestID)))"

definition friends_delete :: "conf \<Rightarrow> conn \<Rightarrow> byte list \<Rightarrow> unit act" where
  "friends_delete cf c body =
     with_actor_id c body (friends_refuse c rmiAnswerFriendDeleteFail) (\<lambda>player friendID.
       io_bind (on_db (FriendService_Delete (cf_friends cf) (p_SteamID player) friendID)) (\<lambda>done. case done of
         Inl _ \<Rightarrow> friends_refuse c rmiAnswerFriendDeleteFail
       | Inr (friend, mirrored) \<Rightarrow>
           io_seq (send c rmiAnswerFriendDeleteOK (appendUint16 [] friendID))
             (if f_FriendID mirrored \<noteq> 0
              then push_account (f_SteamID friend) rmiSendDeleteFriend (appendUint16 [] (f_FriendID mirrored))
              else io_ret ())))"

definition friends_invite :: "conf \<Rightarrow> conn \<Rightarrow> byte list \<Rightarrow> unit act" where
  "friends_invite cf c body =
     with_actor_id c body (friends_refuse c rmiAnswerFriendInviteNo) (\<lambda>player friendID.
       with_room c (friends_refuse c rmiAnswerFriendInviteNo) (\<lambda>room.
         io_bind (on_db (InviteTarget (cf_friends cf) (p_SteamID player) friendID)) (\<lambda>done. case done of
           Inl _ \<Rightarrow> friends_refuse c rmiAnswerFriendInviteNo
         | Inr (target, inviterID) \<Rightarrow>
             io_bind (io_get (\<lambda>w. (IsOnline (hub_sessions w) (p_SteamID target), room_at room w))) (\<lambda>(online, r).
               if \<not> online then friends_refuse c rmiAnswerFriendInviteNo
               else io_seq (send c rmiAnswerFriendInviteOK (appendUint16 [] friendID))
                 (push_account (p_SteamID target) rmiSendFriendInvite (appendUint16 [] inviterID @ roomInvite r))))))"

section \<open>Chat (chat.go)\<close>

definition chatTypeDefault :: byte where
  "chatTypeDefault = 0"

definition notifyChatRow :: "string \<Rightarrow> string \<Rightarrow> byte \<Rightarrow> byte \<Rightarrow> byte list" where
  "notifyChatRow speaker line chatType flag = WriteProudString (WriteProudString [] speaker) line @ [chatType, flag]"

text \<open>The outer \<open>None\<close> is a read out of range.\<close>

definition readChatLine :: "byte list \<Rightarrow> nat \<Rightarrow> (string \<times> byte) option option" where
  "readChatLine body offset =
     (case ReadProudString body offset of
        Inl _ \<Rightarrow> Some None
      | Inr (line, next) \<Rightarrow>
          (let line = trim_space line
           in if line = [] then Some None
              else map_option (\<lambda>flag. Some (take maxChatLength line, flag))
                (if next < length body then at_index body next else Some 0)))"

lemma readChatLine_reads: "readChatLine body n \<noteq> None"
  by (simp add: readChatLine_def in_bounds Let_def split: sum.split prod.split)

definition chat_refuse :: "conn \<Rightarrow> u16 \<Rightarrow> unit act" where
  "chat_refuse c i = send c i (appendUint32 [] 0)"

text \<open>\<open>player, text, flag, ok := parse(session, msg, 0); if !ok { refused }\<close>\<close>

definition with_line :: "conn \<Rightarrow> byte list \<Rightarrow> unit act \<Rightarrow> (Player \<Rightarrow> string \<Rightarrow> byte \<Rightarrow> unit act) \<Rightarrow> unit act" where
  "with_line c body refused k =
     with_player c refused (\<lambda>player. checked (readChatLine body 0) (\<lambda>parsed. case parsed of
       None \<Rightarrow> refused | Some (line, flag) \<Rightarrow> k player line flag))"

definition chat_all :: "conn \<Rightarrow> byte list \<Rightarrow> unit act" where
  "chat_all c body =
     with_line c body (chat_refuse c rmiAnswerChatAllFail) (\<lambda>player line flag.
       io_seq (send c rmiAnswerChatAllOK [])
       (io_bind (io_get (\<lambda>w. Online (hub_sessions w))) (\<lambda>online.
         io_each (\<lambda>steamID. push_account steamID rmiNotifyChat (notifyChatRow (p_Name player) line chatTypeDefault flag)) online)))"

definition chat_clan :: "conf \<Rightarrow> conn \<Rightarrow> byte list \<Rightarrow> unit act" where
  "chat_clan cf c body =
     with_line c body (chat_refuse c rmiAnswerChatClanFail) (\<lambda>player line flag.
       if p_ClanName player = [] then chat_refuse c rmiAnswerChatClanFail
       else io_bind (on_db (ClanService_Find (cf_clans cf) (p_ClanName player))) (\<lambda>found. case found of
           Inr (Some clan) \<Rightarrow>
             io_seq (send c rmiAnswerChatClanOK [])
               (io_each (\<lambda>m. push_account (cm_SteamID m) rmiNotifyChat (notifyChatRow (p_Name player) line chatTypeDefault flag))
                 (c_Members clan))
         | _ \<Rightarrow> chat_refuse c rmiAnswerChatClanFail))"

definition whisper :: "conf \<Rightarrow> conn \<Rightarrow> byte list \<Rightarrow> unit act" where
  "whisper cf c body =
     with_player c (io_fail (HandlerError ''whisper before authentication'')) (\<lambda>player.
       case ReadProudString body 0 of
         Inl _ \<Rightarrow> chat_refuse c rmiAnswerChatUserFail
       | Inr (target, next) \<Rightarrow>
       checked (readChatLine body next) (\<lambda>parsed. case parsed of
         None \<Rightarrow> chat_refuse c rmiAnswerChatUserFail
       | Some (line, flag) \<Rightarrow>
       io_bind (on_db (PlayerService_FindByName (cf_players cf) (trim_space target))) (\<lambda>found.
       io_bind (io_get (\<lambda>w. case found of
           Inr (Some recipient) \<Rightarrow> if IsOnline (hub_sessions w) (p_SteamID recipient) then Some recipient else None
         | _ \<Rightarrow> None)) (\<lambda>reached. case reached of
         None \<Rightarrow> chat_refuse c rmiAnswerChatUserFail
       | Some recipient \<Rightarrow>
           (let row = notifyChatRow (p_Name player) line chatTypeDefault flag
            in io_seq (send c rmiAnswerChatUserOK [])
              (io_seq (push_account (p_SteamID recipient) rmiNotifyChat row)
                (send c rmiNotifyChat row)))))))"

end
