(* ===== verification/Game_Server.thy ===== *)
theory Game_Server
  imports Match Social_Handlers
begin

text \<open>
  The assembled server: the routes every \<open>Register\<close> method installs (lobby.go, login.go, items.go,
  clan.go, clan_actions.go, clan_mark.go, friend.go, chat.go, actions_ack.go, in the order of
  main.go), the handler of one request, the end of a connection (server.go), and the composition
  with the frame handling of the theory Rmi.
\<close>

section \<open>Routes\<close>

type_synonym route = "u16 \<times> (conf \<Rightarrow> conn \<Rightarrow> byte list \<Rightarrow> unit act)"

definition login_routes :: "route list" where
  "login_routes =
     [(rmiRequestAeriaAuth, aeriaAuth), (rmiRequestAeriaLauncher, aeriaLauncher),
      (rmiCreateCredential, \<lambda>_. createCredential), (rmiCheckCredential, checkCredential),
      (rmiRequestChannelList, requestChannelList), (rmiRequestChannelJoin, joinChannel),
      (rmiRequestLogin, login), (rmiItemRequestLogin, itemLogin), (rmiMapQuestRequestLogin, \<lambda>_. mapQuestLogin)]"

definition lobby_routes :: "route list" where
  "lobby_routes =
     [(rmiRequestLobbyJoin, lobby_join), (rmiRequestLobbyLeave, \<lambda>_. lobby_leave), (rmiRequestLobbyList, \<lambda>_. lobbyList),
      (rmiRequestRoomList, \<lambda>_. roomList), (rmiRequestClanRoomList, \<lambda>_. clanRoomList), (rmiRequestLobbyUserList, \<lambda>_. userList),
      (rmiRequestRoomCreate, createRoom), (rmiRequestRoomLeave, \<lambda>_. leaveRoom), (rmiRequestRoomReady, ready),
      (rmiRequestRoomJoin, \<lambda>_. joinRoom), (rmiRequestGameStart, gameStart), (rmiAnswerConnectServer, \<lambda>_. connectServer),
      (rmiRequestMatchStart, matchStart), (rmiRequestLoadPercent, \<lambda>_. loadPercent), (rmiRequestLoadComplete, \<lambda>_. loadComplete),
      (rmiRequestTimeStart, \<lambda>_. timeStart), (rmiRequestBeginRound, \<lambda>_. beginRound), (rmiRequestCheckRespawn, \<lambda>_. checkRespawn),
      (rmiRequestRespawnInstant, \<lambda>_. checkRespawnInstant), (rmiRequestRespawn, \<lambda>_. respawn), (rmiRequestDeath, \<lambda>_. death),
      (rmiRequestTimeOut, \<lambda>_. timeOut), (rmiRequestDediUserPing, \<lambda>_. dediUserPing), (rmiRequestHitCount, \<lambda>_. hitCount),
      (rmiRequestRoomGameLeave, \<lambda>_. matchLeave), (rmiRequestGameLeave, \<lambda>_. matchLeave), (rmiRequestUserEquip, userEquip),
      (rmiRequestChangeWeapon, changeWeapon), (rmiRequestRefreshRoomList, \<lambda>_. roomList)]"

definition item_routes :: "route list" where
  "item_routes =
     [(rmiRequestEquipItem, items_equip), (rmiRequestBuyItem, items_buy), (rmiRequestRecipeItem, items_craft),
      (rmiRequestBuyCustomItem, buyCustom), (rmiRequestEquipCustomItem, equipCustom), (rmiRequestBreakCustomItem, breakCustom),
      (rmiRequestEquipGearItem, gearEquip), (rmiRequestBreakGearItem, gearBreak), (rmiRequestEquipPerkItem, perkEquip),
      (rmiRequestBreakPerkItem, perkBreak), (rmiRequestIncPerkSlot, \<lambda>_. perkIncreaseSlot)]"

definition clan_routes :: "route list" where
  "clan_routes =
     [(rmiRequestSearchClanName, searchName), (rmiRequestCheckClanName, checkName), (rmiRequestCreateClan, clan_create),
      (rmiRequestJoinClan, requestJoin), (rmiRequestClanChat, clan_chat),
      (rmiRequestDeleteClan, deleteClan), (rmiRequestJoinCancel, clan_cancelApplication), (rmiRequestAcceptMember, acceptMember),
      (rmiRequestRejectMember, rejectMember), (rmiRequestKickOutMember, clan_kickMember), (rmiRequestGetOut, leaveClan),
      (rmiRequestChangeMaster, clan_changeMaster), (rmiRequestChangePosition, clan_changePosition),
      (rmiRequestCheckMark, clan_checkMark), (rmiRequestChangeMark, clan_changeMark),
      (rmiRequestSearchClanMaster, \<lambda>_. clan_unmapped), (rmiRequestChangeClanName, \<lambda>_. clan_unmapped),
      (rmiRequestLoginClanRecord, \<lambda>_. clan_unmapped), (rmiRequestChatNotice, \<lambda>_. clan_unmapped)]"

definition friend_routes :: "route list" where
  "friend_routes =
     [(rmiFriendRequestLogin, friends_login), (rmiRequestFriend, friends_request), (rmiRequestFriendAccept, friends_accept),
      (rmiRequestFriendReject, friends_reject), (rmiRequestFriendDelete, friends_delete), (rmiRequestFriendInvite, friends_invite)]"

definition chat_routes :: "route list" where
  "chat_routes = [(rmiRequestChatAll, \<lambda>_. chat_all), (rmiRequestChatClan, chat_clan), (rmiRequestChatUser, whisper)]"

definition static_routes :: "route list" where
  "static_routes = map (\<lambda>(request, answer, destination). (request, \<lambda>_. static_response answer destination)) staticResponses"

text \<open>\<open>Handle\<close> overwrites, so the last route of an id is the one that runs.\<close>

definition routes :: "route list" where
  "routes = login_routes @ lobby_routes @ item_routes @ clan_routes @ friend_routes @ chat_routes @ static_routes"

definition handler_of :: "u16 \<Rightarrow> (conf \<Rightarrow> conn \<Rightarrow> byte list \<Rightarrow> unit act) option" where
  "handler_of i = map_of (rev routes) i"

section \<open>Requests and connections (server.go)\<close>

text \<open>\<open>dispatch\<close>: an unknown id is ignored, an error of the handler logged.\<close>

definition serve :: "conf \<Rightarrow> conn \<Rightarrow> Message \<Rightarrow> unit act" where
  "serve cf c msg = (case handler_of (ID msg) of None \<Rightarrow> io_ret () | Some handle \<Rightarrow> handle cf c (Body msg))"

definition releaseSession :: "conn \<Rightarrow> unit act" where
  "releaseSession c =
     io_seq
       (with_room c (io_ret ()) (\<lambda>room.
         io_bind (io_get (sessionRoomUser c)) (\<lambda>i.
         io_seq (vacate room i) (io_set (setSessionRoom c None)))))
       (io_set (\<lambda>w. w\<lparr>hub_sessions := Unbind c (hub_sessions w)\<rparr>))"

text \<open>A connection is accepted with an empty \<open>Session\<close>, whose transport behaves as its script says.\<close>

definition accept_conn :: "conn \<Rightarrow> (nat \<times> bool) list \<Rightarrow> hub \<Rightarrow> hub" where
  "accept_conn c script w = w\<lparr>hub_wires := (hub_wires w)(c := new_session script), hub_state := (hub_state w)(c := None)\<rparr>"

definition new_hub :: "db \<Rightarrow> hub" where
  "new_hub d = \<lparr>hub_db = d, hub_wires = (\<lambda>_. new_session []), hub_state = (\<lambda>_. None), hub_rooms = [],
     hub_registry = new_room_registry, hub_sessions = new_session_registry, hub_credentials = [],
     hub_tickets = newMatchTickets, hub_matches = newMatchSessions, hub_sent = []\<rparr>"

section \<open>Composition with the frames\<close>

text \<open>
  The server of the theory Rmi for one connection: its application state is the hub, and the
  \<open>Session\<close> it works on is the connection's place in it.
\<close>

definition as_handler :: "conn \<Rightarrow> (byte list \<Rightarrow> unit act) \<Rightarrow> (handler_error, hub) Handler" where
  "as_handler c handle msg = (\<lambda>(s, w).
     case handle (Body msg) (w\<lparr>hub_wires := (hub_wires w)(c := s)\<rparr>) of (r, w') \<Rightarrow> (r, (hub_wires w' c, w')))"

definition game_server :: "conf \<Rightarrow> KeyPair \<Rightarrow> conn \<Rightarrow> (handler_error, hub) Server" where
  "game_server cf kp c = \<lparr>keyPair = kp, host = cf_gameHost cf, port = cf_gamePort cf,
     handlers = (\<lambda>i. map_option (\<lambda>handle. as_handler c (handle cf c)) (handler_of i))\<rparr>"

definition receive_frame :: "conf \<Rightarrow> KeyPair \<Rightarrow> conn \<Rightarrow> Frame \<Rightarrow> (rmi_error, hub, unit) io" where
  "receive_frame cf kp c frame w =
     (case handleFrame (cf_cipher cf) (game_server cf kp c) frame (hub_wires w c, w) of
        (r, (s, w')) \<Rightarrow> (r, w'\<lparr>hub_wires := (hub_wires w')(c := s)\<rparr>))"

end
