(* ===== verification/Player_Properties.thy ===== *)
theory Player_Properties
  imports Player_Service
begin

text \<open>
  What the account service guarantees on the in-memory store: each operation is one transaction on
  one account, purchases and crafting charge exactly their price, every account stays well-formed,
  and the balance check inside \<open>CommitInventory\<close> keeps interleaved purchases solvent.
\<close>

section \<open>The service on the in-memory store\<close>

definition mem_service :: "Catalog \<Rightarrow> u64 \<Rightarrow> u64 \<Rightarrow> db PlayerService" where
  "mem_service c point cash = \<lparr>ps_players = mem_player_repo, ps_catalog = c,
     ps_startingPoint = point, ps_startingCash = cash\<rparr>"

lemma mem_service_simps [simp]:
  "ps_players (mem_service c point cash) = mem_player_repo" "ps_catalog (mem_service c point cash) = c"
  "ps_startingPoint (mem_service c point cash) = point" "ps_startingCash (mem_service c point cash) = cash"
  by (simp_all add: mem_service_def)

lemmas mem_transacts =
  mem.Equip_transacts mem.ChangeWeapons_transacts mem.Attach_transacts mem.Detach_transacts
  mem.Buy_transacts mem.Craft_transacts mem.Spend_transacts

lemma transacts_at:
  "transacts look m k f \<Longrightarrow> look w k = None \<Longrightarrow> m w = (Inl ErrPlayerNotFound, w)"
  "transacts look m k f \<Longrightarrow> look w k = Some p \<Longrightarrow> f p = Inl e \<Longrightarrow> m w = (Inl e, w)"
  "transacts look m k f \<Longrightarrow> look w k = Some p \<Longrightarrow> f p = Inr (a, p') \<Longrightarrow>
    \<exists>w'. m w = (Inr a, w') \<and> look w' = (look w)(k \<mapsto> p')"
  unfolding transacts_def by (drule spec [of _ w], simp)+

lemma transactsE:
  assumes "transacts look m k f" and "m w = (Inr a, w')"
  obtains p p' where "look w k = Some p" and "f p = Inr (a, p')" and "look w' = (look w)(k \<mapsto> p')"
proof (cases "look w k")
  case None
  with transacts_at(1) [OF assms(1)] assms(2) show thesis by simp
next
  case (Some p)
  show thesis
  proof (cases "f p")
    case (Inl e)
    with transacts_at(2) [OF assms(1) Some] assms(2) show thesis by simp
  next
    case (Inr b)
    then obtain x p' where f: "f p = Inr (x, p')" by (metis surj_pair)
    with transacts_at(3) [OF assms(1) Some f] that [OF Some, of p'] assms(2) show thesis by auto
  qed
qed

lemma BuyCustomPart_steps:
  assumes "BuyCustomPart s k weapon i now now' w = (Inr r, w')" and R: "ps_players s = mem_player_repo"
  obtains p g b w1 child where "db_player w k = Some p" and "Item p weapon = Some g"
    and "Accepts (ps_catalog s) (i_ItemIndex g) i" and "Buy s k i now w = (Inr b, w1)"
    and "PlayerService_Attach s k weapon (i_Serial (b_Item b)) now' w1 = (Inr (b_Player r, child), w')"
    and "r = b\<lparr>b_Player := b_Player r\<rparr>"
proof -
  obtain p w0 where p: "require_player mem_player_repo k w = (Inr p, w0)"
    using assms by (auto simp: BuyCustomPart_def elim!: io_bind_Inr_E)
  then have p': "db_player w k = Some p" "w0 = w" by (auto simp: mem.require split: option.splits)
  obtain g where g: "Item p weapon = Some g" "Accepts (ps_catalog s) (i_ItemIndex g) i"
    using assms p by (auto simp: BuyCustomPart_def io_eval split: option.splits if_splits)
  have rest: "io_bind (Buy s k i now) (\<lambda>result. io_bind (PlayerService_Attach s k weapon (i_Serial (b_Item result)) now')
      (\<lambda>(mounted, _). io_ret (result\<lparr>b_Player := mounted\<rparr>))) w = (Inr r, w')"
    using assms(1) p p'(2) g R by (simp add: BuyCustomPart_def io_bind_def [of "require_player _ _"])
  obtain b w1 where b: "Buy s k i now w = (Inr b, w1)"
      "io_bind (PlayerService_Attach s k weapon (i_Serial (b_Item b)) now') (\<lambda>(mounted, _). io_ret (b\<lparr>b_Player := mounted\<rparr>)) w1 = (Inr r, w')"
    using rest by (rule io_bind_Inr_E)
  obtain child where "PlayerService_Attach s k weapon (i_Serial (b_Item b)) now' w1 = (Inr (b_Player r, child), w')"
      "r = b\<lparr>b_Player := b_Player r\<rparr>"
    by (rule io_bind_Inr_E [OF b(2)]) (auto simp: io_eval split: prod.splits)
  with that p' g b show thesis by blast
qed

section \<open>Well-formed accounts in reachable stores\<close>

definition accounts_ok :: "db \<Rightarrow> bool" where
  "accounts_ok w \<longleftrightarrow> (\<forall>k p. db_player w k = Some p \<longrightarrow> player_ok p)"

lemma transacts_ok:
  "transacts db_player m k f \<Longrightarrow> (\<And>p a p'. player_ok p \<Longrightarrow> f p = Inr (a, p') \<Longrightarrow> player_ok p') \<Longrightarrow> keeps accounts_ok m"
  using transacts_keeps [of db_player m k f "\<lambda>_. player_ok"] by (simp add: accounts_ok_def [abs_def])

text \<open>The starter kit of the catalog fills distinct slots.\<close>

fun starter_types :: "Catalog \<Rightarrow> u32 list \<Rightarrow> u8 list" where
  "starter_types c [] = []"
| "starter_types c (i # is) =
     (case map_of (Items c) i of None \<Rightarrow> starter_types c is | Some g \<Rightarrow> ItemType g # starter_types c is)"

definition starters_ok :: "Catalog \<Rightarrow> bool" where
  "starters_ok c \<longleftrightarrow> distinct (starter_types c StarterItems)"

lemma grant_starters_ok:
  assumes "player_ok p" and "distinct (map e_Slot (p_Loadout p) @ starter_types c is)"
    and "\<forall>j \<in> item_serials p. j < serial" and "0 < serial" and "unat serial + length is < 2 ^ 16"
  shows "player_ok (grant_starters c now is serial p)"
  using assms
proof (induction "is" arbitrary: serial p)
  case (Cons i "is")
  show ?case
  proof (cases "map_of (Items c) i")
    case None
    with Cons show ?thesis by simp
  next
    case (Some g)
    have s: "serial < serial + 1" "unat (serial + 1) = unat serial + 1"
      using Cons.prems(5) by (simp_all add: word_less_nat_alt unat_word_ariths)
    let ?q = "p\<lparr>p_Inventory := p_Inventory p @ [\<lparr>i_Serial = serial, i_ItemIndex = i, i_Value = 1, i_State = 1,
        i_ItemType = ItemType g, i_InstanceAux = 0, i_ExpiresAt = expiryFor g now\<rparr>],
      p_Loadout := p_Loadout p @ [\<lparr>e_Slot = ItemType g, e_Serial = serial\<rparr>]\<rparr>"
    have "serial \<notin> item_serials p" using Cons.prems(3) by fastforce
    then have "player_ok ?q" using Cons.prems(1,2,4) Some by (auto simp: player_ok_def)
    moreover have "\<forall>j \<in> item_serials ?q. j < serial + 1"
      using Cons.prems(3) s(1) by (auto intro: less_trans)
    ultimately show ?thesis using Cons.IH [of ?q "serial + 1"] Cons.prems s Some by (auto intro: less_trans)
  qed
qed simp

lemma starting_account_ok: "starters_ok (ps_catalog s) \<Longrightarrow> player_ok (starting_account s now now' k)"
proof -
  assume "starters_ok (ps_catalog s)"
  then have "player_ok (newAccount s now' k)"
    unfolding newAccount_def
    by (intro grant_starters_ok) (auto simp: player_ok_def empty_player_def starters_ok_def StarterItems_def)
  then show ?thesis by (simp add: player_ok_def starting_account_def)
qed

lemma Login_ok:
  assumes "ps_players s = mem_player_repo" and "starters_ok (ps_catalog s)"
  shows "keeps accounts_ok (LoginBySteam s k now now')"
  unfolding keeps_def
proof (intro allI impI)
  fix w assume w: "accounts_ok w"
  obtain q where q: "player_ok q" "db_player (snd (LoginBySteam s k now now' w)) = (db_player w)(k \<mapsto> q)"
  proof (cases "db_player w k")
    case None
    obtain w' where "snd (LoginBySteam s k now now' w) = w'" "db_player w' = (db_player w)(k \<mapsto> starting_account s now now' k)"
      using mem.login_unknown [OF assms(1) None, of now now'] by auto
    with starting_account_ok [OF assms(2), of now now' k] that show thesis by simp
  next
    case (Some p)
    with w have "player_ok (login_account now p)" by (auto simp: accounts_ok_def intro: player_ok_login)
    moreover obtain w' where "snd (LoginBySteam s k now now' w) = w'" "db_player w' = (db_player w)(k \<mapsto> login_account now p)"
      using mem.login_known [OF assms(1) Some, of now now'] by auto
    ultimately show thesis using that by simp
  qed
  with w show "accounts_ok (snd (LoginBySteam s k now now' w))" by (auto simp: accounts_ok_def)
qed

lemma require_player_keeps [keeps_intros]: "keeps P (require_player mem_player_repo k)"
  by (auto simp: keeps_def mem.require split: option.splits)

lemma player_ok_name [simp]: "player_ok (p\<lparr>p_Name := n\<rparr>) = player_ok p"
  by (simp add: player_ok_def)

lemma set_name_keeps [keeps_intros]: "keeps accounts_ok (pr_SetName mem_player_repo k n)"
  by (auto simp: keeps_def mem.set_name mem.look_upd accounts_ok_def)

lemma Rename_ok: "ps_players s = mem_player_repo \<Longrightarrow> keeps accounts_ok (Rename s k n)"
  unfolding Rename_def by (simp add: keeps_intros)

lemma operations_ok [keeps_intros]:
  assumes "ps_players s = mem_player_repo"
  shows "keeps accounts_ok (PlayerService_Equip s k serial now)"
    and "keeps accounts_ok (ChangeWeapons s k ws now)"
    and "keeps accounts_ok (PlayerService_Attach s k i j now)"
    and "keeps accounts_ok (PlayerService_Detach s k i j)"
    and "keeps accounts_ok (Buy s k ix now)"
    and "keeps accounts_ok (Craft s k ix now)"
    and "keeps accounts_ok (SpendConsumable s k fi)"
proof -
  show "keeps accounts_ok (PlayerService_Equip s k serial now)"
    by (rule transacts_ok [OF mem.Equip_transacts [OF assms]]) (rule player_ok_equip)
  show "keeps accounts_ok (ChangeWeapons s k ws now)"
    by (rule transacts_ok [OF mem.ChangeWeapons_transacts [OF assms]]) (rule player_ok_weapons)
  show "keeps accounts_ok (PlayerService_Attach s k i j now)"
    by (rule transacts_ok [OF mem.Attach_transacts [OF assms refl]]) (rule player_ok_attach)
  show "keeps accounts_ok (PlayerService_Detach s k i j)"
    by (rule transacts_ok [OF mem.Detach_transacts [OF assms]]) (rule player_ok_detach)
  show "keeps accounts_ok (Buy s k ix now)"
    by (rule transacts_ok [OF mem.Buy_transacts [OF assms refl]]) (rule player_ok_buy)
  show "keeps accounts_ok (Craft s k ix now)"
    by (rule transacts_ok [OF mem.Craft_transacts [OF assms refl]]) (rule player_ok_craft)
  show "keeps accounts_ok (SpendConsumable s k fi)"
    by (rule transacts_ok [OF mem.Spend_transacts [OF assms]]) (rule player_ok_spend)
qed

lemma BuyCustomPart_ok:
  "ps_players s = mem_player_repo \<Longrightarrow> keeps accounts_ok (BuyCustomPart s k i ix now now')"
  unfolding BuyCustomPart_def
  by (auto intro!: keeps_intros split: option.split)

section \<open>Reachable stores\<close>

text \<open>Any call of the service, by any client, in any order; the result is ignored.\<close>

inductive account_step :: "db PlayerService \<Rightarrow> db \<Rightarrow> db \<Rightarrow> bool" for s where
  Login: "account_step s w (snd (LoginBySteam s k now now' w))"
| Equip: "account_step s w (snd (PlayerService_Equip s k serial now w))"
| Weapons: "account_step s w (snd (ChangeWeapons s k ws now w))"
| Attach: "account_step s w (snd (PlayerService_Attach s k i j now w))"
| Detach: "account_step s w (snd (PlayerService_Detach s k i j w))"
| Buying: "account_step s w (snd (Buy s k ix now w))"
| Part: "account_step s w (snd (BuyCustomPart s k i ix now now' w))"
| Crafting: "account_step s w (snd (Craft s k rid now w))"
| Spend: "account_step s w (snd (SpendConsumable s k fi w))"
| Renaming: "account_step s w (snd (Rename s k n w))"

inductive reachable_db :: "db PlayerService \<Rightarrow> db \<Rightarrow> bool" for s where
  start: "reachable_db s empty_db"
| step: "reachable_db s w \<Longrightarrow> account_step s w w' \<Longrightarrow> reachable_db s w'"

inductive_cases account_stepE: "account_step s w w'"

lemma account_step_ok:
  assumes "ps_players s = mem_player_repo" and "starters_ok (ps_catalog s)"
    and "account_step s w w'" and "accounts_ok w"
  shows "accounts_ok w'"
  using assms(3) assms(4) operations_ok [OF assms(1)] Login_ok [OF assms(1,2)] Rename_ok [OF assms(1)]
    BuyCustomPart_ok [OF assms(1)]
  by (cases rule: account_stepE) (auto simp: keeps_def)

section \<open>Invariants of the repository calls\<close>

text \<open>
  A property of the store that every single repository call keeps is kept by every operation of the
  account service; new accounts are created outside any clan and without social entries.
\<close>

locale account_invariant =
  fixes R :: "db PlayerRepository" and P :: "db \<Rightarrow> bool"
  assumes find_keeps: "keeps P (pr_Find R k)"
    and touch_keeps: "keeps P (pr_Touch R k at)"
    and loadout_keeps: "keeps P (pr_SaveLoadout R k eq)"
    and attachments_keeps: "keeps P (pr_SaveAttachments R k atts)"
    and name_keeps: "keeps P (pr_SetName R k n)"
    and commit_keeps: "keeps P (pr_CommitInventory R k items wallet price)"
    and create_keeps: "p_ClanName p = [] \<Longrightarrow> p_Friends p = [] \<Longrightarrow> p_FriendRequests p = [] \<Longrightarrow> keeps P (pr_Create R p)"
begin

lemma require_keeps: "keeps P (require_player R k)"
  unfolding require_player_def by (auto intro!: keeps_intros find_keeps split: option.split)

lemmas repository_keeps = require_keeps find_keeps touch_keeps loadout_keeps attachments_keeps name_keeps commit_keeps

lemma refresh_keeps:
  assumes s: "ps_players s = R"
  shows "keeps P (refresh_login s k now p)"
  unfolding refresh_login_def Let_def s
  by (auto intro!: keeps_intros repository_keeps split: prod.split)

lemma grant_social:
  "p_ClanName (grant_starters c now is serial p) = p_ClanName p"
  "p_Friends (grant_starters c now is serial p) = p_Friends p"
  "p_FriendRequests (grant_starters c now is serial p) = p_FriendRequests p"
  by (induction "is" arbitrary: serial p) (simp_all split: option.split)

lemma Login_keeps:
  assumes s: "ps_players s = R"
  shows "keeps P (LoginBySteam s k now now')"
  unfolding LoginBySteam_def Let_def s
proof (intro keeps_intros)
  fix found
  let ?p = "(newAccount s now' k)\<lparr>p_CreatedAt := now, p_LastLogin := now\<rparr>"
  have create: "keeps P (pr_Create R ?p)"
    by (rule create_keeps) (simp_all add: newAccount_def grant_social empty_player_def)
  have retry: "keeps P (io_bind (pr_Find R k) (\<lambda>e. io_ret (case e of Some p \<Rightarrow> p | None \<Rightarrow> empty_player)))"
    by (intro keeps_intros find_keeps)
  show "keeps P (case found of Some p \<Rightarrow> refresh_login s k now p
    | None \<Rightarrow> (\<lambda>w. case pr_Create R ?p w of (Inr _, w') \<Rightarrow> (Inr ?p, w')
        | (Inl e, w') \<Rightarrow> if e = ErrAlreadyExists
            then io_bind (pr_Find R k) (\<lambda>e. io_ret (case e of Some p \<Rightarrow> p | None \<Rightarrow> empty_player)) w'
            else (Inl e, w')))"
  proof (cases found)
    case (Some p)
    then show ?thesis using refresh_keeps [OF s] by simp
  next
    case None
    then show ?thesis using retry create
      by (force simp: keeps_def split: prod.splits sum.splits)
  qed
qed (rule find_keeps)

lemma operations_keep:
  assumes s: "ps_players s = R"
  shows "keeps P (PlayerService_Equip s k serial now)" "keeps P (ChangeWeapons s k ws now)"
    "keeps P (PlayerService_Attach s k i j now)" "keeps P (PlayerService_Detach s k i j)"
    "keeps P (Buy s k ix now)" "keeps P (Craft s k rid now)" "keeps P (SpendConsumable s k fi)"
    "keeps P (Rename s k n)" "keeps P (BuyCustomPart s k i ix now now')"
  unfolding PlayerService_Equip_def ChangeWeapons_def PlayerService_Attach_def PlayerService_Detach_def Buy_def
    Craft_def SpendConsumable_def Rename_def BuyCustomPart_def Let_def s
  by (auto intro!: keeps_intros repository_keeps split: option.split sum.split prod.split)

lemma account_step_keeps: "ps_players s = R \<Longrightarrow> account_step s w w' \<Longrightarrow> P w \<Longrightarrow> P w'"
  using operations_keep [of s] Login_keeps [of s]
  by (erule_tac account_stepE) (simp_all add: keeps_def)

end

section \<open>Properties\<close>

text \<open>
  C6. Every account the service ever stores is well-formed: no two inventory items share a serial,
  serial 0 is never used, an equip slot holds at most one item and a mount slot of an item at most
  one part. This is an invariant of every sequence of service calls, successful or not.
\<close>

theorem reachable_accounts_ok:
  assumes "starters_ok c" and "reachable_db (mem_service c point cash) w"
  shows "\<forall>k p. db_player w k = Some p \<longrightarrow> player_ok p"
  using assms(2)
proof (induction rule: reachable_db.induct)
  case start
  then show ?case by (simp add: db_player_def empty_db_def)
next
  case (step w w')
  then show ?case
    using account_step_ok [of "mem_service c point cash" w w'] assms(1) by (simp add: accounts_ok_def)
qed

definition sample_item :: GameItem where
  "sample_item = zero_item\<lparr>g_ItemIndex := 7, g_HighGroup := 6, g_MiddleGroup := 1, g_IsSell := True, g_IsSale := False,
     g_CashType := 0, g_PointPrice := 30, g_IsMerge := True\<rparr>"

definition sample_catalog :: Catalog where
  "sample_catalog = empty_catalog\<lparr>Items := [(7, sample_item)]\<rparr>"

definition sample_player :: Player where
  "sample_player = empty_player\<lparr>p_SteamID := ''a'', p_Level := 1, p_Point := 100\<rparr>"

definition sample_db :: db where
  "sample_db = insert_player sample_player empty_db"

lemma reachable_accounts_ok_witness:
  "\<exists>w p. reachable_db (mem_service sample_catalog 100 0) w \<and> db_player w ''a'' = Some p \<and> player_ok p"
proof -
  let ?s = "mem_service sample_catalog 100 0"
  let ?w = "snd (LoginBySteam ?s ''a'' 5 5 empty_db)"
  have c: "starters_ok sample_catalog"
    by (simp add: starters_ok_def sample_catalog_def StarterItems_def empty_catalog_def)
  have r: "reachable_db ?s ?w"
    by (rule reachable_db.step [OF reachable_db.start account_step.Login])
  have "db_player empty_db ''a'' = None" by (simp add: db_player_def empty_db_def)
  then obtain p where "db_player ?w ''a'' = Some p"
    using mem.login_unknown [of ?s empty_db "''a''" 5 5] by auto
  with reachable_accounts_ok [OF c r] r show ?thesis by blast
qed

lemma uint_debit: "a \<le> b \<Longrightarrow> uint (b - a) = uint b - uint (a :: u64)"
  by (simp add: uint_minus_simple_alt word_le_def flip: uint_minus_simple_iff)

lemma addToInventory_result:
  assumes "addToInventory p g i now = ((item, isNew), q)" and "\<not> (isNew \<and> i_Serial item = 0)"
  shows "q = p\<lparr>p_Inventory := p_Inventory q\<rparr> \<and>
    (if isNew then p_Inventory q = p_Inventory p @ [item] \<and> i_Serial item \<notin> item_serials p \<and>
        i_ItemIndex item = i \<and> i_ItemType item = ItemType g \<and> i_Value item = 1 \<and> i_ExpiresAt item = expiryFor g now
     else \<exists>old. itemByIndex p i = Some old \<and>
        (if g_UseTime g > 0 then item = extend_rental g now old else g_IsMerge g \<and> item = add_unit old) \<and>
        p_Inventory q = update_by i_ItemIndex i (\<lambda>_. item) (p_Inventory p))"
proof -
  have upd: "update_by i_ItemIndex i f (p_Inventory p) = update_by i_ItemIndex i (\<lambda>_. f old) (p_Inventory p)"
    if "itemByIndex p i = Some old" for f :: "InventoryItem \<Rightarrow> InventoryItem" and old
  proof -
    have "lookup_by i_ItemIndex i xs = Some old \<Longrightarrow> update_by i_ItemIndex i f xs = update_by i_ItemIndex i (\<lambda>_. f old) xs" for xs
      by (induction xs) (auto split: if_splits)
    with that show ?thesis by (simp add: itemByIndex_def)
  qed
  have "NextSerial p \<noteq> 0 \<Longrightarrow> NextSerial p \<notin> item_serials p" using NextSerial_fresh by blast
  with assms upd [of _ add_unit] upd [of _ "extend_rental g now"] addToInventory_inventory [OF assms(1)]
  show ?thesis
    by (auto simp: addToInventory_def Let_def new_item_def split: option.splits if_splits)
qed

lemma storePrice_none: "storePrice g = (WalletNone, price) \<Longrightarrow> price = 0"
  by (auto simp: storePrice_def Let_def split: if_splits)

lemma Debit_exact:
  assumes "\<not> (price > 0 \<and> Balance p w < price)" and "w = WalletNone \<Longrightarrow> price = 0"
  shows "uint (p_Point (Debit p w price)) = uint (p_Point p) - (if w = WalletPoint then uint price else 0)"
    and "uint (p_Cash (Debit p w price)) = uint (p_Cash p) - (if w = WalletCash then uint price else 0)"
proof -
  have "price \<le> Balance p w" using assms(1) by (metis not_less word_gt_0 word_zero_le)
  then show "uint (p_Point (Debit p w price)) = uint (p_Point p) - (if w = WalletPoint then uint price else 0)"
    "uint (p_Cash (Debit p w price)) = uint (p_Cash p) - (if w = WalletCash then uint price else 0)"
    by (cases w; simp add: Balance_def uint_debit)+
qed

lemma buy_accountD:
  assumes "buy_account c i now p = Inr (r, p')"
  obtains g q where "map_of (Items c) i = Some g" and "g_IsSell g" and "g_BuyLevelLimit g \<le> uint (p_Level p)"
    and "storePrice g = (b_Wallet r, b_Price r)" and "\<not> (b_Price r > 0 \<and> Balance p (b_Wallet r) < b_Price r)"
    and "addToInventory p g i now = ((b_Item r, b_IsNew r), q)" and "\<not> (b_IsNew r \<and> i_Serial (b_Item r) = 0)"
    and "p' = Debit q (b_Wallet r) (b_Price r)" and "b_Player r = p'"
proof -
  obtain g where g: "map_of (Items c) i = Some g" "g_IsSell g" "\<not> uint (p_Level p) < g_BuyLevelLimit g"
      "\<not> (snd (storePrice g) > 0 \<and> Balance p (fst (storePrice g)) < snd (storePrice g))"
    using assms by (auto simp only: buy_account_def split: option.splits if_splits)
  obtain item n q where q: "addToInventory p g i now = ((item, n), q)" by (metis surj_pair)
  have rest: "buy_account c i now p = (if n \<and> i_Serial item = 0 then Inl ErrInventoryFull else
      (let p' = Debit q (fst (storePrice g)) (snd (storePrice g))
       in Inr (\<lparr>b_Player = p', b_Item = item, b_IsNew = n, b_Wallet = fst (storePrice g), b_Price = snd (storePrice g)\<rparr>, p')))"
    unfolding buy_account_def g(1) option.case if_not_P [OF g(4)] if_not_P [OF g(3)] q prod.case
    using g(2) by simp
  show thesis
    using that [OF g(1,2), of q] g(3,4) q assms unfolding rest by (auto simp: Let_def split: if_splits)
qed

text \<open>
  The relation between the buyer and the result of a purchase: what is checked, what is charged and
  what is added.
\<close>

definition purchase :: "Catalog \<Rightarrow> u32 \<Rightarrow> time \<Rightarrow> Player \<Rightarrow> BuyResult \<Rightarrow> bool" where
  "purchase c i now p r \<longleftrightarrow>
    (\<exists>g. map_of (Items c) i = Some g \<and> g_IsSell g \<and>
    g_BuyLevelLimit g \<le> uint (p_Level p) \<and> storePrice g = (b_Wallet r, b_Price r) \<and>
    b_Player r = p\<lparr>p_Point := p_Point (b_Player r), p_Cash := p_Cash (b_Player r), p_Inventory := p_Inventory (b_Player r)\<rparr> \<and>
    uint (p_Point (b_Player r)) = uint (p_Point p) - (if b_Wallet r = WalletPoint then uint (b_Price r) else 0) \<and>
    uint (p_Cash (b_Player r)) = uint (p_Cash p) - (if b_Wallet r = WalletCash then uint (b_Price r) else 0) \<and>
    (if b_IsNew r then p_Inventory (b_Player r) = p_Inventory p @ [b_Item r] \<and> i_Serial (b_Item r) \<notin> item_serials p \<and>
        i_Serial (b_Item r) \<noteq> 0 \<and> i_ItemIndex (b_Item r) = i \<and> i_Value (b_Item r) = 1 \<and>
        i_ItemType (b_Item r) = ItemType g \<and> i_ExpiresAt (b_Item r) = expiryFor g now
     else \<exists>old. itemByIndex p i = Some old \<and>
        (if g_UseTime g > 0 then b_Item r = extend_rental g now old else g_IsMerge g \<and> b_Item r = add_unit old) \<and>
        p_Inventory (b_Player r) = update_by i_ItemIndex i (\<lambda>_. b_Item r) (p_Inventory p)))"

lemma buy_account_purchase:
  assumes b: "buy_account c i now p = Inr (r, p')"
  shows "purchase c i now p r \<and> b_Player r = p'"
proof -
  from b obtain g q where g: "map_of (Items c) i = Some g" "g_IsSell g" "g_BuyLevelLimit g \<le> uint (p_Level p)"
      "storePrice g = (b_Wallet r, b_Price r)" and funds: "\<not> (b_Price r > 0 \<and> Balance p (b_Wallet r) < b_Price r)"
      and q: "addToInventory p g i now = ((b_Item r, b_IsNew r), q)" "\<not> (b_IsNew r \<and> i_Serial (b_Item r) = 0)"
      and p': "p' = Debit q (b_Wallet r) (b_Price r)" "b_Player r = p'"
    by (rule buy_accountD)
  have q': "q = p\<lparr>p_Inventory := p_Inventory q\<rparr>" by (rule addToInventory_inventory [OF q(1)])
  then have same: "Balance q (b_Wallet r) = Balance p (b_Wallet r)" "p_Point q = p_Point p" "p_Cash q = p_Cash p"
    by (metis Balance_inventory, metis Player.select_convs(5) Player.surjective Player.update_convs(7),
        metis Player.select_convs(6) Player.surjective Player.update_convs(7))
  from same Debit_exact [of "b_Price r" q "b_Wallet r"] funds storePrice_none g(4)
  have money: "uint (p_Point p') = uint (p_Point p) - (if b_Wallet r = WalletPoint then uint (b_Price r) else 0)"
      "uint (p_Cash p') = uint (p_Cash p) - (if b_Wallet r = WalletCash then uint (b_Price r) else 0)"
    unfolding p'(1) by metis+
  have "p_Inventory p' = p_Inventory q" by (simp add: p')
  moreover have "p' = p\<lparr>p_Point := p_Point p', p_Cash := p_Cash p', p_Inventory := p_Inventory p'\<rparr>"
    unfolding p'(1) by (subst q') (cases "b_Wallet r"; simp add: same)
  ultimately
  show ?thesis
    using addToInventory_result [OF q] g money p'(2) q(2)
    by (auto simp: purchase_def simp del: Player.update_convs split: if_splits)
qed

lemma Buy_result:
  assumes "Buy (mem_service c pt cs) k i now w = (Inr r, w')"
  obtains p where "db_player w k = Some p" and "purchase c i now p r"
    and "db_player w' = (db_player w)(k \<mapsto> b_Player r)" and "buy_account c i now p = Inr (r, b_Player r)"
proof -
  have "transacts db_player (Buy (mem_service c pt cs) k i now) k (buy_account c i now)"
    by (rule mem.Buy_transacts) simp_all
  then obtain p p' where "db_player w k = Some p" and b: "buy_account c i now p = Inr (r, p')"
      and "db_player w' = (db_player w)(k \<mapsto> p')"
    using assms by (rule transactsE)
  with that buy_account_purchase [OF b] b show thesis by simp
qed

text \<open>
  C4. A purchase that succeeds was for a listed item, on sale, at a level the buyer has reached (the
  code checks the level limit, which PROGRESS.md lists as not checked); it charges the store price to
  the wallet the price names and not a unit more, without wrapping below zero; the buyer gets either
  one new item under a serial no other item has, or one more unit or more time on the first stack of
  that item; nothing else of the account and no other account changes.
\<close>

theorem Buy_correct:
  assumes "Buy (mem_service c pt cs) k i now w = (Inr r, w')"
  shows "\<exists>p. db_player w k = Some p \<and> purchase c i now p r \<and> db_player w' = (db_player w)(k \<mapsto> b_Player r)"
  using assms by (rule Buy_result) blast

lemma sample_lookup [simp]: "db_player sample_db ''a'' = Some sample_player"
  by (simp add: sample_db_def sample_player_def db_defs empty_db_def)

lemma sample_price: "storePrice sample_item = (WalletPoint, 30)"
  by (simp add: storePrice_def sample_item_def)

lemma sample_map [simp]: "map_of (Items sample_catalog) 7 = Some sample_item"
  by (simp add: sample_catalog_def)

lemma sample_buy: "\<exists>r p'. buy_account sample_catalog 7 5 sample_player = Inr (r, p')"
proof -
  have i: "g_IsSell sample_item" "g_BuyLevelLimit sample_item = 0" "g_UseTime sample_item = 0"
    by (simp_all add: sample_item_def zero_item_def gameItemFromRow_def record_int_def record_str_def
        Atoi_def ParseUint_def)
  have p: "p_Level sample_player = 1" "Balance sample_player WalletPoint = 100" "p_Inventory sample_player = []"
    by (simp_all add: sample_player_def empty_player_def Balance_def)
  show ?thesis
    by (simp add: buy_account_def sample_price i p addToInventory_def itemByIndex_def new_item_def
        NextSerial_def NextSerial_loop.simps Let_def split: option.split)
qed

lemma Buy_correct_witness:
  "\<exists>r w'. Buy (mem_service sample_catalog 0 0) ''a'' 7 5 sample_db = (Inr r, w') \<and>
    uint (p_Point (b_Player r)) = 70 \<and> db_player w' ''a'' = Some (b_Player r)"
proof -
  obtain r p' where a: "buy_account sample_catalog 7 5 sample_player = Inr (r, p')" using sample_buy by blast
  have t: "transacts db_player (Buy (mem_service sample_catalog 0 0) ''a'' 7 5) ''a'' (buy_account sample_catalog 7 5)"
    by (rule mem.Buy_transacts) simp_all
  obtain w' where b: "Buy (mem_service sample_catalog 0 0) ''a'' 7 5 sample_db = (Inr r, w')"
    using transacts_at(3) [OF t sample_lookup a] by blast
  have "uint (p_Point sample_player) = 100" by (simp add: sample_player_def)
  with Buy_correct [OF b] b sample_price show ?thesis by (auto simp: purchase_def)
qed

fun run_commits :: "string \<Rightarrow> (InventoryItem list \<times> Wallet \<times> u64) list \<Rightarrow> db \<Rightarrow> (Wallet \<times> u64) list \<times> db" where
  "run_commits k [] w = ([], w)"
| "run_commits k ((items, wallet, price) # rest) w =
     (case pr_CommitInventory mem_player_repo k items wallet price w of
        (Inr True, w') \<Rightarrow> (case run_commits k rest w' of (applied, w'') \<Rightarrow> ((wallet, price) # applied, w''))
      | (_, w') \<Rightarrow> run_commits k rest w')"

definition charged :: "Wallet \<Rightarrow> (Wallet \<times> u64) list \<Rightarrow> int" where
  "charged wallet applied = (\<Sum>(v, price) \<leftarrow> applied. if v = wallet then uint price else 0)"

lemma Debit_conserves:
  assumes "\<not> (price > 0 \<and> Balance p v < price)"
  shows "uint (p_Point (Debit p v price)) + (if v = WalletPoint then uint price else 0) = uint (p_Point p)"
    and "uint (p_Cash (Debit p v price)) + (if v = WalletCash then uint price else 0) = uint (p_Cash p)"
proof -
  have "price \<le> Balance p v" using assms by (metis not_less word_gt_0 word_zero_le)
  then show "uint (p_Point (Debit p v price)) + (if v = WalletPoint then uint price else 0) = uint (p_Point p)"
    "uint (p_Cash (Debit p v price)) + (if v = WalletCash then uint price else 0) = uint (p_Cash p)"
    by (cases v; simp add: Balance_def uint_debit)+
qed

text \<open>
  C13. Two purchases (or any other inventory commits) of one account may interleave in any way
  between reading the account and committing: the balance check and the debit are one step of the
  repository, so the money of each wallet plus what the applied commits charged to it never
  changes, and a balance never wraps below zero.
\<close>

theorem commits_conserve_money:
  assumes "db_player w k = Some p" and "run_commits k cs w = (applied, w')"
  shows "\<exists>p'. db_player w' k = Some p' \<and>
    uint (p_Point p') + charged WalletPoint applied = uint (p_Point p) \<and>
    uint (p_Cash p') + charged WalletCash applied = uint (p_Cash p)"
  using assms
proof (induction cs arbitrary: w p applied)
  case Nil
  then show ?case by (simp add: charged_def)
next
  case (Cons c cs)
  obtain items v price where c: "c = (items, v, price)" by (metis prod_cases3)
  show ?case
  proof (cases "price > 0 \<and> Balance p v < price")
    case True
    with Cons c show ?thesis by (simp add: mem.commit)
  next
    case False
    let ?q = "(Debit p v price)\<lparr>p_Inventory := items\<rparr>"
    let ?w = "update_player k (\<lambda>p. (Debit p v price)\<lparr>p_Inventory := items\<rparr>) w"
    have "pr_CommitInventory mem_player_repo k items v price w = (Inr True, ?w)"
      using Cons.prems(1) False by (simp add: mem.commit)
    with Cons.prems(2) c obtain rest where rest: "run_commits k cs ?w = (rest, w')" "applied = (v, price) # rest"
      by (auto split: prod.splits)
    have q: "db_player ?w k = Some ?q" using Cons.prems(1) by (simp add: mem.look_upd)
    from Cons.IH [OF q rest(1)] Debit_conserves [OF False] rest(2) show ?thesis
      by (auto simp: charged_def)
  qed
qed

lemma commits_conserve_money_witness:
  "\<exists>applied w' p'. run_commits ''a'' [([], WalletPoint, 60), ([], WalletPoint, 60)] sample_db = (applied, w') \<and>
    db_player w' ''a'' = Some p' \<and> uint (p_Point p') + charged WalletPoint applied = 100"
proof -
  obtain applied w' where r: "run_commits ''a'' [([], WalletPoint, 60), ([], WalletPoint, 60)] sample_db = (applied, w')"
    by (metis surj_pair)
  from commits_conserve_money [OF sample_lookup r] r show ?thesis by (auto simp: sample_player_def)
qed

lemma materials_distinct: "distinct (map fst (materials_needed r))"
proof -
  have "distinct (map fst need) \<Longrightarrow> distinct (map fst (foldl (\<lambda>need m. AList.update (rm_ItemIndex m)
      (wrap64 (map_get need (rm_ItemIndex m) + rm_Count m)) need) need ms))" for need and ms :: "RecipeMaterial list"
    by (induction ms arbitrary: need) (auto simp: distinct_update)
  then show ?thesis by (simp add: materials_needed_def)
qed

text \<open>
  C14. Crafting that succeeds consumes exactly the units the recipe needs of every material index
  and nothing of any other index, adds exactly one unit of the output under a fresh serial, and
  charges exactly the recipe's point price; the stored account is the returned one. (The balance
  over materials and output together is stated per item index.)
\<close>

theorem Craft_correct:
  assumes "Craft (mem_service c pt cs) k rid now w = (Inr r, w')"
  shows "\<exists>p recipe. db_player w k = Some p \<and> map_of (Recipes c) rid = Some recipe \<and> rc_Exist recipe \<and>
    rc_RequireLevel recipe \<le> uint (p_Level p) \<and>
    uint (p_Point (k_Player r)) = uint (p_Point p) - uint (rc_PricePoint recipe) \<and>
    (\<forall>i. units i (p_Inventory (k_Player r)) = units i (p_Inventory p)
        - max 0 (map_get (materials_needed recipe) i) + (if i = rc_ItemOutput recipe then 1 else 0)) \<and>
    i_ItemIndex (k_Output r) = rc_ItemOutput recipe \<and> k_Output r = last (p_Inventory (k_Player r)) \<and>
    i_Serial (k_Output r) \<noteq> 0 \<and> i_Serial (k_Output r) \<notin> i_Serial ` set (butlast (p_Inventory (k_Player r))) \<and>
    db_player w' = (db_player w)(k \<mapsto> k_Player r)"
proof -
  have "transacts db_player (Craft (mem_service c pt cs) k rid now) k (craft_account c rid now)"
    by (rule mem.Craft_transacts) simp_all
  then obtain p p' where p: "db_player w k = Some p" and b: "craft_account c rid now p = Inr (r, p')"
      and w': "db_player w' = (db_player w)(k \<mapsto> p')"
    using assms by (rule transactsE)
  from b obtain recipe d u q g where rc: "map_of (Recipes c) rid = Some recipe" "rc_Exist recipe"
      "rc_RequireLevel recipe \<le> uint (p_Level p)" and price: "rc_PricePoint recipe \<le> p_Point p"
      and q: "ConsumeMaterials p (materials_needed recipe) = Some ((d, u), q)" and n: "NextSerial q \<noteq> 0"
      and p': "p' = Debit (q\<lparr>p_Inventory := p_Inventory q @ [new_item q g (rc_ItemOutput recipe) now]\<rparr>) WalletPoint (rc_PricePoint recipe)"
      and r: "r = \<lparr>k_Player = p', k_Output = new_item q g (rc_ItemOutput recipe) now, k_Deleted = d, k_Updated = u,
        k_PricePoint = rc_PricePoint recipe\<rparr>"
    by (rule craft_accountD)
  have "p_Point q = p_Point p" by (subst ConsumeMaterials_inventory [OF q]) simp
  then have "uint (p_Point p') = uint (p_Point p) - uint (rc_PricePoint recipe)"
    using price by (simp add: p' uint_debit)
  moreover have "units i (p_Inventory p') = units i (p_Inventory p)
      - max 0 (map_get (materials_needed recipe) i) + (if i = rc_ItemOutput recipe then 1 else 0)" for i
    using ConsumeMaterials_units [OF materials_distinct q, of i] by (simp add: p' new_item_def)
  moreover have "NextSerial q \<notin> item_serials q" using NextSerial_fresh [OF n] by blast
  ultimately show ?thesis using p rc w' n by (simp add: r) (simp add: p' new_item_def)
qed

definition craft_catalog :: Catalog where
  "craft_catalog = sample_catalog\<lparr>Recipes := [(3, \<lparr>rc_ID = 3, rc_Exist = True, rc_RepresentIndex = 0,
     rc_RequireLevel = 1, rc_PriceType = 0, rc_PricePoint = 40, rc_PriceCash = 0,
     rc_Materials = [\<lparr>rm_ItemIndex = 9, rm_Count = 2\<rparr>], rc_ItemOutput = 7, rc_CountOutput = 1\<rparr>)]\<rparr>"

definition stack_of :: "u16 \<Rightarrow> u32 \<Rightarrow> u32 \<Rightarrow> InventoryItem" where
  "stack_of serial index v = \<lparr>i_Serial = serial, i_ItemIndex = index, i_Value = v, i_State = 1, i_ItemType = 0,
     i_InstanceAux = 0, i_ExpiresAt = zero_time\<rparr>"

definition crafter :: Player where
  "crafter = sample_player\<lparr>p_Inventory := [stack_of 1 9 5]\<rparr>"

lemma craft_sample: "\<exists>r p'. craft_account craft_catalog 3 5 crafter = Inr (r, p')"
  by (simp add: craft_account_def craft_catalog_def crafter_def sample_player_def ConsumeMaterials_def
      materials_needed_def map_get_def wrap64_def itemByIndex_def stack_of_def NextSerial_def
      NextSerial_loop.simps Let_def)

lemma Craft_correct_witness:
  "\<exists>r w'. Craft (mem_service craft_catalog 0 0) ''a'' 3 5 (insert_player crafter empty_db) = (Inr r, w') \<and>
    units 9 (p_Inventory (k_Player r)) = 3 \<and> units 7 (p_Inventory (k_Player r)) = 1 \<and> uint (p_Point (k_Player r)) = 60"
proof -
  let ?w = "insert_player crafter empty_db"
  have l: "db_player ?w ''a'' = Some crafter"
    by (simp add: crafter_def sample_player_def db_defs empty_db_def)
  obtain r p' where a: "craft_account craft_catalog 3 5 crafter = Inr (r, p')" using craft_sample by blast
  have t: "transacts db_player (Craft (mem_service craft_catalog 0 0) ''a'' 3 5) ''a'' (craft_account craft_catalog 3 5)"
    by (rule mem.Craft_transacts) simp_all
  obtain w' where b: "Craft (mem_service craft_catalog 0 0) ''a'' 3 5 ?w = (Inr r, w')"
    using transacts_at(3) [OF t l a] by blast
  have u: "units 9 (p_Inventory crafter) = 5" "units 7 (p_Inventory crafter) = 0" "uint (p_Point crafter) = 100"
    by (simp_all add: crafter_def stack_of_def sample_player_def)
  show ?thesis
    using Craft_correct [OF b] b l u
    by (auto simp: craft_catalog_def materials_needed_def map_get_def wrap64_def)
qed

section \<open>Login\<close>

definition is_character :: "u8 \<Rightarrow> bool" where
  "is_character t \<longleftrightarrow> t = SlotCharacterATC \<or> t = SlotCharacterTF"

text \<open>A slot that holds an owned item of its own type.\<close>

definition equipped_in :: "InventoryItem list \<Rightarrow> Loadout \<Rightarrow> u8 \<Rightarrow> bool" where
  "equipped_in items0 l t \<longleftrightarrow> (\<exists>e \<in> set l. e_Slot e = t \<and>
     (\<exists>item. lookup_by i_Serial (e_Serial e) items0 = Some item \<and> i_ItemType item = t))"

lemma equipped_slots_in: "t \<in> equipped_slots p \<longleftrightarrow> equipped_in (p_Inventory p) (p_Loadout p) t"
  by (auto simp: equipped_slots_def equipped_in_def Item_def image_iff split: option.splits)

lemma equipped_in_equip:
  assumes "equipped_in items0 l t" and "lookup_by i_Serial serial items0 = Some item" and "i_ItemType item = u"
  shows "equipped_in items0 (Loadout_Equip l u serial) t"
  using assms by (auto simp: equipped_in_def Loadout_Equip_def)

lemma equip_characters_fill:
  assumes "distinct (map i_Serial items0)" and "set items \<subseteq> set items0"
    and "\<And>t. t \<in> eq \<Longrightarrow> equipped_in items0 l t"
    and "is_character t" and "t \<in> eq \<or> t \<in> i_ItemType ` set items"
  shows "equipped_in items0 (fst (equip_characters items eq l b)) t"
  using assms(2-)
proof (induction items arbitrary: eq l b)
  case (Cons item items)
  have item: "lookup_by i_Serial (i_Serial item) items0 = Some item"
    using Cons.prems(1) by (intro lookup_by_distinct [OF assms(1)]) simp
  let ?l = "Loadout_Equip l (i_ItemType item) (i_Serial item)"
  have new: "equipped_in items0 ?l (i_ItemType item)"
    using item by (auto simp: equipped_in_def Loadout_Equip_def)
  have old: "u \<in> insert (i_ItemType item) eq \<Longrightarrow> equipped_in items0 ?l u" for u
    using new equipped_in_equip [OF Cons.prems(2) item refl] by auto
  show ?case
  proof (cases "is_character (i_ItemType item) \<and> i_ItemType item \<notin> eq")
    case True
    then have "equip_characters (item # items) eq l b = equip_characters items (insert (i_ItemType item) eq) ?l True"
      by (simp add: is_character_def)
    moreover have "t \<in> insert (i_ItemType item) eq \<or> t \<in> i_ItemType ` set items" using Cons.prems(4) by auto
    ultimately show ?thesis
      using Cons.IH [of "insert (i_ItemType item) eq" ?l True] old Cons.prems(1,3) by simp
  next
    case False
    then have "equip_characters (item # items) eq l b = equip_characters items eq l b"
      by (auto simp: is_character_def)
    moreover have "t \<in> eq \<or> t \<in> i_ItemType ` set items" using Cons.prems(3,4) False by auto
    ultimately show ?thesis using Cons.IH [of eq l b] Cons.prems(1-3) by simp
  qed
qed simp

lemma equip_characters_idle:
  "(\<And>item. item \<in> set items \<Longrightarrow> is_character (i_ItemType item) \<Longrightarrow> i_ItemType item \<in> eq) \<Longrightarrow>
    equip_characters items eq l b = (l, b)"
  by (induction items) (auto simp: is_character_def)

lemma login_account_fields:
  "p_Inventory (login_account now p) = filter (\<lambda>item. \<not> IsExpired item now) (p_Inventory p)"
  "p_LastLogin (login_account now p) = now"
  "login_account now p = p\<lparr>p_LastLogin := now, p_Inventory := p_Inventory (login_account now p),
     p_Loadout := p_Loadout (login_account now p), p_Attachments := p_Attachments (login_account now p)\<rparr>"
proof -
  let ?P = "PurgeExpired (p\<lparr>p_LastLogin := now\<rparr>) now"
  have acc: "login_account now p = (snd ?P)\<lparr>p_Loadout :=
      fst (equip_characters (p_Inventory (snd ?P)) (equipped_slots (snd ?P)) (p_Loadout (snd ?P)) (fst ?P \<noteq> []))\<rparr>"
    by (cases ?P) (simp add: login_account_def)
  show "p_Inventory (login_account now p) = filter (\<lambda>item. \<not> IsExpired item now) (p_Inventory p)"
    unfolding acc using PurgeExpired_inventory [of "p\<lparr>p_LastLogin := now\<rparr>" now] by simp
  show "p_LastLogin (login_account now p) = now"
    "login_account now p = p\<lparr>p_LastLogin := now, p_Inventory := p_Inventory (login_account now p),
     p_Loadout := p_Loadout (login_account now p), p_Attachments := p_Attachments (login_account now p)\<rparr>"
    unfolding acc by (simp_all add: PurgeExpired_def Let_def)
qed

lemma login_account_equipped:
  assumes "player_ok p" and "is_character t" and "t \<in> i_ItemType ` set (p_Inventory (login_account now p))"
  shows "t \<in> equipped_slots (login_account now p)"
proof -
  obtain r q where P: "PurgeExpired (p\<lparr>p_LastLogin := now\<rparr>) now = (r, q)" by force
  have "player_ok (p\<lparr>p_LastLogin := now\<rparr>)" using assms(1) by (simp add: player_ok_def)
  then have "player_ok q" using PurgeExpired_ok [of "p\<lparr>p_LastLogin := now\<rparr>" now] P by simp
  then have "distinct (map i_Serial (p_Inventory q))" by (simp add: player_ok_def)
  from equip_characters_fill [OF this subset_refl _ assms(2), of "equipped_slots q" "p_Loadout q"] assms(3) P
  show ?thesis by (simp add: equipped_slots_in login_account_def)
qed

lemma login_account_idem:
  assumes "player_ok p"
  shows "login_account now (login_account now p) = login_account now p"
proof -
  let ?q = "login_account now p"
  have "PurgeExpired (?q\<lparr>p_LastLogin := now\<rparr>) now = ([], ?q)"
  proof -
    have "filter (\<lambda>item. IsExpired item now) (p_Inventory ?q) = []"
      by (simp add: login_account_fields(1) filter_empty_conv)
    moreover have "?q\<lparr>p_LastLogin := now\<rparr> = ?q" using login_account_fields(2) [of now p] by simp
    ultimately show ?thesis by (simp add: PurgeExpired_def Let_def)
  qed
  moreover have "equip_characters (p_Inventory ?q) (equipped_slots ?q) (p_Loadout ?q) False = (p_Loadout ?q, False)"
    using login_account_equipped [OF assms] by (intro equip_characters_idle) blast
  ultimately show ?thesis unfolding login_account_def [of now ?q] by simp
qed

text \<open>
  C31. Logging in to a known account returns and stores the account without its expired rentals, with
  the login time set and nothing but inventory, loadout and attachments changed besides; afterwards
  every character type the player owns is equipped in its slot with an owned item of that type, and no
  other account has changed. A second login at the same moment returns the same account and leaves
  every account as it is.
\<close>

theorem LoginBySteam_repairs:
  assumes "db_player w k = Some p" and "player_ok p"
    and "LoginBySteam (mem_service c pt cs) k now now' w = (r, w')"
  shows "\<exists>q. r = Inr q \<and> db_player w' = (db_player w)(k \<mapsto> q) \<and>
    q = p\<lparr>p_LastLogin := now, p_Inventory := p_Inventory q, p_Loadout := p_Loadout q, p_Attachments := p_Attachments q\<rparr> \<and>
    p_Inventory q = filter (\<lambda>item. \<not> IsExpired item now) (p_Inventory p) \<and>
    (\<forall>item \<in> set (p_Inventory q). is_character (i_ItemType item) \<longrightarrow>
       equipped_in (p_Inventory q) (p_Loadout q) (i_ItemType item)) \<and>
    (\<exists>w''. LoginBySteam (mem_service c pt cs) k now now' w' = (Inr q, w'') \<and> db_player w'' = db_player w')"
proof -
  let ?q = "login_account now p"
  have first: "r = Inr ?q" "db_player w' = (db_player w)(k \<mapsto> ?q)"
    using mem.login_known [of "mem_service c pt cs" w k p now now'] assms(1,3) by auto
  then have "db_player w' k = Some ?q" by simp
  then obtain w'' where "LoginBySteam (mem_service c pt cs) k now now' w' = (Inr (login_account now ?q), w'')"
    "db_player w'' = (db_player w')(k \<mapsto> login_account now ?q)"
    using mem.login_known [of "mem_service c pt cs" w' k ?q now now'] by auto
  then have "LoginBySteam (mem_service c pt cs) k now now' w' = (Inr ?q, w'') \<and> db_player w'' = db_player w'"
    using first(2) login_account_idem [OF assms(2), of now] by (simp add: fun_upd_idem)
  then show ?thesis
    using first login_account_fields [of now p] login_account_equipped [OF assms(2), of _ now] by (auto simp: equipped_slots_in)
qed

definition hero :: Player where
  "hero = sample_player\<lparr>p_Inventory := [(stack_of 1 11100101 1)\<lparr>i_ItemType := SlotCharacterATC\<rparr>,
     (stack_of 2 9 1)\<lparr>i_ExpiresAt := 3\<rparr>]\<rparr>"

lemma LoginBySteam_repairs_witness:
  "\<exists>q w'. LoginBySteam (mem_service sample_catalog 0 0) ''a'' 5 5 (insert_player hero empty_db) = (Inr q, w') \<and>
    equipped_in (p_Inventory q) (p_Loadout q) SlotCharacterATC \<and> length (p_Inventory q) = 1"
proof -
  have l: "db_player (insert_player hero empty_db) ''a'' = Some hero"
    by (simp add: hero_def sample_player_def db_defs empty_db_def)
  have ok: "player_ok hero"
    by (simp add: player_ok_def hero_def sample_player_def stack_of_def empty_player_def)
  obtain r w' where e: "LoginBySteam (mem_service sample_catalog 0 0) ''a'' 5 5 (insert_player hero empty_db) = (r, w')"
    by (metis surj_pair)
  have "filter (\<lambda>item. \<not> IsExpired item 5) (p_Inventory hero) = [(stack_of 1 11100101 1)\<lparr>i_ItemType := SlotCharacterATC\<rparr>]"
    by (simp add: hero_def stack_of_def IsExpired_def IsRental_def zero_time_def)
  with LoginBySteam_repairs [OF l ok e] e show ?thesis
    by (auto simp: stack_of_def is_character_def)
qed

section \<open>Buying a part for a weapon\<close>

lemma attach_accountD:
  assumes "attach_account c i j now p = Inr ((q, child), p')"
  shows "q = p' \<and> Item p j = Some child \<and>
    p' = p\<lparr>p_Attachments := Attachments_Attach (p_Attachments p) i j (i_ItemType child)\<rparr>"
  using assms by (auto simp: attach_account_def Let_def split: option.splits if_splits)

text \<open>
  C32. Buying a custom part for an owned weapon, when it succeeds, is the purchase of that part
  followed by mounting it: the part list allows the weapon, the purchase is charged once, and in the
  stored account the bought item is the one mounted in its slot of that weapon, replacing whatever
  the slot held.
\<close>

theorem BuyCustomPart_mounts:
  assumes "BuyCustomPart (mem_service c pt cs) k weapon i now now' w = (Inr r, w')"
  shows "\<exists>p gun b child. db_player w k = Some p \<and> Item p weapon = Some gun \<and> Accepts c (i_ItemIndex gun) i \<and>
    purchase c i now p b \<and> b_Item r = b_Item b \<and> b_Price r = b_Price b \<and> b_Wallet r = b_Wallet b \<and>
    Item (b_Player b) (i_Serial (b_Item b)) = Some child \<and>
    p_Point (b_Player r) = p_Point (b_Player b) \<and> p_Cash (b_Player r) = p_Cash (b_Player b) \<and>
    p_Inventory (b_Player r) = p_Inventory (b_Player b) \<and>
    lookup_by mount_key (weapon, i_ItemType child) (p_Attachments (b_Player r))
      = Some \<lparr>a_ParentSerial = weapon, a_ChildSerial = i_Serial (b_Item b), a_Slot = i_ItemType child\<rparr> \<and>
    db_player w' = (db_player w)(k \<mapsto> b_Player r)"
proof -
  obtain p g b w1 child where s: "db_player w k = Some p" "Item p weapon = Some g" "Accepts c (i_ItemIndex g) i"
      and buy: "Buy (mem_service c pt cs) k i now w = (Inr b, w1)"
      and att: "PlayerService_Attach (mem_service c pt cs) k weapon (i_Serial (b_Item b)) now' w1 = (Inr (b_Player r, child), w')"
      and r: "r = b\<lparr>b_Player := b_Player r\<rparr>"
    using assms by (rule BuyCustomPart_steps) simp_all
  obtain p0 where p0: "db_player w k = Some p0" "purchase c i now p0 b" "db_player w1 = (db_player w)(k \<mapsto> b_Player b)"
    using buy by (rule Buy_result)
  have "transacts db_player (PlayerService_Attach (mem_service c pt cs) k weapon (i_Serial (b_Item b)) now') k
      (attach_account c weapon (i_Serial (b_Item b)) now')"
    by (rule mem.Attach_transacts) simp_all
  then obtain q q' where q: "db_player w1 k = Some q"
      "attach_account c weapon (i_Serial (b_Item b)) now' q = Inr ((b_Player r, child), q')"
      "db_player w' = (db_player w1)(k \<mapsto> q')"
    using att by (rule transactsE)
  have "q = b_Player b" using q(1) p0(3) by simp
  with attach_accountD [OF q(2)] have child: "Item (b_Player b) (i_Serial (b_Item b)) = Some child"
      "b_Player r = (b_Player b)\<lparr>p_Attachments :=
        Attachments_Attach (p_Attachments (b_Player b)) weapon (i_Serial (b_Item b)) (i_ItemType child)\<rparr>" "q' = b_Player r"
    by simp_all
  have "b_Item r = b_Item b" "b_Price r = b_Price b" "b_Wallet r = b_Wallet b"
    by (subst r; simp)+
  with s p0 q(3) child show ?thesis by (auto simp: Attach_lookup)
qed

definition part_catalog :: Catalog where
  "part_catalog = sample_catalog\<lparr>PartsFor := [(9, [(7, True)])]\<rparr>"

lemma sample_item_simps:
  "g_IsSell sample_item" "g_BuyLevelLimit sample_item = 0" "g_UseTime sample_item = 0" "g_IsMerge sample_item"
  "ItemType sample_item = 0x3D" "expiryFor sample_item now = zero_time"
  by (simp_all add: sample_item_def zero_item_def gameItemFromRow_def record_int_def record_str_def
      Atoi_def ParseUint_def ItemType_def expiryFor_def)

lemma crafter_simps:
  "p_Level crafter = 1" "Balance crafter WalletPoint = 100" "p_Inventory crafter = [stack_of 1 9 5]"
  "p_Point crafter = 100" "p_Attachments crafter = []"
  by (simp_all add: crafter_def sample_player_def empty_player_def Balance_def)

lemma part_sample:
  "\<exists>r w'. BuyCustomPart (mem_service part_catalog 0 0) ''a'' 1 7 5 6 (insert_player crafter empty_db) = (Inr r, w')"
proof -
  have l: "db_player (insert_player crafter empty_db) ''a'' = Some crafter"
    by (simp add: crafter_def sample_player_def db_defs empty_db_def)
  have c: "map_of (Items part_catalog) 7 = Some sample_item" "Accepts part_catalog 9 7"
    by (simp_all add: part_catalog_def sample_catalog_def Accepts_def)
  show ?thesis
    by (simp add: BuyCustomPart_def Buy_def PlayerService_Attach_def io_eval mem.require l c sample_price
        sample_item_simps crafter_simps addToInventory_def itemByIndex_def new_item_def NextSerial_def
        NextSerial_loop.simps Let_def stack_of_def mem.commit mem.save_attachments mem.look_upd Item_def
        IsExpired_def IsRental_def)
qed

lemma BuyCustomPart_mounts_witness:
  "\<exists>r w'. BuyCustomPart (mem_service part_catalog 0 0) ''a'' 1 7 5 6 (insert_player crafter empty_db) = (Inr r, w') \<and>
    db_player w' ''a'' = Some (b_Player r) \<and> (\<exists>slot m. lookup_by mount_key (1, slot) (p_Attachments (b_Player r)) = Some m)"
proof -
  obtain r w' where e: "BuyCustomPart (mem_service part_catalog 0 0) ''a'' 1 7 5 6 (insert_player crafter empty_db) = (Inr r, w')"
    using part_sample by blast
  from BuyCustomPart_mounts [OF e] e show ?thesis by fastforce
qed

section \<open>Changing weapons\<close>

text \<open>The serial that ends up in a slot: the last one listed whose item has the type of the slot.\<close>

definition chosen_for :: "Player \<Rightarrow> u16 list \<Rightarrow> u8 \<Rightarrow> u16 option" where
  "chosen_for p serials slot =
     List.find (\<lambda>serial. serial \<noteq> 0 \<and> map_option i_ItemType (Item p serial) = Some slot) (rev serials)"

definition usable :: "Player \<Rightarrow> time \<Rightarrow> u16 \<Rightarrow> bool" where
  "usable p now serial \<longleftrightarrow> (\<exists>item. Item p serial = Some item \<and> \<not> IsExpired item now)"

lemma find_append: "List.find P (xs @ ys) = (case List.find P xs of None \<Rightarrow> List.find P ys | Some x \<Rightarrow> Some x)"
  by (induction xs) auto

lemma equip_serials_done:
  "equip_serials p now serials l = Inr l' \<Longrightarrow>
    (\<forall>serial \<in> set serials. serial = 0 \<or> usable p now serial) \<and>
    (\<forall>slot. lookup_by e_Slot slot l' = (case chosen_for p serials slot of
       None \<Rightarrow> lookup_by e_Slot slot l | Some serial \<Rightarrow> Some \<lparr>e_Slot = slot, e_Serial = serial\<rparr>))"
proof (induction serials arbitrary: l)
  case (Cons serial serials)
  show ?case
  proof (cases "serial = 0")
    case False
    then obtain item where item: "Item p serial = Some item" "\<not> IsExpired item now"
      and rest: "equip_serials p now serials (Loadout_Equip l (i_ItemType item) serial) = Inr l'"
      using Cons.prems by (auto split: option.splits if_splits)
    from Cons.IH [OF rest] item False show ?thesis
      by (auto simp: usable_def chosen_for_def find_append split: option.split)
  qed (use Cons in \<open>auto simp: chosen_for_def find_append split: option.split\<close>)
qed (simp add: chosen_for_def)

lemma equip_serials_refused:
  "equip_serials p now serials l = Inl e \<Longrightarrow>
    \<exists>before serial. (\<exists>after. serials = before @ serial # after) \<and> serial \<noteq> 0 \<and>
      (\<forall>s \<in> set before. s = 0 \<or> usable p now s) \<and>
      (case Item p serial of None \<Rightarrow> e = ErrItemNotOwned | Some item \<Rightarrow> IsExpired item now \<and> e = ErrItemExpired)"
proof (induction serials arbitrary: l)
  case (Cons serial serials)
  show ?case
  proof (cases "serial = 0 \<or> usable p now serial")
    case True
    then obtain l' where "equip_serials p now serials l' = Inl e"
      using Cons.prems by (auto simp: usable_def split: if_splits)
    from Cons.IH [OF this] obtain before s after where "serials = before @ s # after" "s \<noteq> 0"
      "\<forall>s \<in> set before. s = 0 \<or> usable p now s"
      "case Item p s of None \<Rightarrow> e = ErrItemNotOwned | Some item \<Rightarrow> IsExpired item now \<and> e = ErrItemExpired" by blast
    with True show ?thesis by (intro exI [of _ "serial # before"] exI [of _ s]) auto
  next
    case False
    then show ?thesis using Cons.prems
      by (intro exI [of _ "[]"] exI [of _ serial]) (auto simp: usable_def split: option.splits)
  qed
qed simp

text \<open>
  C5. Changing the weapons of an account takes effect for all listed serials or for none. It is refused
  with nothing stored exactly because of the first listed serial that the account does not own or
  whose item has expired, 0 standing for an empty place; otherwise only this account changes, only in
  its loadout, every listed serial is an owned item that has not expired, and each slot holds
  the last listed item of its type, or what it held before when none is listed.
\<close>

theorem ChangeWeapons_correct:
  assumes "db_player w k = Some p" and "ChangeWeapons (mem_service c pt cs) k serials now w = (r, w')"
  shows "case r of
      Inl e \<Rightarrow> w' = w \<and> (\<exists>before serial. (\<exists>after. serials = before @ serial # after) \<and> serial \<noteq> 0 \<and>
        (\<forall>s \<in> set before. s = 0 \<or> usable p now s) \<and>
        (case Item p serial of None \<Rightarrow> e = ErrItemNotOwned | Some item \<Rightarrow> IsExpired item now \<and> e = ErrItemExpired))
    | Inr q \<Rightarrow> db_player w' = (db_player w)(k \<mapsto> q) \<and> q = p\<lparr>p_Loadout := p_Loadout q\<rparr> \<and>
        (\<forall>serial \<in> set serials. serial = 0 \<or> usable p now serial) \<and>
        (\<forall>slot. lookup_by e_Slot slot (p_Loadout q) = (case chosen_for p serials slot of
           None \<Rightarrow> lookup_by e_Slot slot (p_Loadout p) | Some serial \<Rightarrow> Some \<lparr>e_Slot = slot, e_Serial = serial\<rparr>))"
proof -
  have t: "transacts db_player (ChangeWeapons (mem_service c pt cs) k serials now) k (weapons_account serials now)"
    by (rule mem.ChangeWeapons_transacts) simp
  show ?thesis
  proof (cases "equip_serials p now serials (p_Loadout p)")
    case (Inl e)
    then have "weapons_account serials now p = Inl e" by (simp add: weapons_account_def)
    from transacts_at(2) [OF t assms(1) this] assms(2) equip_serials_refused [OF Inl] show ?thesis by simp
  next
    case (Inr l)
    let ?q = "p\<lparr>p_Loadout := l\<rparr>"
    have "weapons_account serials now p = Inr (?q, ?q)" using Inr by (simp add: weapons_account_def Let_def)
    from transacts_at(3) [OF t assms(1) this] assms(2) equip_serials_done [OF Inr] show ?thesis by auto
  qed
qed

lemma ChangeWeapons_correct_witness:
  "\<exists>q w'. ChangeWeapons (mem_service sample_catalog 0 0) ''a'' [0, 1] 5 (insert_player hero empty_db) = (Inr q, w') \<and>
    lookup_by e_Slot SlotCharacterATC (p_Loadout q) = Some \<lparr>e_Slot = SlotCharacterATC, e_Serial = 1\<rparr>"
proof -
  have l: "db_player (insert_player hero empty_db) ''a'' = Some hero"
    by (simp add: hero_def sample_player_def db_defs empty_db_def)
  obtain r w' where e: "ChangeWeapons (mem_service sample_catalog 0 0) ''a'' [0, 1] 5 (insert_player hero empty_db) = (r, w')"
    by fastforce
  have item: "Item hero 1 = Some ((stack_of 1 11100101 1)\<lparr>i_ItemType := SlotCharacterATC\<rparr>)"
    "\<not> IsExpired ((stack_of 1 11100101 1)\<lparr>i_ItemType := SlotCharacterATC\<rparr>) 5"
    by (simp_all add: Item_def hero_def stack_of_def IsExpired_def IsRental_def)
  then have one: "usable hero 5 1" "chosen_for hero [0, 1] SlotCharacterATC = Some 1"
    by (simp_all add: usable_def chosen_for_def)
  have refused: "s = 0" if "[0, 1] = before @ s # after" "\<not> usable hero 5 s" for before s after
  proof -
    have "s \<in> set [0, 1]" by (simp only: that(1)) simp
    then show "s = 0" using that(2) one(1) by auto
  qed
  note result = ChangeWeapons_correct [OF l e]
  show ?thesis
  proof (cases r)
    case (Inl x)
    then show ?thesis using result refused by (auto simp: usable_def split: option.splits)
  next
    case (Inr q)
    then show ?thesis using result one(2) e by auto
  qed
qed

section \<open>Serials and rentals\<close>

text \<open>
  C35. \<open>NextSerial\<close> returns a serial no item of the player has, never 0 and never 65535, and
  returns 0 exactly when all serials from 1 to 65534 are taken.
\<close>

theorem NextSerial_correct:
  "if NextSerial p = 0 then {1..<0xFFFF} \<subseteq> item_serials p
   else NextSerial p \<notin> item_serials p \<and> NextSerial p < 0xFFFF \<and> \<not> {1..<0xFFFF} \<subseteq> item_serials p"
  using NextSerial_fresh [of p] NextSerial_full [of p] by auto

text \<open>
  \<open>PurgeExpired\<close> removes exactly the expired rentals and reports their serials, and takes every
  loadout entry and every attachment that names a removed item with them, so that what remains
  still refers to owned items only; purging again at the same moment does nothing.
\<close>

theorem PurgeExpired_correct:
  assumes "player_ok p" and "refs_ok p" and "PurgeExpired p now = (removed, q)"
  shows "p_Inventory q = filter (\<lambda>item. \<not> IsExpired item now) (p_Inventory p) \<and>
    removed = map i_Serial (filter (\<lambda>item. IsExpired item now) (p_Inventory p)) \<and>
    player_ok q \<and> refs_ok q \<and> PurgeExpired q now = ([], q)"
  using assms PurgeExpired_inventory [of p now] PurgeExpired_removed [of p now] PurgeExpired_ok [of p now]
    PurgeExpired_refs [OF assms(1,2), of now] PurgeExpired_idem [of p now]
  by simp

lemma PurgeExpired_correct_witness:
  "\<exists>q. PurgeExpired hero 5 = ([2], q) \<and> refs_ok q \<and> length (p_Inventory q) = 1"
proof -
  have ok: "player_ok hero" "refs_ok hero"
    by (simp_all add: player_ok_def refs_ok_def hero_def sample_player_def stack_of_def empty_player_def)
  have f: "filter (\<lambda>item. IsExpired item 5) (p_Inventory hero) = [(stack_of 2 9 1)\<lparr>i_ExpiresAt := 3\<rparr>]"
    "filter (\<lambda>item. \<not> IsExpired item 5) (p_Inventory hero) = [(stack_of 1 11100101 1)\<lparr>i_ItemType := SlotCharacterATC\<rparr>]"
    by (simp_all add: hero_def stack_of_def IsExpired_def IsRental_def zero_time_def)
  obtain removed q where e: "PurgeExpired hero 5 = (removed, q)" by force
  from PurgeExpired_correct [OF ok e] e f show ?thesis by (simp add: stack_of_def)
qed

section \<open>What goes wrong\<close>

text \<open>
  Two purchases that both read the account before either commits: both are charged, and only the
  item of the second is in the inventory that is stored.
\<close>

lemma lost_update:
  "let w = insert_player sample_player empty_db;
       first = p_Inventory (snd (addToInventory sample_player sample_item 7 5));
       second = p_Inventory (snd (addToInventory sample_player (sample_item\<lparr>g_ItemIndex := 8\<rparr>) 8 5))
   in \<exists>p. db_player (snd (run_commits ''a'' [(first, WalletPoint, 30), (second, WalletPoint, 30)] w)) ''a'' = Some p \<and>
        p_Point p = 40 \<and> map i_ItemIndex (p_Inventory p) = [8]"
proof -
  have l: "db_player (insert_player sample_player empty_db) ''a'' = Some sample_player"
    using sample_lookup by (simp add: sample_db_def)
  have p: "p_Point sample_player = 100" "p_Inventory sample_player = []"
    by (simp_all add: sample_player_def empty_player_def)
  show ?thesis
    by (simp add: l p mem.commit mem.look_upd Balance_def addToInventory_def itemByIndex_def new_item_def
        NextSerial_def NextSerial_loop.simps Let_def split: option.split)
qed

end
