(* ===== verification/Clan_Properties.thy ===== *)
theory Clan_Properties
  imports Clan_Service Player_Properties
begin

text \<open>
  What the clan service guarantees on the in-memory store: every operation is a transaction on one
  clan, rosters stay well-formed and within capacity, and an account that carries a clan name is on
  that clan's roster, through every sequence of clan and account operations.
\<close>

section \<open>The invariant\<close>

definition mem_clans :: "(nat \<Rightarrow> nat) \<Rightarrow> db ClanService" where
  "mem_clans lower_rune = \<lparr>cs_clans = mem_clan_repo lower_rune, cs_players = mem_player_repo\<rparr>"

lemma mem_clans_simps [simp]:
  "cs_clans (mem_clans l) = mem_clan_repo l" "cs_players (mem_clans l) = mem_player_repo"
  by (simp_all add: mem_clans_def)

definition roster :: "Clan option \<Rightarrow> string set" where
  "roster c = (case c of None \<Rightarrow> {} | Some c \<Rightarrow> cm_SteamID ` set (c_Members c))"

definition clan_inv :: "Clan \<Rightarrow> bool" where
  "clan_inv c \<longleftrightarrow> clan_ok c \<and> length (c_Members c) \<le> unat (Capacity c)"

definition world_ok :: "db \<Rightarrow> bool" where
  "world_ok w \<longleftrightarrow> db_ok w \<and> (\<forall>n c. db_clan w n = Some c \<longrightarrow> clan_inv c) \<and>
     (\<forall>k p. db_player w k = Some p \<and> p_ClanName p \<noteq> [] \<longrightarrow> k \<in> roster (db_clan w (p_ClanName p)))"

text \<open>
  What an outcome must satisfy: the clan keeps its name and invariant, accounts are only renamed to
  a clan they are now on the roster of, and whoever left the roster is renamed.
\<close>

definition fair_outcome :: "Clan \<Rightarrow> Clan option \<Rightarrow> (string \<times> string) list \<Rightarrow> bool" where
  "fair_outcome c c' names \<longleftrightarrow>
     (\<forall>d. c' = Some d \<longrightarrow> clan_inv d \<and> c_Name d = c_Name c) \<and>
     (\<forall>(k, n) \<in> set names. n = [] \<or> (n = c_Name c \<and> k \<in> roster c')) \<and>
     roster (Some c) \<subseteq> roster c' \<union> fst ` set names"

lemma rename_untouched:
  "k \<notin> fst ` set names \<Longrightarrow> rename_accounts names look k = look k"
proof (induction names arbitrary: look)
  case (Cons x names)
  then show ?case by (cases x) (simp only: rename_accounts_simps, force)
qed simp

lemma rename_touched:
  "k \<in> fst ` set names \<Longrightarrow>
    \<exists>n. (k, n) \<in> set names \<and> rename_accounts names look k = map_option (\<lambda>p. p\<lparr>p_ClanName := n\<rparr>) (look k)"
proof (induction names arbitrary: look)
  case (Cons x names)
  obtain j n where x: "x = (j, n)" by force
  let ?l = "look(j := map_option (\<lambda>p. p\<lparr>p_ClanName := n\<rparr>) (look j))"
  have again: "map_option (\<lambda>p. p\<lparr>p_ClanName := m\<rparr>) (?l k) = map_option (\<lambda>p. p\<lparr>p_ClanName := m\<rparr>) (look k)" for m
    by (simp add: option.map_comp comp_def)
  show ?case
  proof (cases "k \<in> fst ` set names")
    case True
    from Cons.IH [OF this, of ?l] show ?thesis
      unfolding again x rename_accounts_simps by (metis list.set_intros(2))
  next
    case False
    then have "k = j" using Cons.prems x by simp
    moreover have "rename_accounts (x # names) look k = ?l k"
      unfolding x rename_accounts_simps by (rule rename_untouched [OF False])
    ultimately show ?thesis unfolding x by (metis fun_upd_same list.set_intros(1))
  qed
qed simp

lemma fair_world:
  assumes w: "world_ok w" and c: "db_clan w (c_Name c) = Some c" and fair: "fair_outcome c c' names"
    and w': "db_ok w'" "db_clan w' = (db_clan w)(c_Name c := c')" "db_player w' = rename_accounts names (db_player w)"
  shows "world_ok w'"
  unfolding world_ok_def
proof (intro conjI allI impI)
  show "clan_inv d" if d: "db_clan w' n = Some d" for n d
  proof (cases "n = c_Name c")
    case True
    then have "c' = Some d" using d by (simp add: w'(2))
    with fair show ?thesis by (simp add: fair_outcome_def)
  next
    case False
    then have "db_clan w n = Some d" using d by (simp add: w'(2))
    with w show ?thesis unfolding world_ok_def by blast
  qed
  fix k p
  assume k: "db_player w' k = Some p \<and> p_ClanName p \<noteq> []"
  have names: "n = [] \<or> n = c_Name c \<and> k \<in> roster c'" if "(k, n) \<in> set names" for n
    using fair that by (auto simp: fair_outcome_def)
  show "k \<in> roster (db_clan w' (p_ClanName p))"
  proof (cases "k \<in> fst ` set names")
    case True
    from rename_touched [OF this, of "db_player w"] obtain n where
      n: "(k, n) \<in> set names" "db_player w' k = map_option (\<lambda>p. p\<lparr>p_ClanName := n\<rparr>) (db_player w k)"
      unfolding w'(3) by blast
    then have "p_ClanName p = n" using k by (cases "db_player w k") auto
    with names [OF n(1)] k show ?thesis by (simp add: w'(2))
  next
    case False
    then have "db_player w k = Some p"
      using k rename_untouched [OF False, of "db_player w"] by (simp add: w'(3))
    with w k have on: "k \<in> roster (db_clan w (p_ClanName p))" unfolding world_ok_def by blast
    show ?thesis
    proof (cases "p_ClanName p = c_Name c")
      case True
      with on c fair False have "k \<in> roster c'" by (auto simp: fair_outcome_def)
      with True show ?thesis by (simp add: w'(2))
    qed (use on in \<open>simp add: w'(2)\<close>)
  qed
qed (use w' in simp)

lemma acts_keeps:
  assumes acts: "acts_on_clan db_player db_clan db_ok m actor f"
    and fair: "\<And>c me a c' names. clan_inv c \<Longrightarrow> Clan_Member c (p_SteamID actor) = Some me \<Longrightarrow>
      f c me = Inr (a, c', names) \<Longrightarrow> fair_outcome c c' names"
  shows "keeps world_ok m"
  unfolding keeps_def
proof (intro allI impI)
  fix w assume w: "world_ok w"
  then have ok: "db_ok w" by (simp add: world_ok_def)
  note acts [unfolded acts_on_clan_def, rule_format, OF ok]
  note a = this
  show "world_ok (snd (m w))"
  proof (cases "\<exists>c me a c' names. p_ClanName actor \<noteq> [] \<and> db_clan w (p_ClanName actor) = Some c \<and>
      Clan_Member c (p_SteamID actor) = Some me \<and> f c me = Inr (a, c', names)")
    case False
    with a w show ?thesis by (auto split: if_splits option.splits sum.splits)
  next
    case True
    then obtain c me r c' names where c: "p_ClanName actor \<noteq> []" "db_clan w (p_ClanName actor) = Some c"
        "Clan_Member c (p_SteamID actor) = Some me" "f c me = Inr (r, c', names)" by blast
    have n: "c_Name c = p_ClanName actor" by (rule mem.ok_ckey [OF ok c(2)])
    obtain w' where w': "m w = (Inr r, w')" "db_ok w'" "db_clan w' = (db_clan w)(c_Name c := c')"
        "db_player w' = rename_accounts names (db_player w)"
      using a c by auto
    have "clan_inv c" using w c(2) by (auto simp: world_ok_def)
    from fair_world [OF w _ fair [OF this c(3,4)] w'(2-4)] c(2) n w'(1) show ?thesis by simp
  qed
qed

section \<open>Every outcome is fair\<close>

lemma Clan_Member_SomeD: "Clan_Member c s = Some me \<Longrightarrow> me \<in> set (c_Members c) \<and> cm_SteamID me = s"
  unfolding Clan_Member_def by (rule lookup_by_SomeD)

lemma Capacity_update [simp]:
  "Capacity (c\<lparr>c_Members := ms\<rparr>) = Capacity c" "Capacity (c\<lparr>c_Applicants := as\<rparr>) = Capacity c"
  "Capacity (c\<lparr>c_Master := m\<rparr>) = Capacity c"
  by (simp_all add: Capacity_def)

lemma roster_remove:
  "lookup_by cm_MemberID i ms = Some t \<Longrightarrow>
    cm_SteamID ` set ms \<subseteq> insert (cm_SteamID t) (cm_SteamID ` set (remove_by cm_MemberID i ms))"
  by (induction ms) (auto split: if_splits)

lemma fair_remove:
  assumes "clan_inv c" and "lookup_by cm_MemberID i (c_Members c) = Some t"
    and "\<not> is_master t \<or> length (c_Members c) = 1"
  shows "fair_outcome c (Some (c\<lparr>c_Members := remove_by cm_MemberID i (c_Members c)\<rparr>)) [(cm_SteamID t, [])]"
  using assms clan_ok_remove_member [of c i t] roster_remove [OF assms(2)]
    length_remove_by [of cm_MemberID i "c_Members c"]
  by (auto simp: fair_outcome_def clan_inv_def roster_def)

lemma fair_accept:
  assumes "clan_inv c" and "Clan_Member c s = Some me" and "accept_outcome i c me = Inr (a, c', names)"
  shows "fair_outcome c c' names"
proof -
  obtain ap where ap: "lookup_by ap_ApplicantID i (c_Applicants c) = Some ap" "\<not> IsFull c"
      "c' = Some (c\<lparr>c_Members := c_Members c @ [enrolled ap], c_Applicants := remove_by ap_ApplicantID i (c_Applicants c)\<rparr>)"
      "names = [(ap_SteamID ap, c_Name c)]"
    using assms(3) by (auto simp: accept_outcome_def reviewed_def Let_def split: if_splits option.splits)
  have "c_Members c \<noteq> []" using Clan_Member_SomeD [OF assms(2)] by auto
  with clan_ok_enrol [of c i ap "enrolled ap"] assms(1) ap
  show ?thesis
    by (auto simp: fair_outcome_def clan_inv_def roster_def enrolled_def is_master_def clan_ranks IsFull_def)
qed

lemma fair_reject:
  "clan_inv c \<Longrightarrow> reject_outcome i c me = Inr (a, c', names) \<Longrightarrow> fair_outcome c c' names"
  by (auto simp: reject_outcome_def reviewed_def Let_def fair_outcome_def clan_inv_def roster_def
      clan_ok_remove_applicant split: if_splits option.splits)

lemma fair_kick: "clan_inv c \<Longrightarrow> kick_outcome i c me = Inr (a, c', names) \<Longrightarrow> fair_outcome c c' names"
  by (auto simp: kick_outcome_def reviewed_def Let_def MemberByID_def fair_remove split: if_splits option.splits)

lemma lookup_member:
  "clan_ok c \<Longrightarrow> me \<in> set (c_Members c) \<Longrightarrow> lookup_by cm_MemberID (cm_MemberID me) (c_Members c) = Some me"
  by (simp add: clan_ok_def lookup_by_distinct)

lemma fair_leave:
  assumes "clan_inv c" and "Clan_Member c s = Some me" and "leave_outcome c me = Inr (a, c', names)"
  shows "fair_outcome c c' names"
proof -
  have me: "me \<in> set (c_Members c)" using Clan_Member_SomeD [OF assms(2)] by simp
  then have "c_Members c \<noteq> []" by auto
  moreover have "\<not> is_master me \<or> \<not> length (c_Members c) > 1"
    using assms(3) by (auto simp: leave_outcome_def)
  ultimately have "\<not> is_master me \<or> length (c_Members c) = 1"
    by (cases "c_Members c") auto
  with fair_remove [of c "cm_MemberID me" me] lookup_member me assms(1,3) show ?thesis
    by (auto simp: leave_outcome_def clan_inv_def Let_def split: if_splits)
qed

lemma other_not_master:
  assumes "clan_ok c" and "me \<in> set (c_Members c)" "is_master me" and "t \<in> set (c_Members c)" "cm_MemberID t \<noteq> cm_MemberID me"
  shows "\<not> is_master t"
proof
  assume "is_master t"
  then have "cm_SteamID t = cm_SteamID me" using assms clan_ok_master [OF assms(1)] by metis
  moreover have "inj_on cm_SteamID (set (c_Members c))" using assms(1) by (simp add: clan_ok_def distinct_map)
  ultimately have "t = me" using assms(2,4) by (metis inj_onD)
  with assms(5) show False by simp
qed

lemma fair_same_roster:
  assumes "clan_inv c" and "clan_ok d" and "cm_SteamID ` set (c_Members d) = cm_SteamID ` set (c_Members c)"
    and "length (c_Members d) = length (c_Members c)" and "Capacity d = Capacity c" and "c_Name d = c_Name c"
  shows "fair_outcome c (Some d) []"
  using assms by (simp add: fair_outcome_def clan_inv_def roster_def)

lemma fair_position:
  assumes "clan_inv c" and "Clan_Member c s = Some me" and "position_outcome i rank c me = Inr (a, c', names)"
  shows "fair_outcome c c' names"
proof -
  obtain t where t: "is_master me" "IsAssignableClanRank rank" "lookup_by cm_MemberID i (c_Members c) = Some t"
      "cm_MemberID t \<noteq> cm_MemberID me"
      "c' = Some (c\<lparr>c_Members := update_by cm_MemberID i (with_rank rank) (c_Members c)\<rparr>)" "names = []"
    using assms(3) by (auto simp: position_outcome_def MemberByID_def Let_def split: if_splits option.splits)
  have "\<not> is_master t"
    using other_not_master [of c me t] assms(1) Clan_Member_SomeD [OF assms(2)] lookup_by_SomeD [OF t(3)] t(1,4)
    by (auto simp: clan_inv_def)
  moreover have "rank \<noteq> ClanRankMaster" using t(2) by (auto simp: IsAssignableClanRank_def clan_ranks)
  ultimately have "clan_ok (c\<lparr>c_Members := update_by cm_MemberID i (with_rank rank) (c_Members c)\<rparr>)"
    using clan_ok_set_rank [OF _ t(3)] assms(1) by (simp add: clan_inv_def)
  then show ?thesis unfolding t(5,6) using assms(1) by (intro fair_same_roster) simp_all
qed

lemma fair_master:
  assumes "clan_inv c" and "Clan_Member c s = Some me" and "master_outcome i c me = Inr (a, c', names)"
  shows "fair_outcome c c' names"
proof -
  obtain t where t: "is_master me" "lookup_by cm_MemberID i (c_Members c) = Some t"
      "cm_MemberID t \<noteq> cm_MemberID me"
      "c' = Some (c\<lparr>c_Master := cm_SteamID t, c_Members := update_by cm_MemberID (cm_MemberID me) (with_rank ClanRankManager)
        (update_by cm_MemberID i (with_rank ClanRankMaster) (c_Members c))\<rparr>)" "names = []"
    using assms(3) by (auto simp: master_outcome_def MemberByID_def Let_def split: if_splits option.splits)
  have me: "lookup_by cm_MemberID (cm_MemberID me) (c_Members c) = Some me"
    using assms(1) Clan_Member_SomeD [OF assms(2)] by (simp add: clan_inv_def lookup_member)
  have "cm_MemberID me \<noteq> i" using lookup_by_SomeD [OF t(2)] t(3) by auto
  with clan_ok_new_master [OF _ me t(1,2)] assms(1) have "clan_ok (the c')" by (simp add: clan_inv_def t(4))
  then show ?thesis unfolding t(4,5) using assms(1) by (intro fair_same_roster) (simp_all add: Capacity_def)
qed

lemma fair_disband: "disband_outcome c me = Inr (a, c', names) \<Longrightarrow> fair_outcome c c' names"
  by (auto simp: disband_outcome_def fair_outcome_def roster_def image_image split: if_splits)


section \<open>Every operation keeps the invariant\<close>

lemma world_update_clan:
  assumes w: "world_ok w" and c: "db_clan w n = Some c" and d: "clan_inv (f c)"
    and "\<And>c. c_Name (f c) = c_Name c" and "roster (Some c) \<subseteq> roster (Some (f c))"
  shows "world_ok (update_clan n f w)"
proof -
  have ok: "db_ok w" using w by (simp add: world_ok_def)
  then have n: "c_Name c = n" using c by (rule mem.ok_ckey)
  show ?thesis
  proof (rule fair_world [OF w])
    show "db_clan w (c_Name c) = Some c" using c n by simp
    show "fair_outcome c (Some (f c)) []" using assms by (simp add: fair_outcome_def)
    show "db_ok (update_clan n f w)" by (rule mem.ok_cupd [OF ok]) (rule assms(4))
    show "db_clan (update_clan n f w) = (db_clan w)(c_Name c := Some (f c))"
      unfolding n by (rule mem.clook_changed [OF c])
    show "db_player (update_clan n f w) = rename_accounts [] (db_player w)"
      by (simp add: mem.frame_look)
  qed
qed

lemma world_update_player:
  assumes "world_ok w" and "\<And>p. p_SteamID (f p) = p_SteamID p" and "\<And>p. p_ClanName (f p) = p_ClanName p"
  shows "world_ok (update_player k f w)"
  using assms mem.ok_upd [of w f k]
  by (auto simp: world_ok_def mem.frame_clook mem.look_upd split: if_splits)

lemma world_insert_player:
  "world_ok w \<Longrightarrow> p_ClanName p = [] \<Longrightarrow> world_ok (insert_player p w)"
  using mem.ok_ins [of w p] by (auto simp: world_ok_def mem.frame_clook mem.look_ins split: if_splits)

lemma roster_operations_keep:
  "keeps world_ok (AcceptApplication (mem_clans l) actor i)"
  "keeps world_ok (RejectApplication (mem_clans l) actor i)"
  "keeps world_ok (KickMember (mem_clans l) actor i)"
  "keeps world_ok (Leave (mem_clans l) actor)"
  "keeps world_ok (ChangePosition (mem_clans l) actor i rank)"
  "keeps world_ok (ChangeMaster (mem_clans l) actor i)"
  "keeps world_ok (Disband (mem_clans l) actor)"
        apply (rule acts_keeps [OF mem.Accept_acts], simp, simp, erule (2) fair_accept)
       apply (rule acts_keeps [OF mem.Reject_acts], simp, erule (1) fair_reject)
      apply (rule acts_keeps [OF mem.Kick_acts], simp, simp, erule (1) fair_kick)
     apply (rule acts_keeps [OF mem.Leave_acts], simp, simp, erule (2) fair_leave)
    apply (rule acts_keeps [OF mem.Position_acts], simp, erule (2) fair_position)
   apply (rule acts_keeps [OF mem.Master_acts], simp, erule (2) fair_master)
  apply (rule acts_keeps [OF mem.Disband_acts], simp, simp, erule fair_disband)
  done

lemma founded_inv: "clan_inv (founded_clan k pn n m e now)"
  by (simp add: founded_clan_def clan_inv_def clan_ok_def is_master_def Capacity_def DefaultClanMemberCapacity_def)

lemma Create_keeps: "keeps world_ok (ClanService_Create (mem_clans l) k pn n m e now)"
  unfolding keeps_def
proof (intro allI impI)
  fix w assume w: "world_ok w"
  let ?c = "founded_clan k pn n m e now"
  let ?w = "update_player k (\<lambda>p. p\<lparr>p_ClanName := n\<rparr>) (insert_clan ?c w)"
  have c: "c_Name ?c = n" "roster (Some ?c) = {k}" by (simp_all add: founded_clan_def roster_def)
  show "world_ok (snd (ClanService_Create (mem_clans l) k pn n m e now w))"
  proof (cases "db_clan w n")
    case None
    have "db_ok ?w" using w by (intro mem.ok_upd mem.ok_cins) (simp_all add: world_ok_def)
    moreover have "clan_inv d" if "db_clan ?w j = Some d" for j d
      using that w founded_inv [of k pn n m e now] c
      by (auto simp: world_ok_def mem.frame_clook mem.clook_cins simp del: split_paired_all split: if_splits)
    moreover have "j \<in> roster (db_clan ?w (p_ClanName p))" if p: "db_player ?w j = Some p" "p_ClanName p \<noteq> []" for j p
    proof (cases "j = k")
      case True
      then have "p_ClanName p = n" using p by (auto simp: mem.look_upd mem.frame_look)
      with True c show ?thesis by (simp add: mem.frame_clook mem.clook_cins)
    next
      case False
      then have "j \<in> roster (db_clan w (p_ClanName p))"
        using p w by (auto simp: mem.look_upd mem.frame_look world_ok_def)
      then show ?thesis using None c(1) by (auto simp: mem.frame_clook mem.clook_cins roster_def)
    qed
    ultimately have "world_ok ?w" unfolding world_ok_def by blast
    with None c(1) show ?thesis
      by (simp add: ClanService_Create_def Let_def io_eval mem.ccreate mem.set_clan_name)
  next
    case (Some d)
    with w c(1) show ?thesis by (simp add: ClanService_Create_def Let_def io_eval mem.ccreate)
  qed
qed

lemma world_applicants:
  assumes "world_ok w" and "db_clan w n = Some c" and "clan_ok (c\<lparr>c_Applicants := as\<rparr>)"
  shows "world_ok (update_clan n (\<lambda>c. c\<lparr>c_Applicants := as\<rparr>) w)"
  using assms by (intro world_update_clan [OF assms(1,2)]) (auto simp: clan_inv_def roster_def world_ok_def)

lemma Join_keeps:
  assumes w: "world_ok w" and room: "\<And>c. db_clan w n = Some c \<Longrightarrow> top_roster_id c \<noteq> - 1"
  shows "world_ok (snd (RequestJoin (mem_clans l) player n now w))"
proof (cases "db_clan w n")
  case None
  with w show ?thesis by (simp add: RequestJoin_def io_eval mem.cfind)
next
  case (Some c)
  then have n: "c_Name c = n" using w by (auto simp: world_ok_def intro: mem.ok_ckey)
  have "clan_ok c" using w Some by (auto simp: world_ok_def clan_inv_def)
  moreover have "nextApplicantID c \<notin> roster_ids c"
    using roster_ids.next_fresh room [OF Some] by simp
  ultimately have "world_ok (update_clan n (\<lambda>d. d\<lparr>c_Applicants := c_Applicants c @ [new_applicant c player now]\<rparr>) w)"
    if "p_SteamID player \<notin> cm_SteamID ` set (c_Members c)" "p_SteamID player \<notin> ap_SteamID ` set (c_Applicants c)"
    using that by (intro world_applicants [OF w Some] clan_ok_add_applicant) (auto simp: new_applicant_def)
  with w Some n show ?thesis
    by (simp add: RequestJoin_def io_eval mem.cfind mem.save_applicants Let_def)
qed

lemma Cancel_keeps: "keeps world_ok (CancelApplication (mem_clans l) actor)"
  unfolding keeps_def
proof (intro allI impI)
  fix w assume w: "world_ok w"
  then have "db_ok w" by (simp add: world_ok_def)
  from mem.by_applicant [OF this, of l "p_SteamID actor"]
  obtain r where r: "cr_FindByApplicant (mem_clan_repo l) (p_SteamID actor) w = (Inr r, w)"
      "\<forall>c. r = Some c \<longrightarrow> db_clan w (c_Name c) = Some c" by blast
  show "world_ok (snd (CancelApplication (mem_clans l) actor w))"
  proof (cases r)
    case None
    with r w show ?thesis by (simp add: CancelApplication_def io_eval)
  next
    case (Some c)
    with r have c: "db_clan w (c_Name c) = Some c" by simp
    then have "clan_ok c" using w by (auto simp: world_ok_def clan_inv_def)
    from world_applicants [OF w c clan_ok_remove_applicant [OF this]] r Some show ?thesis
      by (simp add: CancelApplication_def io_eval mem.save_applicants RemoveApplicant_def Let_def)
  qed
qed

lemma Mark_keeps: "keeps world_ok (ChangeMark (mem_clans l) actor m e)"
  unfolding keeps_def
proof (intro allI impI)
  fix w assume w: "world_ok w"
  then have ok: "db_ok w" by (simp add: world_ok_def)
  show "world_ok (snd (ChangeMark (mem_clans l) actor m e w))"
  proof (cases "p_ClanName actor \<noteq> [] \<and> (\<exists>c. db_clan w (p_ClanName actor) = Some c)")
    case False
    with w show ?thesis by (auto simp: ChangeMark_def io_eval mem.actor_clan split: option.splits)
  next
    case True
    then obtain c where c: "p_ClanName actor \<noteq> []" "db_clan w (p_ClanName actor) = Some c" by blast
    have n: "c_Name c = p_ClanName actor" by (rule mem.ok_ckey [OF ok c(2)])
    obtain r where r: "cr_FindByMark (mem_clan_repo l) m (p_ClanName actor) w = (Inr r, w)"
      using mem.by_mark [OF ok, of l m "p_ClanName actor"] by blast
    have "clan_inv c" using w c by (auto simp: world_ok_def)
    then have "world_ok (update_clan (p_ClanName actor) (\<lambda>c. c\<lparr>c_Mark := m, c_MarkExtra := e\<rparr>) w)"
      by (intro world_update_clan [OF w c(2)]) (auto simp: clan_inv_def clan_ok_def Capacity_def roster_def split: if_splits)
    with w c r n show ?thesis
      by (auto simp: ChangeMark_def io_eval mem.actor_clan mem.save_mark split: option.splits)
  qed
qed

subsection \<open>Account operations\<close>

lemma Debit_ClanName [simp]: "p_ClanName (Debit p w price) = p_ClanName p" "p_SteamID (Debit p w price) = p_SteamID p"
  by (cases w; simp)+

interpretation world: account_invariant mem_player_repo world_ok
  by unfold_locales
     (auto simp: keeps_def mem.require mem.find mem.touch mem.save_loadout mem.save_attachments mem.set_name
        mem.commit mem.create intro!: world_update_player world_insert_player split: option.splits)

section \<open>Reachable worlds\<close>

text \<open>
  Any call of the clan service or of the account service, by any actor record, fresh or stale.
  Applications are made while the id counter of the clan has room (65535 wraps to 0).
\<close>

inductive world_step :: "(nat \<Rightarrow> nat) \<Rightarrow> db PlayerService \<Rightarrow> db \<Rightarrow> db \<Rightarrow> bool" for l s where
  Account: "account_step s w w' \<Longrightarrow> world_step l s w w'"
| Founding: "world_step l s w (snd (ClanService_Create (mem_clans l) k pn n m e now w))"
| Joining: "(\<forall>c. db_clan w n = Some c \<longrightarrow> top_roster_id c \<noteq> - 1) \<Longrightarrow>
    world_step l s w (snd (RequestJoin (mem_clans l) player n now w))"
| Accepting: "world_step l s w (snd (AcceptApplication (mem_clans l) actor i w))"
| Rejecting: "world_step l s w (snd (RejectApplication (mem_clans l) actor i w))"
| Cancelling: "world_step l s w (snd (CancelApplication (mem_clans l) actor w))"
| Kicking: "world_step l s w (snd (KickMember (mem_clans l) actor i w))"
| Leaving: "world_step l s w (snd (Leave (mem_clans l) actor w))"
| Promoting: "world_step l s w (snd (ChangePosition (mem_clans l) actor i rank w))"
| Handing_over: "world_step l s w (snd (ChangeMaster (mem_clans l) actor i w))"
| Disbanding: "world_step l s w (snd (Disband (mem_clans l) actor w))"
| Marking: "world_step l s w (snd (ChangeMark (mem_clans l) actor m e w))"

inductive reachable_world :: "(nat \<Rightarrow> nat) \<Rightarrow> db PlayerService \<Rightarrow> db \<Rightarrow> bool" for l s where
  start: "reachable_world l s empty_db"
| step: "reachable_world l s w \<Longrightarrow> world_step l s w w' \<Longrightarrow> reachable_world l s w'"

inductive_cases world_stepE [consumes 1, case_names Account Founding Joining Accepting Rejecting Cancelling Kicking
  Leaving Promoting Handing_over Disbanding Marking]: "world_step l s w w'"

lemma account_step_world:
  "ps_players s = mem_player_repo \<Longrightarrow> account_step s w w' \<Longrightarrow> world_ok w \<Longrightarrow> world_ok w'"
  by (erule (1) world.account_step_keeps)

lemma world_step_ok:
  assumes s: "ps_players s = mem_player_repo" and step: "world_step l s w w'" and w: "world_ok w"
  shows "world_ok w'"
proof -
  note keep = roster_operations_keep [of l] Create_keeps [of l] Cancel_keeps [of l] Mark_keeps [of l]
  from step show ?thesis
  proof (cases rule: world_stepE)
    case Account
    then show ?thesis using account_step_world [OF s] w by blast
  next
    case (Joining n player now)
    then show ?thesis using Join_keeps [OF w] by blast
  qed (use w keep in \<open>simp_all add: keeps_def\<close>)
qed

lemma empty_clans [simp]: "db_clan empty_db n = None" "db_player empty_db k = None"
  by (simp_all add: empty_db_def db_clan_def db_player_def)

lemma empty_world: "world_ok empty_db"
  by (simp add: world_ok_def db_ok_def filed_def empty_db_def db_clan_def db_player_def)

section \<open>Reading a transaction off its result\<close>

lemma acts_refused:
  assumes "acts_on_clan look clook ok m actor f" and "ok w" and "m w = (Inl e, w')"
  shows "w' = w"
proof (rule ccontr)
  assume no: "w' \<noteq> w"
  note a = assms(1) [unfolded acts_on_clan_def, rule_format, OF assms(2)] assms(3)
  obtain c me where c: "p_ClanName actor \<noteq> []" "clook w (p_ClanName actor) = Some c" "Clan_Member c (p_SteamID actor) = Some me"
    using a no by (auto split: if_splits option.splits)
  show False using a c no by (cases "f c me") auto
qed

lemma acts_done:
  assumes "acts_on_clan look clook ok m actor f" and "ok w" and "m w = (Inr a, w')"
  obtains c me c' names where "clook w (p_ClanName actor) = Some c" and "Clan_Member c (p_SteamID actor) = Some me"
    and "f c me = Inr (a, c', names)" and "clook w' = (clook w)(c_Name c := c')" and "look w' = rename_accounts names (look w)"
proof -
  note a = assms(1) [unfolded acts_on_clan_def, rule_format, OF assms(2)] assms(3)
  obtain c where c: "p_ClanName actor \<noteq> []" "clook w (p_ClanName actor) = Some c"
    using a by (auto split: if_splits option.splits)
  obtain me where me: "Clan_Member c (p_SteamID actor) = Some me"
    using a c by (auto split: option.splits)
  obtain b c' names where f: "f c me = Inr (b, c', names)"
    using a c me by (cases "f c me") auto
  show thesis by (rule that [OF c(2) me, of c' names]) (use a c me f in auto)
qed

lemmas mem_acts = mem.Accept_acts mem.Reject_acts mem.Kick_acts mem.Leave_acts mem.Position_acts
  mem.Master_acts mem.Disband_acts

section \<open>Properties\<close>

text \<open>
  C7. In every store reached by clan and account calls from the empty one: each clan's roster holds
  every account once, member and applicant ids identify their entries, no applicant is a member, the
  roster fits the capacity, and a clan with members has exactly one master, the account the clan
  names. An account that carries a clan name is on the roster of that clan.
\<close>

theorem reachable_clans_ok:
  assumes "reachable_world l (mem_service c pt cs) w"
  shows "(\<forall>n d. db_clan w n = Some d \<longrightarrow>
      clan_ok d \<and> length (c_Members d) \<le> unat (Capacity d) \<and> c_Name d = n) \<and>
    (\<forall>k p. db_player w k = Some p \<and> p_ClanName p \<noteq> [] \<longrightarrow>
      (\<exists>d. db_clan w (p_ClanName p) = Some d \<and> k \<in> cm_SteamID ` set (c_Members d)))"
proof -
  have w: "world_ok w" using assms
  proof (induction rule: reachable_world.induct)
    case (step w w')
    then show ?case using world_step_ok [of "mem_service c pt cs"] by simp
  qed (rule empty_world)
  then have "db_ok w" by (simp add: world_ok_def)
  then have "db_clan w n = Some d \<Longrightarrow> c_Name d = n" for n d by (rule mem.ok_ckey)
  with w show ?thesis
    unfolding world_ok_def clan_inv_def roster_def by (fastforce split: option.splits)
qed

definition master_actor :: Player where
  "master_actor = empty_player\<lparr>p_SteamID := ''a'', p_Name := ''A'', p_ClanName := ''K'', p_Level := 1\<rparr>"

lemma reachable_clans_ok_witness:
  "\<exists>w d. reachable_world id (mem_service sample_catalog 100 0) w \<and> db_clan w ''K'' = Some d \<and>
     clan_ok d \<and> c_Members d \<noteq> [] \<and> length (c_Members d) \<le> unat (Capacity d)"
proof -
  let ?s = "mem_service sample_catalog 100 0"
  let ?w = "snd (ClanService_Create (mem_clans id) ''a'' ''A'' ''K'' (1, 2, 3) 0 5 empty_db)"
  have r: "reachable_world id ?s ?w"
    by (rule reachable_world.step [OF reachable_world.start world_step.Founding])
  have d: "db_clan ?w ''K'' = Some (founded_clan ''a'' ''A'' ''K'' (1, 2, 3) 0 5)"
    by (simp add: ClanService_Create_def Let_def io_eval mem.ccreate mem.set_clan_name mem.frame_clook
        mem.clook_cins founded_clan_def empty_clans)
  have "c_Members (founded_clan ''a'' ''A'' ''K'' (1, 2, 3) 0 5) \<noteq> []" by (simp add: founded_clan_def)
  with reachable_clans_ok [OF r] r d show ?thesis by blast
qed

text \<open>
  C22. A member is only removed by the master or a manager of the clan, never the master, never the
  remover, and never a manager by a manager. The removed account leaves the roster, every other
  member and all applications stay as they are, the account loses its clan name, and no other
  account or clan changes.
\<close>

theorem KickMember_correct:
  assumes "db_ok w" and "KickMember (mem_clans l) actor i w = (Inr (d, target), w')"
  shows "\<exists>c me. db_clan w (p_ClanName actor) = Some c \<and> Clan_Member c (p_SteamID actor) = Some me \<and>
    MemberByID c i = Some target \<and> CanReviewClanApplications (cm_Rank me) \<and>
    cm_Rank target \<noteq> ClanRankMaster \<and> cm_MemberID target \<noteq> cm_MemberID me \<and>
    \<not> (cm_Rank me = ClanRankManager \<and> cm_Rank target = ClanRankManager) \<and>
    d = c\<lparr>c_Members := remove_by cm_MemberID i (c_Members c)\<rparr> \<and>
    db_clan w' = (db_clan w)(p_ClanName actor \<mapsto> d) \<and>
    db_player w' = (db_player w)(cm_SteamID target :=
      map_option (\<lambda>p. p\<lparr>p_ClanName := []\<rparr>) (db_player w (cm_SteamID target)))"
proof -
  have acts: "acts_on_clan db_player db_clan db_ok (KickMember (mem_clans l) actor i) actor (kick_outcome i)"
    by (intro mem_acts) simp_all
  from acts_done [OF acts assms] obtain c me c' names where c:
      "db_clan w (p_ClanName actor) = Some c" "Clan_Member c (p_SteamID actor) = Some me"
      "kick_outcome i c me = Inr ((d, target), c', names)"
      "db_clan w' = (db_clan w)(c_Name c := c')" "db_player w' = rename_accounts names (db_player w)" .
  have "c_Name c = p_ClanName actor" by (rule mem.ok_ckey [OF assms(1) c(1)])
  with c show ?thesis
    by (auto simp: kick_outcome_def reviewed_def is_master_def Let_def split: if_splits option.splits)
qed

definition sample_clan :: Clan where
  "sample_clan = (founded_clan ''a'' ''A'' ''K'' (1, 2, 3) 0 5)\<lparr>
     c_Members := [\<lparr>cm_MemberID = 1, cm_SteamID = ''a'', cm_Name = ''A'', cm_Rank = ClanRankMaster, cm_Records = no_clan_record\<rparr>,
       \<lparr>cm_MemberID = 2, cm_SteamID = ''b'', cm_Name = ''B'', cm_Rank = ClanRankMember, cm_Records = no_clan_record\<rparr>],
     c_Applicants := [\<lparr>ap_ApplicantID = 3, ap_SteamID = ''c'', ap_Name = ''C'', ap_Level = 1, ap_Message = [], ap_AppliedAt = 5\<rparr>]\<rparr>"

definition sample_clans :: db where
  "sample_clans = insert_clan sample_clan (insert_player master_actor empty_db)"

lemma sample_clans_ok: "db_ok sample_clans" "world_ok sample_clans"
proof -
  show ok: "db_ok sample_clans"
    unfolding sample_clans_def by (intro mem.ok_cins mem.ok_ins) (rule empty_world [unfolded world_ok_def, THEN conjunct1])
  show "world_ok sample_clans"
    unfolding world_ok_def using ok
    by (auto simp: sample_clans_def mem.frame_clook mem.frame_look mem.clook_cins mem.look_ins roster_def clan_inv_def
        clan_ok_def sample_clan_def founded_clan_def master_actor_def is_master_def clan_ranks Capacity_def
        DefaultClanMemberCapacity_def split: if_splits)
qed

lemma sample_clan_found: "db_clan sample_clans (p_ClanName master_actor) = Some sample_clan"
  "Clan_Member sample_clan (p_SteamID master_actor) = Some (hd (c_Members sample_clan))"
  by (simp_all add: sample_clans_def mem.clook_cins master_actor_def sample_clan_def founded_clan_def Clan_Member_def)

lemma acts_run:
  assumes "acts_on_clan db_player db_clan db_ok m master_actor f"
    and "f sample_clan (hd (c_Members sample_clan)) = Inr (a, c', names)"
  obtains w' where "m sample_clans = (Inr a, w')"
  using assms(1) [unfolded acts_on_clan_def, rule_format, OF sample_clans_ok(1)] assms(2) sample_clan_found that
  by (auto simp: master_actor_def)

lemmas sample_clan_eval = reviewed_def MemberByID_def CanReviewClanApplications_def clan_ranks sample_clan_def
  founded_clan_def is_master_def IsFull_def Capacity_def DefaultClanMemberCapacity_def IsAssignableClanRank_def Let_def

lemma KickMember_correct_witness:
  "\<exists>d target w'. KickMember (mem_clans id) master_actor 2 sample_clans = (Inr (d, target), w') \<and>
     cm_SteamID target = ''b'' \<and> db_clan w' ''K'' = Some d \<and> cm_SteamID ` set (c_Members d) = {''a''}"
proof -
  have acts: "acts_on_clan db_player db_clan db_ok (KickMember (mem_clans id) master_actor 2) master_actor (kick_outcome 2)"
    by (intro mem_acts) simp_all
  obtain d t c' names where f: "kick_outcome 2 sample_clan (hd (c_Members sample_clan)) = Inr ((d, t), c', names)"
    by (simp add: kick_outcome_def sample_clan_eval)
  obtain w' where w': "KickMember (mem_clans id) master_actor 2 sample_clans = (Inr (d, t), w')"
    using acts_run [OF acts f] .
  with KickMember_correct [OF sample_clans_ok(1) w'] sample_clan_found show ?thesis
    by (auto simp: sample_clan_eval master_actor_def)
qed

text \<open>
  C36. Accepting an application needs a master or manager of the clan and a free seat. The applicant
  becomes an ordinary member under the id of the application, the application is gone, the rest of
  the roster and of the queue is unchanged, and the account is given the name of the clan.
\<close>

theorem AcceptApplication_correct:
  assumes "db_ok w" and "AcceptApplication (mem_clans l) actor i w = (Inr (d, member), w')"
  shows "\<exists>c me ap. db_clan w (p_ClanName actor) = Some c \<and> Clan_Member c (p_SteamID actor) = Some me \<and>
    CanReviewClanApplications (cm_Rank me) \<and> Clan_Applicant c i = Some ap \<and>
    length (c_Members c) < unat (Capacity c) \<and>
    member = \<lparr>cm_MemberID = i, cm_SteamID = ap_SteamID ap, cm_Name = ap_Name ap, cm_Rank = ClanRankMember,
      cm_Records = no_clan_record\<rparr> \<and>
    d = c\<lparr>c_Members := c_Members c @ [member], c_Applicants := remove_by ap_ApplicantID i (c_Applicants c)\<rparr> \<and>
    db_clan w' = (db_clan w)(p_ClanName actor \<mapsto> d) \<and>
    db_player w' = (db_player w)(ap_SteamID ap :=
      map_option (\<lambda>p. p\<lparr>p_ClanName := p_ClanName actor\<rparr>) (db_player w (ap_SteamID ap)))"
proof -
  have acts: "acts_on_clan db_player db_clan db_ok (AcceptApplication (mem_clans l) actor i) actor (accept_outcome i)"
    by (intro mem_acts) simp_all
  from acts_done [OF acts assms] obtain c me c' names where c:
      "db_clan w (p_ClanName actor) = Some c" "Clan_Member c (p_SteamID actor) = Some me"
      "accept_outcome i c me = Inr ((d, member), c', names)"
      "db_clan w' = (db_clan w)(c_Name c := c')" "db_player w' = rename_accounts names (db_player w)" .
  have "c_Name c = p_ClanName actor" by (rule mem.ok_ckey [OF assms(1) c(1)])
  with c show ?thesis
    by (auto simp: accept_outcome_def reviewed_def Clan_Applicant_def IsFull_def enrolled_def Let_def
        split: if_splits option.splits dest: lookup_by_SomeD)
qed

lemma AcceptApplication_correct_witness:
  "\<exists>d member w'. AcceptApplication (mem_clans id) master_actor 3 sample_clans = (Inr (d, member), w') \<and>
     db_clan w' ''K'' = Some d \<and> cm_SteamID member = ''c'' \<and> cm_SteamID ` set (c_Members d) = {''a'', ''b'', ''c''}"
proof -
  have acts: "acts_on_clan db_player db_clan db_ok (AcceptApplication (mem_clans id) master_actor 3) master_actor (accept_outcome 3)"
    by (intro mem_acts) simp_all
  obtain d t c' names where f: "accept_outcome 3 sample_clan (hd (c_Members sample_clan)) = Inr ((d, t), c', names)"
    by (simp add: accept_outcome_def sample_clan_eval)
  obtain w' where w': "AcceptApplication (mem_clans id) master_actor 3 sample_clans = (Inr (d, t), w')"
    using acts_run [OF acts f] .
  with AcceptApplication_correct [OF sample_clans_ok(1) w'] sample_clan_found show ?thesis
    by (auto simp: sample_clan_eval master_actor_def Clan_Applicant_def)
qed

text \<open>
  C37. Only the master hands the clan over, and only to another member. Afterwards the clan names the
  new master, exactly this member holds the master rank, the former master is a manager, every
  other member keeps the rank it had, and no account changes.
\<close>

theorem ChangeMaster_correct:
  assumes "world_ok w" and "ChangeMaster (mem_clans l) actor i w = (Inr (d, new, old), w')"
  shows "\<exists>c me. db_clan w (p_ClanName actor) = Some c \<and> Clan_Member c (p_SteamID actor) = Some me \<and>
    cm_Rank me = ClanRankMaster \<and> old = me\<lparr>cm_Rank := ClanRankManager\<rparr> \<and> cm_MemberID new = i \<and> i \<noteq> cm_MemberID me \<and>
    c_Master d = cm_SteamID new \<and> filter is_master (c_Members d) = [new] \<and> old \<in> set (c_Members d) \<and>
    filter (\<lambda>m. cm_MemberID m \<notin> {i, cm_MemberID me}) (c_Members d) =
      filter (\<lambda>m. cm_MemberID m \<notin> {i, cm_MemberID me}) (c_Members c) \<and>
    db_clan w' = (db_clan w)(p_ClanName actor \<mapsto> d) \<and> db_player w' = db_player w"
proof -
  have ok: "db_ok w" using assms(1) by (simp add: world_ok_def)
  have acts: "acts_on_clan db_player db_clan db_ok (ChangeMaster (mem_clans l) actor i) actor (master_outcome i)"
    by (intro mem_acts) simp_all
  from acts_done [OF acts ok assms(2)] obtain c me c' names where c:
      "db_clan w (p_ClanName actor) = Some c" "Clan_Member c (p_SteamID actor) = Some me"
      "master_outcome i c me = Inr ((d, new, old), c', names)"
      "db_clan w' = (db_clan w)(c_Name c := c')" "db_player w' = rename_accounts names (db_player w)" .
  have n: "c_Name c = p_ClanName actor" by (rule mem.ok_ckey [OF ok c(1)])
  have inv: "clan_ok c" using assms(1) c(1) by (auto simp: world_ok_def clan_inv_def)
  then have dist: "distinct (map cm_MemberID (c_Members c))" by (simp add: clan_ok_def)
  have me: "me \<in> set (c_Members c)" "lookup_by cm_MemberID (cm_MemberID me) (c_Members c) = Some me"
    using Clan_Member_SomeD [OF c(2)] lookup_member [OF inv] by auto
  obtain t where t: "is_master me" "lookup_by cm_MemberID i (c_Members c) = Some t" "cm_MemberID t \<noteq> cm_MemberID me"
      "new = with_rank ClanRankMaster t" "old = with_rank ClanRankManager me" "c' = Some d" "names = []"
      "d = c\<lparr>c_Master := cm_SteamID t, c_Members := update_by cm_MemberID (cm_MemberID me) (with_rank ClanRankManager)
        (update_by cm_MemberID i (with_rank ClanRankMaster) (c_Members c))\<rparr>"
  proof (cases "lookup_by cm_MemberID i (c_Members c)")
    case None
    with c(3) show thesis by (simp add: master_outcome_def MemberByID_def split: if_splits)
  next
    case (Some t)
    with c(3) show thesis
      by (intro that [of t]) (simp_all add: master_outcome_def MemberByID_def Let_def split: if_splits, metis)
  qed
  have ti: "cm_MemberID t = i" "cm_MemberID me \<noteq> i" using lookup_by_SomeD [OF t(2)] t(3) by auto
  have "filter is_master (c_Members d) = [new]"
    using new_master_filter [OF inv me(2) t(1,2) ti(2)] t(4,8) by simp
  moreover have d: "c_Members d = map (\<lambda>m. if cm_MemberID m = cm_MemberID me then with_rank ClanRankManager m
      else if cm_MemberID m = i then with_rank ClanRankMaster m else m) (c_Members c)"
    unfolding t(8) by (subst new_master_roster [OF dist ti(2)]) simp
  have "old \<in> set (c_Members d)"
    unfolding d set_map by (rule image_eqI [OF _ me(1)]) (simp add: t(5))
  moreover have "filter (\<lambda>m. cm_MemberID m \<notin> {a, b}) (map (\<lambda>m. if cm_MemberID m = b then with_rank r m
      else if cm_MemberID m = a then with_rank s m else m) ms) = filter (\<lambda>m. cm_MemberID m \<notin> {a, b}) ms" for a b r s ms
    by (induction ms) auto
  then have "filter (\<lambda>m. cm_MemberID m \<notin> {i, cm_MemberID me}) (c_Members d) =
      filter (\<lambda>m. cm_MemberID m \<notin> {i, cm_MemberID me}) (c_Members c)" unfolding d by simp
  moreover have "c_Master d = cm_SteamID new" "cm_MemberID new = i" using t ti by simp_all
  ultimately show ?thesis
    using c(1,2,4,5) t(1,5,6,7) ti(2) n by (intro exI [of _ c] exI [of _ me]) (simp add: is_master_def)
qed

lemma ChangeMaster_correct_witness:
  "\<exists>d new old w'. ChangeMaster (mem_clans id) master_actor 2 sample_clans = (Inr (d, new, old), w') \<and>
     db_clan w' ''K'' = Some d \<and> filter is_master (c_Members d) = [new] \<and> c_Master d = cm_SteamID new \<and> cm_MemberID new = 2"
proof -
  have acts: "acts_on_clan db_player db_clan db_ok (ChangeMaster (mem_clans id) master_actor 2) master_actor (master_outcome 2)"
    by (intro mem_acts) simp_all
  obtain d new old c' names where f: "master_outcome 2 sample_clan (hd (c_Members sample_clan)) = Inr ((d, new, old), c', names)"
    by (simp add: master_outcome_def sample_clan_eval)
  obtain w' where w': "ChangeMaster (mem_clans id) master_actor 2 sample_clans = (Inr (d, new, old), w')"
    using acts_run [OF acts f] .
  from ChangeMaster_correct [OF sample_clans_ok(2) w'] have "db_clan w' ''K'' = Some d \<and> c_Master d = cm_SteamID new \<and>
      cm_MemberID new = 2 \<and> filter is_master (c_Members d) = [new]"
    by (auto simp: master_actor_def)
  with w' show ?thesis by blast
qed

text \<open>
  C23. Only the master disbands a clan. The clan is deleted and no other clan changes; every account on
  its roster loses its clan name and every other account stays as it is, so that afterwards no
  account carries the name of the clan that is gone.
\<close>

theorem Disband_correct:
  assumes "world_ok w" and "Disband (mem_clans l) actor w = (Inr c, w')"
  shows "\<exists>me. db_clan w (p_ClanName actor) = Some c \<and> Clan_Member c (p_SteamID actor) = Some me \<and> cm_Rank me = ClanRankMaster \<and>
    db_clan w' = (db_clan w)(p_ClanName actor := None) \<and>
    (\<forall>k. db_player w' k = (if k \<in> cm_SteamID ` set (c_Members c)
       then map_option (\<lambda>p. p\<lparr>p_ClanName := []\<rparr>) (db_player w k) else db_player w k)) \<and>
    (\<forall>k p. db_player w' k = Some p \<longrightarrow> p_ClanName p \<noteq> p_ClanName actor)"
proof -
  have ok: "db_ok w" using assms(1) by (simp add: world_ok_def)
  have acts: "acts_on_clan db_player db_clan db_ok (Disband (mem_clans l) actor) actor disband_outcome"
    by (intro mem_acts) simp_all
  from acts_done [OF acts ok assms(2)] obtain c0 me c' names where c:
      "db_clan w (p_ClanName actor) = Some c0" "Clan_Member c0 (p_SteamID actor) = Some me"
      "disband_outcome c0 me = Inr (c, c', names)"
      "db_clan w' = (db_clan w)(c_Name c0 := c')" "db_player w' = rename_accounts names (db_player w)" .
  have n: "c_Name c0 = p_ClanName actor" by (rule mem.ok_ckey [OF ok c(1)])
  have out: "c0 = c" "c' = None" "names = map (\<lambda>m. (cm_SteamID m, [])) (c_Members c)" "is_master me"
    using c(3) by (auto simp: disband_outcome_def split: if_splits)
  have names: "fst ` set names = cm_SteamID ` set (c_Members c)" "(k, x) \<in> set names \<Longrightarrow> x = []" for k x
    by (auto simp: out(3) image_image)
  have players: "db_player w' k = (if k \<in> cm_SteamID ` set (c_Members c)
       then map_option (\<lambda>p. p\<lparr>p_ClanName := []\<rparr>) (db_player w k) else db_player w k)" for k
    unfolding c(5) using rename_touched [of k names "db_player w"] rename_untouched [of k names "db_player w"] names by auto
  have some: "p_ClanName actor \<noteq> []"
  proof
    assume "p_ClanName actor = []"
    then have "Disband (mem_clans l) actor w = (Inl ErrNotInClan, w)"
      using acts [unfolded acts_on_clan_def, rule_format, OF ok] by simp
    then show False using assms(2) by simp
  qed
  have "p_ClanName p \<noteq> p_ClanName actor" if k: "db_player w' k = Some p" for k p
  proof
    assume name: "p_ClanName p = p_ClanName actor"
    then have "k \<notin> cm_SteamID ` set (c_Members c)" and "db_player w k = Some p"
      using k some players [of k] by (auto split: if_splits)
    then have "k \<in> roster (db_clan w (p_ClanName actor))" using assms(1) name some unfolding world_ok_def by metis
    then show False using \<open>k \<notin> _\<close> c(1) out(1) by (simp add: roster_def)
  qed
  then show ?thesis using c(1,2,4) n out players by (auto simp: is_master_def)
qed

lemma Disband_correct_witness:
  "\<exists>c w'. Disband (mem_clans id) master_actor sample_clans = (Inr c, w') \<and> db_clan w' ''K'' = None \<and>
     map_option p_ClanName (db_player w' ''a'') = Some []"
proof -
  have acts: "acts_on_clan db_player db_clan db_ok (Disband (mem_clans id) master_actor) master_actor disband_outcome"
    by (intro mem_acts) simp_all
  obtain c c' names where f: "disband_outcome sample_clan (hd (c_Members sample_clan)) = Inr (c, c', names)"
    by (simp add: disband_outcome_def sample_clan_eval)
  obtain w' where w': "Disband (mem_clans id) master_actor sample_clans = (Inr c, w')"
    using acts_run [OF acts f] .
  have "db_player sample_clans ''a'' = Some master_actor"
    by (simp add: sample_clans_def mem.frame_look mem.look_ins master_actor_def)
  with Disband_correct [OF sample_clans_ok(2) w'] w' sample_clan_found show ?thesis
    by (auto simp: sample_clan_eval master_actor_def)
qed

section \<open>What the invariant does not give\<close>

text \<open>
  An account can apply to two clans while it is in neither: only the queue of the clan it applies to
  is searched. When both accept, it is on both rosters and carries the name of the second.
\<close>

definition two_clans_run :: db where
  "two_clans_run =
     (let s = mem_clans id; p = empty_player\<lparr>p_SteamID := ''x''\<rparr>;
          a = empty_player\<lparr>p_SteamID := ''a'', p_ClanName := ''K''\<rparr>; b = empty_player\<lparr>p_SteamID := ''b'', p_ClanName := ''L''\<rparr>
      in snd (AcceptApplication s b 2 (snd (AcceptApplication s a 2 (snd (RequestJoin s p ''L'' 0 (snd (RequestJoin s p ''K'' 0
        (snd (ClanService_Create s ''b'' [] ''L'' (2, 0, 0) 0 0 (snd (ClanService_Create s ''a'' [] ''K'' (1, 0, 0) 0 0 empty_db))))))))))))"

lemma member_of_two_clans:
  "map (\<lambda>(n, c). (n, map cm_SteamID (c_Members c))) (db_clans two_clans_run) = [(''K'', [''a'', ''x'']), (''L'', [''b'', ''x''])]"
  by code_simp

text \<open>
  Two reviewers who accept different applications at the same time: the second read the clan
  before the first wrote it. (\<open>clans_as_of\<close> is the clan service whose reads of the clan are those of an
  earlier moment; its writes go to the store as it is.) The first applicant carries the name of
  the clan and is not on its roster.
\<close>

definition clans_as_of :: "db \<Rightarrow> db ClanService \<Rightarrow> db ClanService" where
  "clans_as_of earlier s = s\<lparr>cs_clans := (cs_clans s)\<lparr>cr_Find := \<lambda>name w. (fst (cr_Find (cs_clans s) name earlier), w)\<rparr>\<rparr>"

definition enrolment_race :: db where
  "enrolment_race =
     (let s = mem_clans id; x = empty_player\<lparr>p_SteamID := ''x''\<rparr>; y = empty_player\<lparr>p_SteamID := ''y''\<rparr>;
          a = empty_player\<lparr>p_SteamID := ''a'', p_ClanName := ''K''\<rparr>;
          w = snd (RequestJoin s y ''K'' 0 (snd (RequestJoin s x ''K'' 0
            (snd (ClanService_Create s ''a'' [] ''K'' (1, 0, 0) 0 0 (insert_player x (insert_player y empty_db)))))))
      in snd (AcceptApplication (clans_as_of w s) a 3 (snd (AcceptApplication s a 2 w))))"

lemma lost_enrolment:
  "map (\<lambda>(n, c). (n, map cm_SteamID (c_Members c))) (db_clans enrolment_race) = [(''K'', [''a'', ''y''])]"
  "map (\<lambda>(k, p). (k, p_ClanName p)) (db_players enrolment_race) = [(''y'', ''K''), (''x'', ''K'')]"
  by code_simp+

text \<open>The last member of a clan is its master, who may leave: the clan stays, with an empty roster.\<close>

lemma master_leaves_empty_clan:
  "\<exists>c. db_clan (snd (Leave (mem_clans id) master_actor
      (snd (ClanService_Create (mem_clans id) ''a'' ''A'' ''K'' (1, 2, 3) 0 5 empty_db)))) ''K'' = Some c \<and> c_Members c = []"
proof -
  have "map (\<lambda>(n, c). (n, c_Members c)) (db_clans (snd (Leave (mem_clans id) master_actor
      (snd (ClanService_Create (mem_clans id) ''a'' ''A'' ''K'' (1, 2, 3) 0 5 empty_db))))) = [(''K'', [])]"
    by code_simp
  then show ?thesis by (auto simp: db_clan_def)
qed

end
