(* ===== verification/Friend_Properties.thy ===== *)
theory Friend_Properties
  imports Friend_Service Clan_Properties
begin

text \<open>
  What the friend service guarantees on the in-memory store: friendship stays symmetric and every
  list well-formed through every sequence of friend, clan and account calls, an invitation to a
  friend on the list always resolves, and the effect of each answer on the two accounts involved.
\<close>

section \<open>Well-formed lists\<close>

definition mem_friends :: "db FriendService" where
  "mem_friends = \<lparr>fs_players = mem_player_repo\<rparr>"

lemma mem_friends_simps [simp]: "fs_players mem_friends = mem_player_repo"
  by (simp add: mem_friends_def)

definition contacts :: "Player \<Rightarrow> string set" where
  "contacts p = f_SteamID ` set (p_Friends p) \<union> q_SteamID ` set (p_FriendRequests p)"

text \<open>
  Friends and requests of a list share one id space without 0, nobody is on his own list, and a
  sender has at most one pending request.
\<close>

definition list_ok :: "string \<Rightarrow> Player \<Rightarrow> bool" where
  "list_ok a p \<longleftrightarrow>
     distinct (map f_FriendID (p_Friends p) @ map q_RequestID (p_FriendRequests p)) \<and> 0 \<notin> social_ids p \<and>
     distinct (map q_SteamID (p_FriendRequests p)) \<and> a \<notin> contacts p"

definition friends_ok :: "(string \<Rightarrow> Player option) \<Rightarrow> bool" where
  "friends_ok look \<longleftrightarrow>
     (\<forall>a p. look a = Some p \<longrightarrow> list_ok a p \<and> contacts p \<subseteq> dom look) \<and>
     (\<forall>a p b q. look a = Some p \<longrightarrow> look b = Some q \<longrightarrow>
        count_by f_SteamID b (p_Friends p) = count_by f_SteamID a (p_Friends q))"

lemma list_ok_cong:
  "p_Friends p = p_Friends q \<Longrightarrow> p_FriendRequests p = p_FriendRequests q \<Longrightarrow> list_ok a p = list_ok a q"
  "p_Friends p = p_Friends q \<Longrightarrow> p_FriendRequests p = p_FriendRequests q \<Longrightarrow> contacts p = contacts q"
  by (simp_all add: list_ok_def contacts_def social_ids_def)

lemma next_social:
  assumes "top_social_id p \<noteq> - 1"
  shows "NextSocialID p \<notin> f_FriendID ` set (p_Friends p)" "NextSocialID p \<notin> q_RequestID ` set (p_FriendRequests p)"
    "NextSocialID p \<noteq> 0"
  using social_ids.next_fresh [OF assms] social_ids.next_nonzero [OF assms] by (auto simp: social_ids_def)

lemma list_ok_request:
  assumes "list_ok a p" and "b \<noteq> a" and "FriendRequestFrom p b = None" and "top_social_id p \<noteq> - 1"
  shows "list_ok a (p\<lparr>p_FriendRequests := p_FriendRequests p @ [\<lparr>q_RequestID = NextSocialID p, q_SteamID = b, q_SentAt = now\<rparr>]\<rparr>)"
  using assms(1-3) next_social [OF assms(4)]
  by (auto simp: list_ok_def contacts_def social_ids_def FriendRequestFrom_def keyed)

lemma list_ok_friend:
  assumes "list_ok a p" and "b \<noteq> a" and "top_social_id p \<noteq> - 1"
  shows "list_ok a (p\<lparr>p_Friends := p_Friends p @ [\<lparr>f_FriendID = NextSocialID p, f_SteamID = b, f_Since = now\<rparr>]\<rparr>)"
  using assms(1,2) next_social [OF assms(3)]
  by (auto simp: list_ok_def contacts_def social_ids_def)

lemma RemoveFriendRequest_Some:
  "RemoveFriendRequest p i = Some (q, p') \<longleftrightarrow> lookup_by q_RequestID i (p_FriendRequests p) = Some q \<and>
    p' = p\<lparr>p_FriendRequests := remove_by q_RequestID i (p_FriendRequests p)\<rparr>"
  by (auto simp: RemoveFriendRequest_def)

lemma RemoveFriend_Some:
  "RemoveFriend p i = Some (f, p') \<longleftrightarrow> lookup_by f_FriendID i (p_Friends p) = Some f \<and>
    p' = p\<lparr>p_Friends := remove_by f_FriendID i (p_Friends p)\<rparr>"
  by (auto simp: RemoveFriend_def)

lemma RemoveFriendOf_Some:
  "RemoveFriendOf p k = Some (f, p') \<longleftrightarrow> lookup_by f_SteamID k (p_Friends p) = Some f \<and>
    p' = p\<lparr>p_Friends := remove_by f_SteamID k (p_Friends p)\<rparr>"
  by (auto simp: RemoveFriendOf_def)

lemma list_ok_sub:
  assumes ok: "list_ok a p" and F: "set (p_Friends p') \<subseteq> set (p_Friends p)" and R: "set (p_FriendRequests p') \<subseteq> set (p_FriendRequests p)"
    and d: "distinct (map f_FriendID (p_Friends p'))" "distinct (map q_RequestID (p_FriendRequests p'))"
      "distinct (map q_SteamID (p_FriendRequests p'))"
  shows "list_ok a p'" and "contacts p' \<subseteq> contacts p"
proof -
  note sub = image_mono [OF F, of f_FriendID] image_mono [OF F, of f_SteamID] image_mono [OF R, of q_RequestID] image_mono [OF R, of q_SteamID]
  show "contacts p' \<subseteq> contacts p" unfolding contacts_def by (intro Un_mono sub)
  moreover have "social_ids p' \<subseteq> social_ids p" unfolding social_ids_def by (intro Un_mono sub)
  moreover have "f_FriendID ` set (p_Friends p) \<inter> q_RequestID ` set (p_FriendRequests p) = {}" using ok by (simp add: list_ok_def)
  then have "f_FriendID ` set (p_Friends p') \<inter> q_RequestID ` set (p_FriendRequests p') = {}"
    using Int_mono [OF sub(1,3)] by (simp only: subset_empty)
  moreover have "a \<notin> contacts p" "0 \<notin> social_ids p" using ok by (simp_all add: list_ok_def)
  ultimately have "f_FriendID ` set (p_Friends p') \<inter> q_RequestID ` set (p_FriendRequests p') = {}"
      "a \<notin> contacts p'" "0 \<notin> social_ids p'" by (simp_all only: subset_iff) blast+
  with d show "list_ok a p'" unfolding list_ok_def map_append distinct_append set_map by simp
qed

lemma list_ok_drop_request:
  assumes "list_ok a p" and "RemoveFriendRequest p i = Some (q, p')"
  shows "list_ok a p'" and "contacts p' \<subseteq> contacts p" and "p_Friends p' = p_Friends p"
    and "q_SteamID q \<in> contacts p" and "i \<notin> social_ids p'" and "i \<noteq> 0"
proof -
  have p': "p' = p\<lparr>p_FriendRequests := remove_by q_RequestID i (p_FriendRequests p)\<rparr>"
      "lookup_by q_RequestID i (p_FriendRequests p) = Some q" using assms(2) by (auto simp: RemoveFriendRequest_Some)
  have q: "q \<in> set (p_FriendRequests p)" "q_RequestID q = i" using lookup_by_SomeD [OF p'(2)] by auto
  have d: "distinct (map q_RequestID (p_FriendRequests p))" using assms(1) by (simp add: list_ok_def)
  have sub: "set (remove_by q_RequestID i (p_FriendRequests p)) = {x \<in> set (p_FriendRequests p). q_RequestID x \<noteq> i}"
    by (rule set_remove_by_distinct [OF d])
  have d': "distinct (map f_FriendID (p_Friends p))" "distinct (map q_SteamID (p_FriendRequests p))"
    using assms(1) by (simp_all add: list_ok_def)
  show "list_ok a p'" "contacts p' \<subseteq> contacts p"
    by (rule list_ok_sub [OF assms(1)]; simp add: p'(1) sub remove_by_distinct_map d d')+
  show "p_Friends p' = p_Friends p" unfolding p'(1) by simp
  show "q_SteamID q \<in> contacts p" using q by (auto simp: contacts_def)
  have i: "i \<in> q_RequestID ` set (p_FriendRequests p)" using q by blast
  moreover have "f_FriendID ` set (p_Friends p) \<inter> q_RequestID ` set (p_FriendRequests p) = {}" "0 \<notin> social_ids p"
    using assms(1) by (simp_all add: list_ok_def)
  ultimately have "i \<notin> f_FriendID ` set (p_Friends p)" "i \<noteq> 0" unfolding social_ids_def by blast+
  then show "i \<notin> social_ids p'" "i \<noteq> 0" unfolding p'(1) by (auto simp: social_ids_def sub)
qed

lemma list_ok_accept:
  assumes "list_ok a p" and "i \<notin> social_ids p" and "i \<noteq> 0" and "b \<noteq> a"
  shows "list_ok a (p\<lparr>p_Friends := p_Friends p @ [\<lparr>f_FriendID = i, f_SteamID = b, f_Since = now\<rparr>]\<rparr>)"
  using assms by (auto simp: list_ok_def contacts_def social_ids_def)

lemma list_ok_drop_friend:
  assumes "list_ok a p"
  shows "list_ok a (p\<lparr>p_Friends := remove_by key k (p_Friends p)\<rparr>)"
    and "contacts (p\<lparr>p_Friends := remove_by key k (p_Friends p)\<rparr>) \<subseteq> contacts p"
proof -
  have "distinct (map f_FriendID (p_Friends p))" "distinct (map q_RequestID (p_FriendRequests p))"
      "distinct (map q_SteamID (p_FriendRequests p))" using assms by (simp_all add: list_ok_def)
  note d = this
  show "list_ok a (p\<lparr>p_Friends := remove_by key k (p_Friends p)\<rparr>)"
    by (rule list_ok_sub(1) [OF assms]) (simp_all add: remove_by_distinct_map set_remove_by_subset d)
  show "contacts (p\<lparr>p_Friends := remove_by key k (p_Friends p)\<rparr>) \<subseteq> contacts p"
    by (rule list_ok_sub(2) [OF assms]) (simp_all add: remove_by_distinct_map set_remove_by_subset d)
qed

section \<open>Symmetry\<close>

lemma friends_okD:
  assumes "friends_ok look" and "look a = Some p"
  shows "list_ok a p" and "contacts p \<subseteq> dom look"
    and "look b = Some q \<Longrightarrow> count_by f_SteamID b (p_Friends p) = count_by f_SteamID a (p_Friends q)"
  using assms unfolding friends_ok_def by blast+

text \<open>One account keeps its friends; only its requests change.\<close>

lemma friends_ok_one:
  assumes ok: "friends_ok look" and p: "look a = Some p" and p': "list_ok a p'" "contacts p' \<subseteq> dom look"
    and same: "p_Friends p' = p_Friends p"
  shows "friends_ok (look(a \<mapsto> p'))"
proof -
  have "dom (look(a \<mapsto> p')) = dom look" using p by auto
  moreover have "count_by f_SteamID c (p_Friends x) = count_by f_SteamID b (p_Friends y)"
    if b: "(look(a \<mapsto> p')) b = Some x" and c: "(look(a \<mapsto> p')) c = Some y" for b c x y
  proof -
    obtain x0 where "look b = Some x0" "p_Friends x0 = p_Friends x" using b p same by (cases "b = a") auto
    moreover obtain y0 where "look c = Some y0" "p_Friends y0 = p_Friends y" using c p same by (cases "c = a") auto
    ultimately show ?thesis using friends_okD(3) [OF ok, of b x0 c y0] by simp
  qed
  moreover have "list_ok b x \<and> contacts x \<subseteq> dom look" if "(look(a \<mapsto> p')) b = Some x" for b x
    using that p' friends_okD(1,2) [OF ok, of b x] by (auto split: if_splits)
  ultimately show ?thesis unfolding friends_ok_def by metis
qed

text \<open>Two accounts change; each gains or loses the same number of entries of the other.\<close>

lemma friends_ok_two:
  assumes ok: "friends_ok look" and ab: "a \<noteq> b" and p: "look a = Some p" and q: "look b = Some q"
    and p': "list_ok a p'" "contacts p' \<subseteq> dom look" and q': "list_ok b q'" "contacts q' \<subseteq> dom look"
    and same: "count_by f_SteamID b (p_Friends p') = count_by f_SteamID a (p_Friends q')"
    and only_p: "\<And>c. c \<noteq> b \<Longrightarrow> count_by f_SteamID c (p_Friends p') = count_by f_SteamID c (p_Friends p)"
    and only_q: "\<And>c. c \<noteq> a \<Longrightarrow> count_by f_SteamID c (p_Friends q') = count_by f_SteamID c (p_Friends q)"
  shows "friends_ok (look(a \<mapsto> p', b \<mapsto> q'))"
proof -
  let ?l = "look(a \<mapsto> p', b \<mapsto> q')"
  have "dom ?l = dom look" using p q by auto
  moreover have "list_ok c x \<and> contacts x \<subseteq> dom look" if "?l c = Some x" for c x
    using that p' q' friends_okD(1,2) [OF ok, of c x] by (auto split: if_splits)
  moreover have "count_by f_SteamID d (p_Friends x) = count_by f_SteamID c (p_Friends y)"
    if x: "?l c = Some x" and y: "?l d = Some y" for c d x y
  proof -
    have third: "count_by f_SteamID d (p_Friends z) = count_by f_SteamID e (p_Friends y)"
      if "(e = a \<and> z = p') \<or> (e = b \<and> z = q')" and d: "d \<noteq> a" "d \<noteq> b" "look d = Some y" for e z d y
    proof -
      have "count_by f_SteamID d (p_Friends p) = count_by f_SteamID a (p_Friends y)"
        "count_by f_SteamID d (p_Friends q) = count_by f_SteamID b (p_Friends y)"
        using friends_okD(3) [OF ok] p q d(3) by metis+
      with that(1) only_p [of d] only_q [of d] d show ?thesis by auto
    qed
    consider "c \<noteq> a" "c \<noteq> b" "d \<noteq> a" "d \<noteq> b" | "c \<in> {a, b}" "d \<noteq> a" "d \<noteq> b" | "d \<in> {a, b}" "c \<noteq> a" "c \<noteq> b"
      | "c \<in> {a, b}" "d \<in> {a, b}" by blast
    then show ?thesis
    proof cases
      case 1
      then show ?thesis using x y friends_okD(3) [OF ok, of c x d y] by simp
    next
      case 2
      then show ?thesis using x y third [of c x d y] ab by (auto split: if_splits)
    next
      case 3
      then show ?thesis using x y third [of d y c x] ab by (auto split: if_splits)
    next
      case 4
      then show ?thesis using x y ab same by (auto split: if_splits)
    qed
  qed
  ultimately show ?thesis unfolding friends_ok_def by metis
qed

text \<open>The entry of the other side that stands for the owner of a list.\<close>

lemma mirrored_friend:
  assumes ok: "friends_ok look" and p: "look a = Some p" and f: "lookup_by f_FriendID i (p_Friends p) = Some f"
  shows "\<exists>q g. f_SteamID f \<noteq> a \<and> look (f_SteamID f) = Some q \<and> lookup_by f_SteamID a (p_Friends q) = Some g"
proof -
  have fin: "f_SteamID f \<in> f_SteamID ` set (p_Friends p)" using lookup_by_SomeD [OF f] by blast
  then have fa: "f_SteamID f \<noteq> a" using friends_okD(1) [OF ok p] by (auto simp: list_ok_def contacts_def)
  have "f_SteamID f \<in> contacts p" using fin by (simp add: contacts_def)
  then obtain q where q: "look (f_SteamID f) = Some q" using friends_okD(2) [OF ok p] by blast
  have "count_by f_SteamID a (p_Friends q) = count_by f_SteamID (f_SteamID f) (p_Friends p)"
    by (rule friends_okD(3) [OF ok q p])
  also have "\<dots> \<noteq> 0" using fin by (simp add: count_by_zero)
  finally have "a \<in> f_SteamID ` set (p_Friends q)" by (metis count_by_zero)
  then obtain g where "lookup_by f_SteamID a (p_Friends q) = Some g" using lookup_by_in by metis
  with fa q show ?thesis by blast
qed

section \<open>Every operation keeps the invariant\<close>

definition ids_left :: "db \<Rightarrow> bool" where
  "ids_left w \<longleftrightarrow> (\<forall>k p. db_player w k = Some p \<longrightarrow> top_social_id p \<noteq> - 1)"

definition social_world :: "db \<Rightarrow> bool" where
  "social_world w \<longleftrightarrow> world_ok w \<and> friends_ok (db_player w)"

lemma social_worldD: "social_world w \<Longrightarrow> db_ok w" "social_world w \<Longrightarrow> friends_ok (db_player w)"
  by (simp_all add: social_world_def world_ok_def)

lemma contacts_append [simp]:
  "contacts (p\<lparr>p_Friends := p_Friends p @ [f]\<rparr>) = insert (f_SteamID f) (contacts p)"
  "contacts (p\<lparr>p_FriendRequests := p_FriendRequests p @ [q]\<rparr>) = insert (q_SteamID q) (contacts p)"
  by (auto simp: contacts_def)

lemma Request_friends:
  assumes ok: "db_ok w" "friends_ok (db_player w)" and ids: "ids_left w"
  shows "friends_ok (db_player (snd (FriendService_Request mem_friends a name now w)))"
proof -
  obtain r w' where run: "FriendService_Request mem_friends a name now w = (r, w')" by force
  from mem.Request_outcome [OF mem_friends_simps ok(1) run] show ?thesis
  proof (elim disjE conjE exE)
    fix p t q
    assume t: "db_player w a = Some p" "db_player w (p_SteamID t) = Some t" "p_SteamID t \<noteq> a" "FriendRequestFrom t a = None"
      "q = \<lparr>q_RequestID = NextSocialID t, q_SteamID = a, q_SentAt = now\<rparr>"
      "db_player w' = (db_player w)(p_SteamID t \<mapsto> t\<lparr>p_FriendRequests := p_FriendRequests t @ [q]\<rparr>)"
    have "top_social_id t \<noteq> - 1" using ids t(2) by (auto simp: ids_left_def)
    with list_ok_request [OF friends_okD(1) [OF ok(2) t(2)] t(3) [symmetric] t(4)]
    have "list_ok (p_SteamID t) (t\<lparr>p_FriendRequests := p_FriendRequests t @ [q]\<rparr>)" unfolding t(5) by blast
    then have "friends_ok (db_player w')" unfolding t(6)
      using t(1,5) friends_okD(2) [OF ok(2) t(2)] by (intro friends_ok_one [OF ok(2) t(2)]) auto
    with run show ?thesis by simp
  qed (use run ok in simp)
qed

lemma Reject_friends:
  assumes ok: "db_ok w" "friends_ok (db_player w)"
  shows "friends_ok (db_player (snd (FriendService_Reject mem_friends a i w)))"
proof -
  obtain r w' where run: "FriendService_Reject mem_friends a i w = (r, w')" by force
  from mem.Reject_outcome [OF mem_friends_simps ok(1) run] show ?thesis
  proof (elim disjE conjE exE)
    fix p p' q
    assume p: "db_player w a = Some p" "RemoveFriendRequest p i = Some (q, p')" "db_player w' = (db_player w)(a \<mapsto> p')"
    note drop = list_ok_drop_request [OF friends_okD(1) [OF ok(2) p(1)] p(2)]
    have "friends_ok (db_player w')" unfolding p(3)
      using friends_okD(2) [OF ok(2) p(1)] drop by (intro friends_ok_one [OF ok(2) p(1)]) auto
    with run show ?thesis by simp
  qed (use run ok in simp)
qed

lemma Accept_friends:
  assumes ok: "db_ok w" "friends_ok (db_player w)" and ids: "ids_left w"
  shows "friends_ok (db_player (snd (FriendService_Accept mem_friends a i now w)))"
proof -
  obtain r w' where run: "FriendService_Accept mem_friends a i now w = (r, w')" by force
  from mem.Accept_outcome [OF mem_friends_simps ok(1) run] show ?thesis
  proof (elim disjE conjE exE)
    fix p p' q
    assume p: "db_player w a = Some p" "RemoveFriendRequest p i = Some (q, p')"
      and c: "case db_player w (q_SteamID q) of
         None \<Rightarrow> r = Inr (zero_friend, zero_friend, empty_player) \<and> db_player w' = (db_player w)(a \<mapsto> p')
       | Some sn \<Rightarrow> (\<exists>mine theirs sn'. mine = \<lparr>f_FriendID = i, f_SteamID = q_SteamID q, f_Since = now\<rparr> \<and>
           theirs = \<lparr>f_FriendID = NextSocialID sn, f_SteamID = a, f_Since = now\<rparr> \<and>
           sn' = sn\<lparr>p_Friends := p_Friends sn @ [theirs]\<rparr> \<and> r = Inr (mine, theirs, sn') \<and>
           db_player w' = (db_player w)(a \<mapsto> p'\<lparr>p_Friends := p_Friends p' @ [mine]\<rparr>, q_SteamID q \<mapsto> sn'))"
    note lp = friends_okD(1) [OF ok(2) p(1)]
    note drop = list_ok_drop_request [OF lp p(2)]
    have contacts: "contacts p' \<subseteq> dom (db_player w)" using friends_okD(2) [OF ok(2) p(1)] drop(2) by blast
    have qa: "q_SteamID q \<noteq> a" using lp drop(4) by (auto simp: list_ok_def)
    have "q_SteamID q \<in> dom (db_player w)" using friends_okD(2) [OF ok(2) p(1)] drop(4) by blast
    then obtain sn where sn: "db_player w (q_SteamID q) = Some sn" by blast
    let ?mine = "\<lparr>f_FriendID = i, f_SteamID = q_SteamID q, f_Since = now\<rparr>"
    let ?theirs = "\<lparr>f_FriendID = NextSocialID sn, f_SteamID = a, f_Since = now\<rparr>"
    have w': "db_player w' = (db_player w)(a \<mapsto> p'\<lparr>p_Friends := p_Friends p' @ [?mine]\<rparr>,
        q_SteamID q \<mapsto> sn\<lparr>p_Friends := p_Friends sn @ [?theirs]\<rparr>)" using c sn by simp
    have "top_social_id sn \<noteq> - 1" using ids sn by (auto simp: ids_left_def)
    note ls = list_ok_friend [OF friends_okD(1) [OF ok(2) sn] qa [symmetric] this, of now]
    note la = list_ok_accept [OF drop(1,5,6) qa, of now]
    have cm: "contacts (p'\<lparr>p_Friends := p_Friends p' @ [?mine]\<rparr>) \<subseteq> dom (db_player w)" using contacts sn by auto
    have cs: "contacts (sn\<lparr>p_Friends := p_Friends sn @ [?theirs]\<rparr>) \<subseteq> dom (db_player w)"
      using friends_okD(2) [OF ok(2) sn] p(1) by auto
    have "friends_ok (db_player w')" unfolding w'
      using drop(3) friends_okD(3) [OF ok(2) p(1) sn]
      by (intro friends_ok_two [OF ok(2) qa [symmetric] p(1) sn la cm ls cs]) auto
    with run show ?thesis by simp
  qed (use run ok in simp)
qed

lemma Delete_friends:
  assumes ok: "db_ok w" "friends_ok (db_player w)"
  shows "friends_ok (db_player (snd (FriendService_Delete mem_friends a i w)))"
proof -
  obtain r w' where run: "FriendService_Delete mem_friends a i w = (r, w')" by force
  from mem.Delete_outcome [OF mem_friends_simps ok(1) run] show ?thesis
  proof (elim disjE conjE exE)
    fix p p' f l1
    assume p: "db_player w a = Some p" "RemoveFriend p i = Some (f, p')" "l1 = (db_player w)(a \<mapsto> p')"
      and c: "case l1 (f_SteamID f) of
         None \<Rightarrow> r = Inr (f, zero_friend) \<and> db_player w' = l1
       | Some other \<Rightarrow> (case RemoveFriendOf other a of
             None \<Rightarrow> r = Inr (f, zero_friend) \<and> db_player w' = l1
           | Some (m, other') \<Rightarrow> r = Inr (f, m) \<and> db_player w' = l1(f_SteamID f \<mapsto> other'))"
    note lp = friends_okD(1) [OF ok(2) p(1)]
    have f: "lookup_by f_FriendID i (p_Friends p) = Some f" "p' = p\<lparr>p_Friends := remove_by f_FriendID i (p_Friends p)\<rparr>"
      using p(2) by (auto simp: RemoveFriend_Some)
    from mirrored_friend [OF ok(2) p(1) f(1)] obtain b m where fa: "f_SteamID f \<noteq> a"
      and b: "db_player w (f_SteamID f) = Some b" and m: "lookup_by f_SteamID a (p_Friends b) = Some m" by blast
    note lb = friends_okD(1) [OF ok(2) b]
    have sym: "count_by f_SteamID (f_SteamID f) (p_Friends p) = count_by f_SteamID a (p_Friends b)"
      by (rule friends_okD(3) [OF ok(2) p(1) b])
    have ma: "f_SteamID m = a" using lookup_by_SomeD [OF m] by simp
    let ?b = "b\<lparr>p_Friends := remove_by f_SteamID a (p_Friends b)\<rparr>"
    have "RemoveFriendOf b a = Some (m, ?b)" using m by (simp add: RemoveFriendOf_Some)
    then have w': "db_player w' = (db_player w)(a \<mapsto> p', f_SteamID f \<mapsto> ?b)" using c b fa p(3) by simp
    note cp = count_by_remove_by [OF f(1), of f_SteamID] and cb = count_by_remove_by [OF m, of f_SteamID]
    have "friends_ok (db_player w')" unfolding w' f(2)
    proof (rule friends_ok_two [OF ok(2) fa [symmetric] p(1) b])
      show "count_by f_SteamID (f_SteamID f) (p_Friends (p\<lparr>p_Friends := remove_by f_FriendID i (p_Friends p)\<rparr>)) =
          count_by f_SteamID a (p_Friends ?b)"
        using sym cp [of "f_SteamID f"] cb [of a] ma by simp
    qed (use list_ok_drop_friend [OF lp, of f_FriendID i] list_ok_drop_friend [OF lb, of f_SteamID a]
        friends_okD(2) [OF ok(2) p(1)] friends_okD(2) [OF ok(2) b] cp cb ma in \<open>auto\<close>)
    with run show ?thesis by simp
  qed (use run ok in simp)
qed


lemma save_social_world [keeps_intros]: "keeps world_ok (pr_SaveSocial mem_player_repo k fs rs)"
  by (auto simp: keeps_def mem.save_social intro!: world_update_player)

lemma find_world [keeps_intros]: "keeps world_ok (FriendService_actor mem_friends k)" "keeps world_ok (pr_Find mem_player_repo k)"
  by (auto simp: keeps_def mem.friend_actor mem.find split: option.split)

lemma find_name_world [keeps_intros]: "keeps world_ok (pr_FindByName mem_player_repo n)"
  by (simp add: keeps_def mem_player_repo_def mem_FindByName_def)

lemma friend_operations_world:
  "keeps world_ok (FriendService_Request mem_friends a name now)"
  "keeps world_ok (FriendService_Accept mem_friends a i now)"
  "keeps world_ok (FriendService_Reject mem_friends a i)"
  "keeps world_ok (FriendService_Delete mem_friends a i)"
  unfolding FriendService_Request_def FriendService_Accept_def FriendService_Reject_def FriendService_Delete_def
    save_social_def mem_friends_simps Let_def
  by (auto intro!: keeps_intros split: option.split prod.split)

lemma friends_ok_same_lists:
  assumes ok: "friends_ok l"
    and same: "\<And>j. rel_option (\<lambda>p q. p_Friends q = p_Friends p \<and> p_FriendRequests q = p_FriendRequests p) (l j) (l' j)"
  shows "friends_ok l'"
proof -
  have orig: "\<exists>p0. l a = Some p0 \<and> p_Friends p = p_Friends p0 \<and> p_FriendRequests p = p_FriendRequests p0" if "l' a = Some p" for a p
    using same [of a] that by (auto simp: option_rel_Some2)
  have dom: "dom l' = dom l"
  proof (rule set_eqI)
    fix j
    show "j \<in> dom l' \<longleftrightarrow> j \<in> dom l" using same [of j] by (cases "l j"; cases "l' j") auto
  qed
  show ?thesis unfolding friends_ok_def dom
  proof (intro conjI allI impI)
    fix a p assume "l' a = Some p"
    then obtain p0 where p0: "l a = Some p0" "p_Friends p = p_Friends p0" "p_FriendRequests p = p_FriendRequests p0" using orig by blast
    then show "list_ok a p" "contacts p \<subseteq> dom l"
      using friends_okD(1,2) [OF ok p0(1)] list_ok_cong [OF p0(2,3)] by simp_all
    fix b q assume "l' b = Some q"
    then obtain q0 where q0: "l b = Some q0" "p_Friends q = p_Friends q0" using orig by blast
    show "count_by f_SteamID b (p_Friends p) = count_by f_SteamID a (p_Friends q)"
      unfolding p0(2) q0(2) by (rule friends_okD(3) [OF ok p0(1) q0(1)])
  qed
qed

definition social_accounts :: "db \<Rightarrow> bool" where
  "social_accounts w \<longleftrightarrow> friends_ok (db_player w)"

lemma rewrite_social:
  "social_accounts w \<Longrightarrow> (\<And>p. p_Friends (f p) = p_Friends p) \<Longrightarrow> (\<And>p. p_FriendRequests (f p) = p_FriendRequests p) \<Longrightarrow>
    social_accounts (update_player k f w)"
  unfolding social_accounts_def
  by (erule friends_ok_same_lists) (auto simp: mem.look_upd option.rel_map option.rel_refl)

lemma create_social:
  assumes ok: "social_accounts w" and new: "db_player w (p_SteamID p) = None" and empty: "p_Friends p = []" "p_FriendRequests p = []"
  shows "social_accounts (insert_player p w)"
proof -
  let ?k = "p_SteamID p"
  have l: "db_player (insert_player p w) = (db_player w)(?k \<mapsto> p)" by (rule ext) (simp add: mem.look_ins)
  note okw = ok [unfolded social_accounts_def]
  have absent: "count_by f_SteamID ?k (p_Friends q) = 0" if q: "db_player w j = Some q" for j q
  proof -
    have "?k \<notin> contacts q" using friends_okD(2) [OF okw q] new by blast
    then show ?thesis by (simp add: count_by_zero contacts_def)
  qed
  have "list_ok j q \<and> contacts q \<subseteq> dom ((db_player w)(?k \<mapsto> p))" if "((db_player w)(?k \<mapsto> p)) j = Some q" for j q
    using that friends_okD(1,2) [OF okw, of j q] empty
    by (auto simp: list_ok_def contacts_def social_ids_def split: if_splits)
  moreover have "count_by f_SteamID i (p_Friends q) = count_by f_SteamID j (p_Friends r)"
    if "((db_player w)(?k \<mapsto> p)) j = Some q" "((db_player w)(?k \<mapsto> p)) i = Some r" for i j q r
  proof (cases "i = ?k \<or> j = ?k")
    case True
    then show ?thesis using that absent [of j q] absent [of i r] empty by (auto split: if_splits)
  next
    case False
    then show ?thesis using that friends_okD(3) [OF okw, of j q i r] by simp
  qed
  ultimately show ?thesis unfolding social_accounts_def l friends_ok_def by blast
qed

lemma Debit_social [simp]: "p_Friends (Debit p w price) = p_Friends p" "p_FriendRequests (Debit p w price) = p_FriendRequests p"
  by (cases w; simp)+

interpretation social: account_invariant mem_player_repo social_accounts
  by unfold_locales
     (auto simp: keeps_def mem.require mem.find mem.touch mem.save_loadout mem.save_attachments mem.set_name
        mem.commit mem.create intro!: rewrite_social create_social split: option.splits)

text \<open>
  A property of the accounts that does not look at clan names is kept by every clan operation: they
  only rename accounts, and the other calls leave the accounts alone.
\<close>

locale clan_bystander =
  fixes P :: "db \<Rightarrow> bool"
  assumes renamed: "P w \<Longrightarrow> P (update_player k (\<lambda>p. p\<lparr>p_ClanName := n\<rparr>) w)"
    and same_accounts: "db_player w' = db_player w \<Longrightarrow> P w \<Longrightarrow> P w'"
begin

lemma clan_calls:
  "keeps P (pr_SetClanName mem_player_repo k n)"
  "keeps P (cr_Find (mem_clan_repo l) n)" "keeps P (cr_Create (mem_clan_repo l) c)"
  "keeps P (cr_SaveApplicants (mem_clan_repo l) n as)" "keeps P (cr_SaveMembers (mem_clan_repo l) n ms)"
  "keeps P (cr_SaveRoster (mem_clan_repo l) n ms as)"
  "keeps P (cr_SaveLeadership (mem_clan_repo l) n k ms)"
  "keeps P (cr_SaveMark (mem_clan_repo l) n m e)" "keeps P (cr_Delete (mem_clan_repo l) n)"
  "keeps P (cr_FindByApplicant (mem_clan_repo l) k)" "keeps P (cr_FindByMark (mem_clan_repo l) m n)"
  by (auto simp: keeps_def mem.set_clan_name mem.cfind mem.ccreate mem.save_applicants mem.save_members mem.save_roster
      mem.save_leadership mem.save_mark mem.cdelete intro!: renamed)
     (auto simp: mem.frame_look mem_clan_repo_def mem_clan_FindByApplicant_def mem_clan_FindByMark_def fun_eq_iff
      elim!: same_accounts [rotated])

lemma clan_operations:
  "keeps P (AcceptApplication (mem_clans l) actor i)"
  "keeps P (RejectApplication (mem_clans l) actor i)"
  "keeps P (KickMember (mem_clans l) actor i)"
  "keeps P (Leave (mem_clans l) actor)"
  "keeps P (ChangePosition (mem_clans l) actor i rank)"
  "keeps P (ChangeMaster (mem_clans l) actor i)"
  "keeps P (Disband (mem_clans l) actor)"
  "keeps P (ClanService_Create (mem_clans l) k pn n m e now)"
  "keeps P (RequestJoin (mem_clans l) player n now)"
  "keeps P (CancelApplication (mem_clans l) actor)"
  "keeps P (ChangeMark (mem_clans l) actor m e)"
  unfolding clan_service_defs mem_clans_simps Let_def
  by (auto intro!: keeps_intros clan_calls split: option.split prod.split)

end

interpretation social_bystander: clan_bystander social_accounts
proof
  show "social_accounts w \<Longrightarrow> social_accounts (update_player k (\<lambda>p. p\<lparr>p_ClanName := n\<rparr>) w)" for w k n
    by (rule rewrite_social) simp_all
qed (simp add: social_accounts_def)

lemma player_ok_social [simp]:
  "player_ok (p\<lparr>p_ClanName := n\<rparr>) = player_ok p" "player_ok (with_social fs qs p) = player_ok p"
  by (simp_all add: player_ok_def)

interpretation accounts_bystander: clan_bystander accounts_ok
  by unfold_locales (auto simp: accounts_ok_def mem.look_upd)

lemma social_calls_accounts [keeps_intros]:
  "keeps accounts_ok (pr_SaveSocial mem_player_repo k fs qs)" "keeps accounts_ok (pr_Find mem_player_repo k)"
  "keeps accounts_ok (pr_FindByName mem_player_repo n)"
  by (simp_all add: keeps_def mem.save_social mem.find)
     (auto simp: accounts_ok_def mem.look_upd mem_player_repo_def mem_FindByName_def)

lemma friend_operations_accounts:
  "keeps accounts_ok (FriendService_Request mem_friends a name now)"
  "keeps accounts_ok (FriendService_Accept mem_friends a i now)"
  "keeps accounts_ok (FriendService_Reject mem_friends a i)"
  "keeps accounts_ok (FriendService_Delete mem_friends a i)"
  unfolding friend_service_defs mem_friends_simps Let_def
  by (auto intro!: keeps_intros split: option.split prod.split)

lemma world_step_social:
  "ps_players s = mem_player_repo \<Longrightarrow> world_step l s w w' \<Longrightarrow> social_accounts w \<Longrightarrow> social_accounts w'"
  using social_bystander.clan_operations [of l] social.account_step_keeps [of s]
  by (erule_tac world_stepE) (simp_all add: keeps_def)

section \<open>Reachable worlds\<close>

text \<open>
  Friend calls on top of every clan and account call. New entries are made while no id counter has
  reached 65535, where \<open>NextSocialID\<close> wraps to 0.
\<close>

inductive social_step :: "(nat \<Rightarrow> nat) \<Rightarrow> db PlayerService \<Rightarrow> db \<Rightarrow> db \<Rightarrow> bool" for l s where
  World: "world_step l s w w' \<Longrightarrow> social_step l s w w'"
| Requesting: "ids_left w \<Longrightarrow> social_step l s w (snd (FriendService_Request mem_friends a name now w))"
| Accepting: "ids_left w \<Longrightarrow> social_step l s w (snd (FriendService_Accept mem_friends a i now w))"
| Rejecting: "social_step l s w (snd (FriendService_Reject mem_friends a i w))"
| Deleting: "social_step l s w (snd (FriendService_Delete mem_friends a i w))"

inductive reachable_social :: "(nat \<Rightarrow> nat) \<Rightarrow> db PlayerService \<Rightarrow> db \<Rightarrow> bool" for l s where
  start: "reachable_social l s empty_db"
| step: "reachable_social l s w \<Longrightarrow> social_step l s w w' \<Longrightarrow> reachable_social l s w'"

inductive_cases social_stepE [consumes 1, case_names World Requesting Accepting Rejecting Deleting]: "social_step l s w w'"

lemma social_step_ok:
  assumes s: "ps_players s = mem_player_repo" and step: "social_step l s w w'" and w: "social_world w"
  shows "social_world w'"
proof -
  note ok = social_worldD [OF w]
  have keep: "world_ok w" using w by (simp add: social_world_def)
  note friend_operations_world [unfolded keeps_def, rule_format, OF keep]
  note world = this
  from step show ?thesis
  proof (cases rule: social_stepE)
    case World
    then show ?thesis using world_step_ok [OF s _ keep] world_step_social [OF s] ok(2)
      unfolding social_world_def social_accounts_def by blast
  qed (use world Request_friends [OF ok] Accept_friends [OF ok] Reject_friends [OF ok] Delete_friends [OF ok] in
      \<open>simp_all add: social_world_def\<close>)
qed

lemma reachable_social_world: "reachable_social l (mem_service c pt cs) w \<Longrightarrow> social_world w"
proof (induction rule: reachable_social.induct)
  case start
  then show ?case using empty_world by (simp add: social_world_def friends_ok_def)
next
  case (step w w')
  then show ?case using social_step_ok [of "mem_service c pt cs"] by simp
qed

section \<open>A concrete run\<close>

text \<open>Two accounts log in, the second asks the first to be friends, and the first accepts.\<close>

abbreviation "sample_service \<equiv> mem_service sample_catalog 100 0"

definition sample_login :: db where
  "sample_login = snd (LoginBySteam sample_service ''b'' 5 5 (snd (LoginBySteam sample_service ''a'' 5 5 empty_db)))"

definition sample_asked :: db where
  "sample_asked = snd (FriendService_Request mem_friends ''b'' (placeholderName ''a'') 6 sample_login)"

definition sample_friends :: db where
  "sample_friends = snd (FriendService_Accept mem_friends ''a'' 1 7 sample_asked)"

definition entries_of :: "Player \<Rightarrow> (u16 \<times> string) list \<times> (u16 \<times> string) list" where
  "entries_of p = (map (\<lambda>f. (f_FriendID f, f_SteamID f)) (p_Friends p), map (\<lambda>q. (q_RequestID q, q_SteamID q)) (p_FriendRequests p))"

definition social_view :: "db \<Rightarrow> (string \<times> (u16 \<times> string) list \<times> (u16 \<times> string) list) list" where
  "social_view w = map (\<lambda>(k, p). (k, entries_of p)) (db_players w)"

lemma sample_views:
  "social_view sample_login = [(''a'', [], []), (''b'', [], [])]"
  "social_view sample_asked = [(''a'', [], [(1, ''b'')]), (''b'', [], [])]"
  "social_view sample_friends = [(''a'', [(1, ''b'')], []), (''b'', [(1, ''a'')], [])]"
  by code_simp+

lemma view_player: "map_of (social_view w) k = map_option entries_of (db_player w k)"
  by (simp add: social_view_def db_player_def map_of_map)

lemma ids_left_view:
  assumes "\<forall>(k, fs, qs) \<in> set (social_view w). \<forall>i \<in> fst ` set fs \<union> fst ` set qs. i \<le> 2"
  shows "ids_left w"
  unfolding ids_left_def
proof (intro allI impI)
  fix k p assume "db_player w k = Some p"
  then have "map_of (social_view w) k = Some (entries_of p)" by (simp add: view_player)
  then have "(k, entries_of p) \<in> set (social_view w)" by (rule map_of_SomeD)
  from bspec [OF assms this]
  have i: "\<forall>f \<in> set (p_Friends p). f_FriendID f \<le> 2" "\<forall>q \<in> set (p_FriendRequests p). q_RequestID q \<le> 2"
    by (simp_all add: entries_of_def image_Un image_image ball_Un)
  have "top_social_id p \<le> 2" unfolding top_social_id_def
    by (intro highest_by_le) (use i in auto)
  moreover have "\<not> (- 1 :: u16) \<le> 2" by code_simp
  ultimately show "top_social_id p \<noteq> - 1" by metis
qed

lemma sample_reachable:
  "reachable_social id sample_service sample_asked" "reachable_social id sample_service sample_friends"
  "ids_left sample_login" "ids_left sample_asked"
proof -
  show ids: "ids_left sample_login" "ids_left sample_asked"
    by (rule ids_left_view, simp add: sample_views)+
  have "reachable_social id sample_service sample_login"
    unfolding sample_login_def
    by (rule reachable_social.step [OF reachable_social.step [OF reachable_social.start]];
        rule social_step.World [OF world_step.Account [OF account_step.Login]])
  then show asked: "reachable_social id sample_service sample_asked"
    unfolding sample_asked_def using social_step.Requesting [OF ids(1)] by (rule reachable_social.step)
  then show "reachable_social id sample_service sample_friends"
    unfolding sample_friends_def using social_step.Accepting [OF ids(2)] by (rule reachable_social.step)
qed

lemma sample_players:
  "\<exists>p. db_player sample_friends ''a'' = Some p \<and> entries_of p = ([(1, ''b'')], [])"
  "\<exists>p. db_player sample_friends ''b'' = Some p \<and> entries_of p = ([(1, ''a'')], [])"
  "\<exists>p. db_player sample_asked ''a'' = Some p \<and> entries_of p = ([], [(1, ''b'')])"
  unfolding map_option_eq_Some [symmetric] view_player [symmetric] by (simp_all add: sample_views)

text \<open>
  Two requests that cross are both answered: the accounts are then on each other's list twice.
\<close>

definition crossed_requests :: db where
  "crossed_requests =
     snd (FriendService_Accept mem_friends ''b'' 1 7 (snd (FriendService_Accept mem_friends ''a'' 1 7
       (snd (FriendService_Request mem_friends ''a'' (placeholderName ''b'') 6 sample_asked)))))"

lemma crossed_requests_twice:
  "social_view crossed_requests = [(''a'', [(1, ''b''), (2, ''b'')], []), (''b'', [(2, ''a''), (1, ''a'')], [])]"
  by code_simp

section \<open>Properties\<close>

text \<open>
  C8. After any sequence of friend, clan and account calls, friendship is symmetric: every two
  accounts are on each other's lists equally often. Everybody on a list exists and is not its
  owner, friends and requests of a list have distinct nonzero ids, and a sender has at most one
  request pending there.
\<close>

theorem friendship_symmetric:
  assumes "reachable_social l (mem_service c pt cs) w" and "db_player w a = Some p"
  shows "(\<forall>k \<in> contacts p. k \<noteq> a \<and> (\<exists>q. db_player w k = Some q \<and>
      count_by f_SteamID k (p_Friends p) = count_by f_SteamID a (p_Friends q) \<and> (IsFriendOf p k \<longleftrightarrow> IsFriendOf q a))) \<and>
    distinct (map f_FriendID (p_Friends p) @ map q_RequestID (p_FriendRequests p)) \<and> 0 \<notin> social_ids p \<and>
    distinct (map q_SteamID (p_FriendRequests p))"
proof -
  have ok: "friends_ok (db_player w)" using reachable_social_world [OF assms(1)] by (rule social_worldD)
  note lp = friends_okD(1) [OF ok assms(2)]
  have "\<exists>q. db_player w k = Some q \<and> count_by f_SteamID k (p_Friends p) = count_by f_SteamID a (p_Friends q) \<and>
      (IsFriendOf p k \<longleftrightarrow> IsFriendOf q a)" if "k \<in> contacts p" for k
  proof -
    obtain q where q: "db_player w k = Some q" using friends_okD(2) [OF ok assms(2)] \<open>k \<in> contacts p\<close> by blast
    have e: "count_by f_SteamID k (p_Friends p) = count_by f_SteamID a (p_Friends q)" by (rule friends_okD(3) [OF ok assms(2) q])
    have "IsFriendOf x j \<longleftrightarrow> count_by f_SteamID j (p_Friends x) \<noteq> 0" for x j
      by (auto simp: IsFriendOf_def count_by_zero image_iff)
    with q e show ?thesis by metis
  qed
  moreover have "k \<noteq> a" if "k \<in> contacts p" for k using lp that by (auto simp: list_ok_def)
  ultimately show ?thesis using lp by (simp add: list_ok_def)
qed

lemma friendship_symmetric_witness:
  "\<exists>p q. db_player sample_friends ''a'' = Some p \<and> contacts p = {''b''} \<and>
     db_player sample_friends ''b'' = Some q \<and> count_by f_SteamID ''b'' (p_Friends p) = count_by f_SteamID ''a'' (p_Friends q)"
proof -
  obtain p where p: "db_player sample_friends ''a'' = Some p" "entries_of p = ([(1, ''b'')], [])"
    using sample_players(1) by blast
  then have "contacts p = {''b''}" by (auto simp: entries_of_def contacts_def)
  with friendship_symmetric [OF sample_reachable(2) p(1)] p(1) show ?thesis by blast
qed

text \<open>
  An invitation to a friend on the list always resolves: for every entry of the list the call
  returns the friend's account and the id of an entry of that account's own list that stands for
  the inviter.
\<close>

theorem InviteTarget_resolves:
  assumes "reachable_social l (mem_service c pt cs) w" and "db_player w a = Some p" and "Player_Friend p i = Some f"
  shows "\<exists>t j g. InviteTarget mem_friends a i w = (Inr (t, j), w) \<and> db_player w (f_SteamID f) = Some t \<and>
    Player_Friend t j = Some g \<and> f_SteamID g = a"
proof -
  have ok: "friends_ok (db_player w)" using reachable_social_world [OF assms(1)] by (rule social_worldD)
  from mirrored_friend [OF ok assms(2)] assms(3) obtain t g where t: "db_player w (f_SteamID f) = Some t"
    and g: "lookup_by f_SteamID a (p_Friends t) = Some g" unfolding Player_Friend_def by blast
  have gt: "g \<in> set (p_Friends t)" "f_SteamID g = a" using lookup_by_SomeD [OF g] by auto
  have "distinct (map f_FriendID (p_Friends t))" using friends_okD(1) [OF ok t] by (simp add: list_ok_def)
  then have "Player_Friend t (f_FriendID g) = Some g" using gt(1) by (simp add: Player_Friend_def lookup_by_distinct)
  moreover have "InviteTarget mem_friends a i w = (Inr (t, f_FriendID g), w)"
    using assms(2,3) t g by (simp add: InviteTarget_def io_eval mem.friend_actor mem.find FriendEntryFor_def)
  ultimately show ?thesis using t gt(2) by blast
qed

lemma InviteTarget_resolves_witness:
  "\<exists>t j. InviteTarget mem_friends ''a'' 1 sample_friends = (Inr (t, j), sample_friends) \<and>
     db_player sample_friends ''b'' = Some t"
proof -
  obtain p where p: "db_player sample_friends ''a'' = Some p" "entries_of p = ([(1, ''b'')], [])"
    using sample_players(1) by blast
  then obtain f where "p_Friends p = [f]" "f_FriendID f = 1" "f_SteamID f = ''b''" by (auto simp: entries_of_def)
  then have "Player_Friend p 1 = Some f" "f_SteamID f = ''b''" by (simp_all add: Player_Friend_def)
  with InviteTarget_resolves [OF sample_reachable(2) p(1), of 1 f] show ?thesis by auto
qed

text \<open>
  C38. Accepting a request of an existing account removes exactly this request and gives each side
  one entry for the other, under the id of the request on the accepting side and a fresh id on the
  side of the sender. Nothing else of the two accounts changes, and no other account.
\<close>

theorem Accept_correct:
  assumes "reachable_social l (mem_service c pt cs) w" and "ids_left w"
    and "FriendService_Accept mem_friends a i now w = (Inr (mine, theirs, sender), w')"
  shows "\<exists>p q sn. db_player w a = Some p \<and> lookup_by q_RequestID i (p_FriendRequests p) = Some q \<and>
    db_player w (q_SteamID q) = Some sn \<and> q_SteamID q \<noteq> a \<and>
    mine = \<lparr>f_FriendID = i, f_SteamID = q_SteamID q, f_Since = now\<rparr> \<and>
    theirs = \<lparr>f_FriendID = NextSocialID sn, f_SteamID = a, f_Since = now\<rparr> \<and> NextSocialID sn \<notin> social_ids sn \<and>
    sender = sn\<lparr>p_Friends := p_Friends sn @ [theirs]\<rparr> \<and>
    db_player w' = (db_player w)(a \<mapsto> p\<lparr>p_FriendRequests := remove_by q_RequestID i (p_FriendRequests p),
        p_Friends := p_Friends p @ [mine]\<rparr>,
      q_SteamID q \<mapsto> sender)"
proof -
  have w: "social_world w" by (rule reachable_social_world [OF assms(1)])
  note ok = social_worldD [OF w]
  from mem.Accept_outcome [OF mem_friends_simps ok(1) assms(3)] show ?thesis
  proof (elim disjE conjE exE)
    fix p p' q
    assume p: "db_player w a = Some p" "RemoveFriendRequest p i = Some (q, p')"
      and c: "case db_player w (q_SteamID q) of
         None \<Rightarrow> Inr (mine, theirs, sender) = Inr (zero_friend, zero_friend, empty_player) \<and> db_player w' = (db_player w)(a \<mapsto> p')
       | Some sn \<Rightarrow> (\<exists>m t sn'. m = \<lparr>f_FriendID = i, f_SteamID = q_SteamID q, f_Since = now\<rparr> \<and>
           t = \<lparr>f_FriendID = NextSocialID sn, f_SteamID = a, f_Since = now\<rparr> \<and>
           sn' = sn\<lparr>p_Friends := p_Friends sn @ [t]\<rparr> \<and> Inr (mine, theirs, sender) = Inr (m, t, sn') \<and>
           db_player w' = (db_player w)(a \<mapsto> p'\<lparr>p_Friends := p_Friends p' @ [m]\<rparr>, q_SteamID q \<mapsto> sn'))"
    note drop = list_ok_drop_request [OF friends_okD(1) [OF ok(2) p(1)] p(2)]
    have "q_SteamID q \<in> dom (db_player w)" using friends_okD(2) [OF ok(2) p(1)] drop(4) by blast
    then obtain sn where sn: "db_player w (q_SteamID q) = Some sn" by blast
    have "q_SteamID q \<noteq> a" using friends_okD(1) [OF ok(2) p(1)] drop(4) by (auto simp: list_ok_def)
    moreover have "NextSocialID sn \<notin> social_ids sn"
      using assms(2) sn by (intro social_ids.next_fresh) (auto simp: ids_left_def)
    moreover have p': "lookup_by q_RequestID i (p_FriendRequests p) = Some q"
        "p' = p\<lparr>p_FriendRequests := remove_by q_RequestID i (p_FriendRequests p)\<rparr>"
      using p(2) by (auto simp: RemoveFriendRequest_Some)
    moreover have e: "mine = \<lparr>f_FriendID = i, f_SteamID = q_SteamID q, f_Since = now\<rparr>"
        "theirs = \<lparr>f_FriendID = NextSocialID sn, f_SteamID = a, f_Since = now\<rparr>"
        "sender = sn\<lparr>p_Friends := p_Friends sn @ [theirs]\<rparr>"
        "db_player w' = (db_player w)(a \<mapsto> p'\<lparr>p_Friends := p_Friends p' @ [mine]\<rparr>, q_SteamID q \<mapsto> sender)"
      using c unfolding sn option.case by blast+
    moreover have "p_Friends p' = p_Friends p" unfolding p'(2) by simp
    ultimately show ?thesis using p(1) sn by metis
  qed simp
qed

lemma sample_accept:
  "\<exists>mine theirs sender w'. FriendService_Accept mem_friends ''a'' 1 7 sample_asked = (Inr (mine, theirs, sender), w')"
proof -
  have "isl (fst (FriendService_Accept mem_friends ''a'' 1 7 sample_asked)) = False" by code_simp
  then show ?thesis by (cases "FriendService_Accept mem_friends ''a'' 1 7 sample_asked") (auto simp: isl_def, metis obj_sumE prod.exhaust)
qed

lemma Accept_correct_witness:
  "\<exists>mine theirs sender w'. FriendService_Accept mem_friends ''a'' 1 7 sample_asked = (Inr (mine, theirs, sender), w') \<and>
     f_SteamID mine = ''b'' \<and> f_SteamID theirs = ''a''"
proof -
  obtain mine theirs sender w' where run:
      "FriendService_Accept mem_friends ''a'' 1 7 sample_asked = (Inr (mine, theirs, sender), w')"
    using sample_accept by blast
  obtain p where p: "db_player sample_asked ''a'' = Some p" "entries_of p = ([], [(1, ''b'')])"
    using sample_players(3) by blast
  from Accept_correct [OF sample_reachable(1,4) run] p run show ?thesis
    by (auto simp: entries_of_def split: if_splits)
qed

text \<open>
  C39. Removing a friend takes one entry off each of the two lists, the named one of the caller and
  the first one of the other side that stands for the caller; all other entries, requests and
  accounts stay.
\<close>

theorem Delete_correct:
  assumes "reachable_social l (mem_service c pt cs) w" and "FriendService_Delete mem_friends a i w = (Inr (f, m), w')"
  shows "\<exists>p q. db_player w a = Some p \<and> Player_Friend p i = Some f \<and> db_player w (f_SteamID f) = Some q \<and>
    f_SteamID f \<noteq> a \<and> FriendEntryFor q a = Some m \<and>
    db_player w' = (db_player w)(a \<mapsto> p\<lparr>p_Friends := remove_by f_FriendID i (p_Friends p)\<rparr>,
      f_SteamID f \<mapsto> q\<lparr>p_Friends := remove_by f_SteamID a (p_Friends q)\<rparr>)"
proof -
  note ok = social_worldD [OF reachable_social_world [OF assms(1)]]
  from mem.Delete_outcome [OF mem_friends_simps ok(1) assms(2)] show ?thesis
  proof (elim disjE conjE exE)
    fix p p' g l1
    assume p: "db_player w a = Some p" "RemoveFriend p i = Some (g, p')" "l1 = (db_player w)(a \<mapsto> p')"
      and c: "case l1 (f_SteamID g) of
         None \<Rightarrow> Inr (f, m) = Inr (g, zero_friend) \<and> db_player w' = l1
       | Some other \<Rightarrow> (case RemoveFriendOf other a of
             None \<Rightarrow> Inr (f, m) = Inr (g, zero_friend) \<and> db_player w' = l1
           | Some (x, other') \<Rightarrow> Inr (f, m) = Inr (g, x) \<and> db_player w' = l1(f_SteamID g \<mapsto> other'))"
    have g: "lookup_by f_FriendID i (p_Friends p) = Some g" "p' = p\<lparr>p_Friends := remove_by f_FriendID i (p_Friends p)\<rparr>"
      using p(2) by (auto simp: RemoveFriend_Some)
    from mirrored_friend [OF ok(2) p(1) g(1)] obtain q x where q: "f_SteamID g \<noteq> a" "db_player w (f_SteamID g) = Some q"
        "lookup_by f_SteamID a (p_Friends q) = Some x" by blast
    have "RemoveFriendOf q a = Some (x, q\<lparr>p_Friends := remove_by f_SteamID a (p_Friends q)\<rparr>)"
      using q(3) by (simp add: RemoveFriendOf_Some)
    with c p(3) q have "f = g" "m = x" "db_player w' = (db_player w)(a \<mapsto> p',
        f_SteamID g \<mapsto> q\<lparr>p_Friends := remove_by f_SteamID a (p_Friends q)\<rparr>)" by simp_all
    with p(1) g q show ?thesis
      by (rule_tac exI [of _ p], rule_tac exI [of _ q]) (simp add: Player_Friend_def FriendEntryFor_def)
  qed simp
qed

lemma Delete_correct_witness:
  "\<exists>f m w' p. FriendService_Delete mem_friends ''a'' 1 sample_friends = (Inr (f, m), w') \<and> f_SteamID f = ''b'' \<and>
     f_SteamID m = ''a'' \<and> db_player w' ''b'' = Some p \<and> p_Friends p = []"
proof -
  have "isl (fst (FriendService_Delete mem_friends ''a'' 1 sample_friends)) = False" by code_simp
  then obtain f m w' where run: "FriendService_Delete mem_friends ''a'' 1 sample_friends = (Inr (f, m), w')"
    by (cases "FriendService_Delete mem_friends ''a'' 1 sample_friends") (auto simp: isl_def, metis obj_sumE prod.exhaust)
  obtain p q where "db_player sample_friends ''a'' = Some p" "entries_of p = ([(1, ''b'')], [])"
      "db_player sample_friends ''b'' = Some q" "entries_of q = ([(1, ''a'')], [])"
    using sample_players(1,2) by blast
  with Delete_correct [OF sample_reachable(2) run] run show ?thesis
    by (auto simp: entries_of_def Player_Friend_def FriendEntryFor_def)
qed

text \<open>
  The friend panel can draw every entry: \<open>Lists\<close> returns the caller's account and a table that
  resolves exactly the accounts on its friend list and in its requests.
\<close>

theorem Lists_complete:
  assumes "reachable_social l (mem_service c pt cs) w" and "db_player w a = Some p"
  shows "\<exists>m. Lists mem_friends a w = (Inr (p, m), w) \<and>
    (\<forall>k. map_of m k = (if k \<in> contacts p then db_player w k else None)) \<and> (\<forall>k \<in> contacts p. map_of m k \<noteq> None)"
proof -
  have ok: "friends_ok (db_player w)" using reachable_social_world [OF assms(1)] by (rule social_worldD)
  let ?ids = "map f_SteamID (p_Friends p) @ map q_SteamID (p_FriendRequests p)"
  have ids: "set ?ids = contacts p" by (simp add: contacts_def)
  obtain m where m: "pr_FindMany mem_player_repo ?ids w = (Inr m, w)"
      "\<forall>k. map_of m k = (if k \<in> contacts p then db_player w k else None)"
    using mem.find_many [of ?ids w] unfolding ids by blast
  have "\<exists>m. accounts mem_friends p w = (Inr m, w) \<and> (\<forall>k. map_of m k = (if k \<in> contacts p then db_player w k else None))"
  proof (cases "?ids = []")
    case True
    then show ?thesis using ids by (intro exI [of _ "[]"]) (auto simp: accounts_def io_eval)
  next
    case False
    then show ?thesis using m by (auto simp: accounts_def)
  qed
  then obtain n where n: "accounts mem_friends p w = (Inr n, w)"
      "\<forall>k. map_of n k = (if k \<in> contacts p then db_player w k else None)" by blast
  have "Lists mem_friends a w = (Inr (p, n), w)"
    using n(1) assms(2) by (simp add: Lists_def io_eval mem.friend_actor)
  moreover have "\<forall>k \<in> contacts p. map_of n k \<noteq> None" using n(2) friends_okD(2) [OF ok assms(2)] by auto
  ultimately show ?thesis using n(2) by blast
qed

lemma Lists_complete_witness:
  "\<exists>p m. Lists mem_friends ''a'' sample_friends = (Inr (p, m), sample_friends) \<and> map_of m ''b'' = db_player sample_friends ''b''"
proof -
  obtain p where p: "db_player sample_friends ''a'' = Some p" "entries_of p = ([(1, ''b'')], [])"
    using sample_players(1) by blast
  then have "''b'' \<in> contacts p" by (auto simp: entries_of_def contacts_def)
  with Lists_complete [OF sample_reachable(2) p(1)] show ?thesis by auto
qed

section \<open>What goes wrong\<close>

text \<open>
  Two players who accept requests of the same sender at the same time: the second read the sender's
  account before the first wrote it. (\<open>players_as_of\<close> is the friend service whose reads are those of
  an earlier moment; its writes go to the store as it is.) The first keeps the sender as a friend, who
  has lost the entry for it.
\<close>

definition players_as_of :: "db \<Rightarrow> db FriendService \<Rightarrow> db FriendService" where
  "players_as_of earlier s = s\<lparr>fs_players := (fs_players s)\<lparr>pr_Find := \<lambda>k w. (fst (pr_Find (fs_players s) k earlier), w)\<rparr>\<rparr>"

definition acceptance_race :: db where
  "acceptance_race =
     (let s = mem_friends; account = (\<lambda>k. empty_player\<lparr>p_SteamID := k, p_Name := k\<rparr>);
          w = snd (FriendService_Request s ''s'' ''b'' 0 (snd (FriendService_Request s ''s'' ''a'' 0
            (insert_player (account ''s'') (insert_player (account ''b'') (insert_player (account ''a'') empty_db))))))
      in snd (FriendService_Accept (players_as_of w s) ''b'' 1 0 (snd (FriendService_Accept s ''a'' 1 0 w))))"

lemma lost_friend:
  "map (\<lambda>(k, p). (k, map f_SteamID (p_Friends p))) (db_players acceptance_race) = [(''a'', [''s'']), (''b'', [''s'']), (''s'', [''b''])]"
  by code_simp

end
