(* ===== verification/Hub_Lemmas.thy ===== *)
theory Hub_Lemmas
  imports Game_Server Friend_Properties
begin

text \<open>
  Reasoning about handlers: programs that only send (\<open>quiet\<close>), programs that keep a property of the
  server from a start where the id counters have room (\<open>carries\<close>), and the invariant of the open
  rooms through the room operations.
\<close>

section \<open>Programs that only send\<close>

text \<open>Everything but the transports and the log of what was sent.\<close>

definition core :: "hub \<Rightarrow> db \<times> (conn \<Rightarrow> sessionData option) \<times> Room list \<times> RoomRegistry \<times> SessionRegistry \<times>
    Credentials \<times> matchTickets \<times> matchSessions" where
  "core w = (hub_db w, hub_state w, hub_rooms w, hub_registry w, hub_sessions w, hub_credentials w, hub_tickets w, hub_matches w)"

definition quiet :: "'a act \<Rightarrow> bool" where
  "quiet m \<longleftrightarrow> (\<forall>w. core (snd (m w)) = core w)"

named_theorems quiet_intros \<open>programs that only send\<close>

lemma quiet_basic [quiet_intros]: "quiet (io_ret a)" "quiet (io_fail e)" "quiet (io_get f)"
  by (simp_all add: quiet_def io_simps)

lemma quiet_bind [quiet_intros]: "quiet m \<Longrightarrow> (\<And>a. quiet (k a)) \<Longrightarrow> quiet (io_bind m k)"
  by (auto simp: quiet_def io_bind_def split: prod.split sum.split) (metis snd_conv)+

lemma quiet_seq [quiet_intros]: "quiet m \<Longrightarrow> quiet n \<Longrightarrow> quiet (io_seq m n)"
  by (simp add: io_seq_def quiet_bind)

lemma quiet_try [quiet_intros]: "quiet m \<Longrightarrow> quiet (io_try m)"
  by (auto simp: quiet_def io_try_def split: prod.split sum.split; metis snd_conv)

lemma quiet_checked [quiet_intros]: "(\<And>a. quiet (k a)) \<Longrightarrow> quiet (checked access k)"
  by (auto simp: checked_def quiet_basic split: option.split)

lemma quiet_each [quiet_intros]: "(\<And>x. quiet (f x)) \<Longrightarrow> quiet (io_each f xs)"
  by (induction xs) (auto intro: quiet_intros)

lemma quiet_with [quiet_intros]:
  "quiet refused \<Longrightarrow> (\<And>p. quiet (k p)) \<Longrightarrow> quiet (with_player c refused k)"
  "quiet refused \<Longrightarrow> (\<And>r. quiet (l r)) \<Longrightarrow> quiet (with_room c refused l)"
  unfolding with_player_def with_room_def by (auto intro!: quiet_intros split: option.split)

lemma quiet_SendPlain [quiet_intros]: "quiet (session_SendPlain c msg)"
  by (simp add: quiet_def session_SendPlain_def core_def split: prod.split sum.split)

lemma quiet_SendEncrypted [quiet_intros]: "quiet (session_SendEncrypted newCipher c msg)"
  by (simp add: quiet_def session_SendEncrypted_def core_def split: prod.split sum.split)

lemma quiet_send [quiet_intros]: "quiet (send c i b)" "quiet (send_all c msgs)" "quiet (push c i b)"
  unfolding send_def send_all_def push_def by (auto intro!: quiet_intros split: prod.split)

lemma quiet_send_each: "quiet (send_each cs msg firstErr)"
proof (induction cs arbitrary: firstErr)
  case Nil
  then show ?case by (simp add: quiet_def split: option.split)
next
  case (Cons c cs)
  show ?case unfolding quiet_def
  proof
    fix w
    obtain r w' where m: "session_SendPlain c msg w = (r, w')" by fastforce
    then have "core w' = core w" using quiet_SendPlain [of c msg] by (metis quiet_def snd_conv)
    then show "core (snd (send_each (c # cs) msg firstErr w)) = core w"
      using Cons m by (cases r) (simp_all add: quiet_def)
  qed
qed

lemma quiet_pushes [quiet_intros]:
  "quiet (push_account k i b)" "quiet (broadcastRoomExcept room skip i b)" "quiet (broadcastRoom room i b)"
  "quiet (tellMatch room i b)" "quiet (sendTo k msgs)" "quiet (broadcast clan msgs)" "quiet (broadcastReviewers clan msgs)"
proof -
  have "quiet (registry_SendPlain k msg)" for msg
    using quiet_send_each [of _ msg None] by (simp add: quiet_def registry_SendPlain_def)
  then show "quiet (push_account k i b)" unfolding push_account_def by (intro quiet_intros)
  show e: "quiet (broadcastRoomExcept room skip i b)" for skip
    unfolding broadcastRoomExcept_def by (auto intro!: quiet_intros)
  show "quiet (broadcastRoom room i b)" unfolding broadcastRoom_def by (rule e)
  show "quiet (tellMatch room i b)" unfolding tellMatch_def by (intro quiet_intros)
  show s: "quiet (sendTo k msgs)" for k unfolding sendTo_def by (intro quiet_intros)
  show "quiet (broadcast clan msgs)" unfolding broadcast_def by (intro quiet_intros s)
  show "quiet (broadcastReviewers clan msgs)" unfolding broadcastReviewers_def by (auto intro!: quiet_intros s)
qed

lemma quiet_answers [quiet_intros]:
  "quiet (refuseJoin c)" "quiet (friends_refuse c i)" "quiet (chat_refuse c i)" "quiet (refuseChat c)" "quiet (failCraft c)"
  "quiet (sendResponse c i msgs)" "quiet (sendBoth cf c msg)" "quiet (sendChannelList cf c)" "quiet (sendUserClanInfo c clan)"
  "quiet (notifyApplication clan p)" "quiet (sendAttachment c s item a)" "quiet (completeDeltas cf now c result)"
  "quiet (completePurchase cf now c result i)"
  unfolding refuseJoin_def friends_refuse_def chat_refuse_def refuseChat_def failCraft_def sendResponse_def sendBoth_def
    sendChannelList_def sendUserClanInfo_def notifyApplication_def sendAttachment_def completeDeltas_def completePurchase_def Let_def
  by (auto intro!: quiet_intros split: option.split Wallet.split)

lemma quiet_send_values [quiet_intros]: "quiet (send_values now k c items)"
  by (induction items arbitrary: k) (auto intro!: quiet_intros)

text \<open>Reading the store.\<close>

definition reads :: "(go_error, db, 'a) io \<Rightarrow> bool" where
  "reads m \<longleftrightarrow> (\<forall>w. snd (m w) = w)"

lemma quiet_on_db: "reads m \<Longrightarrow> quiet (on_db m)"
  by (simp add: reads_def quiet_def on_db_def core_def split: prod.split) (metis snd_conv)


section \<open>Keeping a property\<close>

text \<open>
  \<open>carries G P m\<close>: from a start where the counters have room (\<open>G\<close>), \<open>m\<close> keeps \<open>P\<close>. The room is
  needed once, by the call that allocates an id.
\<close>

definition carries :: "(hub \<Rightarrow> bool) \<Rightarrow> (hub \<Rightarrow> bool) \<Rightarrow> 'a act \<Rightarrow> bool" where
  "carries G P m \<longleftrightarrow> (\<forall>w. G w \<and> P w \<longrightarrow> P (snd (m w)))"

named_theorems carry_intros \<open>programs that keep a property from a start with room\<close>

lemma carries_keeps: "keeps P m \<Longrightarrow> carries G P m"
  by (simp add: keeps_def carries_def)

lemma carries_get [carry_intros]: "(\<And>a. carries G P (k a)) \<Longrightarrow> carries G P (io_bind (io_get f) k)"
  by (simp add: carries_def io_simps)

lemma carries_bind [carry_intros]: "carries G P m \<Longrightarrow> (\<And>a. keeps P (k a)) \<Longrightarrow> carries G P (io_bind m k)"
  by (auto simp: carries_def keeps_def io_bind_def split: prod.split sum.split)

lemma carries_with [carry_intros]:
  "carries G P refused \<Longrightarrow> (\<And>p. carries G P (k p)) \<Longrightarrow> carries G P (with_player c refused k)"
  "carries G P refused \<Longrightarrow> (\<And>r. carries G P (l r)) \<Longrightarrow> carries G P (with_room c refused l)"
  unfolding with_player_def with_room_def by (auto intro!: carry_intros split: option.split)

lemma carries_checked [carry_intros]: "(\<And>a. carries G P (k a)) \<Longrightarrow> carries G P (checked access k)"
  by (auto simp: checked_def carries_keeps keeps_basic split: option.split)

lemma keeps_with [keeps_intros]:
  "keeps P refused \<Longrightarrow> (\<And>p. keeps P (k p)) \<Longrightarrow> keeps P (with_player c refused k)"
  "keeps P refused \<Longrightarrow> (\<And>r. keeps P (l r)) \<Longrightarrow> keeps P (with_room c refused l)"
  unfolding with_player_def with_room_def by (auto intro!: keeps_intros split: option.split)

section \<open>The invariant of the server\<close>

text \<open>
  Open rooms are filed under their own number, which is not 0, and somebody sits in each of them;
  every room, open or closed, has sound seats.
\<close>

definition rooms_inv :: "Room list \<Rightarrow> RoomRegistry \<Rightarrow> bool" where
  "rooms_inv rooms registry \<longleftrightarrow>
     (\<forall>r \<in> set rooms. room_ok r) \<and> distinct (map fst (rr_rooms registry)) \<and>
     (\<forall>(n, room) \<in> set (rr_rooms registry). n \<noteq> 0 \<and> room < length rooms \<and> rm_Number (rooms ! room) = n \<and>
        rm_Users (rooms ! room) \<noteq> [])"

definition hub_inv :: "(db \<Rightarrow> bool) \<Rightarrow> hub \<Rightarrow> bool" where
  "hub_inv D w \<longleftrightarrow> D (hub_db w) \<and> registry_ok (hub_sessions w) \<and> rooms_inv (hub_rooms w) (hub_registry w)"

lemma quiet_keeps: "quiet m \<Longrightarrow> keeps (hub_inv D) m"
  by (auto simp: quiet_def keeps_def hub_inv_def core_def)

lemmas sends_keep [keeps_intros] = quiet_intros(12,13) [THEN quiet_keeps]

lemma keeps_on_db: "keeps D m \<Longrightarrow> keeps (hub_inv D) (on_db m)"
  by (auto simp: keeps_def hub_inv_def on_db_def split: prod.split)

lemma carries_on_db: "(\<And>w. G w \<Longrightarrow> D w \<Longrightarrow> D (snd (m w))) \<Longrightarrow> carries (\<lambda>w. G (hub_db w)) (hub_inv D) (on_db m)"
  by (auto simp: carries_def hub_inv_def on_db_def split: prod.split) (metis snd_conv)

section \<open>Rooms\<close>

lemma rooms_inv_update:
  assumes inv: "rooms_inv rooms registry" and ok: "room_ok r"
    and r: "rm_Number r = rm_Number (rooms ! room)" "rm_Users (rooms ! room) \<noteq> [] \<Longrightarrow> rm_Users r \<noteq> []"
  shows "rooms_inv (rooms[room := r]) registry"
proof -
  have "\<forall>x \<in> set (rooms[room := r]). room_ok x"
    using inv ok set_update_subset_insert [of rooms room r] by (auto simp: rooms_inv_def)
  moreover have "n \<noteq> 0 \<and> k < length (rooms[room := r]) \<and> rm_Number (rooms[room := r] ! k) = n \<and> rm_Users (rooms[room := r] ! k) \<noteq> []"
    if "(n, k) \<in> set (rr_rooms registry)" for n k
  proof -
    have "n \<noteq> 0" "k < length rooms" "rm_Number (rooms ! k) = n" "rm_Users (rooms ! k) \<noteq> []"
      using inv that by (auto simp: rooms_inv_def)
    then show ?thesis using r by (cases "k = room") auto
  qed
  ultimately show ?thesis using inv unfolding rooms_inv_def by blast
qed

definition kept_room :: "(Room \<Rightarrow> 'a \<times> Room) \<Rightarrow> bool" where
  "kept_room f \<longleftrightarrow> (\<forall>r. room_ok r \<longrightarrow> room_ok (snd (f r)) \<and> rm_Number (snd (f r)) = rm_Number r \<and>
     (rm_Users r \<noteq> [] \<longrightarrow> rm_Users (snd (f r)) \<noteq> []))"

lemma room_at_ok: "rooms_inv (hub_rooms w) registry \<Longrightarrow> room_ok (room_at room w)"
  by (auto simp: rooms_inv_def room_at_def zero_room_def room_ok_def)

lemma on_room_step:
  assumes w: "hub_inv D w" and f: "f (room_at room w) = (a, r)"
    and r: "room_ok r" "rm_Number r = rm_Number (room_at room w)" "rm_Users (room_at room w) \<noteq> [] \<Longrightarrow> rm_Users r \<noteq> []"
  shows "hub_inv D (snd (on_room room f w))"
proof (cases "room < length (hub_rooms w)")
  case True
  then have "room_at room w = hub_rooms w ! room" by (simp add: room_at_def)
  then have "rooms_inv ((hub_rooms w)[room := r]) (hub_registry w)"
    using w r by (intro rooms_inv_update) (simp_all add: hub_inv_def)
  then show ?thesis using w f by (simp add: on_room_def hub_inv_def)
next
  case False
  then show ?thesis using w f by (simp add: on_room_def hub_inv_def list_update_beyond)
qed

lemma on_room_keeps:
  assumes "kept_room f"
  shows "keeps (hub_inv D) (on_room room f)"
  unfolding keeps_def
proof (intro allI impI)
  fix w assume w: "hub_inv D w"
  obtain a r where f: "f (room_at room w) = (a, r)" by fastforce
  have "room_ok (room_at room w)" using w room_at_ok unfolding hub_inv_def by blast
  then have "room_ok r" "rm_Number r = rm_Number (room_at room w)" "rm_Users (room_at room w) \<noteq> [] \<Longrightarrow> rm_Users r \<noteq> []"
    using assms f unfolding kept_room_def by (metis snd_conv)+
  then show "hub_inv D (snd (on_room room f w))" by (intro on_room_step [where f = f, OF w f]) auto
qed

lemma kept_operations:
  "kept_room (\<lambda>r. ToggleReady r i)" "kept_room NextRound" "kept_room FinishRound"
  "kept_room (\<lambda>r. ((), RecordDeath r k v a))" "kept_room (\<lambda>r. ((), r\<lparr>rm_Host := h\<rparr>))"
proof -
  have "rm_Users r \<noteq> [] \<Longrightarrow> update_by ru_ID i toggled (rm_Users r) \<noteq> []" for r :: Room
    by (metis length_0_conv length_update_by)
  then show "kept_room (\<lambda>r. ToggleReady r i)"
    unfolding kept_room_def using room_ok_ToggleReady [of _ i]
    by (auto simp: ToggleReady_def Let_def split: option.split)
  show "kept_room NextRound" "kept_room FinishRound"
    unfolding kept_room_def using room_ok_rounds by (auto simp: NextRound_def FinishRound_def Let_def)
  show "kept_room (\<lambda>r. ((), RecordDeath r k v a))"
    unfolding kept_room_def using room_ok_RecordDeath by (auto simp: RecordDeath_def)
  show "kept_room (\<lambda>r. ((), r\<lparr>rm_Host := h\<rparr>))"
    by (auto simp: kept_room_def room_ok_def)
qed

end
