(* ===== verification/Server_Invariant.thy ===== *)
theory Server_Invariant
  imports Hub_Lemmas
begin

text \<open>
  The invariant of the running server. Every handler, whatever the bytes of its request, keeps the
  stored accounts, clans and friend lists, the session registry and the open rooms consistent; the
  theorem covers every sequence of connections, frames and disconnections.
\<close>

section \<open>A server on the in-memory repositories\<close>

definition mem_conf :: "conf \<Rightarrow> bool" where
  "mem_conf cf \<longleftrightarrow> ps_players (cf_players cf) = mem_player_repo \<and> starters_ok (ps_catalog (cf_players cf)) \<and>
     cf_clans cf = mem_clans (cf_lower cf) \<and> cf_friends cf = mem_friends"

definition db_inv :: "db \<Rightarrow> bool" where
  "db_inv d \<longleftrightarrow> accounts_ok d \<and> social_world d"

text \<open>No id counter has reached its last value: social entries, clan rosters and seats of rooms.\<close>

definition has_room :: "hub \<Rightarrow> bool" where
  "has_room w \<longleftrightarrow> ids_left (hub_db w) \<and> (\<forall>n c. db_clan (hub_db w) n = Some c \<longrightarrow> top_roster_id c \<noteq> - 1) \<and>
     (\<forall>r \<in> set (hub_rooms w). top_seat r \<noteq> - 1)"

lemma step_inv:
  assumes s: "ps_players s = mem_player_repo" "starters_ok (ps_catalog s)"
    and step: "social_step l s d d'" and d: "db_inv d"
  shows "db_inv d'"
proof -
  have social: "social_world d'" using social_step_ok [OF s(1) step] d by (simp add: db_inv_def)
  have a: "accounts_ok d" using d by (simp add: db_inv_def)
  note clan = accounts_bystander.clan_operations [of l, unfolded keeps_def, rule_format, OF a]
  note friend = friend_operations_accounts [unfolded keeps_def, rule_format, OF a]
  from step have "accounts_ok d'"
  proof (cases rule: social_stepE)
    case World
    then show ?thesis
    proof (cases rule: world_stepE)
      case Account
      then show ?thesis by (rule account_step_ok [OF s _ a])
    qed (simp_all add: clan)
  qed (simp_all add: friend)
  with social show ?thesis by (simp add: db_inv_def)
qed

lemma keeps_db_inv:
  assumes s: "ps_players s = mem_player_repo" "starters_ok (ps_catalog s)"
    and m: "\<And>d. social_step l s d (snd (m d))"
  shows "keeps db_inv m"
  unfolding keeps_def using step_inv [OF s m] by blast

lemma service_calls:
  assumes "mem_conf cf"
  defines "s \<equiv> cf_players cf"
  shows "keeps db_inv (LoginBySteam s k now now')" "keeps db_inv (PlayerService_Equip s k serial now)"
    "keeps db_inv (ChangeWeapons s k ws now)" "keeps db_inv (PlayerService_Attach s k i j now)"
    "keeps db_inv (PlayerService_Detach s k i j)" "keeps db_inv (Buy s k ix now)"
    "keeps db_inv (BuyCustomPart s k i ix now now')" "keeps db_inv (Craft s k rid now)"
    "keeps db_inv (SpendConsumable s k fi)"
  using assms unfolding mem_conf_def
  by (auto intro!: keeps_db_inv [where s = s and l = "cf_lower cf"] social_step.World world_step.Account account_step.intros)

lemma clan_service_calls:
  assumes "mem_conf cf"
  defines "s \<equiv> cf_clans cf"
  shows "keeps db_inv (ClanService_Create s k pn n m e now)" "keeps db_inv (AcceptApplication s actor i)"
    "keeps db_inv (RejectApplication s actor i)" "keeps db_inv (CancelApplication s actor)"
    "keeps db_inv (KickMember s actor i)" "keeps db_inv (Leave s actor)" "keeps db_inv (ChangePosition s actor i rank)"
    "keeps db_inv (ChangeMaster s actor i)" "keeps db_inv (Disband s actor)" "keeps db_inv (ChangeMark s actor m e)"
  using assms unfolding mem_conf_def
  by (auto intro!: keeps_db_inv [where s = "cf_players cf" and l = "cf_lower cf"] social_step.World world_step.intros)

lemma friend_service_calls:
  assumes "mem_conf cf"
  shows "keeps db_inv (FriendService_Reject (cf_friends cf) a i)" "keeps db_inv (FriendService_Delete (cf_friends cf) a i)"
  using assms unfolding mem_conf_def
  by (auto intro!: keeps_db_inv [where s = "cf_players cf" and l = "cf_lower cf"] social_step.intros)

text \<open>The three calls that allocate an id need room for it.\<close>

lemma allocating_calls:
  assumes "mem_conf cf" and "has_room w" and "db_inv (hub_db w)"
  shows "db_inv (snd (RequestJoin (cf_clans cf) player n now (hub_db w)))"
    "db_inv (snd (FriendService_Request (cf_friends cf) a name now (hub_db w)))"
    "db_inv (snd (FriendService_Accept (cf_friends cf) a i now (hub_db w)))"
  using assms unfolding mem_conf_def has_room_def
  by (auto intro!: step_inv [where s = "cf_players cf" and l = "cf_lower cf" and d = "hub_db w"] social_step.intros world_step.Joining)

text \<open>The calls that only read.\<close>

lemma reads_basic: "reads (io_ret a)" "reads (io_fail e)"
  by (simp_all add: reads_def io_simps)

lemma reads_bind: "reads m \<Longrightarrow> (\<And>a. reads (k a)) \<Longrightarrow> reads (io_bind m k)"
  by (auto simp: reads_def io_bind_def split: prod.split sum.split) (metis snd_conv)+

lemma mem_reads:
  "reads (pr_Find mem_player_repo k)" "reads (pr_FindMany mem_player_repo ks)" "reads (pr_FindByName mem_player_repo n)"
  "reads (cr_Find (mem_clan_repo l) n)" "reads (cr_FindByApplicant (mem_clan_repo l) k)"
  "reads (cr_FindByMark (mem_clan_repo l) m n)" "reads (cr_SearchByName (mem_clan_repo l) n most)"
  by (simp_all add: reads_def mem.find mem.cfind)
     (simp_all add: mem_player_repo_def mem_FindMany_def mem_FindByName_def mem_clan_repo_def mem_clan_FindByApplicant_def
        mem_clan_FindByMark_def mem_clan_SearchByName_def Let_def)

lemma reading_calls:
  assumes "mem_conf cf"
  shows "reads (PlayerService_FindMany (cf_players cf) ks)" "reads (PlayerService_FindByName (cf_players cf) n)"
    "reads (ClanService_Find (cf_clans cf) n)" "reads (NameAvailable (cf_clans cf) n)"
    "reads (PendingApplication (cf_clans cf) k)" "reads (MarkAvailable (cf_clans cf) player m)" "reads (Search (cf_clans cf) n)"
    "reads (Lists (cf_friends cf) k)" "reads (InviteTarget (cf_friends cf) k i)"
  using assms unfolding mem_conf_def PlayerService_FindMany_def PlayerService_FindByName_def ClanService_Find_def
    NameAvailable_def PendingApplication_def MarkAvailable_def Search_def Lists_def InviteTarget_def FriendService_actor_def accounts_def
  by (auto intro!: reads_basic reads_bind mem_reads split: option.split)

section \<open>The pieces of the handlers\<close>

lemma hub_leaf_keeps [keeps_intros]:
  "keeps (hub_inv D) (session_SendPlain c msg)" "keeps (hub_inv D) (send c i b)" "keeps (hub_inv D) (send_all c msgs)"
  "keeps (hub_inv D) (push c i b)" "keeps (hub_inv D) (push_account k i b)" "keeps (hub_inv D) (broadcastRoomExcept room skip i b)"
  "keeps (hub_inv D) (broadcastRoom room i b)" "keeps (hub_inv D) (tellMatch room i b)" "keeps (hub_inv D) (sendTo k msgs)"
  "keeps (hub_inv D) (broadcast clan msgs)" "keeps (hub_inv D) (broadcastReviewers clan msgs)"
  "keeps (hub_inv D) (refuseJoin c)" "keeps (hub_inv D) (friends_refuse c i)" "keeps (hub_inv D) (chat_refuse c i)"
  "keeps (hub_inv D) (refuseChat c)" "keeps (hub_inv D) (failCraft c)" "keeps (hub_inv D) (sendResponse c i msgs)"
  "keeps (hub_inv D) (sendBoth cf c msg)" "keeps (hub_inv D) (sendChannelList cf c)" "keeps (hub_inv D) (sendUserClanInfo c clan)"
  "keeps (hub_inv D) (notifyApplication clan p)" "keeps (hub_inv D) (sendAttachment c s item a)"
  "keeps (hub_inv D) (completeDeltas cf now c result)" "keeps (hub_inv D) (completePurchase cf now c result i)"
  "keeps (hub_inv D) (send_values clock n c items)"
  by (intro quiet_keeps quiet_intros)+

lemma change_data_inv [simp]: "hub_inv D (change_data c f w) = hub_inv D w"
  by (simp add: change_data_def hub_inv_def split: option.split)

lemma set_keeps [keeps_intros]:
  "keeps (hub_inv D) (io_set (setSessionRoom c r))" "keeps (hub_inv D) (io_set (setSessionRoomUser c i))"
  "keeps (hub_inv D) (io_set (setSessionChannel c ch))" "keeps (hub_inv D) (io_set (updatePlayer c p))"
  "keeps (hub_inv D) (io_set (rename_cached n c))" "keeps (hub_inv D) (io_set (bindPlayer c p))"
  "keeps (hub_inv D) (io_set (bindMatchSession c p room i))"
  "keeps (hub_inv D) (io_set (\<lambda>w. w\<lparr>hub_credentials := Issue tok player (hub_credentials w)\<rparr>))"
  "keeps (hub_inv D) (on_tickets t)" "keeps (hub_inv D) (on_matches m)"
  by (simp_all add: keeps_def io_set_def setSessionRoom_def setSessionRoomUser_def setSessionChannel_def updatePlayer_def
      rename_cached_def on_tickets_def on_matches_def split: option.split prod.split)
     (simp_all add: hub_inv_def bindPlayer_def bindMatchSession_def Bind_ok)

lemma catch_keeps [keeps_intros]: "keeps P m \<Longrightarrow> keeps P n \<Longrightarrow> keeps P (io_catch m n)"
  by (auto simp: keeps_def io_catch_def split: prod.split sum.split)

lemma unbind_keeps: "keeps (hub_inv D) (io_set (\<lambda>w. w\<lparr>hub_sessions := Unbind c (hub_sessions w)\<rparr>))"
  by (auto simp: hub_inv_def Unbind_forget forget_ok intro!: keeps_set)

section \<open>Seats\<close>

text \<open>The last user to leave a room closes it, in the same step.\<close>

lemma rooms_inv_close: "rooms_inv rooms registry \<Longrightarrow> rooms_inv rooms (Close n registry)"
  by (auto simp: rooms_inv_def Close_def AList.delete_eq distinct_map_filter)

lemma rooms_inv_closed:
  assumes inv: "rooms_inv rooms registry" and ok: "room_ok r" and r: "rm_Number r = rm_Number (rooms ! room)"
  shows "rooms_inv (rooms[room := r]) (Close (rm_Number r) registry)"
proof -
  have "\<forall>x \<in> set (rooms[room := r]). room_ok x"
    using inv ok set_update_subset_insert [of rooms room r] by (auto simp: rooms_inv_def)
  moreover have "n \<noteq> 0 \<and> k < length (rooms[room := r]) \<and> rm_Number (rooms[room := r] ! k) = n \<and> rm_Users (rooms[room := r] ! k) \<noteq> []"
    if "(n, k) \<in> set (rr_rooms (Close (rm_Number r) registry))" for n k
  proof -
    have m: "(n, k) \<in> set (rr_rooms registry)" "n \<noteq> rm_Number r"
      using that by (auto simp: Close_def AList.delete_eq)
    then have "n \<noteq> 0" "k < length rooms" "rm_Number (rooms ! k) = n" "rm_Users (rooms ! k) \<noteq> []"
      using inv by (auto simp: rooms_inv_def)
    moreover have "k \<noteq> room" using m(2) r calculation(3) by auto
    ultimately show ?thesis by simp
  qed
  moreover have "distinct (map fst (rr_rooms (Close (rm_Number r) registry)))"
    using rooms_inv_close [OF inv] by (simp add: rooms_inv_def)
  ultimately show ?thesis unfolding rooms_inv_def by blast
qed

lemma vacate_keeps [keeps_intros]: "keeps (hub_inv D) (vacate room i)"
  unfolding keeps_def
proof (intro allI impI)
  fix w assume w: "hub_inv D w"
  obtain gone empty r where f: "RemoveUser (room_at room w) i = ((gone, empty), r)" by (metis prod.exhaust)
  have "room_ok (snd (RemoveUser (room_at room w) i))" using room_ok_RemoveUser room_at_ok w unfolding hub_inv_def by blast
  then have ok: "room_ok r" using f by simp
  have number: "rm_Number r = rm_Number (room_at room w)" using RemoveUser_room [of "room_at room w" i] f by simp
  have e: "empty \<longleftrightarrow> rm_Users r = []" using RemoveUser_empty [of "room_at room w" i] f by simp
  define w1 where "w1 = snd (on_room room (\<lambda>r. RemoveUser r i) w)"
  have run: "on_room room (\<lambda>r. RemoveUser r i) w = (Inr (gone, empty), w1)"
    using f by (simp add: on_room_def w1_def)
  show "hub_inv D (snd (vacate room i w))"
  proof (cases empty)
    case False
    then have "hub_inv D w1"
      unfolding w1_def using e number by (intro on_room_step [where f = "\<lambda>r. RemoveUser r i", OF w f ok]) auto
    then show ?thesis using run False by (simp add: vacate_def io_simps)
  next
    case True
    have v: "snd (vacate room i w) = close_room (rm_Number (room_at room w1)) w1"
      using run True by (simp add: vacate_def io_simps)
    show ?thesis
    proof (cases "room < length (hub_rooms w)")
      case True
      then have "room_at room w = hub_rooms w ! room" by (simp add: room_at_def)
      then have "rooms_inv ((hub_rooms w)[room := r]) (Close (rm_Number r) (hub_registry w))"
        using w ok number by (intro rooms_inv_closed) (simp_all add: hub_inv_def)
      moreover have "w1 = w\<lparr>hub_rooms := (hub_rooms w)[room := r]\<rparr>"
        using f by (simp add: w1_def on_room_def)
      ultimately show ?thesis unfolding v using w True by (simp add: hub_inv_def close_room_def room_at_def)
    next
      case False
      then have "w1 = w" using f by (simp add: w1_def on_room_def list_update_beyond)
      then show ?thesis unfolding v using w by (simp add: hub_inv_def close_room_def rooms_inv_close)
    qed
  qed
qed

text \<open>A room just parsed seats its leader, and opens under a number of its own.\<close>

lemma first_seat_ok:
  assumes "rm_Users room = []" and "AddUser room user = (Some leader, r)"
  shows "\<forall>i. room_ok (r\<lparr>rm_LeaderID := i\<rparr>) \<and> rm_Users (r\<lparr>rm_LeaderID := i\<rparr>) \<noteq> []"
proof -
  have "room_ok room" "top_seat room \<noteq> - 1" using assms(1) by (simp_all add: room_ok_def top_seat_def highest_by_def)
  from room_ok_AddUser [OF this, of user] have "room_ok r" using assms(2) by simp
  moreover have "rm_Users r \<noteq> []" using assms by (auto simp: AddUser_def Let_def split: if_splits)
  ultimately show ?thesis by (simp add: room_ok_def)
qed

lemma parseCreate_ok:
  assumes "parseCreate c body player = Inr r"
  shows "room_ok r \<and> rm_Users r \<noteq> []"
  using assms
  by (auto simp: parseCreate_def in_bounds Let_def zero_room_def split: sum.splits prod.splits if_splits option.splits
      dest!: first_seat_ok [rotated])

lemma open_room_keeps:
  assumes r: "room_ok r" "rm_Users r \<noteq> []"
  shows "keeps (hub_inv D) (open_room r)"
  unfolding keeps_def
proof (intro allI impI)
  fix w assume w: "hub_inv D w"
  show "hub_inv D (snd (open_room r w))"
  proof (cases "Open (length (hub_rooms w)) (hub_registry w)")
    case (Some found)
    then obtain n where n: "free_number (rr_rooms (hub_registry w)) (rr_lastRoom (hub_registry w)) = Some n"
      and found: "found = (n, (hub_registry w)\<lparr>rr_lastRoom := n, rr_rooms := AList.update n (length (hub_rooms w)) (rr_rooms (hub_registry w))\<rparr>)"
      by (auto simp: Open_def split: option.splits)
    have free: "n \<noteq> 0" "map_of (rr_rooms (hub_registry w)) n = None" using free_number_result [OF n] by auto
    have inv: "rooms_inv (hub_rooms w) (hub_registry w)" using w by (simp add: hub_inv_def)
    have sub: "set (AList.update n k al) \<subseteq> insert (n, k) (set al)" for k and al :: "(u16 \<times> room_ref) list"
      by (induction al) auto
    have "rooms_inv (hub_rooms w @ [r\<lparr>rm_Number := n\<rparr>]) (snd found)"
      using inv r free unfolding rooms_inv_def found
      by (auto simp: distinct_update nth_append room_ok_def dest!: subsetD [OF sub])
    then show ?thesis using w Some found by (simp add: open_room_def hub_inv_def Let_def)
  qed (use w in \<open>simp add: open_room_def Let_def\<close>)
qed

lemma seat_keeps:
  assumes w: "hub_inv D w" and room: "\<forall>r \<in> set (hub_rooms w). top_seat r \<noteq> - 1"
  shows "hub_inv D (snd (on_room room (\<lambda>r. AddUser r (user r)) w))"
proof (cases "room < length (hub_rooms w)")
  case True
  let ?r = "room_at room w"
  have r: "room_ok ?r" using w room_at_ok unfolding hub_inv_def by blast
  have top: "top_seat ?r \<noteq> - 1" using room True by (simp add: room_at_def)
  obtain a s where f: "AddUser ?r (user ?r) = (a, s)" by fastforce
  then have "room_ok s" using room_ok_AddUser [OF r top, of "user ?r"] by simp
  moreover have "rm_Number s = rm_Number ?r" "rm_Users s \<noteq> [] \<or> s = ?r"
    using f by (auto simp: AddUser_def Let_def split: if_splits)
  ultimately show ?thesis by (intro on_room_step [where f = "\<lambda>r. AddUser r (user r)", OF w f]) auto
next
  case False
  then show ?thesis using w by (auto simp: on_room_def list_update_beyond hub_inv_def split: prod.split)
qed

section \<open>Every handler keeps the invariant\<close>

abbreviation server_inv :: "hub \<Rightarrow> bool" where
  "server_inv \<equiv> hub_inv db_inv"

lemma read_keeps:
  assumes cf: "mem_conf cf"
  shows "keeps server_inv (load_accounts cf ks)" "keeps server_inv (playerClan cf player)"
    "keeps server_inv (pendingClanPushes cf player)" "keeps server_inv (clanRequests cf clan k)"
    "keeps server_inv (clanRoster cf clan)" "keeps server_inv (clanPushes cf player)"
    "keeps server_inv (memberWire cf member)" "keeps server_inv (friendRow cf friend account)"
    "keeps server_inv (loadSeat cf seat)" "keeps server_inv (matchEquip cf index seat)"
proof -
  note reading_calls [OF cf, THEN quiet_on_db, THEN quiet_keeps, keeps_intros]
  show a: "keeps server_inv (load_accounts cf ks)" for ks
    unfolding load_accounts_def by (auto intro!: keeps_intros split: sum.split)
  show p: "keeps server_inv (playerClan cf player)" for player
    unfolding playerClan_def by (auto intro!: keeps_intros split: sum.split)
  show q: "keeps server_inv (pendingClanPushes cf player)" for player
    unfolding pendingClanPushes_def by (auto intro!: keeps_intros split: sum.split option.split)
  show r: "keeps server_inv (clanRequests cf clan k)" for clan k
    unfolding clanRequests_def by (auto intro!: keeps_intros a)
  show l: "keeps server_inv (clanRoster cf clan)" for clan
    unfolding clanRoster_def by (auto intro!: keeps_intros a)
  show "keeps server_inv (clanPushes cf player)"
    unfolding clanPushes_def by (auto intro!: keeps_intros p q r l split: option.split)
  show "keeps server_inv (memberWire cf member)"
    unfolding memberWire_def by (auto intro!: keeps_intros a)
  show "keeps server_inv (friendRow cf friend account)"
    unfolding friendRow_def Let_def by (auto intro!: keeps_intros)
  show s: "keeps server_inv (loadSeat cf seat)" for seat
    unfolding loadSeat_def by (auto intro!: keeps_intros split: sum.split)
  show "keeps server_inv (matchEquip cf index seat)"
    unfolding matchEquip_def by (auto intro!: keeps_intros s)
qed

lemma rows_keep:
  assumes cf: "mem_conf cf"
  shows "keeps server_inv (equip_rows cf n rows users)" "keeps server_inv (append_friends cf known rows friends)"
proof -
  show "keeps server_inv (equip_rows cf n rows users)"
    by (induction users arbitrary: n rows) (auto intro!: keeps_intros read_keeps [OF cf])
  show "keeps server_inv (append_friends cf known rows friends)"
    by (induction friends arbitrary: rows) (auto intro!: keeps_intros read_keeps [OF cf])
qed

lemma snapshot_keeps: "mem_conf cf \<Longrightarrow> keeps server_inv (matchSnapshot cf room users viewer)"
  unfolding matchSnapshot_def Let_def by (auto intro!: keeps_intros rows_keep)

lemma begin_keeps: "keeps (hub_inv D) (beginMatch cf c room)"
  unfolding beginMatch_def start_member_def
  by (auto intro!: keeps_intros kept_operations on_room_keeps split: option.split)

lemma login_handlers_keep:
  assumes cf: "mem_conf cf"
  shows "keeps server_inv (aeriaAuth cf c body)" "keeps server_inv (aeriaLauncher cf c body)"
    "keeps server_inv (createCredential c body)" "keeps server_inv (checkCredential cf c body)"
    "keeps server_inv (requestChannelList cf c body)" "keeps server_inv (joinChannel cf c body)"
    "keeps server_inv (login cf c body)" "keeps server_inv (itemLogin cf c body)" "keeps server_inv (mapQuestLogin c body)"
  unfolding aeriaAuth_def aeriaLauncher_def createCredential_def checkCredential_def requestChannelList_def joinChannel_def
    login_def itemLogin_def mapQuestLogin_def
  by (auto intro!: keeps_intros read_keeps [OF cf] service_calls [OF cf] keeps_on_db split: sum.split option.split list.split)

lemma lobby_handlers_keep:
  "keeps (hub_inv D) (lobby_join cf c body)" "keeps (hub_inv D) (lobby_leave c body)" "keeps (hub_inv D) (lobbyList c body)"
  "keeps (hub_inv D) (roomList c body)" "keeps (hub_inv D) (clanRoomList c body)" "keeps (hub_inv D) (userList c body)"
  "keeps (hub_inv D) (createRoom cf c body)" "keeps (hub_inv D) (leaveRoom c body)" "keeps (hub_inv D) (gameStart cf c body)"
  "keeps (hub_inv D) (ready cf c body)"
  unfolding lobby_join_def lobby_leave_def lobbyList_def roomList_def clanRoomList_def userList_def createRoom_def leaveRoom_def
    gameStart_def ready_def soloStartOnReady_def
  by (auto intro!: keeps_intros begin_keeps kept_operations on_room_keeps open_room_keeps dest: parseCreate_ok split: sum.split option.split)

lemma match_handlers_keep:
  assumes cf: "mem_conf cf"
  shows "keeps server_inv (connectServer c body)" "keeps server_inv (matchStart cf c body)" "keeps server_inv (loadPercent c body)"
    "keeps server_inv (loadComplete c body)" "keeps server_inv (timeStart c body)" "keeps server_inv (beginRound c body)"
    "keeps server_inv (checkRespawn c body)" "keeps server_inv (checkRespawnInstant c body)" "keeps server_inv (respawn c body)"
    "keeps server_inv (death c body)" "keeps server_inv (timeOut c body)" "keeps server_inv (dediUserPing c body)"
    "keeps server_inv (hitCount c body)" "keeps server_inv (matchLeave c body)" "keeps server_inv (userEquip cf c body)"
    "keeps server_inv (changeWeapon cf c body)"
proof -
  note quiet_on_db [OF reading_calls(1) [OF cf], THEN quiet_keeps, keeps_intros]
  show "keeps server_inv (matchStart cf c body)"
    unfolding matchStart_def Let_def by (auto intro!: keeps_intros read_keeps [OF cf] snapshot_keeps [OF cf] split: option.split)
  show "keeps server_inv (userEquip cf c body)" "keeps server_inv (changeWeapon cf c body)"
    unfolding userEquip_def changeWeapon_def Let_def
    by (auto intro!: keeps_intros service_calls [OF cf] keeps_on_db split: option.split sum.split)
qed (auto simp: connectServer_def loadPercent_def loadComplete_def timeStart_def beginRound_def checkRespawn_def
    checkRespawnInstant_def respawn_def death_def timeOut_def dediUserPing_def hitCount_def matchLeave_def
    intro!: keeps_intros kept_operations on_room_keeps)

lemma item_handlers_keep:
  assumes cf: "mem_conf cf"
  shows "keeps server_inv (items_equip cf c body)" "keeps server_inv (items_buy cf c body)" "keeps server_inv (items_craft cf c body)"
    "keeps server_inv (buyCustom cf c body)" "keeps server_inv (equipCustom cf c body)" "keeps server_inv (breakCustom cf c body)"
    "keeps server_inv (gearEquip cf c body)" "keeps server_inv (gearBreak cf c body)" "keeps server_inv (perkEquip cf c body)"
    "keeps server_inv (perkBreak cf c body)" "keeps server_inv (perkIncreaseSlot c body)" "keeps server_inv (static_response a d c body)"
  unfolding items_equip_def items_buy_def items_craft_def buyCustom_def equipCustom_def breakCustom_def gearEquip_def gearBreak_def
    perkEquip_def perkBreak_def perkIncreaseSlot_def static_response_def equipSerial_def items_attach_def items_detach_def Let_def
  by (auto intro!: keeps_intros service_calls [OF cf] keeps_on_db split: option.split sum.split prod.split)

lemma departure_keeps: "keeps (hub_inv D) (setSessionClan k n)" "keeps (hub_inv D) (announceDeparture clan m)"
  unfolding announceDeparture_def setSessionClan_def by (auto intro!: keeps_intros)

lemma clan_handlers_keep:
  assumes cf: "mem_conf cf"
  shows "keeps server_inv (searchName cf c body)" "keeps server_inv (checkName cf c body)" "keeps server_inv (clan_create cf c body)"
    "keeps server_inv (clan_chat cf c body)" "keeps server_inv (deleteClan cf c body)" "keeps server_inv (clan_cancelApplication cf c body)"
    "keeps server_inv (acceptMember cf c body)" "keeps server_inv (rejectMember cf c body)" "keeps server_inv (clan_kickMember cf c body)"
    "keeps server_inv (leaveClan cf c body)" "keeps server_inv (clan_changeMaster cf c body)"
    "keeps server_inv (clan_changePosition cf c body)" "keeps server_inv (clan_checkMark cf c body)"
    "keeps server_inv (clan_changeMark cf c body)" "keeps server_inv (clan_unmapped c body)"
proof -
  note reading_calls [OF cf, THEN quiet_on_db, THEN quiet_keeps, keeps_intros]
  note rules = keeps_intros clan_service_calls [OF cf] service_calls [OF cf] keeps_on_db departure_keeps read_keeps [OF cf]
  show "keeps server_inv (searchName cf c body)" "keeps server_inv (checkName cf c body)" "keeps server_inv (clan_create cf c body)"
    "keeps server_inv (clan_chat cf c body)" "keeps server_inv (clan_checkMark cf c body)" "keeps server_inv (clan_changeMark cf c body)"
    unfolding searchName_def checkName_def clan_create_def clan_chat_def clan_checkMark_def clan_changeMark_def spendMarkChange_def Let_def
    by (auto intro!: rules split: sum.split option.split prod.split)
qed (auto simp: deleteClan_def clan_cancelApplication_def acceptMember_def rejectMember_def clan_kickMember_def leaveClan_def
    clan_changeMaster_def clan_changePosition_def clan_unmapped_def with_actor_id_def clan_welcome_def
    intro!: keeps_intros clan_service_calls [OF cf] keeps_on_db departure_keeps read_keeps [OF cf] split: sum.split prod.split)

lemma social_handlers_keep:
  assumes cf: "mem_conf cf"
  shows "keeps server_inv (friends_login cf c body)" "keeps server_inv (friends_reject cf c body)"
    "keeps server_inv (friends_delete cf c body)" "keeps server_inv (friends_invite cf c body)"
    "keeps server_inv (chat_all c body)" "keeps server_inv (chat_clan cf c body)" "keeps server_inv (whisper cf c body)"
proof -
  note reading_calls [OF cf, THEN quiet_on_db, THEN quiet_keeps, keeps_intros]
  note rules = keeps_intros friend_service_calls [OF cf] keeps_on_db rows_keep [OF cf]
  show "keeps server_inv (friends_login cf c body)" "keeps server_inv (friends_reject cf c body)"
    "keeps server_inv (friends_delete cf c body)" "keeps server_inv (friends_invite cf c body)"
    unfolding friends_login_def friends_reject_def friends_delete_def friends_invite_def with_actor_id_def friendList_def Let_def
    by (auto intro!: rules split: sum.split prod.split)
  show "keeps server_inv (chat_all c body)" "keeps server_inv (chat_clan cf c body)" "keeps server_inv (whisper cf c body)"
    unfolding chat_all_def chat_clan_def whisper_def with_line_def Let_def
    by (auto intro!: rules split: sum.split option.split prod.split)
qed

text \<open>The handlers that allocate an id, from a start with room.\<close>

lemma carries_db:
  "(\<And>w. has_room w \<Longrightarrow> db_inv (hub_db w) \<Longrightarrow> db_inv (snd (m (hub_db w)))) \<Longrightarrow> carries has_room server_inv (on_db m)"
  by (auto simp: carries_def hub_inv_def on_db_def split: prod.split) (metis snd_conv)

lemma carries_seat: "carries has_room (hub_inv D) (on_room room (\<lambda>r. AddUser r (user r)))"
  by (simp add: carries_def has_room_def seat_keeps)

lemma allocating_handlers_carry:
  assumes cf: "mem_conf cf"
  shows "carries has_room server_inv (joinRoom c body)" "carries has_room server_inv (requestJoin cf c body)"
    "carries has_room server_inv (friends_request cf c body)" "carries has_room server_inv (friends_accept cf c body)"
proof -
  have refuse: "carries has_room server_inv (refuseJoin c)" "carries has_room server_inv (io_fail e :: unit act)"
    "carries has_room server_inv (send c i b)" "carries has_room server_inv (friends_refuse c i)" for e i b
    by (intro carries_keeps keeps_intros)+
  have calls: "carries has_room server_inv (on_db (RequestJoin (cf_clans cf) player n now))"
    "carries has_room server_inv (on_db (FriendService_Request (cf_friends cf) a name now))"
    "carries has_room server_inv (on_db (FriendService_Accept (cf_friends cf) a i now))" for player n now a name i
    by (rule carries_db, erule (1) allocating_calls [OF cf])+
  show "carries has_room server_inv (joinRoom c body)"
    unfolding joinRoom_def
    by (auto intro!: carry_intros carries_seat refuse keeps_intros split: sum.split option.split)
  show "carries has_room server_inv (requestJoin cf c body)" "carries has_room server_inv (friends_request cf c body)"
    "carries has_room server_inv (friends_accept cf c body)"
    unfolding requestJoin_def friends_request_def friends_accept_def with_actor_id_def
    by (auto intro!: carry_intros calls refuse keeps_intros read_keeps [OF cf] split: sum.split option.split)
qed

section \<open>Requests, connections and disconnections\<close>

text \<open>The requests that allocate an id; only they need a counter with room.\<close>

definition allocating :: "u16 set" where
  "allocating = {rmiRequestRoomJoin, rmiRequestJoinClan, rmiRequestFriend, rmiRequestFriendAccept}"

lemma route_carries:
  assumes cf: "mem_conf cf" and "(i, h) \<in> set routes"
  shows "carries (\<lambda>w. i \<in> allocating \<longrightarrow> has_room w) server_inv (h cf c body)"
proof -
  note handlers = login_handlers_keep [OF cf] lobby_handlers_keep match_handlers_keep [OF cf] item_handlers_keep [OF cf]
    clan_handlers_keep [OF cf] social_handlers_keep [OF cf]
  have "rmiRequestRoomJoin \<in> allocating" "rmiRequestJoinClan \<in> allocating" "rmiRequestFriend \<in> allocating"
    "rmiRequestFriendAccept \<in> allocating" by (simp_all add: allocating_def)
  note facts = this handlers [THEN carries_keeps] allocating_handlers_carry [OF cf]
  show ?thesis
    using assms(2) unfolding routes_def login_routes_def lobby_routes_def item_routes_def clan_routes_def friend_routes_def
      chat_routes_def static_routes_def
    by (auto simp: facts)
qed

lemma serve_carries:
  assumes cf: "mem_conf cf"
  shows "carries (\<lambda>w. ID msg \<in> allocating \<longrightarrow> has_room w) server_inv (serve cf c msg)"
proof (cases "handler_of (ID msg)")
  case (Some h)
  then have "(ID msg, h) \<in> set routes" unfolding handler_of_def by (metis map_of_SomeD set_rev)
  then show ?thesis using route_carries [OF cf] Some by (simp add: serve_def)
qed (simp add: serve_def carries_keeps keeps_basic)

lemma release_keeps: "keeps (hub_inv D) (releaseSession c)"
  unfolding releaseSession_def by (auto intro!: keeps_intros unbind_keeps)

text \<open>The request a frame carries, if it is one: an RMI in either envelope.\<close>

definition frame_request :: "new_cipher \<Rightarrow> Session \<Rightarrow> Frame \<Rightarrow> Message option" where
  "frame_request newCipher session frame =
     (if IsClientHello frame \<or> frameType frame \<in> {msgCryptoSetup, msgClientConnect, msgHeartbeat} then None
      else if frameType frame = envelopeEncrypted
      then (if \<not> established session then None
            else case decodeEncrypted newCipher (sessionKey session) (Payload frame) of Inl _ \<Rightarrow> None | Inr (msg, _) \<Rightarrow> Some msg)
      else if frameType frame = envelopePlain
      then (case decodePlain (Payload frame) of None \<Rightarrow> None | Some msg \<Rightarrow> if IsInternal msg then None else Some msg)
      else None)"

lemma on_session_app: "snd (snd (on_session m (s, a))) = a"
  by (simp add: on_session_def split: prod.split)

text \<open>A frame is a request for the handlers, or it only concerns the transport it came in on.\<close>

lemma receive_request:
  assumes "frame_request (cf_cipher cf) (hub_wires w c) frame = Some msg"
  shows "snd (receive_frame cf kp c frame w) = snd (serve cf c msg w)"
proof -
  have "handleFrame (cf_cipher cf) (game_server cf kp c) frame (hub_wires w c, w) = dispatch (game_server cf kp c) msg (hub_wires w c, w)"
    using assms
    by (auto simp: frame_request_def handleFrame_def handleEncrypted_def handlePlain_def split: if_splits sum.splits option.splits prod.splits)
  then show ?thesis
    by (simp add: receive_frame_def dispatch_def game_server_def as_handler_def serve_def io_simps split: option.split prod.split)
qed

text \<open>A frame that is no request only touches the transport it came in on.\<close>

lemma receive_own_wire:
  assumes "frame_request (cf_cipher cf) (hub_wires w c) frame = None"
  shows "\<exists>s. snd (receive_frame cf kp c frame w) = w\<lparr>hub_wires := (hub_wires w)(c := s)\<rparr>"
proof -
  have "snd (snd (handleFrame (cf_cipher cf) (game_server cf kp c) frame (hub_wires w c, w))) = w"
    using assms
    by (auto simp: frame_request_def handleFrame_def handleEncrypted_def handlePlain_def on_session_app
        split: if_splits sum.splits option.splits prod.splits)
  then show ?thesis by (auto simp: receive_frame_def split: prod.split)
qed

lemma receive_transport:
  assumes "frame_request (cf_cipher cf) (hub_wires w c) frame = None"
  shows "core (snd (receive_frame cf kp c frame w)) = core w"
  using receive_own_wire [OF assms, where kp = kp] by (auto simp: core_def)

section \<open>Reachable servers\<close>

text \<open>
  Clients connect, send any frames, and drop, in any order; the transports fail as they like. Each
  frame is handled as one step. The runs that are looked at are those in which every frame meets the
  condition \<open>G\<close> when it arrives; \<open>ids_not_exhausted\<close> is the one of the invariant: a request that
  allocates an id finds the counters below their last value.
\<close>

definition ids_not_exhausted :: "conf \<Rightarrow> conn \<Rightarrow> Frame \<Rightarrow> hub \<Rightarrow> bool" where
  "ids_not_exhausted cf c frame w =
     (case frame_request (cf_cipher cf) (hub_wires w c) frame of
        None \<Rightarrow> True | Some msg \<Rightarrow> ID msg \<in> allocating \<longrightarrow> has_room w)"

inductive server_step :: "conf \<Rightarrow> KeyPair \<Rightarrow> (conn \<Rightarrow> Frame \<Rightarrow> hub \<Rightarrow> bool) \<Rightarrow> hub \<Rightarrow> hub \<Rightarrow> bool" for cf kp G where
  Connect: "server_step cf kp G w (accept_conn c script w)"
| Receive: "G c frame w \<Longrightarrow> server_step cf kp G w (snd (receive_frame cf kp c frame w))"
| Disconnect: "server_step cf kp G w (snd (releaseSession c w))"

inductive reachable_server :: "conf \<Rightarrow> KeyPair \<Rightarrow> (conn \<Rightarrow> Frame \<Rightarrow> hub \<Rightarrow> bool) \<Rightarrow> hub \<Rightarrow> bool" for cf kp G where
  start: "reachable_server cf kp G (new_hub empty_db)"
| step: "reachable_server cf kp G w \<Longrightarrow> server_step cf kp G w w' \<Longrightarrow> reachable_server cf kp G w'"

inductive_cases server_stepE [consumes 1, case_names Connect Receive Disconnect]: "server_step cf kp G w w'"

lemma new_server_inv: "server_inv (new_hub empty_db)"
proof -
  have "db_inv empty_db"
    using empty_world by (simp add: db_inv_def accounts_ok_def social_world_def friends_ok_def)
  then show ?thesis
    by (simp add: hub_inv_def new_hub_def new_registry_ok rooms_inv_def new_room_registry_def)
qed

lemma core_inv: "core w' = core w \<Longrightarrow> hub_inv D w' = hub_inv D w"
  by (simp add: core_def hub_inv_def)

lemma server_step_inv:
  assumes cf: "mem_conf cf" and step: "server_step cf kp (ids_not_exhausted cf) w w'" and w: "server_inv w"
  shows "server_inv w'"
  using step
proof (cases rule: server_stepE)
  case (Connect c script)
  then show ?thesis using w by (simp add: accept_conn_def hub_inv_def)
next
  case (Receive c frame)
  show ?thesis
  proof (cases "frame_request (cf_cipher cf) (hub_wires w c) frame")
    case None
    then show ?thesis using core_inv [OF receive_transport [OF None]] w Receive by simp
  next
    case (Some msg)
    with Receive have "ID msg \<in> allocating \<longrightarrow> has_room w" by (simp add: ids_not_exhausted_def)
    with serve_carries [OF cf, where msg = msg and c = c] w have "server_inv (snd (serve cf c msg w))" by (simp add: carries_def)
    then show ?thesis using receive_request [OF Some] Receive by simp
  qed
next
  case (Disconnect c)
  then show ?thesis using release_keeps [of db_inv c] w by (simp add: keeps_def)
qed

section \<open>Properties\<close>

text \<open>
  C1. Clients connect, send any frames and drop in any order, each frame handled as one step, and their
  transports fail as they like. As long as no request that allocates an id (joining a room, applying
  to a clan, asking for or accepting a friendship) arrives when an id counter has reached its last
  value, then after every step: every stored account is well-formed, every clan keeps its
  invariant and carries every account that names it, friend lists are symmetric, the two indexes of
  the session registry agree, and the open rooms are occupied, filed under their own nonzero number
  and never over-full. (Two service calls of different connections that run at the same time are not
  one step each: \<open>lost_update\<close>, \<open>lost_enrolment\<close> and \<open>lost_friend\<close> show what they can do.)
\<close>

theorem server_invariant:
  assumes "mem_conf cf" and "reachable_server cf kp (ids_not_exhausted cf) w"
  shows "accounts_ok (hub_db w) \<and> world_ok (hub_db w) \<and> friends_ok (db_player (hub_db w)) \<and>
    registry_ok (hub_sessions w) \<and> rooms_inv (hub_rooms w) (hub_registry w)"
proof -
  have "server_inv w"
    using assms(2)
  proof (induction rule: reachable_server.induct)
    case start
    then show ?case by (rule new_server_inv)
  next
    case (step w w')
    then show ?case using server_step_inv [OF assms(1)] by blast
  qed
  then show ?thesis by (simp add: hub_inv_def db_inv_def social_world_def)
qed

definition sample_conf :: conf where
  "sample_conf = \<lparr>cf_players = mem_service sample_catalog 100 0, cf_clans = mem_clans id, cf_friends = mem_friends,
     cf_catalog = sample_catalog, cf_channels = [], cf_gameHost = ''10.0.0.1'', cf_gamePort = 30003,
     cf_address = (\<lambda>_. Some ''10.0.0.2''), cf_cipher = (\<lambda>_. None), cf_now = (\<lambda>_. 5), cf_lower = id\<rparr>"

definition sample_keys :: KeyPair where
  "sample_keys = \<lparr>DecryptOAEP = (\<lambda>_. None), PublicDER = []\<rparr>"

lemma sample_conf_ok: "mem_conf sample_conf"
  by (simp add: mem_conf_def sample_conf_def starters_ok_def sample_catalog_def StarterItems_def empty_catalog_def)

text \<open>A first connection, and the frame of a login as account 7.\<close>

definition sample_start :: hub where
  "sample_start = accept_conn 0 [(1000, False)] (new_hub empty_db)"

definition login_frame :: Frame where
  "login_frame = \<lparr>Marker = MarkerReliable, Payload = encodePlain
     \<lparr>ID = rmiRequestAeriaAuth, Body = WriteProudString (WriteProudString [] ''t'') ''7''\<rparr>\<rparr>"

lemma sample_start_room: "ids_not_exhausted sample_conf c frame sample_start"
  by (simp add: ids_not_exhausted_def has_room_def sample_start_def accept_conn_def new_hub_def ids_left_def split: option.split)

lemma server_invariant_witness:
  "\<exists>w. w = snd (receive_frame sample_conf sample_keys 0 login_frame sample_start) \<and> accounts_ok (hub_db w) \<and>
     world_ok (hub_db w) \<and> friends_ok (db_player (hub_db w)) \<and> registry_ok (hub_sessions w) \<and>
     rooms_inv (hub_rooms w) (hub_registry w)"
proof -
  have "reachable_server sample_conf sample_keys (ids_not_exhausted sample_conf) sample_start"
    unfolding sample_start_def by (rule reachable_server.step [OF reachable_server.start server_step.Connect])
  from reachable_server.step [OF this server_step.Receive [where G = "ids_not_exhausted sample_conf", OF sample_start_room]]
  show ?thesis using server_invariant [OF sample_conf_ok] by blast
qed

end
