(* ===== verification/Server_Bounds.thy ===== *)
theory Server_Bounds
  imports Hub_Lemmas
begin

text \<open>
  No handler indexes out of range. Every access a handler makes to the body of its request, to a block
  or a mark parsed from it, to the arrays of an equipment row, to the users of a room and to the roster
  of a clan is \<open>checked\<close>, and an access out of range is a \<open>Panic\<close>; \<open>calm\<close> says that a program never
  ends in one.
\<close>

section \<open>Programs that do not panic\<close>

definition calm :: "'a act \<Rightarrow> bool" where
  "calm m \<longleftrightarrow> (\<forall>w. fst (m w) \<noteq> Inl Panic)"

named_theorems calm_intros \<open>programs that do not panic\<close>

lemma calm_basic [calm_intros]: "calm (io_ret a)" "e \<noteq> Panic \<Longrightarrow> calm (io_fail e)" "calm (io_get f)" "calm (io_set g)"
  by (simp_all add: calm_def io_simps)

lemma calm_result: "calm m \<Longrightarrow> (\<And>a w w'. m w = (Inr a, w') \<Longrightarrow> calm (k a)) \<Longrightarrow> calm (io_bind m k)"
  unfolding calm_def
proof
  fix w
  assume m: "\<forall>w. fst (m w) \<noteq> Inl Panic" and k: "\<And>a w w'. m w = (Inr a, w') \<Longrightarrow> \<forall>w. fst (k a w) \<noteq> Inl Panic"
  obtain r w' where r: "m w = (r, w')" by fastforce
  then show "fst (io_bind m k w) \<noteq> Inl Panic"
    using m [rule_format, of w] k [of w _ w'] by (cases r) (simp_all add: io_bind_def)
qed

lemma calm_bind [calm_intros]: "calm m \<Longrightarrow> (\<And>a. calm (k a)) \<Longrightarrow> calm (io_bind m k)"
  using calm_result by blast

lemma calm_seq [calm_intros]: "calm m \<Longrightarrow> calm n \<Longrightarrow> calm (io_seq m n)"
  by (simp add: io_seq_def calm_bind)

lemma calm_each [calm_intros]: "(\<And>x. calm (f x)) \<Longrightarrow> calm (io_each f xs)"
  by (induction xs) (auto intro: calm_intros)

lemma calm_try [calm_intros]: "calm m \<Longrightarrow> calm (io_try m)"
  by (auto simp: calm_def io_try_def split: prod.split sum.split) (metis fst_conv)

lemma calm_catch [calm_intros]: "calm m \<Longrightarrow> calm n \<Longrightarrow> calm (io_catch m n)"
  by (auto simp: calm_def io_catch_def split: prod.split sum.split) (metis fst_conv)

lemma calm_checked [calm_intros]: "\<exists>a. access = Some a \<Longrightarrow> (\<And>a. access = Some a \<Longrightarrow> calm (k a)) \<Longrightarrow> calm (checked access k)"
  by auto

lemma calm_with [calm_intros]:
  "calm refused \<Longrightarrow> (\<And>p. calm (k p)) \<Longrightarrow> calm (with_player c refused k)"
  "calm refused \<Longrightarrow> (\<And>r. calm (l r)) \<Longrightarrow> calm (with_room c refused l)"
  unfolding with_player_def with_room_def by (auto intro!: calm_intros split: option.split)

lemma calm_state [calm_intros]:
  "calm (on_db m)" "calm (on_room room f)" "calm (on_tickets t)" "calm (on_matches g)" "calm (open_room r)"
  by (auto simp: calm_def on_db_def on_room_def on_tickets_def on_matches_def open_room_def Let_def split: prod.split option.split)

lemma calm_send [calm_intros]:
  "calm (session_SendPlain c msg)" "calm (session_SendEncrypted newCipher c msg)" "calm (send c i b)" "calm (send_all c msgs)"
  "calm (push c i b)"
proof -
  show p: "calm (session_SendPlain c msg)" for msg
    by (simp add: calm_def session_SendPlain_def split: prod.split sum.split)
  show "calm (session_SendEncrypted newCipher c msg)"
    by (simp add: calm_def session_SendEncrypted_def split: prod.split sum.split)
  show "calm (send c i b)" "calm (send_all c msgs)" "calm (push c i b)"
    unfolding send_def send_all_def push_def by (auto intro!: calm_intros p)
qed

lemma calm_send_each: "firstErr \<noteq> Some Panic \<Longrightarrow> calm (send_each cs msg firstErr)"
proof (induction cs arbitrary: firstErr)
  case (Cons c cs)
  have e: "e \<noteq> Panic" if "session_SendPlain c msg w = (Inl e, w')" for e w w'
    using that calm_send(1) [of c msg] unfolding calm_def by (metis fst_conv)
  show ?case
    unfolding calm_def
  proof
    fix w
    obtain r w' where m: "session_SendPlain c msg w = (r, w')" by fastforce
    then have "r = Inl e \<Longrightarrow> e \<noteq> Panic" for e using e by blast
    then have "calm (send_each cs msg (if firstErr = None then Some e else firstErr))" if "r = Inl e" for e
      using Cons that by (intro Cons.IH) auto
    then show "fst (send_each (c # cs) msg firstErr w) \<noteq> Inl Panic"
      using Cons m by (cases r) (simp_all add: calm_def)
  qed
qed (auto simp: calm_def split: option.split)

lemma calm_pushes [calm_intros]:
  "calm (push_account k i b)" "calm (broadcastRoomExcept room skip i b)" "calm (broadcastRoom room i b)"
  "calm (tellMatch room i b)" "calm (sendTo k msgs)" "calm (broadcast clan msgs)" "calm (broadcastReviewers clan msgs)"
proof -
  have "calm (registry_SendPlain k msg)" for msg
    using calm_send_each [of None _ msg] by (simp add: calm_def registry_SendPlain_def)
  then show "calm (push_account k i b)" unfolding push_account_def by (intro calm_intros)
  show e: "calm (broadcastRoomExcept room skip i b)" for skip
    unfolding broadcastRoomExcept_def by (auto intro!: calm_intros)
  show "calm (broadcastRoom room i b)" unfolding broadcastRoom_def by (rule e)
  show "calm (tellMatch room i b)" unfolding tellMatch_def by (intro calm_intros)
  show s: "calm (sendTo k msgs)" for k unfolding sendTo_def by (intro calm_intros)
  show "calm (broadcast clan msgs)" unfolding broadcast_def by (intro calm_intros s)
  show "calm (broadcastReviewers clan msgs)" unfolding broadcastReviewers_def by (auto intro!: calm_intros s)
qed

lemma calm_answers [calm_intros]:
  "calm (refuseJoin c)" "calm (friends_refuse c i)" "calm (chat_refuse c i)" "calm (refuseChat c)" "calm (failCraft c)"
  "calm (sendResponse c i msgs)" "calm (sendBoth cf c msg)" "calm (sendChannelList cf c)" "calm (sendUserClanInfo c clan)"
  "calm (notifyApplication clan p)" "calm (sendAttachment c s item a)" "calm (completeDeltas cf now c result)"
  "calm (completePurchase cf now c result i)" "calm (setSessionClan k n)" "calm (announceDeparture clan m)"
  unfolding refuseJoin_def friends_refuse_def chat_refuse_def refuseChat_def failCraft_def sendResponse_def sendBoth_def
    sendChannelList_def sendUserClanInfo_def notifyApplication_def sendAttachment_def completeDeltas_def completePurchase_def
    setSessionClan_def announceDeparture_def Let_def
  by (auto intro!: calm_intros split: option.split Wallet.split)

lemma calm_send_values [calm_intros]: "calm (send_values now k c items)"
  by (induction items arbitrary: k) (auto intro!: calm_intros)

section \<open>The rows that are read from the store\<close>

lemma parsed_in_bounds [in_bounds]:
  "\<exists>e. buildUserEquip index player = Some e" "\<exists>m. parseClanMark body = Some m" "\<exists>l. readChatLine body n = Some l"
  using parseClanMark_reads readChatLine_reads by (auto intro: buildUserEquip_done [of index player])

lemma equip_row_in_bounds [in_bounds]:
  assumes "buildUserEquip index player = Some e"
  shows "length (equip_row e) = 77"
  by (rule buildUserEquip_done [of index player]) (use assms in \<open>simp add: equip_row_length\<close>)

lemma calm_rows [calm_intros]:
  "calm (load_accounts cf ks)" "calm (playerClan cf player)" "calm (pendingClanPushes cf player)" "calm (clanRequests cf clan k)"
  "calm (clanRoster cf clan)" "calm (clanPushes cf player)" "calm (memberWire cf member)" "calm (friendRow cf friend account)"
  "calm (loadSeat cf seat)" "calm (matchEquip cf index seat)"
proof -
  show a: "calm (load_accounts cf ks)" for ks unfolding load_accounts_def by (auto intro!: calm_intros split: sum.split)
  show p: "calm (playerClan cf player)" unfolding playerClan_def by (auto intro!: calm_intros split: sum.split)
  show q: "calm (pendingClanPushes cf player)"
    unfolding pendingClanPushes_def by (auto intro!: calm_intros split: sum.split option.split)
  show r: "calm (clanRequests cf clan k)" for clan k unfolding clanRequests_def by (auto intro!: calm_intros a)
  show l: "calm (clanRoster cf clan)" for clan unfolding clanRoster_def by (auto intro!: calm_intros a)
  show "calm (clanPushes cf player)" unfolding clanPushes_def by (auto intro!: calm_intros p q r l split: option.split)
  show "calm (memberWire cf member)" unfolding memberWire_def by (auto intro!: calm_intros a)
  show "calm (friendRow cf friend account)" unfolding friendRow_def Let_def by (auto intro!: calm_intros)
  show s: "calm (loadSeat cf seat)" for seat unfolding loadSeat_def by (auto intro!: calm_intros split: sum.split)
  show "calm (matchEquip cf index seat)"
    unfolding matchEquip_def by (intro calm_intros s parsed_in_bounds)
qed

lemma calm_lists [calm_intros]: "calm (equip_rows cf n rows users)" "calm (append_friends cf known rows friends)"
proof -
  show "calm (equip_rows cf n rows users)" by (induction users arbitrary: n rows) (auto intro!: calm_intros)
  show "calm (append_friends cf known rows friends)" by (induction friends arbitrary: rows) (auto intro!: calm_intros)
qed

lemma calm_snapshot [calm_intros]: "calm (matchSnapshot cf room users viewer)"
  unfolding matchSnapshot_def Let_def by (intro calm_intros)

lemma calm_begin [calm_intros]: "calm (beginMatch cf c room)"
  unfolding beginMatch_def start_member_def by (auto intro!: calm_intros split: option.split)

section \<open>Every handler\<close>

lemma calm_login:
  "calm (aeriaAuth cf c body)" "calm (aeriaLauncher cf c body)" "calm (createCredential c body)" "calm (checkCredential cf c body)"
  "calm (requestChannelList cf c body)" "calm (joinChannel cf c body)" "calm (login cf c body)" "calm (itemLogin cf c body)"
  "calm (mapQuestLogin c body)"
  unfolding aeriaAuth_def aeriaLauncher_def createCredential_def checkCredential_def requestChannelList_def joinChannel_def
    login_def itemLogin_def mapQuestLogin_def
  by (auto intro!: calm_intros simp: in_bounds split: sum.split option.split list.split)

text \<open>The room just opened seats the player who created it.\<close>

lemma calm_createRoom: "calm (createRoom cf c body)"
proof -
  let ?rest = "\<lambda>room. io_seq (io_set (setSessionRoom c (Some room))) (io_bind (io_get (room_at room)) (\<lambda>r.
    checked (at_index (rm_Users r) 0) (\<lambda>creator. io_seq (io_set (setSessionRoomUser c (ru_ID creator)))
      (io_seq (send_all c (room_state r)) (send c rmiAnswerRoomCreate [])))))"
  have "calm (io_bind (open_room new) ?rest)" if "rm_Users new \<noteq> []" for new
    unfolding calm_def
  proof
    fix w
    show "fst (io_bind (open_room new) ?rest w) \<noteq> Inl Panic"
    proof (cases "Open (length (hub_rooms w)) (hub_registry w)")
      case None
      then show ?thesis by (simp add: io_bind_def open_room_def)
    next
      case (Some found)
      then obtain n registry where found: "found = (n, registry)" by fastforce
      let ?w = "setSessionRoom c (Some (length (hub_rooms w)))
        (w\<lparr>hub_rooms := hub_rooms w @ [new\<lparr>rm_Number := n\<rparr>], hub_registry := registry\<rparr>)"
      have room: "room_at (length (hub_rooms w)) ?w = new\<lparr>rm_Number := n\<rparr>"
        by (simp add: room_at_def setSessionRoom_def change_data_def split: option.split)
      have after: "calm (io_seq (io_set (setSessionRoomUser c i)) (io_seq (send_all c msgs) (send c rmiAnswerRoomCreate [])))"
        for i msgs by (intro calm_intros)
      have "at_index (rm_Users new) 0 = Some (rm_Users new ! 0)" using that by (simp add: in_bounds)
      then show ?thesis
        using room Some found after
        by (simp add: open_room_def io_bind_def io_seq_def [of "io_set (setSessionRoom c _)"] io_set_def [of "setSessionRoom c _"]
            io_get_def calm_def)
    qed
  qed
  then show ?thesis
    unfolding createRoom_def using parseCreate_reads by (auto intro!: calm_intros split: sum.split)
qed

lemma calm_lobby:
  "calm (lobby_join cf c body)" "calm (lobby_leave c body)" "calm (lobbyList c body)" "calm (roomList c body)"
  "calm (clanRoomList c body)" "calm (userList c body)" "calm (joinRoom c body)" "calm (leaveRoom c body)"
  "calm (gameStart cf c body)" "calm (ready cf c body)"
  unfolding lobby_join_def lobby_leave_def lobbyList_def roomList_def clanRoomList_def userList_def joinRoom_def leaveRoom_def
    vacate_def gameStart_def ready_def soloStartOnReady_def
  by (auto intro!: calm_intros simp: in_bounds split: sum.split option.split)

lemma calm_match:
  "calm (connectServer c body)" "calm (matchStart cf c body)" "calm (loadPercent c body)" "calm (loadComplete c body)"
  "calm (timeStart c body)" "calm (beginRound c body)" "calm (checkRespawn c body)" "calm (checkRespawnInstant c body)"
  "calm (respawn c body)" "calm (death c body)" "calm (timeOut c body)" "calm (dediUserPing c body)" "calm (hitCount c body)"
  "calm (matchLeave c body)" "calm (userEquip cf c body)" "calm (changeWeapon cf c body)"
proof -
  have "body \<noteq> []" if "\<not> length body < 10" using that by auto
  then show "calm (death c body)"
    unfolding death_def notifyDeathRow_def deathReportBytes_def by (auto intro!: calm_intros simp: in_bounds)
  show "calm (changeWeapon cf c body)"
  proof -
    have "those (map (\<lambda>slot. read16 body (1 + slot * 2)) [0..<changeWeaponSlots]) = Some (map (\<lambda>slot. get16 body (1 + slot * 2)) [0..<changeWeaponSlots])"
      if "\<not> length body < changeWeaponBytes"
      using that by (intro those_in_bounds) (simp add: in_bounds changeWeaponSlots_def changeWeaponBytes_def)
    moreover have "body \<noteq> []" if "\<not> length body < changeWeaponBytes"
      using that by (auto simp: changeWeaponBytes_def)
    ultimately show ?thesis
      unfolding changeWeapon_def by (auto intro!: calm_intros simp: in_bounds split: sum.split)
  qed
qed (auto simp: connectServer_def matchStart_def userKeyBytes_def loadPercent_def loadComplete_def timeStart_def beginRound_def
    checkRespawn_def checkRespawnInstant_def respawn_def timeOut_def dediUserPing_def hitCount_def matchLeave_def userEquip_def
    in_bounds Let_def intro!: calm_intros split: option.split sum.split)

lemma calm_items:
  "calm (items_equip cf c body)" "calm (items_buy cf c body)" "calm (items_craft cf c body)" "calm (buyCustom cf c body)"
  "calm (equipCustom cf c body)" "calm (breakCustom cf c body)" "calm (gearEquip cf c body)" "calm (gearBreak cf c body)"
  "calm (perkEquip cf c body)" "calm (perkBreak cf c body)" "calm (perkIncreaseSlot c body)" "calm (static_response a d c body)"
  unfolding items_equip_def items_buy_def items_craft_def buyCustom_def equipCustom_def breakCustom_def gearEquip_def gearBreak_def
    perkEquip_def perkBreak_def perkIncreaseSlot_def static_response_def equipSerial_def items_attach_def items_detach_def
  by (auto intro!: calm_intros simp: in_bounds split: option.split sum.split prod.split)

text \<open>The roster of a clan just founded holds its founder.\<close>

lemma Create_roster: "ClanService_Create s k pn n m e now w = (Inr clan, w') \<Longrightarrow> c_Members clan \<noteq> []"
  by (auto simp: ClanService_Create_def founded_clan_def Let_def io_simps split: prod.splits sum.splits)

lemma calm_clan_create: "calm (clan_create cf c body)"
proof -
  have "c_Members clan \<noteq> []" if "on_db (ClanService_Create s k pn n m e now) w = (Inr (Inr clan), w')" for s k pn n m e now clan w w'
    using that Create_roster [of s k pn n m e now "hub_db w"] by (auto simp: on_db_def split: prod.splits)
  then show ?thesis
    unfolding clan_create_def by (auto intro!: calm_intros calm_result [of "on_db _"] simp: in_bounds split: option.split sum.split)
qed

lemma calm_clan:
  "calm (searchName cf c body)" "calm (checkName cf c body)" "calm (requestJoin cf c body)" "calm (clan_chat cf c body)"
  "calm (deleteClan cf c body)" "calm (clan_cancelApplication cf c body)" "calm (acceptMember cf c body)"
  "calm (rejectMember cf c body)" "calm (clan_kickMember cf c body)" "calm (leaveClan cf c body)" "calm (clan_changeMaster cf c body)"
  "calm (clan_changePosition cf c body)" "calm (clan_checkMark cf c body)" "calm (clan_changeMark cf c body)" "calm (clan_unmapped c body)"
  unfolding searchName_def checkName_def requestJoin_def clan_chat_def deleteClan_def clan_cancelApplication_def acceptMember_def
    rejectMember_def clan_kickMember_def leaveClan_def clan_changeMaster_def clan_changePosition_def clan_checkMark_def
    clan_changeMark_def spendMarkChange_def clan_unmapped_def with_actor_id_def clan_welcome_def Let_def
  by (auto intro!: calm_intros simp: in_bounds split: sum.split option.split prod.split)

lemma calm_social:
  "calm (friends_login cf c body)" "calm (friends_request cf c body)" "calm (friends_accept cf c body)"
  "calm (friends_reject cf c body)" "calm (friends_delete cf c body)" "calm (friends_invite cf c body)"
  "calm (chat_all c body)" "calm (chat_clan cf c body)" "calm (whisper cf c body)"
  unfolding friends_login_def friends_request_def friends_accept_def friends_reject_def friends_delete_def friends_invite_def
    friendList_def chat_all_def chat_clan_def whisper_def with_actor_id_def with_line_def Let_def
  by (auto intro!: calm_intros simp: in_bounds split: sum.split option.split prod.split)

lemma route_calm: "(i, h) \<in> set routes \<Longrightarrow> calm (h cf c body)"
  unfolding routes_def login_routes_def lobby_routes_def item_routes_def clan_routes_def friend_routes_def chat_routes_def static_routes_def
  by (auto simp: calm_login calm_createRoom calm_lobby calm_match calm_items calm_clan_create calm_clan calm_social)

lemma serve_calm: "calm (serve cf c msg)"
proof (cases "handler_of (ID msg)")
  case (Some h)
  then have "(ID msg, h) \<in> set routes" unfolding handler_of_def by (metis map_of_SomeD set_rev)
  then show ?thesis using route_calm Some by (simp add: serve_def)
qed (simp add: serve_def calm_basic)

end
