(* ===== verification/Server_Safety.thy ===== *)
theory Server_Safety
  imports Server_Invariant Server_Bounds
begin

text \<open>
  What the handlers refuse: connections that have not identified themselves, requests whose body is
  too short to hold their fields, and match connections without a ticket for a seat.
\<close>

section \<open>Connections that have not identified themselves\<close>

text \<open>\<open>inert c m\<close>: while connection \<open>c\<close> carries no account, \<open>m\<close> changes nothing but transports.\<close>

definition inert :: "conn \<Rightarrow> 'a act \<Rightarrow> bool" where
  "inert c m \<longleftrightarrow> (\<forall>w. hub_state w c = None \<longrightarrow> core (snd (m w)) = core w)"

named_theorems inert_intros \<open>programs that do nothing for an unidentified connection\<close>

lemma quiet_inert: "quiet m \<Longrightarrow> inert c m"
  by (simp add: inert_def quiet_def)

lemma inert_bind [inert_intros]:
  assumes "inert c m" and "\<And>a. inert c (k a)"
  shows "inert c (io_bind m k)"
  unfolding inert_def
proof (intro allI impI)
  fix w :: hub assume w: "hub_state w c = None"
  obtain r w' where m: "m w = (r, w')" by fastforce
  then have "core w' = core w" using assms(1) w by (metis inert_def snd_conv)
  moreover from this have "hub_state w' c = None" using w by (simp add: core_def)
  ultimately show "core (snd (io_bind m k w)) = core w"
    using assms(2) m unfolding inert_def by (cases r) (simp_all add: io_bind_def)
qed

lemma inert_seq [inert_intros]: "inert c m \<Longrightarrow> inert c n \<Longrightarrow> inert c (io_seq m n)"
  by (simp add: io_seq_def inert_bind)

lemma inert_with [inert_intros]:
  "quiet refused \<Longrightarrow> inert c (with_player c refused k)" "quiet refused \<Longrightarrow> inert c (with_room c refused l)"
  by (simp_all add: inert_def quiet_def with_player_def with_room_def resolvePlayer_def sessionRoom_def io_simps)

lemma inert_set [inert_intros]:
  "inert c (io_set (setSessionRoom c r))" "inert c (io_set (setSessionChannel c ch))"
  by (simp_all add: inert_def io_set_def setSessionRoom_def setSessionChannel_def change_data_def)

lemma inert_catch [inert_intros]: "inert c m \<Longrightarrow> quiet n \<Longrightarrow> inert c (io_catch m n)"
  by (auto simp: inert_def quiet_def io_catch_def split: prod.split sum.split) (metis snd_conv)+

lemma inert_leaf [inert_intros]: "inert c (send d i b)" "inert c (io_ret a)" "inert c (io_fail e)"
  by (intro quiet_inert quiet_intros)+

lemma inert_checked [inert_intros]: "(\<And>a. inert c (k a)) \<Longrightarrow> inert c (checked access k)"
  by (auto simp: checked_def inert_leaf split: option.split)

definition identifying :: "u16 set" where
  "identifying = {rmiRequestAeriaAuth, rmiCheckCredential, rmiRequestMatchStart}"

lemma quiet_reads:
  assumes "mem_conf cf"
  shows "quiet (on_db (Search (cf_clans cf) n))" "quiet (on_db (NameAvailable (cf_clans cf) n))"
  using reading_calls [OF assms] by (simp_all add: quiet_on_db)

lemma quiet_requests:
  assumes cf: "mem_conf cf"
  shows "quiet (aeriaLauncher cf c body)" "quiet (requestChannelList cf c body)" "quiet (lobby_join cf c body)"
    "quiet (lobby_leave c body)" "quiet (lobbyList c body)" "quiet (roomList c body)" "quiet (clanRoomList c body)"
    "quiet (userList c body)" "quiet (connectServer c body)" "quiet (timeStart c body)" "quiet (dediUserPing c body)"
    "quiet (hitCount c body)" "quiet (checkRespawn c body)" "quiet (checkRespawnInstant c body)" "quiet (perkIncreaseSlot c body)"
    "quiet (static_response a d c body)" "quiet (clan_unmapped c body)" "quiet (searchName cf c body)" "quiet (checkName cf c body)"
  unfolding aeriaLauncher_def requestChannelList_def lobby_join_def lobby_leave_def lobbyList_def roomList_def clanRoomList_def
    userList_def connectServer_def timeStart_def dediUserPing_def hitCount_def checkRespawn_def checkRespawnInstant_def
    perkIncreaseSlot_def static_response_def clan_unmapped_def searchName_def checkName_def
  by (auto intro!: quiet_intros quiet_reads [OF cf] split: sum.split)

lemma inert_requests:
  "inert c (createCredential c body)" "inert c (joinChannel cf c body)" "inert c (login cf c body)" "inert c (itemLogin cf c body)"
  "inert c (mapQuestLogin c body)" "inert c (createRoom cf c body)" "inert c (joinRoom c body)" "inert c (leaveRoom c body)"
  "inert c (gameStart cf c body)" "inert c (ready cf c body)" "inert c (loadPercent c body)" "inert c (loadComplete c body)"
  "inert c (beginRound c body)" "inert c (respawn c body)" "inert c (death c body)" "inert c (timeOut c body)"
  "inert c (matchLeave c body)" "inert c (userEquip cf c body)" "inert c (changeWeapon cf c body)"
  unfolding createCredential_def joinChannel_def login_def itemLogin_def mapQuestLogin_def createRoom_def joinRoom_def leaveRoom_def
    gameStart_def ready_def loadPercent_def loadComplete_def beginRound_def respawn_def death_def timeOut_def matchLeave_def
    userEquip_def changeWeapon_def
  by (auto intro!: inert_intros quiet_intros split: list.split)

lemma inert_item_requests:
  "inert c (items_equip cf c body)" "inert c (items_buy cf c body)" "inert c (items_craft cf c body)" "inert c (buyCustom cf c body)"
  "inert c (equipCustom cf c body)" "inert c (breakCustom cf c body)" "inert c (gearEquip cf c body)" "inert c (gearBreak cf c body)"
  "inert c (perkEquip cf c body)" "inert c (perkBreak cf c body)"
proof -
  have e: "inert c (equipSerial cf c serial i)" for serial i
    unfolding equipSerial_def by (intro inert_intros quiet_intros)
  have a: "inert c (items_attach cf kind ok no c body)" "inert c (items_detach cf kind ok no c body)" for kind ok no body
    unfolding items_attach_def items_detach_def by (intro inert_intros quiet_intros)+
  show "inert c (items_equip cf c body)" "inert c (perkEquip cf c body)"
    unfolding items_equip_def perkEquip_def Let_def by (auto intro!: inert_intros quiet_intros e a)
qed (auto simp: items_buy_def items_craft_def buyCustom_def equipCustom_def breakCustom_def gearEquip_def gearBreak_def perkBreak_def
    items_attach_def items_detach_def intro!: inert_intros quiet_intros)

lemma inert_clan_requests:
  "inert c (clan_create cf c body)" "inert c (requestJoin cf c body)" "inert c (clan_chat cf c body)" "inert c (deleteClan cf c body)"
  "inert c (clan_cancelApplication cf c body)" "inert c (acceptMember cf c body)" "inert c (rejectMember cf c body)"
  "inert c (clan_kickMember cf c body)" "inert c (leaveClan cf c body)" "inert c (clan_changeMaster cf c body)"
  "inert c (clan_changePosition cf c body)" "inert c (clan_checkMark cf c body)" "inert c (clan_changeMark cf c body)"
  "inert c (friends_login cf c body)" "inert c (friends_request cf c body)" "inert c (friends_accept cf c body)"
  "inert c (friends_reject cf c body)" "inert c (friends_delete cf c body)" "inert c (friends_invite cf c body)"
  "inert c (chat_all c body)" "inert c (chat_clan cf c body)" "inert c (whisper cf c body)"
  unfolding clan_create_def requestJoin_def clan_chat_def deleteClan_def clan_cancelApplication_def acceptMember_def rejectMember_def
    clan_kickMember_def leaveClan_def clan_changeMaster_def clan_changePosition_def clan_checkMark_def clan_changeMark_def
    friends_login_def friends_request_def friends_accept_def friends_reject_def friends_delete_def friends_invite_def
    chat_all_def chat_clan_def whisper_def with_actor_id_def with_line_def
  by (intro inert_intros quiet_intros)+

lemma route_inert:
  assumes cf: "mem_conf cf" and "(i, h) \<in> set routes" and "i \<notin> identifying"
  shows "inert c (h cf c body)"
proof -
  note facts = quiet_requests [OF cf, THEN quiet_inert] inert_requests inert_item_requests inert_clan_requests
  show ?thesis
    using assms(2,3) unfolding routes_def login_routes_def lobby_routes_def item_routes_def clan_routes_def friend_routes_def
      chat_routes_def static_routes_def identifying_def
    by (auto simp: facts)
qed

lemma inert_serve:
  assumes "mem_conf cf" and "hub_state w c = None"
    and "ID msg \<notin> {rmiRequestAeriaAuth, rmiCheckCredential, rmiRequestMatchStart}"
  shows "core (snd (serve cf c msg w)) = core w"
proof (cases "handler_of (ID msg)")
  case (Some h)
  then have "(ID msg, h) \<in> set routes" unfolding handler_of_def by (metis map_of_SomeD set_rev)
  from route_inert [OF assms(1) this] assms(2,3) Some show ?thesis
    by (simp add: inert_def serve_def identifying_def)
qed (simp add: serve_def io_simps)

text \<open>
  C11. A connection that has not identified itself cannot change the store, the rooms, the session
  data of anybody, the registries, the issued credentials and tickets, or the running matches: only
  a login, a credential or a match ticket gives it an account, and every other request is answered
  or refused without effect.
\<close>

theorem unidentified_requests_inert:
  assumes "mem_conf cf" and "hub_state w c = None"
    and "ID msg \<notin> {rmiRequestAeriaAuth, rmiCheckCredential, rmiRequestMatchStart}"
  shows "core (snd (serve cf c msg w)) = core w"
  using assms by (rule inert_serve)

section \<open>Requests too short for their fields\<close>

lemma routes_distinct: "distinct (map fst routes)"
proof -
  have "distinct (map uint (map fst routes))"
    unfolding routes_def login_routes_def lobby_routes_def item_routes_def clan_routes_def friend_routes_def chat_routes_def
      static_routes_def staticResponses_def
    by (simp add: rmi_ids)
  then show ?thesis by (simp only: distinct_map)
qed

lemma handler_of_route: "(i, h) \<in> set routes \<Longrightarrow> handler_of i = Some h"
  using routes_distinct unfolding handler_of_def by (simp add: map_of_eq_Some_iff rev_map [symmetric])


lemma sized_handlers:
  "handler_of rmiRequestAeriaAuth = Some aeriaAuth" "handler_of rmiCheckCredential = Some checkCredential"
    "handler_of rmiRequestRoomCreate = Some createRoom" "handler_of rmiRequestRoomJoin = Some (\<lambda>_. joinRoom)"
    "handler_of rmiRequestMatchStart = Some matchStart"
    "handler_of rmiRequestLoadPercent = Some (\<lambda>_. loadPercent)"
    "handler_of rmiRequestUserEquip = Some userEquip" "handler_of rmiRequestChangeWeapon = Some changeWeapon"
    "handler_of rmiRequestEquipItem = Some items_equip" "handler_of rmiRequestBuyItem = Some items_buy"
    "handler_of rmiRequestRecipeItem = Some items_craft" "handler_of rmiRequestBuyCustomItem = Some buyCustom"
    "handler_of rmiRequestEquipCustomItem = Some equipCustom"
    "handler_of rmiRequestBreakCustomItem = Some breakCustom" "handler_of rmiRequestEquipGearItem = Some gearEquip"
    "handler_of rmiRequestBreakGearItem = Some gearBreak" "handler_of rmiRequestEquipPerkItem = Some perkEquip"
    "handler_of rmiRequestBreakPerkItem = Some perkBreak" "handler_of rmiRequestDeath = Some (\<lambda>_. death)"
    "handler_of rmiRequestCreateClan = Some clan_create" "handler_of rmiRequestCheckMark = Some clan_checkMark"
    "handler_of rmiRequestChangeMark = Some clan_changeMark" "handler_of rmiRequestJoinClan = Some requestJoin"
    "handler_of rmiRequestSearchClanName = Some searchName" "handler_of rmiRequestCheckClanName = Some checkName"
    "handler_of rmiRequestClanChat = Some clan_chat" "handler_of rmiRequestAcceptMember = Some acceptMember"
    "handler_of rmiRequestRejectMember = Some rejectMember"
    "handler_of rmiRequestKickOutMember = Some clan_kickMember"
    "handler_of rmiRequestChangeMaster = Some clan_changeMaster"
    "handler_of rmiRequestChangePosition = Some clan_changePosition"
    "handler_of rmiRequestFriend = Some friends_request" "handler_of rmiRequestFriendAccept = Some friends_accept"
    "handler_of rmiRequestFriendReject = Some friends_reject"
    "handler_of rmiRequestFriendDelete = Some friends_delete"
    "handler_of rmiRequestFriendInvite = Some friends_invite"
    "handler_of rmiRequestChatAll = Some (\<lambda>_. chat_all)" "handler_of rmiRequestChatClan = Some chat_clan"
    "handler_of rmiRequestChatUser = Some whisper"
  by (rule handler_of_route, simp add: routes_def login_routes_def lobby_routes_def item_routes_def clan_routes_def
      friend_routes_def chat_routes_def)+







lemma unidentified_requests_inert_witness:
  "hub_state sample_start 0 = None \<and>
   core (snd (serve sample_conf 0 \<lparr>ID = rmiRequestBuyItem, Body = [7, 0, 0, 0]\<rparr> sample_start)) = core sample_start"
proof -
  have s: "hub_state sample_start 0 = None" by (simp add: sample_start_def accept_conn_def)
  have "rmiRequestBuyItem \<notin> {rmiRequestAeriaAuth, rmiCheckCredential, rmiRequestMatchStart}" by (simp add: rmi_ids)
  with unidentified_requests_inert [OF sample_conf_ok s, of "\<lparr>ID = rmiRequestBuyItem, Body = [7, 0, 0, 0]\<rparr>"] s
  show ?thesis by simp
qed


section \<open>How a connection gets its account\<close>

text \<open>What follows the last change of a handler only sends.\<close>

lemma core_bind_quiet: "(\<And>a. quiet (k a)) \<Longrightarrow> core (snd (io_bind m k w)) = core (snd (m w))"
  by (auto simp: io_bind_def quiet_def split: prod.split sum.split)

lemma core_seq_quiet: "quiet n \<Longrightarrow> core (snd (io_seq m n w)) = core (snd (m w))"
  by (simp add: io_seq_def core_bind_quiet)

definition account_at :: "db \<Rightarrow> string \<Rightarrow> Player" where
  "account_at d k = (case db_player d k of None \<Rightarrow> empty_player | Some p \<Rightarrow> p)"

lemma find_one: "mem_conf cf \<Longrightarrow> PlayerService_FindMany (cf_players cf) [k] d =
    (Inr (case db_player d k of None \<Rightarrow> [] | Some p \<Rightarrow> [(k, p)]), d)"
  by (simp add: mem_conf_def PlayerService_FindMany_def mem_player_repo_def mem_FindMany_def split: option.split)

lemma loadSeat_account: "mem_conf cf \<Longrightarrow> loadSeat cf seat w = (Inr (account_at (hub_db w) (ru_SteamID seat)), w)"
  by (simp add: loadSeat_def io_simps on_db_def find_one account_at_def account_of_def split: option.split)

lemma quiet_snapshot:
  assumes cf: "mem_conf cf"
  shows "quiet (matchSnapshot cf room users viewer)"
proof -
  have "quiet (loadSeat cf seat)" for seat by (simp add: quiet_def loadSeat_account [OF cf])
  then have "quiet (equip_rows cf n rows users)" for n rows
    by (induction users arbitrary: n rows) (auto simp: matchEquip_def intro!: quiet_intros)
  then show ?thesis unfolding matchSnapshot_def Let_def by (intro quiet_intros)
qed

text \<open>A match connection is admitted to the seat its ticket was issued for, as the seat's account.\<close>

lemma matchStart_core:
  assumes cf: "mem_conf cf"
  shows "core (snd (matchStart cf c body w)) =
    (if length body < 21 then core w
     else (case ticket_redeem (get16 body 5) (get32 body 0) (hub_tickets w) of
         None \<Rightarrow> core w
       | Some room \<Rightarrow> (case Room_Member (room_at room w) (get32 body 0) of
           None \<Rightarrow> core w
         | Some seat \<Rightarrow> core ((bindMatchSession c (account_at (hub_db w) (ru_SteamID seat)) room (get32 body 0) w)
             \<lparr>hub_matches := match_join (rm_Number (room_at room w)) c (hub_matches w)\<rparr>))))"
proof -
  have bind: "io_bind (io_get f) k w = k (f w) w" "io_seq (io_set g) n w = n (g w)" for f :: "hub \<Rightarrow> 'a" and k and g and n :: "'b act" and w
    by (simp_all add: io_simps)
  have refuse: "core (snd (send c i b w)) = core w" for i b using quiet_send(1) by (simp add: quiet_def)
  have rest: "quiet (io_bind (matchSnapshot cf room users viewer) (\<lambda>snapshot. io_seq (send_all c snapshot) (send c i b)))"
    for room users viewer i b
    by (intro quiet_intros quiet_snapshot [OF cf])
  show ?thesis
    unfolding matchStart_def Let_def userKeyBytes_def
    by (simp add: in_bounds bind refuse rest core_seq_quiet loadSeat_account [OF cf] room_at_def on_matches_def bindMatchSession_def io_bind_def [of "loadSeat _ _"]
        split: option.split)
qed

lemma bound_then_quiet:
  "quiet n \<Longrightarrow> hub_state (snd (io_seq (io_set (bindPlayer c p)) n w)) =
    (hub_state w)(c \<mapsto> \<lparr>sd_player = p, sd_room = None, sd_roomUser = 0, sd_channel = 0\<rparr>)"
  using core_seq_quiet [of n "io_set (bindPlayer c p)" w] by (simp add: core_def io_set_def bindPlayer_def)

lemma aeriaAuth_core:
  assumes after: "hub_state (snd (aeriaAuth cf c body w)) c = Some d" and before: "hub_state w c = None"
  shows "sd_room d = None \<and> (\<exists>steamID i. (\<exists>j. ReadProudString body i = Inr (steamID, j)) \<and>
      fst (LoginBySteam (cf_players cf) steamID (cf_now cf 0) (cf_now cf 1) (hub_db w)) = Inr (sd_player d))"
proof -
  have q: "quiet (io_seq (sendBoth cf c m) (io_seq (sendBoth cf c n) (sendChannelList cf c)))" for m n
    by (intro quiet_intros)
  obtain ticket i steamID j where read: "ReadProudString body 0 = Inr (ticket, i)" "ReadProudString body i = Inr (steamID, j)"
    using assms by (auto simp: aeriaAuth_def io_fail_def split: sum.splits)
  obtain r d' where login: "LoginBySteam (cf_players cf) steamID (cf_now cf 0) (cf_now cf 1) (hub_db w) = (r, d')" by fastforce
  have run: "hub_state (snd (aeriaAuth cf c body w)) = (case r of Inl _ \<Rightarrow> hub_state w
      | Inr p \<Rightarrow> (hub_state w)(c \<mapsto> \<lparr>sd_player = p, sd_room = None, sd_roomUser = 0, sd_channel = 0\<rparr>))"
    using read login
    by (simp add: aeriaAuth_def io_bind_def [of "on_db _"] on_db_def io_fail_def bound_then_quiet [OF q] split: sum.split)
  then obtain p where "r = Inr p" "d = \<lparr>sd_player = p, sd_room = None, sd_roomUser = 0, sd_channel = 0\<rparr>"
    using assms by (auto split: sum.splits)
  then have "sd_room d = None"
    "fst (LoginBySteam (cf_players cf) steamID (cf_now cf 0) (cf_now cf 1) (hub_db w)) = Inr (sd_player d)"
    using login by simp_all
  with read show ?thesis by blast
qed

lemma checkCredential_core:
  assumes "hub_state (snd (checkCredential cf c body w)) c = Some d" and "hub_state w c = None"
  shows "Redeem (take 16 body) (hub_credentials w) = Some (sd_player d) \<and> sd_room d = None"
proof -
  have q: "quiet (io_seq (send c i b) (sendChannelList cf c))" for i b by (intro quiet_intros)
  show ?thesis
    using assms
    by (auto simp: checkCredential_def in_bounds io_bind_def io_get_def io_fail_def bound_then_quiet [OF q] split: if_splits option.splits)
qed

text \<open>
  C9. A connection gets its account in three ways only: a login, which loads the account of the
  requested Steam id; a credential, which gives the account it was issued to; or a match ticket,
  which gives the seat the ticket names, in a room that still seats that user, with the stored
  account of that seat, and makes the connection part of the running match.
\<close>

theorem identity_source:
  assumes cf: "mem_conf cf" and before: "hub_state w c = None"
    and after: "hub_state (snd (serve cf c msg w)) c = Some d"
  shows "(ID msg = rmiRequestAeriaAuth \<and> sd_room d = None \<and>
       (\<exists>steamID i. (\<exists>j. ReadProudString (Body msg) i = Inr (steamID, j)) \<and>
         fst (LoginBySteam (cf_players cf) steamID (cf_now cf 0) (cf_now cf 1) (hub_db w)) = Inr (sd_player d))) \<or>
     (ID msg = rmiCheckCredential \<and> sd_room d = None \<and> Redeem (take 16 (Body msg)) (hub_credentials w) = Some (sd_player d)) \<or>
     (ID msg = rmiRequestMatchStart \<and>
       (\<exists>room seat. sd_room d = Some room \<and> ticket_redeem (get16 (Body msg) 5) (sd_roomUser d) (hub_tickets w) = Some room \<and>
         Room_Member (room_at room w) (sd_roomUser d) = Some seat \<and> sd_player d = account_at (hub_db w) (ru_SteamID seat) \<and>
         c \<in> set (match_in (rm_Number (room_at room w)) (hub_matches (snd (serve cf c msg w))))))"
proof -
  have "core (snd (serve cf c msg w)) \<noteq> core w" using before after by (auto simp: core_def)
  then have "ID msg \<in> {rmiRequestAeriaAuth, rmiCheckCredential, rmiRequestMatchStart}"
    using inert_serve [OF cf before] by blast
  then consider "ID msg = rmiRequestAeriaAuth" | "ID msg = rmiCheckCredential" | "ID msg = rmiRequestMatchStart" by blast
  then show ?thesis
  proof cases
    case 1
    then have "hub_state (snd (aeriaAuth cf c (Body msg) w)) c = Some d" using after by (simp add: serve_def sized_handlers)
    from aeriaAuth_core [OF this before] show ?thesis using 1 by metis
  next
    case 2
    then have "hub_state (snd (checkCredential cf c (Body msg) w)) c = Some d" using after by (simp add: serve_def sized_handlers)
    from checkCredential_core [OF this before] show ?thesis using 2 by blast
  next
    case 3
    then have run: "snd (serve cf c msg w) = snd (matchStart cf c (Body msg) w)" by (simp add: serve_def sized_handlers)
    show ?thesis
      using matchStart_core [OF cf, of c "Body msg" w] before after unfolding run
      by (auto simp: core_def bindMatchSession_def match_in_join 3 split: if_splits option.splits)
  qed
qed

text \<open>A match connection with a ticket for user 1 of a room.\<close>

definition seated_hub :: hub where
  "seated_hub = sample_start\<lparr>hub_db := sample_db,
     hub_rooms := [zero_room\<lparr>rm_Number := 1, rm_MaxUsers := 2, rm_LeaderID := 1,
       rm_Users := [(new_user sample_player 1)\<lparr>ru_ID := 1\<rparr>]\<rparr>],
     hub_tickets := \<lparr>mt_next = 7, mt_bySeat = [((7, 1), 0)]\<rparr>\<rparr>"

definition match_key :: "byte list" where
  "match_key = [1, 0, 0, 0, 1, 7, 0] @ replicate 14 0"

lemma identity_source_witness:
  "hub_state seated_hub 0 = None \<and>
   (\<exists>d. hub_state (snd (serve sample_conf 0 \<lparr>ID = rmiRequestMatchStart, Body = match_key\<rparr> seated_hub)) 0 = Some d \<and>
     sd_room d = Some 0 \<and> sd_player d = sample_player)"
proof -
  let ?msg = "\<lparr>ID = rmiRequestMatchStart, Body = match_key\<rparr>"
  have b: "hub_state seated_hub 0 = None" by (simp add: seated_hub_def sample_start_def accept_conn_def)
  have key: "get16 match_key 5 = 7" "get32 match_key 0 = 1" "length match_key = 21" by code_simp+
  have ids: "rmiRequestMatchStart \<noteq> rmiRequestAeriaAuth" "rmiRequestMatchStart \<noteq> rmiCheckCredential" by (simp_all add: rmi_ids)
  have account: "account_at sample_db ''a'' = sample_player" by (simp add: account_at_def)
  have "hub_state (snd (serve sample_conf 0 ?msg seated_hub)) 0 \<noteq> None"
    using matchStart_core [OF sample_conf_ok, of 0 match_key seated_hub]
    by (simp add: serve_def sized_handlers key seated_hub_def ticket_redeem_def room_at_def Room_Member_def core_def bindMatchSession_def)
  then obtain d where d: "hub_state (snd (serve sample_conf 0 ?msg seated_hub)) 0 = Some d" by blast
  from identity_source [OF sample_conf_ok b d] ids obtain room seat where
    "sd_room d = Some room" "ticket_redeem 7 (sd_roomUser d) (hub_tickets seated_hub) = Some room"
    "Room_Member (room_at room seated_hub) (sd_roomUser d) = Some seat" "sd_player d = account_at (hub_db seated_hub) (ru_SteamID seat)"
    by (auto simp: key)
  then show ?thesis
    using b d account
    by (auto simp: seated_hub_def ticket_redeem_def room_at_def Room_Member_def new_user_def sample_player_def split: if_splits)
qed

end
