(* ===== verification/Lobby_Properties.thy ===== *)
theory Lobby_Properties
  imports Server_Safety
begin

text \<open>
  What players see of rooms, matches and each other: opening and joining rooms, the seats and rounds
  of a match, the equipment rows, the session registry as one map, and the delivery of a chat line.
\<close>

section \<open>Room numbers\<close>

text \<open>
  C20. \<open>RoomRegistry.Open\<close> returns exactly when some room number is free; then the number it gives
  is nonzero and was not in use, the new room is found under it, and no other room moved. With all
  65535 numbers taken the loop never ends, with the lock of the registry held.
\<close>

theorem Open_returns:
  "(Open room r \<noteq> None) = (\<exists>n. n \<noteq> 0 \<and> RoomRegistry_Find n r = None) \<and>
   (\<forall>n r'. Open room r = Some (n, r') \<longrightarrow> n \<noteq> 0 \<and> RoomRegistry_Find n r = None \<and> rr_lastRoom r' = n \<and>
      (\<forall>m. RoomRegistry_Find m r' = (if m = n then Some room else RoomRegistry_Find m r)))"
proof (intro conjI allI impI)
  show "(Open room r \<noteq> None) = (\<exists>n. n \<noteq> 0 \<and> RoomRegistry_Find n r = None)"
  proof (cases "free_number (rr_rooms r) (rr_lastRoom r)")
    case None
    then have "map_of (rr_rooms r) n \<noteq> None" if "n \<noteq> 0" for n
      using free_number_total [OF that, of "rr_rooms r" "rr_lastRoom r"] by auto
    then show ?thesis using None by (auto simp: Open_def RoomRegistry_Find_def)
  next
    case (Some n)
    then show ?thesis using free_number_result [OF Some] by (auto simp: Open_def RoomRegistry_Find_def)
  qed
next
  fix n r' assume "Open room r = Some (n, r')"
  then have f: "free_number (rr_rooms r) (rr_lastRoom r) = Some n"
    and r': "r' = r\<lparr>rr_lastRoom := n, rr_rooms := AList.update n room (rr_rooms r)\<rparr>"
    by (auto simp: Open_def split: option.splits)
  show "n \<noteq> 0" "RoomRegistry_Find n r = None" using free_number_result [OF f] by (simp_all add: RoomRegistry_Find_def)
  show "rr_lastRoom r' = n" by (simp add: r')
  show "RoomRegistry_Find m r' = (if m = n then Some room else RoomRegistry_Find m r)" for m
    by (simp add: r' RoomRegistry_Find_def update_conv')
qed

lemma Open_returns_witness:
  "\<exists>n r'. Open 5 \<lparr>rr_rooms = [(1, 0)], rr_lastRoom = -1\<rparr> = Some (n, r') \<and> n \<noteq> 0 \<and> RoomRegistry_Find n r' = Some 5"
proof -
  define r where "r = \<lparr>rr_rooms = [(1 :: u16, 0 :: room_ref)], rr_lastRoom = -1\<rparr>"
  have "(2 :: u16) \<noteq> 0" "RoomRegistry_Find 2 r = None" by (simp_all add: RoomRegistry_Find_def r_def)
  then have "Open 5 r \<noteq> None" using Open_returns [of 5 r] by blast
  then obtain n r' where o: "Open 5 r = Some (n, r')" by auto
  then have "n \<noteq> 0" "RoomRegistry_Find n r' = Some 5"
    using Open_returns [of 5 r] by simp_all
  then show ?thesis using o unfolding r_def by blast
qed

section \<open>The session registry as one map\<close>

datatype registry_event = Bound string conn | Unbound conn

primrec registry_after :: "registry_event \<Rightarrow> SessionRegistry \<Rightarrow> SessionRegistry" where
  "registry_after (Bound k s) r = Bind k s r"
| "registry_after (Unbound s) r = Unbind s r"

primrec owner_after :: "registry_event \<Rightarrow> (conn \<Rightarrow> string option) \<Rightarrow> conn \<Rightarrow> string option" where
  "owner_after (Bound k s) m = (if k = [] then m else m(s \<mapsto> k))"
| "owner_after (Unbound s) m = m(s := None)"

lemma Bind_ignored: "Bind [] s r = r"
  by (simp add: Bind_def)

lemma registry_event_step:
  "registry_ok r \<Longrightarrow> registry_ok (registry_after e r) \<and> owner (registry_after e r) = owner_after e (owner r)"
proof (cases e)
  case (Bound k s)
  assume "registry_ok r"
  then show ?thesis using Bound Bind_index [of k s r] Bind_ok by (cases "k = []") (simp_all add: Bind_ignored)
next
  case (Unbound s)
  assume "registry_ok r"
  then show ?thesis using Unbound by (simp add: Unbind_forget forget_ok forget_index)
qed

lemma registry_run:
  "registry_ok r \<Longrightarrow> registry_ok (fold registry_after es r) \<and> owner (fold registry_after es r) = fold owner_after es (owner r)"
  by (induction es arbitrary: r) (simp_all add: registry_event_step)

text \<open>
  C19. The session registry, with its two indexes, implements one map from connections to accounts:
  after any sequence of logins and disconnections an account's connections are exactly those whose
  last login was as that account, each once; it is online when it has one; and the online accounts
  are those with a connection. A login without a Steam id is ignored.
\<close>

theorem registry_implements_map:
  "let r = fold registry_after es new_session_registry; m = fold owner_after es Map.empty
   in (\<forall>k. set (Sessions r k) = {s. m s = Some k} \<and> distinct (Sessions r k)) \<and>
      (\<forall>k. IsOnline r k = (k \<in> ran m)) \<and> set (Online r) = ran m"
proof -
  let ?r = "fold registry_after es new_session_registry"
  let ?m = "fold owner_after es Map.empty"
  have ok: "registry_ok ?r" and m: "owner ?r = ?m"
    using registry_run [OF new_registry_ok, of es] by (simp_all add: new_session_registry_def owner_def)
  have sets: "set (conns_of ?r k) = {s. ?m s = Some k}" for k using ok m by (simp add: registry_ok_def)
  have nonempty: "?m s \<noteq> Some []" for s using ok m by (simp add: registry_ok_def)
  have "set (Sessions ?r k) = {s. ?m s = Some k} \<and> distinct (Sessions ?r k)" for k
    using Sessions_owner [OF ok, of k] ok m by (simp add: Sessions_def registry_ok_def)
  moreover have online: "IsOnline ?r k = (k \<in> ran ?m)" for k
  proof -
    have "conns_of ?r k \<noteq> [] \<longleftrightarrow> (\<exists>s. ?m s = Some k)" using sets [of k] by (metis (mono_tags) empty_Collect_eq set_empty)
    then show ?thesis using nonempty by (auto simp: IsOnline_def ran_def)
  qed
  moreover have "set (Online ?r) = ran ?m"
  proof -
    have "k \<in> set (Online ?r) \<longleftrightarrow> conns_of ?r k \<noteq> []" for k
    proof (cases "map_of (sr_bySteamID ?r) k")
      case None
      then have "k \<notin> set (Online ?r)" by (simp add: Online_def map_of_eq_None_iff)
      then show ?thesis using None by (simp add: conns_of_def)
    next
      case (Some cs)
      then have "cs \<noteq> []" using ok unfolding registry_ok_def by blast
      moreover have "k \<in> set (Online ?r)" using map_of_SomeD [OF Some] by (force simp: Online_def)
      ultimately show ?thesis using Some by (simp add: conns_of_def)
    qed
    then show ?thesis using sets by (auto simp: ran_def simp flip: set_empty)
  qed
  ultimately show ?thesis by (simp add: Let_def)
qed

section \<open>Rounds of a match\<close>

text \<open>What \<open>n\<close> reports of the end of a round answer, in order.\<close>

primrec finished_rounds :: "nat \<Rightarrow> Room \<Rightarrow> (u8 \<times> bool) list" where
  "finished_rounds 0 r = []"
| "finished_rounds (Suc n) r = fst (FinishRound r) # finished_rounds n (snd (FinishRound r))"

text \<open>The round a room is in: a room that has not played yet starts with the first.\<close>

definition current_round :: "Room \<Rightarrow> nat" where
  "current_round r = (if rm_Round r = 0 then 1 else unat (rm_Round r))"

lemma finish_report:
  assumes "rm_RoundLimit r \<noteq> 0"
  shows "fst (FinishRound r) = (of_nat (current_round r), unat (rm_RoundLimit r) \<le> current_round r)"
    "current_round (snd (FinishRound r)) =
      (if unat (rm_RoundLimit r) \<le> current_round r then current_round r else current_round r + 1)"
    "rm_RoundLimit (snd (FinishRound r)) = rm_RoundLimit r"
proof -
  let ?r = "if rm_Round r = 0 then r\<lparr>rm_Round := 1\<rparr> else r"
  have s: "unat (rm_Round ?r) = current_round r" by (simp add: current_round_def)
  have le: "rm_RoundLimit r \<le> rm_Round ?r \<longleftrightarrow> unat (rm_RoundLimit r) \<le> current_round r"
    unfolding word_le_nat_alt s ..
  have succ: "unat (rm_Round ?r + 1) = current_round r + 1" if "\<not> unat (rm_RoundLimit r) \<le> current_round r"
  proof -
    have "unat (rm_RoundLimit r) < 256" using unsigned_less [of "rm_RoundLimit r"] by simp
    then have "unat (rm_Round ?r) + 1 < 256" using that unfolding s by simp
    then show ?thesis unfolding s [symmetric] by (simp add: unat_word_ariths)
  qed
  have run: "FinishRound r = (if unat (rm_RoundLimit r) \<le> current_round r then ((rm_Round ?r, True), ?r)
      else ((rm_Round ?r, False), ?r\<lparr>rm_Round := rm_Round ?r + 1\<rparr>))"
    using assms unfolding FinishRound_def Let_def le [symmetric] by simp
  have number: "rm_Round ?r = of_nat (current_round r)" unfolding s [symmetric] by simp
  show "fst (FinishRound r) = (of_nat (current_round r), unat (rm_RoundLimit r) \<le> current_round r)"
    unfolding run number by simp
  have "current_round ?r = current_round r" by (simp add: current_round_def)
  moreover have "current_round (?r\<lparr>rm_Round := rm_Round ?r + 1\<rparr>) = current_round r + 1"
    if "\<not> unat (rm_RoundLimit r) \<le> current_round r"
  proof -
    have "rm_Round ?r + 1 \<noteq> 0" using succ [OF that] by (metis add_is_0 one_neq_zero unat_0)
    then show ?thesis using succ [OF that] by (simp add: current_round_def)
  qed
  ultimately show "current_round (snd (FinishRound r)) =
      (if unat (rm_RoundLimit r) \<le> current_round r then current_round r else current_round r + 1)"
    unfolding run by simp
  show "rm_RoundLimit (snd (FinishRound r)) = rm_RoundLimit r" unfolding run by simp
qed

text \<open>
  C21. In a room with a round limit the reports of the end of a round are numbered upwards from the
  round the room is in, and a report is announced as the end of the match exactly when the limit is
  reached, and again for every later report. So the match of a room that has not played yet ends with
  the report that reaches the limit and not earlier; and since nothing sets the round back, the next
  match of the same room ends with its first report.
\<close>

theorem match_ends:
  assumes "rm_RoundLimit r \<noteq> 0"
  shows "finished_rounds n r =
    map (\<lambda>i. (of_nat (min (current_round r + i) (max (current_round r) (unat (rm_RoundLimit r)))),
      unat (rm_RoundLimit r) \<le> current_round r + i)) [0..<n]"
  using assms
proof (induction n arbitrary: r)
  case (Suc n)
  note step = finish_report [OF Suc.prems]
  show ?case
    using Suc.IH [of "snd (FinishRound r)"] Suc.prems unfolding finished_rounds.simps map_upt_Suc step
    by (auto simp: max_def min_def)
qed simp

lemma match_ends_witness:
  "finished_rounds 5 (zero_room\<lparr>rm_RoundLimit := 3\<rparr>) = [(1, False), (2, False), (3, True), (3, True), (3, True)]"
proof -
  have "rm_RoundLimit (zero_room\<lparr>rm_RoundLimit := 3\<rparr>) \<noteq> 0" "current_round (zero_room\<lparr>rm_RoundLimit := 3\<rparr>) = 1"
    by (simp_all add: zero_room_def current_round_def)
  from match_ends [OF this(1), of 5] this(2) show ?thesis by (simp add: upt_rec)
qed

text \<open>Nothing resets the round: the room's next match ends with its first round.\<close>

lemma rematch_ends_at_once:
  "rm_Round r = rm_RoundLimit r \<Longrightarrow> rm_RoundLimit r \<noteq> 0 \<Longrightarrow> snd (NextRound r) = r \<and> FinishRound r = ((rm_RoundLimit r, True), r)"
  by (simp add: NextRound_def FinishRound_def Let_def)

section \<open>Equipment rows\<close>

text \<open>
  C40. Whatever slots and serials the stored loadout and attachments of a player name, building the
  equipment row never writes outside one of its arrays (which would panic): the result has the shape of
  the wire type, five weapons, six custom parts, three perks and five unmapped words, in 77 bytes,
  and each position holds the item of the last entry stored for its slot, 0 where there is none.
\<close>

theorem buildUserEquip_shape:
  "\<exists>e. buildUserEquip index player = Some e \<and> equip_shape e \<and> length (equip_row e) = 77 \<and> ue_UserIndex e = index \<and>
    ue_Unkn e = replicate 5 0 \<and>
    (\<forall>k<5. ue_Weapon e ! k = slot_item e_Slot e_Serial player (p_Loadout player) (SlotWeaponFirst + of_nat k) 0) \<and>
    (\<forall>k<6. ue_Custom e ! k = slot_item a_Slot a_ChildSerial player (p_Attachments player) (SlotCustomPartFirst + of_nat k) 0) \<and>
    (\<forall>k<3. ue_Perk e ! k = slot_item a_Slot a_ChildSerial player (p_Attachments player) (SlotPerkFirst + of_nat k) 0)"
  by (rule buildUserEquip_done [of index player]) (auto simp: equip_row_length)

lemma buildUserEquip_shape_witness:
  "\<exists>e. buildUserEquip 1 (sample_player\<lparr>p_Loadout := [\<lparr>e_Slot = SlotWeaponLast, e_Serial = 9\<rparr>]\<rparr>) = Some e \<and>
    length (equip_row e) = 77 \<and> ue_Weapon e ! 0 = 0 \<and> ue_Custom e ! 5 = 0 \<and> ue_Perk e ! 2 = 0"
proof -
  let ?p = "sample_player\<lparr>p_Loadout := [\<lparr>e_Slot = SlotWeaponLast, e_Serial = 9\<rparr>]\<rparr>"
  from buildUserEquip_shape [of 1 ?p] obtain e where e: "buildUserEquip 1 ?p = Some e" "length (equip_row e) = 77"
    "ue_Weapon e ! 0 = slot_item e_Slot e_Serial ?p (p_Loadout ?p) (SlotWeaponFirst + of_nat 0) 0"
    "ue_Custom e ! 5 = slot_item a_Slot a_ChildSerial ?p (p_Attachments ?p) (SlotCustomPartFirst + of_nat 5) 0"
    "ue_Perk e ! 2 = slot_item a_Slot a_ChildSerial ?p (p_Attachments ?p) (SlotPerkFirst + of_nat 2) 0" by auto
  moreover have "slot_item e_Slot e_Serial ?p (p_Loadout ?p) (SlotWeaponFirst + of_nat 0) 0 = 0" "p_Attachments ?p = []"
    by (simp_all add: slot_item_def slot_ranges sample_player_def empty_player_def)
  ultimately show ?thesis by (auto simp: slot_item_simps)
qed

section \<open>Joining a room\<close>

text \<open>The room a request asks to join, when it is open, the password is right and a seat is free.\<close>

definition room_to_join :: "byte list \<Rightarrow> hub \<Rightarrow> room_ref option" where
  "room_to_join body w =
     (if length body < 2 then None
      else case (ReadProudString body 2, RoomRegistry_Find (get16 body 0) (hub_registry w)) of
        (Inr (password, _), Some room) \<Rightarrow>
          (let r = room_at room w
           in if (rm_Password r = [] \<or> rm_Password r = password) \<and> \<not> Room_IsFull r then Some room else None)
      | _ \<Rightarrow> None)"

definition seated_user :: "Player \<Rightarrow> Room \<Rightarrow> RoomUser" where
  "seated_user player r = (joining_user player r)\<lparr>ru_ID := next_seat r\<rparr>"

lemma room_unchanged: "core (w\<lparr>hub_rooms := (hub_rooms w)[room := room_at room w]\<rparr>) = core w"
  by (cases "room < length (hub_rooms w)") (simp_all add: room_at_def core_def list_update_beyond)

lemma joinRoom_core:
  assumes d: "hub_state w c = Some d"
  shows "core (snd (joinRoom c body w)) =
    (case room_to_join body w of
       None \<Rightarrow> core w
     | Some room \<Rightarrow> (let r = room_at room w; user = seated_user (sd_player d) r
         in core (w\<lparr>hub_rooms := (hub_rooms w)[room := r\<lparr>rm_Users := rm_Users r @ [user]\<rparr>],
              hub_state := (hub_state w)(c \<mapsto> d\<lparr>sd_room := Some room, sd_roomUser := ru_ID user\<rparr>)\<rparr>)))"
proof -
  have bind: "io_bind (io_get f) k v = k (f v) v" "io_seq (io_set g) n v = n (g v)"
    for f :: "hub \<Rightarrow> 'a" and k and g and n :: "'b act" and v by (simp_all add: io_simps)
  have refuse: "core (snd (refuseJoin c v)) = core v" for v using quiet_answers(1) by (simp add: quiet_def)
  have rest: "core (snd (io_seq (send_all c msgs) (io_seq (send c i b) (io_seq (broadcastRoomExcept room (Some c) j x)
      (broadcastRoomExcept room (Some c) k y))) v)) = core v" for msgs i b j x k y room v
  proof -
    have "quiet (io_seq (send_all c msgs) (io_seq (send c i b) (io_seq (broadcastRoomExcept room (Some c) j x)
      (broadcastRoomExcept room (Some c) k y))))" by (intro quiet_intros)
    then show ?thesis by (simp add: quiet_def)
  qed
  have player: "with_player c refused k v = k (sd_player d) v" if "hub_state v c = Some d" for refused and k :: "Player \<Rightarrow> unit act" and v
    using that by (simp add: with_player_def bind resolvePlayer_def)
  show ?thesis
    unfolding joinRoom_def
    by (auto simp: in_bounds room_unchanged player [OF d] bind refuse rest room_to_join_def on_room_def AddUser_def Room_IsFull_def seated_user_def next_seat_def
        io_bind_def [of "on_room _ _"] setSessionRoom_def setSessionRoomUser_def change_data_def d Let_def
        split: sum.split option.split)
qed

text \<open>
  C12. A player who asks to join a room is seated exactly when the room is open under that number,
  has no password or the given one, and is not full. The new seat comes last, carries the player's
  name and Steam id, an id nobody else in the room has (while ids last), and the team with fewer
  players; the connection is put in the room at that seat; nothing else on the server changes, even
  when a notification fails. In every other case nothing changes at all.
\<close>

theorem joinRoom_correct:
  assumes "hub_state w c = Some d" and "w' = snd (joinRoom c body w)"
  shows "case room_to_join body w of
      None \<Rightarrow> core w' = core w
    | Some room \<Rightarrow> (\<exists>user r. r = room_at room w \<and>
        ru_Name user = p_Name (sd_player d) \<and> ru_SteamID user = p_SteamID (sd_player d) \<and>
        (top_seat r \<noteq> - 1 \<longrightarrow> ru_ID user \<noteq> 0 \<and> ru_ID user \<notin> seat_ids r) \<and>
        (ru_Team user = (if count_by ru_Team 1 (rm_Users r) \<le> length (rm_Users r) - count_by ru_Team 1 (rm_Users r) then 1 else 2)) \<and>
        length (rm_Users r) < unat (rm_MaxUsers r) \<and>
        sessionRoom c w' = Some room \<and> sessionRoomUser c w' = ru_ID user \<and>
        (\<forall>c'. c' \<noteq> c \<longrightarrow> hub_state w' c' = hub_state w c') \<and>
        hub_rooms w' = (hub_rooms w)[room := r\<lparr>rm_Users := rm_Users r @ [user]\<rparr>] \<and>
        hub_db w' = hub_db w \<and> hub_registry w' = hub_registry w \<and> hub_sessions w' = hub_sessions w \<and>
        hub_tickets w' = hub_tickets w \<and> hub_matches w' = hub_matches w)"
proof (cases "room_to_join body w")
  case None
  then show ?thesis using joinRoom_core [OF assms(1), of body] assms(2) by simp
next
  case (Some room)
  let ?r = "room_at room w" and ?u = "seated_user (sd_player d) (room_at room w)"
  have core: "core w' = core (w\<lparr>hub_rooms := (hub_rooms w)[room := ?r\<lparr>rm_Users := rm_Users ?r @ [?u]\<rparr>],
      hub_state := (hub_state w)(c \<mapsto> d\<lparr>sd_room := Some room, sd_roomUser := ru_ID ?u\<rparr>)\<rparr>)"
    using joinRoom_core [OF assms(1), of body] Some assms(2) by (simp add: Let_def)
  have free: "length (rm_Users ?r) < unat (rm_MaxUsers ?r)"
    using Some by (auto simp: room_to_join_def Room_IsFull_def Let_def split: if_splits sum.splits option.splits)
  have fresh: "top_seat ?r \<noteq> - 1 \<longrightarrow> ru_ID ?u \<noteq> 0 \<and> ru_ID ?u \<notin> seat_ids ?r"
    using seats.next_fresh seats.next_nonzero by (simp add: seated_user_def)
  have team: "ru_Team ?u = (if count_by ru_Team 1 (rm_Users ?r) \<le> length (rm_Users ?r) - count_by ru_Team 1 (rm_Users ?r) then 1 else 2)"
    by (auto simp: seated_user_def joining_user_def NextTeam_def)
  have names: "ru_Name ?u = p_Name (sd_player d)" "ru_SteamID ?u = p_SteamID (sd_player d)"
    by (simp_all add: seated_user_def joining_user_def)
  show ?thesis unfolding Some option.case
    by (rule exI [of _ ?u], rule exI [of _ ?r])
       (use core free fresh team names in \<open>simp add: core_def sessionRoom_def sessionRoomUser_def\<close>)
qed

definition join_hub :: hub where
  "join_hub = seated_hub\<lparr>hub_state := [0 \<mapsto> \<lparr>sd_player = sample_player, sd_room = None, sd_roomUser = 0, sd_channel = 0\<rparr>],
     hub_registry := \<lparr>rr_rooms = [(1, 0)], rr_lastRoom = 1\<rparr>\<rparr>"

lemma joinRoom_correct_witness:
  "\<exists>w'. w' = snd (joinRoom 0 [1, 0, 0] join_hub) \<and> sessionRoom 0 w' = Some 0 \<and> length (rm_Users (room_at 0 w')) = 2"
proof -
  have d: "hub_state join_hub 0 = Some \<lparr>sd_player = sample_player, sd_room = None, sd_roomUser = 0, sd_channel = 0\<rparr>"
    by (simp add: join_hub_def)
  have "ReadProudString [1, 0, 0] 2 = Inr ([], 3)" "get16 [1, 0, 0] 0 = 1" by code_simp+
  then have room: "room_to_join [1, 0, 0] join_hub = Some 0"
    by (simp add: room_to_join_def join_hub_def seated_hub_def RoomRegistry_Find_def room_at_def Room_IsFull_def zero_room_def)
  show ?thesis
    using joinRoom_correct [OF d refl, of "[1, 0, 0]"] unfolding room
    by (auto simp: join_hub_def seated_hub_def room_at_def)
qed

end
