(* ===== verification/Delivery.thy ===== *)
theory Delivery
  imports Lobby_Properties
begin

text \<open>
  What reaches the clients over transports that accept their writes: a handler's plain messages are
  put on the wires whole and in order, and a line of the lobby chat goes to every connection that is
  logged in, once.
\<close>

section \<open>Transports that accept their writes\<close>

definition reliable :: "hub \<Rightarrow> bool" where
  "reliable w \<longleftrightarrow> (\<forall>c. write_script (hub_wires w c) = [])"

definition plain_bytes :: "Message \<Rightarrow> byte list" where
  "plain_bytes msg = EncodeFrame MarkerReliable (encodePlain msg)"

text \<open>The server after the messages went out: each is on its connection's wire, as one frame.\<close>

definition deliver :: "(conn \<times> Message) list \<Rightarrow> hub \<Rightarrow> hub" where
  "deliver msgs w = w\<lparr>
     hub_wires := (\<lambda>c. (hub_wires w c)\<lparr>wire_out := wire_out (hub_wires w c)
       @ concat (map (\<lambda>(d, msg). if d = c then plain_bytes msg else []) msgs)\<rparr>),
     hub_sent := hub_sent w @ msgs\<rparr>"

lemma deliver_nil [simp]: "deliver [] w = w"
  by (simp add: deliver_def)

lemma deliver_append [simp]: "deliver ys (deliver xs w) = deliver (xs @ ys) w"
  by (simp add: deliver_def)

lemma deliver_fields [simp]:
  "hub_db (deliver ms w) = hub_db w" "hub_state (deliver ms w) = hub_state w" "hub_rooms (deliver ms w) = hub_rooms w"
  "hub_registry (deliver ms w) = hub_registry w" "hub_sessions (deliver ms w) = hub_sessions w"
  "hub_credentials (deliver ms w) = hub_credentials w" "hub_tickets (deliver ms w) = hub_tickets w"
  "hub_matches (deliver ms w) = hub_matches w" "hub_sent (deliver ms w) = hub_sent w @ ms"
  by (simp_all add: deliver_def)

lemma reliable_deliver [simp]: "reliable (deliver ms w) = reliable w"
  by (simp add: reliable_def deliver_def)

lemma write_accepted: "write_script s = [] \<Longrightarrow> write_loop frame s = (Inr (), s\<lparr>wire_out := wire_out s @ frame\<rparr>)"
  by (simp add: write_loop.simps [of frame] write_loop.simps [of "[]"] connWrite_def)

lemma sent_reliable: "reliable w \<Longrightarrow> session_SendPlain c msg w = (Inr (), deliver [(c, msg)] w)"
  by (auto simp: session_SendPlain_def SendPlain_def sendReliable_def writeReliableLocked_def reliable_def write_accepted
      deliver_def plain_bytes_def fun_eq_iff)

text \<open>\<open>sends m f\<close>: over such transports \<open>m\<close> does nothing but deliver the messages \<open>f\<close> computes.\<close>

definition sends :: "unit act \<Rightarrow> (hub \<Rightarrow> (conn \<times> Message) list) \<Rightarrow> bool" where
  "sends m f \<longleftrightarrow> (\<forall>w. reliable w \<longrightarrow> m w = (Inr (), deliver (f w) w))"

lemma sends_send: "sends (send c i b) (\<lambda>_. [(c, \<lparr>ID = i, Body = b\<rparr>)])"
  by (simp add: sends_def send_def sent_reliable)

lemma sends_seq:
  assumes "sends m f" and "sends n g" and "\<And>ms w. g (deliver ms w) = g w"
  shows "sends (io_seq m n) (\<lambda>w. f w @ g w)"
  using assms by (simp add: sends_def io_simps)

lemma sends_each:
  assumes "\<And>x. sends (f x) (g x)" and "\<And>x ms w. g x (deliver ms w) = g x w"
  shows "sends (io_each f xs) (\<lambda>w. concat (map (\<lambda>x. g x w) xs))"
  using assms by (induction xs) (simp_all add: sends_def io_simps)

lemma send_each_reliable: "reliable w \<Longrightarrow> send_each cs msg None w = (Inr (), deliver (map (\<lambda>c. (c, msg)) cs) w)"
  by (induction cs arbitrary: w) (simp_all add: sent_reliable)

lemma sends_account: "sends (push_account k i b) (\<lambda>w. map (\<lambda>c. (c, \<lparr>ID = i, Body = b\<rparr>)) (Sessions (hub_sessions w) k))"
  by (simp add: sends_def push_account_def registry_SendPlain_def io_try_def send_each_reliable)

lemma distinct_groups:
  assumes "\<And>k. distinct (f k)" and apart: "\<And>j k. j \<noteq> k \<Longrightarrow> set (f j) \<inter> set (f k) = {}"
  shows "distinct ks \<Longrightarrow> distinct (concat (map f ks))"
proof (induction ks)
  case (Cons k ks)
  then have "set (f k) \<inter> set (f j) = {}" if "j \<in> set ks" for j using apart [of k j] that by auto
  then have "set (f k) \<inter> set (concat (map f ks)) = {}" by auto
  then show ?case using Cons assms(1) by simp
qed simp

section \<open>The lobby chat\<close>

text \<open>
  C17. A line of the lobby chat from a player is acknowledged and then delivered, as one chat row
  with the speaker's name, the trimmed line and its flag, to every connection that is logged in,
  the speaker's own included, exactly once each; nothing else on the server changes, and nothing
  else is sent.
\<close>

theorem chat_all_delivers:
  assumes "reliable w" and "registry_ok (hub_sessions w)" and "hub_state w c = Some d"
    and "readChatLine body 0 = Some (Some (line, flag))"
  shows "\<exists>rs. distinct rs \<and> set rs = dom (owner (hub_sessions w)) \<and>
    snd (serve cf c \<lparr>ID = rmiRequestChatAll, Body = body\<rparr> w) =
      deliver ((c, \<lparr>ID = rmiAnswerChatAllOK, Body = []\<rparr>) # map (\<lambda>s. (s, \<lparr>ID = rmiNotifyChat,
        Body = notifyChatRow (p_Name (sd_player d)) line chatTypeDefault flag\<rparr>)) rs) w"
proof -
  let ?row = "\<lparr>ID = rmiNotifyChat, Body = notifyChatRow (p_Name (sd_player d)) line chatTypeDefault flag\<rparr>"
  let ?rs = "concat (map (Sessions (hub_sessions w)) (Online (hub_sessions w)))"
  have sets: "set (conns_of (hub_sessions w) k) = {s. owner (hub_sessions w) s = Some k}"
    and online: "distinct (Online (hub_sessions w))" and each: "distinct (Sessions (hub_sessions w) k)" for k
    using assms(2) by (auto simp: registry_ok_def Online_def Sessions_def)
  have owned: "set (Sessions (hub_sessions w) k) = {s. owner (hub_sessions w) s = Some k}" for k
    using Sessions_owner [OF assms(2)] .
  have listed: "k \<in> set (Online (hub_sessions w))" if "owner (hub_sessions w) s = Some k" for s k
  proof -
    have "conns_of (hub_sessions w) k \<noteq> []" using that sets [of k] by auto
    then show ?thesis by (auto simp: conns_of_def Online_def split: option.splits dest: map_of_SomeD intro: rev_image_eqI)
  qed
  have "distinct ?rs"
    using online each owned by (intro distinct_groups) auto
  moreover have "set ?rs = dom (owner (hub_sessions w))"
    using owned listed by (fastforce simp: dom_def)
  moreover have "snd (serve cf c \<lparr>ID = rmiRequestChatAll, Body = body\<rparr> w) =
      deliver ((c, \<lparr>ID = rmiAnswerChatAllOK, Body = []\<rparr>) # map (\<lambda>s. (s, ?row)) ?rs) w"
  proof -
    have "sends (io_each (\<lambda>k. push_account k rmiNotifyChat (Body ?row)) ks)
        (\<lambda>w. concat (map (\<lambda>k. map (\<lambda>s. (s, \<lparr>ID = rmiNotifyChat, Body = Body ?row\<rparr>)) (Sessions (hub_sessions w) k)) ks))" for ks
      by (rule sends_each, rule sends_account) simp
    then show ?thesis
      using assms(1,3,4) sends_send [of c rmiAnswerChatAllOK "[]"]
      by (simp add: serve_def sized_handlers chat_all_def with_line_def with_player_def resolvePlayer_def io_simps sends_def
          map_concat comp_def)
  qed
  ultimately show ?thesis by blast
qed

definition chat_hub :: hub where
  "chat_hub = bindPlayer 0 sample_player (new_hub empty_db)"

lemma chat_line: "readChatLine [1, 104, 0] 0 = Some (Some (''h'', 0))"
proof -
  have t: "trim_space ''h'' = ''h''" by code_simp
  have "of_char (CHR ''h'') = (104 :: nat)" by simp
  then have "char_of (104 :: nat) = CHR ''h''" by (metis char_of_char)
  then have "string_of_runes [104] = ''h''" by (simp add: string_of_runes_def encode_rune_def is_scalar_def)
  then have "ReadProudString [1, 104, 0] 0 = Inr (''h'', 3)"
    by (simp add: ReadProudString_def DecodeVarInt_def DecodeVarInt_loop.simps get16_def le16_def)
  then show ?thesis using t by (simp add: readChatLine_def maxChatLength_def in_bounds)
qed

lemma chat_all_delivers_witness:
  "hub_sent (snd (serve sample_conf 0 \<lparr>ID = rmiRequestChatAll, Body = [1, 104, 0]\<rparr> chat_hub)) =
    [(0, \<lparr>ID = rmiAnswerChatAllOK, Body = []\<rparr>), (0, \<lparr>ID = rmiNotifyChat, Body = notifyChatRow [] ''h'' 0 0\<rparr>)]"
proof -
  have r: "reliable chat_hub" by (simp add: reliable_def chat_hub_def bindPlayer_def new_hub_def new_session_def)
  have ok: "registry_ok (hub_sessions chat_hub)"
    using Bind_ok [OF new_registry_ok] by (simp add: chat_hub_def bindPlayer_def new_hub_def)
  have d: "hub_state chat_hub 0 = Some \<lparr>sd_player = sample_player, sd_room = None, sd_roomUser = 0, sd_channel = 0\<rparr>"
    by (simp add: chat_hub_def bindPlayer_def)
  have k: "p_SteamID sample_player = ''a''" "p_Name sample_player = []" by (simp_all add: sample_player_def empty_player_def)
  then have owned: "owner (hub_sessions chat_hub) = [0 \<mapsto> ''a'']"
    by (simp add: chat_hub_def bindPlayer_def new_hub_def Bind_index) (simp add: owner_def new_session_registry_def)
  obtain rs where rs: "distinct rs" "set rs = dom (owner (hub_sessions chat_hub))"
    and run: "snd (serve sample_conf 0 \<lparr>ID = rmiRequestChatAll, Body = [1, 104, 0]\<rparr> chat_hub) =
      deliver ((0, \<lparr>ID = rmiAnswerChatAllOK, Body = []\<rparr>) # map (\<lambda>s. (s, \<lparr>ID = rmiNotifyChat,
        Body = notifyChatRow (p_Name sample_player) ''h'' chatTypeDefault 0\<rparr>)) rs) chat_hub"
    using chat_all_delivers [OF r ok d chat_line, of sample_conf] by auto
  have "rs = [0]" using rs owned by (cases rs; cases "tl rs") auto
  moreover have "hub_sent chat_hub = []" by (simp add: chat_hub_def bindPlayer_def new_hub_def)
  ultimately show ?thesis by (simp add: run k chatTypeDefault_def)
qed

end
