(* ===== verification/Isolation.thy ===== *)
theory Isolation
  imports Delivery
begin

text \<open>
  What the other clients can do to a connection. Every request is made of a few steps: messages sent,
  the requesting connection's own session, account and transport changed, and the clan name that is
  cached with an account. A property that survives these steps survives every handler, every frame,
  and every connection made or dropped by the others.
\<close>

section \<open>The steps a request is made of\<close>

definition client_view :: "hub \<Rightarrow> (conn \<Rightarrow> Session) \<times> (conn \<times> Message) list \<times> (conn \<Rightarrow> sessionData option) \<times> SessionRegistry" where
  "client_view w = (hub_wires w, hub_sent w, hub_state w, hub_sessions w)"

text \<open>
  The requests of connection \<open>c\<close> and a property \<open>P\<close> of the server: what \<open>P\<close> has to survive, and then
  every handler keeps it.
\<close>

locale request_property =
  fixes P :: "hub \<Rightarrow> bool" and c :: conn
  assumes sends: "P w \<Longrightarrow> P (snd (session_SendPlain e msg w))"
    and encrypts: "P w \<Longrightarrow> P (snd (session_SendEncrypted newCipher c msg w))"
    and own_data: "P w \<Longrightarrow> P (w\<lparr>hub_state := (hub_state w)(c := x)\<rparr>)"
    and own_account: "P w \<Longrightarrow> P (w\<lparr>hub_sessions := Bind k c (hub_sessions w)\<rparr>)"
      "P w \<Longrightarrow> P (w\<lparr>hub_sessions := Unbind c (hub_sessions w)\<rparr>)"
    and renamed: "P w \<Longrightarrow> P (rename_cached name e w)"
    and unseen: "client_view w' = client_view w \<Longrightarrow> P w \<Longrightarrow> P w'"
begin

lemma unseen_keeps: "(\<And>w. client_view (snd (m w)) = client_view w) \<Longrightarrow> keeps P m"
  using unseen unfolding keeps_def by blast

lemma unseen_set: "(\<And>w. client_view (f w) = client_view w) \<Longrightarrow> keeps P (io_set f)"
  by (intro unseen_keeps) (simp add: io_set_def)

lemma shared_state [keeps_intros]:
  "keeps P (on_db m)" "keeps P (on_room room f)" "keeps P (on_tickets t)" "keeps P (on_matches g)" "keeps P (open_room r)"
  "keeps P (io_set (\<lambda>w. close_room (n w) w))" "keeps P (io_set (\<lambda>w. w\<lparr>hub_credentials := h w\<rparr>))"
  by (auto intro!: unseen_keeps simp: client_view_def on_db_def on_room_def on_tickets_def on_matches_def open_room_def close_room_def
      io_set_def Let_def split: prod.split option.split)

lemma catch [keeps_intros]: "keeps P m \<Longrightarrow> keeps P n \<Longrightarrow> keeps P (io_catch m n)"
  by (rule catch_keeps)

section \<open>Sending\<close>

lemma plain [keeps_intros]: "keeps P (session_SendPlain e msg)" "keeps P (send e i b)" "keeps P (push e i b)" "keeps P (send_all e msgs)"
proof -
  show p: "keeps P (session_SendPlain e msg)" for msg by (simp add: keeps_def sends)
  show "keeps P (send e i b)" "keeps P (push e i b)" "keeps P (send_all e msgs)"
    unfolding send_def push_def send_all_def by (auto intro!: keeps_intros p)
qed

lemma each: "keeps P (send_each cs msg firstErr)"
proof (induction cs arbitrary: firstErr)
  case Nil
  then show ?case by (simp add: keeps_def split: option.split)
next
  case (Cons c cs)
  show ?case unfolding keeps_def
  proof (intro allI impI)
    fix w assume w: "P w"
    obtain r w' where m: "session_SendPlain c msg w = (r, w')" by fastforce
    then have "P w'" using sends [OF w, of c msg] by simp
    then show "P (snd (send_each (c # cs) msg firstErr w))"
      using Cons m by (cases r) (simp_all add: keeps_def)
  qed
qed

lemma pushes [keeps_intros]:
  "keeps P (push_account k i b)" "keeps P (broadcastRoomExcept room skip i b)" "keeps P (broadcastRoom room i b)"
  "keeps P (tellMatch room i b)" "keeps P (sendTo k msgs)" "keeps P (broadcast clan msgs)" "keeps P (broadcastReviewers clan msgs)"
proof -
  have "keeps P (registry_SendPlain k msg)" for msg
    using each [of _ msg None] by (simp add: keeps_def registry_SendPlain_def)
  then show "keeps P (push_account k i b)" unfolding push_account_def by (intro keeps_intros)
  show e: "keeps P (broadcastRoomExcept room skip i b)" for skip
    unfolding broadcastRoomExcept_def by (auto intro!: keeps_intros)
  show "keeps P (broadcastRoom room i b)" unfolding broadcastRoom_def by (rule e)
  show "keeps P (tellMatch room i b)" unfolding tellMatch_def by (intro keeps_intros)
  show s: "keeps P (sendTo k msgs)" for k unfolding sendTo_def by (intro keeps_intros)
  show "keeps P (broadcast clan msgs)" unfolding broadcast_def by (intro keeps_intros s)
  show "keeps P (broadcastReviewers clan msgs)" unfolding broadcastReviewers_def by (auto intro!: keeps_intros s)
qed

lemma answers [keeps_intros]:
  "keeps P (refuseJoin e)" "keeps P (friends_refuse e i)" "keeps P (chat_refuse e i)" "keeps P (refuseChat e)" "keeps P (failCraft e)"
  "keeps P (sendResponse e i msgs)" "keeps P (sendChannelList cf e)" "keeps P (sendUserClanInfo e clan)"
  "keeps P (notifyApplication clan p)" "keeps P (sendAttachment e s item a)" "keeps P (completeDeltas cf now e result)"
  "keeps P (completePurchase cf now e result i)"
  unfolding refuseJoin_def friends_refuse_def chat_refuse_def refuseChat_def failCraft_def sendResponse_def
    sendChannelList_def sendUserClanInfo_def notifyApplication_def sendAttachment_def completeDeltas_def completePurchase_def Let_def
  by (auto intro!: keeps_intros split: option.split Wallet.split)

lemma item_rows [keeps_intros]: "keeps P (send_values now k e items)"
  by (induction items arbitrary: k) (auto intro!: keeps_intros)

section \<open>The requesting connection's own session\<close>

lemma own_session [keeps_intros]: "keeps P (session_SendEncrypted newCipher c msg)" "keeps P (sendBoth cf c msg)"
proof -
  show e: "keeps P (session_SendEncrypted newCipher c msg)" for newCipher
    using encrypts by (simp add: keeps_def)
  show "keeps P (sendBoth cf c msg)"
    unfolding sendBoth_def by (auto intro!: keeps_intros e)
qed

lemma own_change: "P w \<Longrightarrow> P (change_data c f w)"
  unfolding change_data_def using own_data [of w] by (auto simp: fun_upd_def split: option.split)

lemma own_sets [keeps_intros]:
  "keeps P (io_set (setSessionRoom c r))" "keeps P (io_set (setSessionRoomUser c i))" "keeps P (io_set (setSessionChannel c ch))"
  "keeps P (io_set (updatePlayer c p))" "keeps P (io_set (bindPlayer c p))" "keeps P (io_set (bindMatchSession c p room i))"
  "keeps P (io_set (\<lambda>w. w\<lparr>hub_sessions := Unbind c (hub_sessions w)\<rparr>))"
proof -
  have "P (bindPlayer c p w)" if w: "P w" for w
    using own_account(1) [OF own_data [OF w, of "Some \<lparr>sd_player = p, sd_room = None, sd_roomUser = 0, sd_channel = 0\<rparr>"], of "p_SteamID p"]
    by (simp add: bindPlayer_def)
  moreover have "P (bindMatchSession c p room i w)" if w: "P w" for w
    using own_data [OF w] by (simp add: bindMatchSession_def)
  ultimately show "keeps P (io_set (bindPlayer c p))" "keeps P (io_set (bindMatchSession c p room i))" by (auto intro!: keeps_set)
qed (auto intro!: keeps_set own_change own_account simp: setSessionRoom_def setSessionRoomUser_def setSessionChannel_def updatePlayer_def)

lemma clan_names [keeps_intros]:
  "keeps P (io_set (rename_cached name e))" "keeps P (setSessionClan k name)" "keeps P (announceDeparture clan m)"
proof -
  show r: "keeps P (io_set (rename_cached name e))" for e name by (intro keeps_set renamed)
  show s: "keeps P (setSessionClan k name)" for k name unfolding setSessionClan_def by (auto intro!: keeps_intros r)
  show "keeps P (announceDeparture clan m)" unfolding announceDeparture_def by (auto intro!: keeps_intros s)
qed

end

section \<open>Every handler\<close>

context request_property
begin

lemma reading [keeps_intros]:
  "keeps P (load_accounts cf ks)" "keeps P (playerClan cf player)" "keeps P (pendingClanPushes cf player)"
  "keeps P (clanRequests cf clan k)" "keeps P (clanRoster cf clan)" "keeps P (clanPushes cf player)"
  "keeps P (memberWire cf member)" "keeps P (friendRow cf friend account)" "keeps P (loadSeat cf seat)" "keeps P (matchEquip cf index seat)"
proof -
  show a: "keeps P (load_accounts cf ks)" for ks
    unfolding load_accounts_def by (auto intro!: keeps_intros split: sum.split)
  show p: "keeps P (playerClan cf player)" for player
    unfolding playerClan_def by (auto intro!: keeps_intros split: sum.split)
  show q: "keeps P (pendingClanPushes cf player)" for player
    unfolding pendingClanPushes_def by (auto intro!: keeps_intros split: sum.split option.split)
  show r: "keeps P (clanRequests cf clan k)" for clan k
    unfolding clanRequests_def by (auto intro!: keeps_intros a)
  show l: "keeps P (clanRoster cf clan)" for clan
    unfolding clanRoster_def by (auto intro!: keeps_intros a)
  show "keeps P (clanPushes cf player)"
    unfolding clanPushes_def by (auto intro!: keeps_intros p q r l split: option.split)
  show "keeps P (memberWire cf member)"
    unfolding memberWire_def by (auto intro!: keeps_intros a)
  show "keeps P (friendRow cf friend account)"
    unfolding friendRow_def Let_def by (auto intro!: keeps_intros)
  show s: "keeps P (loadSeat cf seat)" for seat
    unfolding loadSeat_def by (auto intro!: keeps_intros split: sum.split)
  show "keeps P (matchEquip cf index seat)"
    unfolding matchEquip_def by (auto intro!: keeps_intros s)
qed

lemma rows [keeps_intros]:
  "keeps P (equip_rows cf n rows users)" "keeps P (append_friends cf known rows friends)"
  "keeps P (matchSnapshot cf room users viewer)" "keeps P (vacate room_no i)" "keeps P (beginMatch cf e room_no)"
proof -
  show e: "keeps P (equip_rows cf n rows users)" for n rows users
    by (induction users arbitrary: n rows) (auto intro!: keeps_intros)
  show "keeps P (append_friends cf known rows friends)"
    by (induction friends arbitrary: rows) (auto intro!: keeps_intros)
  show "keeps P (matchSnapshot cf room users viewer)"
    unfolding matchSnapshot_def Let_def by (auto intro!: keeps_intros e)
  show "keeps P (vacate room_no i)" "keeps P (beginMatch cf e room_no)"
    unfolding vacate_def beginMatch_def start_member_def by (auto intro!: keeps_intros split: option.split)
qed

lemma login_handlers:
  "keeps P (aeriaAuth cf c body)" "keeps P (aeriaLauncher cf c body)" "keeps P (createCredential c body)"
    "keeps P (checkCredential cf c body)" "keeps P (requestChannelList cf c body)" "keeps P (joinChannel cf c body)"
    "keeps P (login cf c body)" "keeps P (itemLogin cf c body)" "keeps P (mapQuestLogin c body)"
  unfolding aeriaAuth_def aeriaLauncher_def createCredential_def checkCredential_def requestChannelList_def joinChannel_def
    login_def itemLogin_def mapQuestLogin_def
  by (auto intro!: keeps_intros split: sum.split option.split list.split)

lemma lobby_handlers:
  "keeps P (lobby_join cf c body)" "keeps P (lobby_leave c body)" "keeps P (lobbyList c body)" "keeps P (roomList c body)"
    "keeps P (clanRoomList c body)" "keeps P (userList c body)" "keeps P (createRoom cf c body)" "keeps P (leaveRoom c body)"
    "keeps P (gameStart cf c body)" "keeps P (ready cf c body)" "keeps P (joinRoom c body)"
  unfolding lobby_join_def lobby_leave_def lobbyList_def roomList_def clanRoomList_def userList_def createRoom_def leaveRoom_def
    gameStart_def ready_def soloStartOnReady_def joinRoom_def
  by (auto intro!: keeps_intros split: sum.split option.split)

lemma match_handlers:
  "keeps P (connectServer c body)" "keeps P (matchStart cf c body)" "keeps P (loadPercent c body)"
    "keeps P (loadComplete c body)" "keeps P (timeStart c body)" "keeps P (beginRound c body)" "keeps P (checkRespawn c body)"
    "keeps P (checkRespawnInstant c body)" "keeps P (respawn c body)" "keeps P (death c body)" "keeps P (timeOut c body)"
    "keeps P (dediUserPing c body)" "keeps P (hitCount c body)" "keeps P (matchLeave c body)" "keeps P (userEquip cf c body)"
    "keeps P (changeWeapon cf c body)"
  unfolding connectServer_def matchStart_def loadPercent_def loadComplete_def timeStart_def beginRound_def checkRespawn_def
    checkRespawnInstant_def respawn_def death_def timeOut_def dediUserPing_def hitCount_def matchLeave_def userEquip_def
    changeWeapon_def Let_def
  by (auto intro!: keeps_intros split: sum.split option.split)

lemma item_handlers:
  "keeps P (items_equip cf c body)" "keeps P (items_buy cf c body)" "keeps P (items_craft cf c body)"
    "keeps P (buyCustom cf c body)" "keeps P (equipCustom cf c body)" "keeps P (breakCustom cf c body)"
    "keeps P (gearEquip cf c body)" "keeps P (gearBreak cf c body)" "keeps P (perkEquip cf c body)"
    "keeps P (perkBreak cf c body)" "keeps P (perkIncreaseSlot c body)" "keeps P (static_response a b c body)"
  unfolding items_equip_def items_buy_def items_craft_def buyCustom_def equipCustom_def breakCustom_def gearEquip_def gearBreak_def
    perkEquip_def perkBreak_def perkIncreaseSlot_def static_response_def equipSerial_def items_attach_def items_detach_def Let_def
  by (auto intro!: keeps_intros split: option.split sum.split prod.split)

lemma clan_handlers:
  "keeps P (searchName cf c body)" "keeps P (checkName cf c body)" "keeps P (clan_create cf c body)"
    "keeps P (requestJoin cf c body)" "keeps P (clan_chat cf c body)" "keeps P (deleteClan cf c body)"
    "keeps P (clan_cancelApplication cf c body)" "keeps P (acceptMember cf c body)" "keeps P (rejectMember cf c body)"
    "keeps P (clan_kickMember cf c body)" "keeps P (leaveClan cf c body)" "keeps P (clan_changeMaster cf c body)"
    "keeps P (clan_changePosition cf c body)" "keeps P (clan_checkMark cf c body)" "keeps P (clan_changeMark cf c body)"
    "keeps P (clan_unmapped c body)"
  unfolding searchName_def checkName_def clan_create_def requestJoin_def clan_chat_def deleteClan_def clan_cancelApplication_def
    acceptMember_def rejectMember_def clan_kickMember_def leaveClan_def clan_changeMaster_def clan_changePosition_def
    clan_checkMark_def clan_changeMark_def clan_unmapped_def spendMarkChange_def with_actor_id_def clan_welcome_def Let_def
  by (auto intro!: keeps_intros split: sum.split option.split prod.split)

lemma social_handlers:
  "keeps P (friends_login cf c body)" "keeps P (friends_request cf c body)" "keeps P (friends_accept cf c body)"
    "keeps P (friends_reject cf c body)" "keeps P (friends_delete cf c body)" "keeps P (friends_invite cf c body)"
    "keeps P (chat_all c body)" "keeps P (chat_clan cf c body)" "keeps P (whisper cf c body)"
  unfolding friends_login_def friends_request_def friends_accept_def friends_reject_def friends_delete_def friends_invite_def
    chat_all_def chat_clan_def whisper_def with_actor_id_def with_line_def friendList_def Let_def
  by (auto intro!: keeps_intros split: sum.split option.split prod.split)

lemma request: "keeps P (serve cf c msg)"
proof (cases "handler_of (ID msg)")
  case (Some h)
  then have "(ID msg, h) \<in> set routes" unfolding handler_of_def by (metis map_of_SomeD set_rev)
  then have "keeps P (h cf c (Body msg))"
    unfolding routes_def login_routes_def lobby_routes_def item_routes_def clan_routes_def friend_routes_def
      chat_routes_def static_routes_def
    by (auto simp: login_handlers lobby_handlers match_handlers item_handlers clan_handlers social_handlers)
  then show ?thesis using Some by (simp add: serve_def)
qed (simp add: serve_def keeps_basic)

lemma request_step: "P w \<Longrightarrow> P (snd (serve cf c msg w))"
  using request by (simp add: keeps_def)

lemma release_step: "P w \<Longrightarrow> P (snd (releaseSession c w))"
proof -
  have "keeps P (releaseSession c)"
    unfolding releaseSession_def by (intro keeps_intros)
  then show "P w \<Longrightarrow> P (snd (releaseSession c w))" by (simp add: keeps_def)
qed

end

section \<open>The other clients\<close>

text \<open>Any client but \<open>d\<close> connects, has a frame handled, or drops.\<close>

inductive others_step :: "conf \<Rightarrow> KeyPair \<Rightarrow> conn \<Rightarrow> hub \<Rightarrow> hub \<Rightarrow> bool" for cf kp d where
  Connect: "c \<noteq> d \<Longrightarrow> others_step cf kp d w (accept_conn c script w)"
| Receive: "c \<noteq> d \<Longrightarrow> others_step cf kp d w (snd (receive_frame cf kp c frame w))"
| Disconnect: "c \<noteq> d \<Longrightarrow> others_step cf kp d w (snd (releaseSession c w))"

inductive_cases others_stepE: "others_step cf kp d w w'"

text \<open>A property about connection \<open>d\<close> that its own transport and the requests of the others leave alone.\<close>

locale client_property =
  fixes P :: "hub \<Rightarrow> bool" and d :: conn
  assumes other: "c \<noteq> d \<Longrightarrow> request_property P c"
    and other_wire: "c \<noteq> d \<Longrightarrow> P w \<Longrightarrow> P (w\<lparr>hub_wires := (hub_wires w)(c := s)\<rparr>)"
begin

lemma received:
  assumes c: "c \<noteq> d" and w: "P w"
  shows "P (snd (receive_frame cf kp c frame w))"
proof (cases "frame_request (cf_cipher cf) (hub_wires w c) frame")
  case None
  then show ?thesis using receive_own_wire [OF None, where kp = kp] other_wire [OF assms] by metis
next
  case (Some msg)
  then show ?thesis using receive_request [OF Some] request_property.request_step [OF other [OF c] w] by simp
qed

lemma accepted:
  assumes c: "c \<noteq> d" and w: "P w"
  shows "P (accept_conn c script w)"
  using request_property.own_data [OF other [OF c] other_wire [OF assms], of "new_session script" None]
  by (simp add: accept_conn_def)

lemma others: "others_step cf kp d w w' \<Longrightarrow> P w \<Longrightarrow> P w'"
  by (erule others_stepE) (auto intro: accepted received request_property.release_step [OF other])

lemma others_run: "(others_step cf kp d)\<^sup>*\<^sup>* w w' \<Longrightarrow> P w \<Longrightarrow> P w'"
  by (induction rule: rtranclp_induct) (auto intro: others)

end

section \<open>The transport and the seat of a connection\<close>

text \<open>The fields of a session that only its own frames change.\<close>

definition same_session :: "Session \<Rightarrow> Session \<Rightarrow> bool" where
  "same_session s s' \<longleftrightarrow> sessionKey s' = sessionKey s \<and> established s' = established s \<and>
     encryptCount s' = encryptCount s \<and> connectGUID s' = connectGUID s"

text \<open>What can be on the wire of a connection that did not ask: plain messages, each cut where its write failed.\<close>

definition pushed_to :: "Session \<Rightarrow> Session \<Rightarrow> bool" where
  "pushed_to s s' \<longleftrightarrow> same_session s s' \<and>
     (\<exists>parts. wire_out s' = wire_out s @ concat (map (\<lambda>(msg, n). take n (plain_bytes msg)) parts))"

definition framed :: "conn \<Rightarrow> hub \<Rightarrow> hub \<Rightarrow> bool" where
  "framed d w0 w \<longleftrightarrow> pushed_to (hub_wires w0 d) (hub_wires w d)"

text \<open>And over a transport that accepts its writes: exactly the messages that were sent to it, whole and in order.\<close>

definition wire_bytes :: "conn \<Rightarrow> (conn \<times> Message) list \<Rightarrow> byte list" where
  "wire_bytes d sent = concat (map (\<lambda>(e, msg). if e = d then plain_bytes msg else []) sent)"

definition delivered :: "conn \<Rightarrow> hub \<Rightarrow> hub \<Rightarrow> bool" where
  "delivered d w0 w \<longleftrightarrow> (write_script (hub_wires w0 d) = [] \<longrightarrow>
     (\<exists>new. hub_sent w = hub_sent w0 @ new \<and>
        hub_wires w d = (hub_wires w0 d)\<lparr>wire_out := wire_out (hub_wires w0 d) @ wire_bytes d new\<rparr>))"

text \<open>The application data but for the clan name cached with the account.\<close>

definition unnamed :: "sessionData \<Rightarrow> sessionData" where
  "unnamed s = s\<lparr>sd_player := (sd_player s)\<lparr>p_ClanName := []\<rparr>\<rparr>"

definition seated :: "conn \<Rightarrow> hub \<Rightarrow> hub \<Rightarrow> bool" where
  "seated d w0 w \<longleftrightarrow> map_option unnamed (hub_state w d) = map_option unnamed (hub_state w0 d) \<and>
     owner (hub_sessions w) d = owner (hub_sessions w0) d"

lemma pushed_SendPlain:
  assumes "pushed_to s0 s" and m: "SendPlain msg s = (r, s')"
  shows "pushed_to s0 s'"
proof -
  obtain n where n: "wire_out s' = wire_out s @ take n (plain_bytes msg)"
    and s': "s' = s\<lparr>wire_out := wire_out s', write_script := write_script s'\<rparr>"
    using write_loop_out [of "plain_bytes msg" s r s'] m
    by (auto simp: SendPlain_def sendReliable_def writeReliableLocked_def plain_bytes_def)
  obtain parts where parts: "wire_out s = wire_out s0 @ concat (map (\<lambda>(msg, n). take n (plain_bytes msg)) parts)"
    using assms(1) by (auto simp: pushed_to_def)
  have "same_session s s'" unfolding same_session_def
    using s' by (metis Session.select_convs(1-4) Session.surjective Session.update_convs(5,6))
  moreover have "wire_out s' = wire_out s0 @ concat (map (\<lambda>(msg, n). take n (plain_bytes msg)) (parts @ [(msg, n)]))"
    using n parts by simp
  ultimately show ?thesis using assms(1) unfolding pushed_to_def same_session_def by metis
qed

lemma framed_other: "c \<noteq> d \<Longrightarrow> request_property (framed d w0) c"
  by unfold_locales
     (auto simp: framed_def session_SendPlain_def session_SendEncrypted_def client_view_def rename_cached_def updatePlayer_def
       change_data_def pushed_SendPlain split: prod.split sum.split option.split)

interpretation framed: client_property "framed d w0" d for d w0
  by (rule client_property.intro) (simp_all add: framed_other, simp add: framed_def)

lemma delivered_other: "c \<noteq> d \<Longrightarrow> request_property (delivered d w0) c"
proof (unfold_locales, goal_cases)
  case (1 w e msg)
  show ?case
  proof (cases "write_script (hub_wires w0 d) = []")
    case True
    then obtain new where new: "hub_sent w = hub_sent w0 @ new"
      and d: "hub_wires w d = (hub_wires w0 d)\<lparr>wire_out := wire_out (hub_wires w0 d) @ wire_bytes d new\<rparr>"
      using 1(2) by (auto simp: delivered_def)
    show ?thesis
    proof (cases "e = d")
      case e: True
      have "SendPlain msg (hub_wires w d) = (Inr (), (hub_wires w d)\<lparr>wire_out := wire_out (hub_wires w d) @ plain_bytes msg\<rparr>)"
        using True d by (simp add: SendPlain_def sendReliable_def writeReliableLocked_def write_accepted plain_bytes_def)
      then show ?thesis unfolding delivered_def using new d e
        by (intro impI exI [of _ "new @ [(e, msg)]"]) (simp add: session_SendPlain_def wire_bytes_def)
    next
      case False
      obtain r s where m: "SendPlain msg (hub_wires w e) = (r, s)" by fastforce
      show ?thesis unfolding delivered_def using new d False m
        by (cases r) (auto simp: session_SendPlain_def wire_bytes_def)
    qed
  qed (simp add: delivered_def)
qed (auto simp: delivered_def session_SendEncrypted_def client_view_def rename_cached_def updatePlayer_def change_data_def
    split: prod.split sum.split option.split)

interpretation delivered: client_property "delivered d w0" d for d w0
  by (rule client_property.intro) (simp_all add: delivered_other, simp add: delivered_def)

lemma seated_other: "c \<noteq> d \<Longrightarrow> request_property (seated d w0) c"
proof (unfold_locales, goal_cases)
  case (4 w k)
  then show ?case by (cases "k = []") (simp_all add: seated_def Bind_index, simp add: Bind_def)
next
  case (6 w name e)
  then show ?case
    by (auto simp: seated_def rename_cached_def updatePlayer_def change_data_def unnamed_def resolvePlayer_def split: option.split)
qed (auto simp: seated_def session_SendPlain_def session_SendEncrypted_def client_view_def Unbind_forget forget_index
    split: prod.split sum.split)

interpretation seated: client_property "seated d w0" d for d w0
  by (rule client_property.intro) (simp_all add: seated_other, simp add: seated_def)

section \<open>Session keys\<close>

definition keys_kept :: "hub \<Rightarrow> hub \<Rightarrow> bool" where
  "keys_kept w0 w \<longleftrightarrow> (\<forall>d. same_key (hub_wires w0 d) (hub_wires w d))"

lemma SendEncrypted_key: "SendEncrypted newCipher msg s = (r, s') \<Longrightarrow> same_key s s'"
proof (cases "encodeEncrypted newCipher (sessionKey s) (encryptCount s) msg")
  case (Inr payload)
  moreover assume "SendEncrypted newCipher msg s = (r, s')"
  ultimately have "s' = snd (write_loop (EncodeFrame MarkerReliable payload) (s\<lparr>encryptCount := encryptCount s + 1\<rparr>))"
    by (simp add: SendEncrypted_def writeReliableLocked_def)
  then show ?thesis using write_loop_key [of "s\<lparr>encryptCount := encryptCount s + 1\<rparr>"] by (simp add: same_key_def)
qed (simp add: SendEncrypted_def same_key_def)

lemma SendPlain_key: "SendPlain msg s = (r, s') \<Longrightarrow> same_key s s'"
  using write_loop_key [of s "EncodeFrame MarkerReliable (encodePlain msg)"]
  by (simp add: SendPlain_def sendReliable_def writeReliableLocked_def)

lemma keys_set: "keys_kept w0 w \<Longrightarrow> same_key (hub_wires w c) s \<Longrightarrow> keys_kept w0 (w\<lparr>hub_wires := (hub_wires w)(c := s)\<rparr>)"
  by (auto simp: keys_kept_def same_key_def)

interpretation own_key: request_property "keys_kept w0" c for w0 c
proof (unfold_locales, goal_cases)
  case (1 w e msg)
  obtain r s where "SendPlain msg (hub_wires w e) = (r, s)" by fastforce
  with keys_set [OF 1 SendPlain_key [OF this]] show ?case
    by (auto simp: session_SendPlain_def keys_kept_def split: sum.split)
next
  case (2 w newCipher msg)
  obtain r s where "SendEncrypted newCipher msg (hub_wires w c) = (r, s)" by fastforce
  with keys_set [OF 2 SendEncrypted_key [OF this]] show ?case
    by (auto simp: session_SendEncrypted_def split: sum.split)
qed (auto simp: keys_kept_def client_view_def rename_cached_def updatePlayer_def change_data_def split: option.split)

lemma game_server_keys: "handlers_keep_key (game_server cf kp c)"
  unfolding handlers_keep_key_def
proof (intro allI impI)
  fix i h and m :: Message and x :: "Session \<times> hub"
  assume h: "handlers (game_server cf kp c) i = Some h"
  obtain s w where x: "x = (s, w)" by fastforce
  let ?w = "w\<lparr>hub_wires := (hub_wires w)(c := s)\<rparr>"
  obtain handle where "handler_of i = Some handle" and run: "h = as_handler c (handle cf c)"
    using h by (auto simp: game_server_def)
  then have "snd (serve cf c \<lparr>ID = i, Body = Body m\<rparr> ?w) = snd (handle cf c (Body m) ?w)" by (simp add: serve_def)
  moreover have "keys_kept ?w (snd (serve cf c \<lparr>ID = i, Body = Body m\<rparr> ?w))"
    by (rule own_key.request_step) (simp add: keys_kept_def same_key_def)
  ultimately have "same_key (hub_wires ?w c) (hub_wires (snd (handle cf c (Body m) ?w)) c)" unfolding keys_kept_def by metis
  then show "same_key (fst x) (fst (snd (h m x)))"
    by (simp add: x run as_handler_def split: prod.split) (metis snd_conv)
qed

text \<open>
  C10. Keys are only ever set by their own connection's key exchange: a frame, whatever it is and
  wherever it comes from, leaves the key of every connection as it was, but for the connection it
  came in on when it is a crypto setup message that \<open>ParseCryptoSetup\<close> accepts; and an encrypted
  request on a connection without a key is an error that changes nothing on the server.
\<close>

theorem session_key_source:
  assumes "receive_frame cf kp c frame w = (r, w')"
  shows "((established (hub_wires w' d) = established (hub_wires w d) \<and> sessionKey (hub_wires w' d) = sessionKey (hub_wires w d)) \<or>
      (d = c \<and> established (hub_wires w' d) \<and>
       ParseCryptoSetup (cf_cipher cf) kp (Payload frame) = Inr (sessionKey (hub_wires w' d)))) \<and>
    (\<not> established (hub_wires w c) \<and> frameType frame = envelopeEncrypted \<longrightarrow> r = Inl NotEstablished \<and> w' = w)"
proof (intro conjI)
  obtain r' s w1 where h: "handleFrame (cf_cipher cf) (game_server cf kp c) frame (hub_wires w c, w) = (r', (s, w1))" 
    by (metis prod.exhaust)
  then have w': "r = r'" "w' = w1\<lparr>hub_wires := (hub_wires w1)(c := s)\<rparr>"
    using assms by (auto simp: receive_frame_def)
  show "(established (hub_wires w' d) = established (hub_wires w d) \<and> sessionKey (hub_wires w' d) = sessionKey (hub_wires w d)) \<or>
      (d = c \<and> established (hub_wires w' d) \<and> ParseCryptoSetup (cf_cipher cf) kp (Payload frame) = Inr (sessionKey (hub_wires w' d)))"
  proof (cases "c = d")
    case True
    then show ?thesis
      using handleFrame_key_cases [OF game_server_keys h] w' by (auto simp: same_key_def game_server_def)
  next
    case False
    have "framed d w w" by (auto simp: framed_def pushed_to_def same_session_def intro: exI [of _ "[]"])
    from framed.received [OF False this, of cf kp frame] show ?thesis
      using assms by (simp add: framed_def pushed_to_def same_session_def)
  qed
  show "\<not> established (hub_wires w c) \<and> frameType frame = envelopeEncrypted \<longrightarrow> r = Inl NotEstablished \<and> w' = w"
    using handleFrame_gate [of "(hub_wires w c, w)" frame "cf_cipher cf" "game_server cf kp c"] h w' by auto
qed

lemma session_key_source_witness:
  "\<exists>r w'. receive_frame sample_conf sample_keys 0 \<lparr>Marker = MarkerReliable, Payload = [envelopeEncrypted, 1]\<rparr> chat_hub = (r, w') \<and>
     r = Inl NotEstablished \<and> w' = chat_hub"
proof -
  let ?frame = "\<lparr>Marker = MarkerReliable, Payload = [envelopeEncrypted, 1]\<rparr>"
  obtain r w' where run: "receive_frame sample_conf sample_keys 0 ?frame chat_hub = (r, w')" by fastforce
  have "\<not> established (hub_wires chat_hub 0)" "frameType ?frame = envelopeEncrypted"
    by (simp_all add: chat_hub_def bindPlayer_def new_hub_def new_session_def frameType_def)
  with session_key_source [OF run, of 0] run show ?thesis by blast
qed

section \<open>A bystander\<close>



end
