(* ===== verification/Bson.thy ===== *)
theory Bson
  imports Store "HOL-Library.Monad_Syntax"
begin

text \<open>
  The stored form of the model types: BSON values, the documents the \<open>bson:"..."\<close> tags of the structs
  in models/ give to an account and a clan, and their readers, which are \<open>None\<close> where the driver
  reports a decoding error. A date is kept in whole milliseconds. What a filter selects and what an update
  does, in the query language of the MongoDB manual, for the operators the repositories use.
\<close>

section \<open>Values and documents\<close>

datatype bson =
    BNull
  | BString string
  | BInt int
  | BTime int
  | BArray "bson list"
  | BDoc "(string \<times> bson) list"

type_synonym document = "(string \<times> bson) list"

text \<open>Only integers that fit 64 signed bits can be written.\<close>

fun encodable :: "bson \<Rightarrow> bool" where
  "encodable (BInt i) \<longleftrightarrow> - (2 ^ 63) \<le> i \<and> i < 2 ^ 63"
| "encodable (BArray xs) \<longleftrightarrow> (\<forall>x \<in> set xs. encodable x)"
| "encodable (BDoc d) \<longleftrightarrow> (\<forall>x \<in> snd ` set d. encodable x)"
| "encodable _ \<longleftrightarrow> True"

section \<open>Fields\<close>

definition millisecond :: int where
  "millisecond = 1000000"

definition whole_ms :: "time \<Rightarrow> time" where
  "whole_ms t = t div millisecond * millisecond"

definition put_word :: "'l::len word \<Rightarrow> bson" where
  "put_word v = BInt (uint v)"

definition put_sint :: "i32 \<Rightarrow> bson" where
  "put_sint v = BInt (sint v)"

definition put_time :: "time \<Rightarrow> bson" where
  "put_time t = BTime (t div millisecond)"

definition put_list :: "('a \<Rightarrow> bson) \<Rightarrow> 'a list \<Rightarrow> bson" where
  "put_list f xs = BArray (map f xs)"

text \<open>A field tagged \<open>omitempty\<close> is left out when it holds its zero value.\<close>

definition omitempty :: "bool \<Rightarrow> string \<Rightarrow> bson \<Rightarrow> document" where
  "omitempty zero k v = (if zero then [] else [(k, v)])"

text \<open>A missing or null field leaves the zero value; another type, or a number out of range, is an error.\<close>

fun get_string :: "bson option \<Rightarrow> string option" where
  "get_string (Some (BString s)) = Some s"
| "get_string None = Some []"
| "get_string (Some BNull) = Some []"
| "get_string _ = None"

fun get_word :: "bson option \<Rightarrow> 'l::len word option" where
  "get_word (Some (BInt i)) = (if 0 \<le> i \<and> i < 2 ^ LENGTH('l) then Some (word_of_int i) else None)"
| "get_word None = Some 0"
| "get_word (Some BNull) = Some 0"
| "get_word _ = None"

fun get_sint :: "bson option \<Rightarrow> i32 option" where
  "get_sint (Some (BInt i)) = (if - (2 ^ 31) \<le> i \<and> i < 2 ^ 31 then Some (word_of_int i) else None)"
| "get_sint None = Some 0"
| "get_sint (Some BNull) = Some 0"
| "get_sint _ = None"

fun get_time :: "bson option \<Rightarrow> time option" where
  "get_time (Some (BTime t)) = Some (t * millisecond)"
| "get_time None = Some zero_time"
| "get_time (Some BNull) = Some zero_time"
| "get_time _ = None"

fun get_list :: "(bson \<Rightarrow> 'a option) \<Rightarrow> bson option \<Rightarrow> 'a list option" where
  "get_list f (Some (BArray xs)) = those (map f xs)"
| "get_list f None = Some []"
| "get_list f (Some BNull) = Some []"
| "get_list f _ = None"

fun get_doc :: "(document \<Rightarrow> 'a option) \<Rightarrow> bson option \<Rightarrow> 'a option" where
  "get_doc f (Some (BDoc d)) = f d"
| "get_doc f None = f []"
| "get_doc f (Some BNull) = f []"
| "get_doc f _ = None"

subsection \<open>Reading what was written\<close>

named_theorems codec \<open>readers undo writers\<close>

lemma sint_bounds: "- (2 ^ 31) \<le> sint i \<and> sint i < 2 ^ 31" for i :: i32
  using sint_greater_eq [of i] sint_less [of i] by simp

lemma get_put [codec, simp]:
  "get_word (Some (put_word v)) = Some v"
  "get_sint (Some (put_sint i)) = Some i"
  "get_time (Some (put_time t)) = Some (whole_ms t)"
proof -
  show "get_sint (Some (put_sint i)) = Some i" using sint_bounds [of i] by (simp add: put_sint_def)
qed (simp_all add: put_word_def put_time_def whole_ms_def)

lemma those_map_Some: "(\<And>x. x \<in> set xs \<Longrightarrow> f x = Some (g x)) \<Longrightarrow> those (map f xs) = Some (map g xs)"
  by (induction xs) simp_all

lemma get_put_list [codec, simp]:
  "(\<And>x. f (put x) = Some (g x)) \<Longrightarrow> get_list f (Some (put_list put xs)) = Some (map g xs)"
  by (simp add: put_list_def those_map_Some comp_def)

lemma map_of_omitempty [codec, simp]:
  "map_of (omitempty z k v @ d) j = (if j = k \<and> \<not> z then Some v else map_of d j)"
  "map_of (omitempty z k v) j = (if j = k \<and> \<not> z then Some v else None)"
  by (simp_all add: omitempty_def)

lemma encodable_puts [codec, simp]:
  "LENGTH('l::len) \<le> 63 \<Longrightarrow> encodable (put_word (v :: 'l word))"
  "encodable (put_sint i)" "encodable (put_time t)"
  "encodable (put_list f xs) \<longleftrightarrow> (\<forall>x \<in> set xs. encodable (f x))"
proof -
  assume "LENGTH('l) \<le> 63"
  then have "(2 :: int) ^ LENGTH('l) \<le> 2 ^ 63" by (rule power_increasing) simp
  moreover have "0 \<le> uint v" "uint v < 2 ^ LENGTH('l)" by simp_all
  ultimately show "encodable (put_word v)" unfolding put_word_def encodable.simps by linarith
next
  show "encodable (put_sint i)" using sint_bounds [of i] by (simp add: put_sint_def)
qed (simp_all add: put_time_def put_list_def)

lemma whole_ms_idem [simp]: "whole_ms (whole_ms t) = whole_ms t"
  by (simp add: whole_ms_def millisecond_def)

lemma whole_ms_zero [simp]: "whole_ms zero_time = zero_time"
  by (simp add: whole_ms_def zero_time_def)

section \<open>The structs of models/\<close>

text \<open>The array \<open>[3]int32\<close> of a clan mark: shorter arrays leave zeros, longer ones are an error.\<close>

definition put_mark :: "mark \<Rightarrow> bson" where
  "put_mark m = (case m of (a, b, c) \<Rightarrow> put_list put_sint [a, b, c])"

definition get_mark :: "bson option \<Rightarrow> mark option" where
  "get_mark v = do {
      xs \<leftarrow> get_list (\<lambda>v. get_sint (Some v)) v;
      (case xs @ replicate (3 - length xs) 0 of
         [a, b, c] \<Rightarrow> Some (a, b, c)
       | _ \<Rightarrow> None) }"

definition item_document :: "InventoryItem \<Rightarrow> document" where
  "item_document x =
     [(''serial'', put_word (i_Serial x)),
      (''item_index'', put_word (i_ItemIndex x)),
      (''value'', put_word (i_Value x)),
      (''state'', put_word (i_State x)),
      (''item_type'', put_word (i_ItemType x))] @
     omitempty (i_InstanceAux x = 0) ''instance_aux'' (put_word (i_InstanceAux x)) @
     omitempty (i_ExpiresAt x = zero_time) ''expires_at'' (put_time (i_ExpiresAt x)) @
     []"

definition read_item :: "document \<Rightarrow> InventoryItem option" where
  "read_item d = do {
      serial' \<leftarrow> get_word (map_of d ''serial'');
      item_index' \<leftarrow> get_word (map_of d ''item_index'');
      value' \<leftarrow> get_word (map_of d ''value'');
      state' \<leftarrow> get_word (map_of d ''state'');
      item_type' \<leftarrow> get_word (map_of d ''item_type'');
      instance_aux' \<leftarrow> get_word (map_of d ''instance_aux'');
      expires_at' \<leftarrow> get_time (map_of d ''expires_at'');
      Some \<lparr>i_Serial = serial', i_ItemIndex = item_index', i_Value = value', i_State = state',
        i_ItemType = item_type', i_InstanceAux = instance_aux', i_ExpiresAt = expires_at'\<rparr> }"

definition equipped_document :: "EquippedItem \<Rightarrow> document" where
  "equipped_document x =
     [(''slot'', put_word (e_Slot x)),
      (''serial'', put_word (e_Serial x))]"

definition read_equipped :: "document \<Rightarrow> EquippedItem option" where
  "read_equipped d = do {
      slot' \<leftarrow> get_word (map_of d ''slot'');
      serial' \<leftarrow> get_word (map_of d ''serial'');
      Some \<lparr>e_Slot = slot', e_Serial = serial'\<rparr> }"

definition attached_document :: "AttachedItem \<Rightarrow> document" where
  "attached_document x =
     [(''parent_serial'', put_word (a_ParentSerial x)),
      (''child_serial'', put_word (a_ChildSerial x)),
      (''slot'', put_word (a_Slot x))]"

definition read_attached :: "document \<Rightarrow> AttachedItem option" where
  "read_attached d = do {
      parent_serial' \<leftarrow> get_word (map_of d ''parent_serial'');
      child_serial' \<leftarrow> get_word (map_of d ''child_serial'');
      slot' \<leftarrow> get_word (map_of d ''slot'');
      Some \<lparr>a_ParentSerial = parent_serial', a_ChildSerial = child_serial', a_Slot = slot'\<rparr> }"

definition friend_document :: "Friend \<Rightarrow> document" where
  "friend_document x =
     [(''friend_id'', put_word (f_FriendID x)),
      (''steam_id'', BString (f_SteamID x)),
      (''since'', put_time (f_Since x))]"

definition read_friend :: "document \<Rightarrow> Friend option" where
  "read_friend d = do {
      friend_id' \<leftarrow> get_word (map_of d ''friend_id'');
      steam_id' \<leftarrow> get_string (map_of d ''steam_id'');
      since' \<leftarrow> get_time (map_of d ''since'');
      Some \<lparr>f_FriendID = friend_id', f_SteamID = steam_id', f_Since = since'\<rparr> }"

definition request_document :: "FriendRequest \<Rightarrow> document" where
  "request_document x =
     [(''request_id'', put_word (q_RequestID x)),
      (''steam_id'', BString (q_SteamID x)),
      (''sent_at'', put_time (q_SentAt x))]"

definition read_request :: "document \<Rightarrow> FriendRequest option" where
  "read_request d = do {
      request_id' \<leftarrow> get_word (map_of d ''request_id'');
      steam_id' \<leftarrow> get_string (map_of d ''steam_id'');
      sent_at' \<leftarrow> get_time (map_of d ''sent_at'');
      Some \<lparr>q_RequestID = request_id', q_SteamID = steam_id', q_SentAt = sent_at'\<rparr> }"

definition pvp_document :: "PvPRecord \<Rightarrow> document" where
  "pvp_document x =
     [(''games'', put_word (pvp_Games x)),
      (''win'', put_word (pvp_Win x)),
      (''lose'', put_word (pvp_Lose x))] @
     omitempty (pvp_Draw x = 0) ''draw'' (put_word (pvp_Draw x)) @
     [(''kill'', put_word (pvp_Kill x)),
      (''death'', put_word (pvp_Death x)),
      (''headshot'', put_word (pvp_Headshot x))]"

definition read_pvp :: "document \<Rightarrow> PvPRecord option" where
  "read_pvp d = do {
      games' \<leftarrow> get_word (map_of d ''games'');
      win' \<leftarrow> get_word (map_of d ''win'');
      lose' \<leftarrow> get_word (map_of d ''lose'');
      draw' \<leftarrow> get_word (map_of d ''draw'');
      kill' \<leftarrow> get_word (map_of d ''kill'');
      death' \<leftarrow> get_word (map_of d ''death'');
      headshot' \<leftarrow> get_word (map_of d ''headshot'');
      Some \<lparr>pvp_Games = games', pvp_Win = win', pvp_Lose = lose', pvp_Draw = draw', pvp_Kill =
        kill', pvp_Death = death', pvp_Headshot = headshot'\<rparr> }"

definition pve_document :: "PvERecord \<Rightarrow> document" where
  "pve_document x =
     [(''complete'', put_word (pve_Complete x)),
      (''games'', put_word (pve_Games x)),
      (''npc_kill'', put_word (pve_NpcKill x)),
      (''death'', put_word (pve_Death x))]"

definition read_pve :: "document \<Rightarrow> PvERecord option" where
  "read_pve d = do {
      complete' \<leftarrow> get_word (map_of d ''complete'');
      games' \<leftarrow> get_word (map_of d ''games'');
      npc_kill' \<leftarrow> get_word (map_of d ''npc_kill'');
      death' \<leftarrow> get_word (map_of d ''death'');
      Some \<lparr>pve_Complete = complete', pve_Games = games', pve_NpcKill = npc_kill', pve_Death =
        death'\<rparr> }"

definition hit_document :: "HitRecord \<Rightarrow> document" where
  "hit_document x =
     [(''head'', put_word (hit_Head x)),
      (''arms'', put_word (hit_Arms x)),
      (''body'', put_word (hit_Body x)),
      (''legs'', put_word (hit_Legs x)),
      (''miss'', put_word (hit_Miss x))]"

definition read_hit :: "document \<Rightarrow> HitRecord option" where
  "read_hit d = do {
      head' \<leftarrow> get_word (map_of d ''head'');
      arms' \<leftarrow> get_word (map_of d ''arms'');
      body' \<leftarrow> get_word (map_of d ''body'');
      legs' \<leftarrow> get_word (map_of d ''legs'');
      miss' \<leftarrow> get_word (map_of d ''miss'');
      Some \<lparr>hit_Head = head', hit_Arms = arms', hit_Body = body', hit_Legs = legs', hit_Miss = miss'\<rparr> }"

definition records_document :: "Records \<Rightarrow> document" where
  "records_document x =
     [(''pvp'', BDoc (pvp_document (r_PvP x))),
      (''pve'', BDoc (pve_document (r_PvE x))),
      (''hit'', BDoc (hit_document (r_Hit x)))]"

definition read_records :: "document \<Rightarrow> Records option" where
  "read_records d = do {
      pvp' \<leftarrow> get_doc read_pvp (map_of d ''pvp'');
      pve' \<leftarrow> get_doc read_pve (map_of d ''pve'');
      hit' \<leftarrow> get_doc read_hit (map_of d ''hit'');
      Some \<lparr>r_PvP = pvp', r_PvE = pve', r_Hit = hit'\<rparr> }"

definition player_document :: "Player \<Rightarrow> document" where
  "player_document x =
     [(''_id'', BString (p_SteamID x)),
      (''name'', BString (p_Name x)),
      (''exp'', put_word (p_Exp x)),
      (''level'', put_word (p_Level x)),
      (''point'', put_word (p_Point x)),
      (''cash'', put_word (p_Cash x)),
      (''inventory'', put_list (\<lambda>x. BDoc (item_document x)) (p_Inventory x)),
      (''loadout'', put_list (\<lambda>x. BDoc (equipped_document x)) (p_Loadout x)),
      (''attachments'', put_list (\<lambda>x. BDoc (attached_document x)) (p_Attachments x)),
      (''records'', BDoc (records_document (p_Records x)))] @
     omitempty (p_ClanName x = []) ''clan_name'' (BString (p_ClanName x)) @
     omitempty (p_Friends x = []) ''friends'' (put_list (\<lambda>x. BDoc (friend_document x)) (p_Friends x)) @
     omitempty (p_FriendRequests x = []) ''friend_requests'' (put_list (\<lambda>x. BDoc (request_document x)) (p_FriendRequests x)) @
     [(''created_at'', put_time (p_CreatedAt x)),
      (''last_login'', put_time (p_LastLogin x))]"

definition read_player :: "document \<Rightarrow> Player option" where
  "read_player d = do {
      id' \<leftarrow> get_string (map_of d ''_id'');
      name' \<leftarrow> get_string (map_of d ''name'');
      exp' \<leftarrow> get_word (map_of d ''exp'');
      level' \<leftarrow> get_word (map_of d ''level'');
      point' \<leftarrow> get_word (map_of d ''point'');
      cash' \<leftarrow> get_word (map_of d ''cash'');
      inventory' \<leftarrow> get_list (\<lambda>v. get_doc read_item (Some v)) (map_of d ''inventory'');
      loadout' \<leftarrow> get_list (\<lambda>v. get_doc read_equipped (Some v)) (map_of d ''loadout'');
      attachments' \<leftarrow> get_list (\<lambda>v. get_doc read_attached (Some v)) (map_of d ''attachments'');
      records' \<leftarrow> get_doc read_records (map_of d ''records'');
      clan_name' \<leftarrow> get_string (map_of d ''clan_name'');
      friends' \<leftarrow> get_list (\<lambda>v. get_doc read_friend (Some v)) (map_of d ''friends'');
      friend_requests' \<leftarrow> get_list (\<lambda>v. get_doc read_request (Some v)) (map_of d ''friend_requests'');
      created_at' \<leftarrow> get_time (map_of d ''created_at'');
      last_login' \<leftarrow> get_time (map_of d ''last_login'');
      Some \<lparr>p_SteamID = id', p_Name = name', p_Exp = exp', p_Level = level', p_Point = point',
        p_Cash = cash', p_Inventory = inventory', p_Loadout = loadout', p_Attachments =
        attachments', p_Records = records', p_ClanName = clan_name', p_Friends = friends',
        p_FriendRequests = friend_requests', p_CreatedAt = created_at', p_LastLogin =
        last_login'\<rparr> }"

definition clan_record_document :: "ClanRecord \<Rightarrow> document" where
  "clan_record_document x =
     [(''win'', put_sint (cr_Win x)),
      (''draw'', put_sint (cr_Draw x)),
      (''lose'', put_sint (cr_Lose x)),
      (''kill'', put_sint (cr_Kill x)),
      (''death'', put_sint (cr_Death x))]"

definition read_clan_record :: "document \<Rightarrow> ClanRecord option" where
  "read_clan_record d = do {
      win' \<leftarrow> get_sint (map_of d ''win'');
      draw' \<leftarrow> get_sint (map_of d ''draw'');
      lose' \<leftarrow> get_sint (map_of d ''lose'');
      kill' \<leftarrow> get_sint (map_of d ''kill'');
      death' \<leftarrow> get_sint (map_of d ''death'');
      Some \<lparr>cr_Win = win', cr_Draw = draw', cr_Lose = lose', cr_Kill = kill', cr_Death = death'\<rparr> }"

definition applicant_document :: "ClanApplicant \<Rightarrow> document" where
  "applicant_document x =
     [(''applicant_id'', put_word (ap_ApplicantID x)),
      (''steam_id'', BString (ap_SteamID x)),
      (''name'', BString (ap_Name x)),
      (''level'', put_word (ap_Level x)),
      (''message'', BString (ap_Message x)),
      (''applied_at'', put_time (ap_AppliedAt x))]"

definition read_applicant :: "document \<Rightarrow> ClanApplicant option" where
  "read_applicant d = do {
      applicant_id' \<leftarrow> get_word (map_of d ''applicant_id'');
      steam_id' \<leftarrow> get_string (map_of d ''steam_id'');
      name' \<leftarrow> get_string (map_of d ''name'');
      level' \<leftarrow> get_word (map_of d ''level'');
      message' \<leftarrow> get_string (map_of d ''message'');
      applied_at' \<leftarrow> get_time (map_of d ''applied_at'');
      Some \<lparr>ap_ApplicantID = applicant_id', ap_SteamID = steam_id', ap_Name = name', ap_Level =
        level', ap_Message = message', ap_AppliedAt = applied_at'\<rparr> }"

definition member_document :: "ClanMember \<Rightarrow> document" where
  "member_document x =
     [(''member_id'', put_word (cm_MemberID x)),
      (''steam_id'', BString (cm_SteamID x)),
      (''name'', BString (cm_Name x)),
      (''rank'', put_word (cm_Rank x)),
      (''records'', BDoc (clan_record_document (cm_Records x)))]"

definition read_member :: "document \<Rightarrow> ClanMember option" where
  "read_member d = do {
      member_id' \<leftarrow> get_word (map_of d ''member_id'');
      steam_id' \<leftarrow> get_string (map_of d ''steam_id'');
      name' \<leftarrow> get_string (map_of d ''name'');
      rank' \<leftarrow> get_word (map_of d ''rank'');
      records' \<leftarrow> get_doc read_clan_record (map_of d ''records'');
      Some \<lparr>cm_MemberID = member_id', cm_SteamID = steam_id', cm_Name = name', cm_Rank = rank',
        cm_Records = records'\<rparr> }"

definition clan_document :: "Clan \<Rightarrow> document" where
  "clan_document x =
     [(''_id'', BString (c_Name x)),
      (''mark'', put_mark (c_Mark x))] @
     omitempty (c_MarkExtra x = 0) ''mark_extra'' (put_word (c_MarkExtra x)) @
     omitempty (c_Level x = 0) ''level'' (put_word (c_Level x)) @
     omitempty (c_MemberCapacity x = 0) ''member_capacity'' (put_word (c_MemberCapacity x)) @
     [(''master'', BString (c_Master x)),
      (''members'', put_list (\<lambda>x. BDoc (member_document x)) (c_Members x))] @
     omitempty (c_Applicants x = []) ''applicants'' (put_list (\<lambda>x. BDoc (applicant_document x)) (c_Applicants x)) @
     [(''records'', BDoc (clan_record_document (c_Records x))),
      (''created_at'', put_time (c_CreatedAt x))]"

definition read_clan :: "document \<Rightarrow> Clan option" where
  "read_clan d = do {
      id' \<leftarrow> get_string (map_of d ''_id'');
      mark' \<leftarrow> get_mark (map_of d ''mark'');
      mark_extra' \<leftarrow> get_word (map_of d ''mark_extra'');
      level' \<leftarrow> get_word (map_of d ''level'');
      member_capacity' \<leftarrow> get_word (map_of d ''member_capacity'');
      master' \<leftarrow> get_string (map_of d ''master'');
      members' \<leftarrow> get_list (\<lambda>v. get_doc read_member (Some v)) (map_of d ''members'');
      applicants' \<leftarrow> get_list (\<lambda>v. get_doc read_applicant (Some v)) (map_of d ''applicants'');
      records' \<leftarrow> get_doc read_clan_record (map_of d ''records'');
      created_at' \<leftarrow> get_time (map_of d ''created_at'');
      Some \<lparr>c_Name = id', c_Mark = mark', c_MarkExtra = mark_extra', c_Level = level',
        c_MemberCapacity = member_capacity', c_Master = master', c_Members = members',
        c_Applicants = applicants', c_Records = records', c_CreatedAt = created_at'\<rparr> }"

section \<open>Round trips\<close>

text \<open>What comes back is what was stored, with every date cut to whole milliseconds.\<close>

definition ms_item :: "InventoryItem \<Rightarrow> InventoryItem" where
  "ms_item i = i\<lparr>i_ExpiresAt := whole_ms (i_ExpiresAt i)\<rparr>"

definition ms_friend :: "Friend \<Rightarrow> Friend" where
  "ms_friend f = f\<lparr>f_Since := whole_ms (f_Since f)\<rparr>"

definition ms_request :: "FriendRequest \<Rightarrow> FriendRequest" where
  "ms_request q = q\<lparr>q_SentAt := whole_ms (q_SentAt q)\<rparr>"

definition ms_player :: "Player \<Rightarrow> Player" where
  "ms_player p = p\<lparr>p_Inventory := map ms_item (p_Inventory p), p_Friends := map ms_friend (p_Friends p),
     p_FriendRequests := map ms_request (p_FriendRequests p),
     p_CreatedAt := whole_ms (p_CreatedAt p), p_LastLogin := whole_ms (p_LastLogin p)\<rparr>"

definition ms_applicant :: "ClanApplicant \<Rightarrow> ClanApplicant" where
  "ms_applicant a = a\<lparr>ap_AppliedAt := whole_ms (ap_AppliedAt a)\<rparr>"

definition ms_clan :: "Clan \<Rightarrow> Clan" where
  "ms_clan c = c\<lparr>c_Applicants := map ms_applicant (c_Applicants c), c_CreatedAt := whole_ms (c_CreatedAt c)\<rparr>"

lemma read_fields [codec, simp]:
  "read_item (item_document i) = Some (ms_item i)"
  "read_equipped (equipped_document e) = Some e"
  "read_attached (attached_document a) = Some a"
  "read_friend (friend_document f) = Some (ms_friend f)"
  "read_request (request_document q) = Some (ms_request q)"
  by (simp_all del: map_of_append add: read_item_def item_document_def ms_item_def read_equipped_def equipped_document_def
    read_attached_def attached_document_def read_friend_def friend_document_def ms_friend_def
    read_request_def request_document_def ms_request_def)

lemma read_statistics [codec, simp]:
  "read_pvp (pvp_document x) = Some x"
  "read_pve (pve_document y) = Some y"
  "read_hit (hit_document z) = Some z"
  by (simp_all del: map_of_append add: read_pvp_def pvp_document_def read_pve_def pve_document_def
    read_hit_def hit_document_def)

lemma read_records [codec, simp]: "read_records (records_document r) = Some r"
  by (simp add: read_records_def records_document_def)

lemma read_clan_parts [codec, simp]:
  "read_clan_record (clan_record_document r) = Some r"
  "read_applicant (applicant_document a) = Some (ms_applicant a)"
  "read_member (member_document m) = Some m"
  "get_mark (Some (put_mark k)) = Some k"
proof -
  show r: "read_clan_record (clan_record_document r) = Some r" for r
    by (simp add: read_clan_record_def clan_record_document_def)
  show "read_member (member_document m) = Some m"
    by (simp add: r read_member_def member_document_def)
qed (simp_all add: read_applicant_def applicant_document_def ms_applicant_def get_mark_def put_mark_def
    split: prod.split)

lemma get_put_list_id [codec, simp]:
  "(\<And>x. f (put x) = Some x) \<Longrightarrow> get_list f (Some (put_list put xs)) = Some xs"
  using get_put_list [of f put "\<lambda>x. x"] by simp

theorem read_player [codec, simp]: "read_player (player_document p) = Some (ms_player p)"
  by (simp del: map_of_append add: read_player_def player_document_def ms_player_def)

theorem read_clan [codec, simp]: "read_clan (clan_document c) = Some (ms_clan c)"
  by (simp del: map_of_append add: read_clan_def clan_document_def ms_clan_def)

end
