(* ===== verification/Mongo.thy ===== *)
theory Mongo
  imports Bson
begin

text \<open>
  The MongoDB repositories (repositories/player_repository.go, clan_repository.go). The driver's
  collection is an argument of the model, a record of the operations the repositories call; filters and updates are
  the BSON documents the source writes. \<open>selects\<close> and \<open>apply_update\<close> give the manual's meaning of
  the operators used, and \<open>collection_contract\<close> is what the driver documents about its operations.
\<close>

section \<open>Filters\<close>

text \<open>A dotted path, and the values it reaches: arrays are searched element by element.\<close>

definition path_of :: "string \<Rightarrow> string list" where
  "path_of = split_on (CHR ''.'')"

function reach :: "string list \<Rightarrow> bson \<Rightarrow> bson list" where
  "reach [] v = v # (case v of BArray xs \<Rightarrow> xs | _ \<Rightarrow> [])"
| "reach (p # ps) (BDoc d) = (case map_of d p of None \<Rightarrow> [] | Some v \<Rightarrow> reach ps v)"
| "reach (p # ps) (BArray xs) =
     concat (map (\<lambda>x. case x of BDoc d \<Rightarrow> (case map_of d p of None \<Rightarrow> [] | Some v \<Rightarrow> reach ps v) | _ \<Rightarrow> []) xs)"
| "reach (p # ps) BNull = []"
| "reach (p # ps) (BString s) = []"
| "reach (p # ps) (BInt i) = []"
| "reach (p # ps) (BTime t) = []"
  by pat_completeness auto
termination by (relation "measure (\<lambda>(ps, _). length ps)") auto

text \<open>
  One operator of a condition against the values reached. \<open>rx\<close> is the regular-expression engine
  of the server: pattern, options, subject.
\<close>

type_synonym regex_engine = "string \<Rightarrow> string \<Rightarrow> string \<Rightarrow> bool"

fun at_least :: "bson \<Rightarrow> bson \<Rightarrow> bool" where
  "at_least (BInt b) (BInt v) \<longleftrightarrow> b \<le> v"
| "at_least _ _ \<longleftrightarrow> False"

fun one_of :: "bson \<Rightarrow> bson \<Rightarrow> bool" where
  "one_of (BArray xs) v \<longleftrightarrow> v \<in> set xs"
| "one_of _ _ \<longleftrightarrow> False"

fun regex_on :: "regex_engine \<Rightarrow> bson \<Rightarrow> bson option \<Rightarrow> bson \<Rightarrow> bool" where
  "regex_on rx (BString p) (Some (BString opts)) (BString s) \<longleftrightarrow> rx p opts s"
| "regex_on rx (BString p) None (BString s) \<longleftrightarrow> rx p [] s"
| "regex_on rx _ _ _ \<longleftrightarrow> False"

definition operator_holds :: "regex_engine \<Rightarrow> document \<Rightarrow> bson list \<Rightarrow> string \<times> bson \<Rightarrow> bool" where
  "operator_holds rx ops vs = (\<lambda>(opr, arg).
     if opr = ''$gte'' then list_ex (at_least arg) vs
     else if opr = ''$in'' then list_ex (one_of arg) vs
     else if opr = ''$ne'' then arg \<notin> set vs
     else if opr = ''$regex'' then list_ex (regex_on rx arg (map_of ops ''$options'')) vs
     else opr = ''$options'')"

fun condition_holds :: "regex_engine \<Rightarrow> bson \<Rightarrow> bson list \<Rightarrow> bool" where
  "condition_holds rx (BDoc ops) vs \<longleftrightarrow> list_all (operator_holds rx ops vs) ops"
| "condition_holds rx v vs \<longleftrightarrow> v \<in> set vs"

definition selects :: "regex_engine \<Rightarrow> document \<Rightarrow> document \<Rightarrow> bool" where
  "selects rx f d \<longleftrightarrow> list_all (\<lambda>(path, c). condition_holds rx c (reach (path_of path) (BDoc d))) f"

section \<open>Updates\<close>

text \<open>
  \<open>$set\<close> and \<open>$unset\<close> write and remove fields; \<open>$inc\<close> adds to a number and fails on anything
  else and on overflow.
\<close>

fun inc_field :: "string \<times> bson \<Rightarrow> document \<Rightarrow> document option" where
  "inc_field (k, BInt n) d =
     (case map_of d k of
        Some (BInt i) \<Rightarrow> if encodable (BInt (i + n)) then Some (AList.update k (BInt (i + n)) d) else None
      | None \<Rightarrow> Some (AList.update k (BInt n) d)
      | _ \<Rightarrow> None)"
| "inc_field _ d = None"

fun inc_fields :: "document \<Rightarrow> document \<Rightarrow> document option" where
  "inc_fields [] d = Some d"
| "inc_fields (x # xs) d = do { d' \<leftarrow> inc_field x d; inc_fields xs d' }"

fun apply_stage :: "string \<times> bson \<Rightarrow> document \<Rightarrow> document option" where
  "apply_stage (opr, BDoc fs) d =
     (if opr = ''$set'' then Some (fold (\<lambda>(k, v). AList.update k v) fs d)
      else if opr = ''$unset'' then Some (fold (\<lambda>(k, v). AList.delete k) fs d)
      else if opr = ''$inc'' then inc_fields fs d
      else None)"
| "apply_stage _ d = None"

fun apply_update :: "document \<Rightarrow> document \<Rightarrow> document option" where
  "apply_update [] d = Some d"
| "apply_update (s # ss) d = do { d' \<leftarrow> apply_stage s d; apply_update ss d' }"

section \<open>The driver\<close>

datatype driver_error = ErrNoDocuments | DuplicateKey | DriverFailure nat

text \<open>
  The calls the repositories make on a \<open>*mongo.Collection\<close>: \<open>UpdateOne\<close> gives the matched
  count, \<open>Find\<close> followed by \<open>cursor.All\<close> gives the documents, with the limit if one is set.
\<close>

record 's Collection =
  co_FindOne :: "document \<Rightarrow> (driver_error, 's, document) io"
  co_Find :: "document \<Rightarrow> int option \<Rightarrow> (driver_error, 's, document list) io"
  co_InsertOne :: "document \<Rightarrow> (driver_error, 's, unit) io"
  co_UpdateOne :: "document \<Rightarrow> document \<Rightarrow> (driver_error, 's, nat) io"
  co_UpdateByID :: "bson \<Rightarrow> document \<Rightarrow> (driver_error, 's, nat) io"
  co_DeleteOne :: "document \<Rightarrow> (driver_error, 's, nat) io"

text \<open>An error of the driver handed on to the caller.\<close>

fun driver_err :: "driver_error \<Rightarrow> go_error" where
  "driver_err ErrNoDocuments = ErrDriver 0"
| "driver_err DuplicateKey = ErrDriver 1"
| "driver_err (DriverFailure n) = ErrDriver (n + 3)"

definition decode_failed :: go_error where
  "decode_failed = ErrDriver 2"

definition discard :: "(driver_error, 's, 'a) io \<Rightarrow> (go_error, 's, unit) io" where
  "discard m s = (case m s of (Inl e, s') \<Rightarrow> (Inl (driver_err e), s') | (Inr _, s') \<Rightarrow> (Inr (), s'))"

text \<open>\<open>FindOne(...).Decode(...)\<close> with its two error branches.\<close>

definition decode_one :: "'s Collection \<Rightarrow> (document \<Rightarrow> 'a option) \<Rightarrow> document \<Rightarrow> (go_error, 's, 'a option) io" where
  "decode_one C read f s =
     (case co_FindOne C f s of
        (Inl ErrNoDocuments, s') \<Rightarrow> (Inr None, s')
      | (Inl e, s') \<Rightarrow> (Inl (driver_err e), s')
      | (Inr d, s') \<Rightarrow> (case read d of None \<Rightarrow> (Inl decode_failed, s') | Some a \<Rightarrow> (Inr (Some a), s')))"

definition decode_all :: "'s Collection \<Rightarrow> (document \<Rightarrow> 'a option) \<Rightarrow> document \<Rightarrow> int option \<Rightarrow> (go_error, 's, 'a list) io" where
  "decode_all C read f limit s =
     (case co_Find C f limit s of
        (Inl e, s') \<Rightarrow> (Inl (driver_err e), s')
      | (Inr ds, s') \<Rightarrow> (case those (map read ds) of None \<Rightarrow> (Inl decode_failed, s') | Some xs \<Rightarrow> (Inr xs, s')))"

definition insert_one :: "'s Collection \<Rightarrow> go_error \<Rightarrow> document \<Rightarrow> (go_error, 's, unit) io" where
  "insert_one C exists d s =
     (case co_InsertOne C d s of
        (Inl DuplicateKey, s') \<Rightarrow> (Inl exists, s')
      | (Inl e, s') \<Rightarrow> (Inl (driver_err e), s')
      | (Inr _, s') \<Rightarrow> (Inr (), s'))"

text \<open>\<open>UpdateByID(id, bson.M{"$set": ...})\<close>.\<close>

definition set_fields :: "'s Collection \<Rightarrow> string \<Rightarrow> document \<Rightarrow> (go_error, 's, unit) io" where
  "set_fields C key fs = discard (co_UpdateByID C (BString key) [(''$set'', BDoc fs)])"

section \<open>MongoPlayerRepository (player\_repository.go)\<close>

definition mongo_Find :: "'s Collection \<Rightarrow> string \<Rightarrow> (go_error, 's, Player option) io" where
  "mongo_Find C steamID = decode_one C read_player [(''_id'', BString steamID)]"

definition mongo_FindMany :: "'s Collection \<Rightarrow> string list \<Rightarrow> (go_error, 's, (string \<times> Player) list) io" where
  "mongo_FindMany C steamIDs =
     (if steamIDs = [] then io_ret []
      else io_bind (decode_all C read_player
             [(''_id'', BDoc [(''$in'', BArray (map BString steamIDs))])] None)
           (\<lambda>players. io_ret (fold (\<lambda>p found. AList.update (p_SteamID p) p found) players [])))"

definition mongo_Create :: "'s Collection \<Rightarrow> Player \<Rightarrow> (go_error, 's, unit) io" where
  "mongo_Create C player = insert_one C ErrAlreadyExists (player_document player)"

definition mongo_Touch :: "'s Collection \<Rightarrow> string \<Rightarrow> time \<Rightarrow> (go_error, 's, unit) io" where
  "mongo_Touch C steamID at = set_fields C steamID [(''last_login'', put_time at)]"

definition mongo_SaveLoadout :: "'s Collection \<Rightarrow> string \<Rightarrow> Loadout \<Rightarrow> (go_error, 's, unit) io" where
  "mongo_SaveLoadout C steamID loadout =
     set_fields C steamID [(''loadout'', put_list (\<lambda>e. BDoc (equipped_document e)) loadout)]"

definition walletField :: "Wallet \<Rightarrow> string" where
  "walletField w = (if w = WalletCash then ''cash'' else ''point'')"

text \<open>\<open>-int64(price)\<close> wraps at 64 bits; a \<open>price\<close> beyond int64 already fails as part of the filter.\<close>

definition mongo_CommitInventory ::
  "'s Collection \<Rightarrow> string \<Rightarrow> InventoryItem list \<Rightarrow> Wallet \<Rightarrow> u64 \<Rightarrow> (go_error, 's, bool) io" where
  "mongo_CommitInventory C steamID inventory wallet price s =
     (let field = walletField wallet;
          filter = (''_id'', BString steamID) #
            (if price > 0 then [(field, BDoc [(''$gte'', put_word price)])] else []);
          update = (''$set'', BDoc [(''inventory'', put_list (\<lambda>i. BDoc (item_document i)) inventory)]) #
            (if price > 0 then [(''$inc'', BDoc [(field, BInt (wrap64 (- sint price)))])] else [])
      in case co_UpdateOne C filter update s of
           (Inl e, s') \<Rightarrow> (Inl (driver_err e), s')
         | (Inr matched, s') \<Rightarrow> (Inr (matched > 0), s'))"

definition mongo_SaveAttachments :: "'s Collection \<Rightarrow> string \<Rightarrow> Attachments \<Rightarrow> (go_error, 's, unit) io" where
  "mongo_SaveAttachments C steamID attachments =
     set_fields C steamID [(''attachments'', put_list (\<lambda>a. BDoc (attached_document a)) attachments)]"

definition mongo_FindByName :: "'s Collection \<Rightarrow> string \<Rightarrow> (go_error, 's, Player option) io" where
  "mongo_FindByName C name = decode_one C read_player [(''name'', BString name)]"

definition mongo_SaveSocial ::
  "'s Collection \<Rightarrow> string \<Rightarrow> Friend list \<Rightarrow> FriendRequest list \<Rightarrow> (go_error, 's, unit) io" where
  "mongo_SaveSocial C steamID friends requests =
     set_fields C steamID
       [(''friends'', put_list (\<lambda>f. BDoc (friend_document f)) friends),
        (''friend_requests'', put_list (\<lambda>q. BDoc (request_document q)) requests)]"

definition mongo_SetName :: "'s Collection \<Rightarrow> string \<Rightarrow> string \<Rightarrow> (go_error, 's, unit) io" where
  "mongo_SetName C steamID name = set_fields C steamID [(''name'', BString name)]"

definition mongo_SetClanName :: "'s Collection \<Rightarrow> string \<Rightarrow> string \<Rightarrow> (go_error, 's, unit) io" where
  "mongo_SetClanName C steamID clanName =
     discard (co_UpdateByID C (BString steamID)
       (if clanName = [] then [(''$unset'', BDoc [(''clan_name'', BString [])])]
        else [(''$set'', BDoc [(''clan_name'', BString clanName)])]))"

definition mongo_player_repo :: "'s Collection \<Rightarrow> 's PlayerRepository" where
  "mongo_player_repo C = \<lparr>pr_Find = mongo_Find C, pr_FindMany = mongo_FindMany C, pr_Create = mongo_Create C,
     pr_Touch = mongo_Touch C, pr_SaveLoadout = mongo_SaveLoadout C,
     pr_CommitInventory = mongo_CommitInventory C, pr_SetName = mongo_SetName C,
     pr_FindByName = mongo_FindByName C, pr_SaveSocial = mongo_SaveSocial C,
     pr_SetClanName = mongo_SetClanName C, pr_SaveAttachments = mongo_SaveAttachments C\<rparr>"

section \<open>MongoClanRepository (clan\_repository.go)\<close>

definition mongo_clan_Find :: "'s Collection \<Rightarrow> string \<Rightarrow> (go_error, 's, Clan option) io" where
  "mongo_clan_Find C name = decode_one C read_clan [(''_id'', BString name)]"

definition mongo_clan_Create :: "'s Collection \<Rightarrow> Clan \<Rightarrow> (go_error, 's, unit) io" where
  "mongo_clan_Create C clan = insert_one C ErrClanExists (clan_document clan)"

definition mongo_clan_FindByMark :: "'s Collection \<Rightarrow> mark \<Rightarrow> string \<Rightarrow> (go_error, 's, Clan option) io" where
  "mongo_clan_FindByMark C mark excludeName =
     decode_one C read_clan ((''mark'', put_mark mark) #
       (if excludeName \<noteq> [] then [(''_id'', BDoc [(''$ne'', BString excludeName)])] else []))"

definition mongo_clan_SaveMark :: "'s Collection \<Rightarrow> string \<Rightarrow> mark \<Rightarrow> u16 \<Rightarrow> (go_error, 's, unit) io" where
  "mongo_clan_SaveMark C name mark markExtra =
     set_fields C name [(''mark'', put_mark mark), (''mark_extra'', put_word markExtra)]"

definition mongo_clan_Delete :: "'s Collection \<Rightarrow> string \<Rightarrow> (go_error, 's, unit) io" where
  "mongo_clan_Delete C name = discard (co_DeleteOne C [(''_id'', BString name)])"

definition mongo_clan_FindByApplicant :: "'s Collection \<Rightarrow> string \<Rightarrow> (go_error, 's, Clan option) io" where
  "mongo_clan_FindByApplicant C steamID = decode_one C read_clan [(''applicants.steam_id'', BString steamID)]"

definition mongo_clan_SaveApplicants :: "'s Collection \<Rightarrow> string \<Rightarrow> ClanApplicant list \<Rightarrow> (go_error, 's, unit) io" where
  "mongo_clan_SaveApplicants C name applicants =
     set_fields C name [(''applicants'', put_list (\<lambda>a. BDoc (applicant_document a)) applicants)]"

definition mongo_clan_SaveMembers :: "'s Collection \<Rightarrow> string \<Rightarrow> ClanMember list \<Rightarrow> (go_error, 's, unit) io" where
  "mongo_clan_SaveMembers C name members =
     set_fields C name [(''members'', put_list (\<lambda>m. BDoc (member_document m)) members)]"

definition mongo_clan_SaveRoster ::
  "'s Collection \<Rightarrow> string \<Rightarrow> ClanMember list \<Rightarrow> ClanApplicant list \<Rightarrow> (go_error, 's, unit) io" where
  "mongo_clan_SaveRoster C name members applicants =
     set_fields C name
       [(''members'', put_list (\<lambda>m. BDoc (member_document m)) members),
        (''applicants'', put_list (\<lambda>a. BDoc (applicant_document a)) applicants)]"

definition mongo_clan_SaveLeadership ::
  "'s Collection \<Rightarrow> string \<Rightarrow> string \<Rightarrow> ClanMember list \<Rightarrow> (go_error, 's, unit) io" where
  "mongo_clan_SaveLeadership C name master members =
     set_fields C name
       [(''master'', BString master), (''members'', put_list (\<lambda>m. BDoc (member_document m)) members)]"

text \<open>\<open>regexp.QuoteMeta\<close> escapes the characters that mean something in a pattern.\<close>

definition special_chars :: string where
  "special_chars = [CHR 0x5C, CHR ''.'', CHR ''+'', CHR ''*'', CHR ''?'', CHR ''('', CHR '')'', CHR ''|'',
     CHR ''['', CHR '']'', CHR ''{'', CHR ''}'', CHR ''^'', CHR ''$'']"

fun QuoteMeta :: "string \<Rightarrow> string" where
  "QuoteMeta [] = []"
| "QuoteMeta (c # cs) = (if c \<in> set special_chars then CHR 0x5C # c # QuoteMeta cs else c # QuoteMeta cs)"

definition mongo_clan_SearchByName :: "'s Collection \<Rightarrow> string \<Rightarrow> int \<Rightarrow> (go_error, 's, Clan list) io" where
  "mongo_clan_SearchByName C name limit =
     decode_all C read_clan
       [(''_id'', BDoc [(''$regex'', BString (''^'' @ QuoteMeta name)), (''$options'', BString ''i'')])]
       (Some limit)"

definition mongo_clan_repo :: "'s Collection \<Rightarrow> 's ClanRepository" where
  "mongo_clan_repo C = \<lparr>cr_Find = mongo_clan_Find C, cr_Create = mongo_clan_Create C,
     cr_SearchByName = mongo_clan_SearchByName C, cr_SaveApplicants = mongo_clan_SaveApplicants C,
     cr_SaveMembers = mongo_clan_SaveMembers C, cr_SaveRoster = mongo_clan_SaveRoster C,
     cr_SaveLeadership = mongo_clan_SaveLeadership C, cr_FindByApplicant = mongo_clan_FindByApplicant C,
     cr_FindByMark = mongo_clan_FindByMark C, cr_SaveMark = mongo_clan_SaveMark C,
     cr_Delete = mongo_clan_Delete C\<rparr>"

section \<open>What the driver documents\<close>

text \<open>
  \<open>docs\<close> is the content of the collection: the document stored under each \<open>_id\<close>. A read changes nothing and
  finds a selected document if there is one; writes to one document are atomic, an \<open>_id\<close> is unique and
  never changes, and a call that reports an error may still have had its effect, but no other.
\<close>

type_synonym contents = "bson \<Rightarrow> document option"

definition filed_by_id :: "('s \<Rightarrow> contents) \<Rightarrow> bool" where
  "filed_by_id docs \<longleftrightarrow> (\<forall>s k d. docs s k = Some d \<longrightarrow> map_of d ''_id'' = Some k \<and> encodable (BDoc d))"

definition reads_one :: "regex_engine \<Rightarrow> 's Collection \<Rightarrow> ('s \<Rightarrow> contents) \<Rightarrow> bool" where
  "reads_one rx C docs \<longleftrightarrow> (\<forall>f s r s'. co_FindOne C f s = (r, s') \<longrightarrow> docs s' = docs s \<and>
     (case r of
        Inr d \<Rightarrow> d \<in> ran (docs s) \<and> selects rx f d
      | Inl ErrNoDocuments \<Rightarrow> (\<forall>d \<in> ran (docs s). \<not> selects rx f d)
      | Inl _ \<Rightarrow> True))"

definition reads_many :: "regex_engine \<Rightarrow> 's Collection \<Rightarrow> ('s \<Rightarrow> contents) \<Rightarrow> bool" where
  "reads_many rx C docs \<longleftrightarrow> (\<forall>f limit s r s'. co_Find C f limit s = (r, s') \<longrightarrow> docs s' = docs s \<and>
     (case r of
        Inr ds \<Rightarrow> distinct ds \<and> set ds \<subseteq> {d \<in> ran (docs s). selects rx f d} \<and>
          (case limit of
             None \<Rightarrow> set ds = {d \<in> ran (docs s). selects rx f d}
           | Some n \<Rightarrow> n > 0 \<longrightarrow> int (length ds) \<le> n \<and>
               (int (length ds) < n \<longrightarrow> set ds = {d \<in> ran (docs s). selects rx f d}))
      | Inl _ \<Rightarrow> True))"

definition inserts_one :: "'s Collection \<Rightarrow> ('s \<Rightarrow> contents) \<Rightarrow> bool" where
  "inserts_one C docs \<longleftrightarrow> (\<forall>d k s r s'. map_of d ''_id'' = Some k \<longrightarrow> co_InsertOne C d s = (r, s') \<longrightarrow>
     (let stored = docs s k = None \<and> docs s' = (docs s)(k \<mapsto> d) in
      case r of
        Inr _ \<Rightarrow> stored \<and> encodable (BDoc d)
      | Inl DuplicateKey \<Rightarrow> docs s k \<noteq> None \<and> docs s' = docs s
      | Inl _ \<Rightarrow> stored \<or> docs s' = docs s))"

definition replaced :: "regex_engine \<Rightarrow> document \<Rightarrow> document \<Rightarrow> contents \<Rightarrow> contents \<Rightarrow> bool" where
  "replaced rx f u before after \<longleftrightarrow> (\<exists>k d d'. before k = Some d \<and> selects rx f d \<and>
     apply_update u d = Some d' \<and> map_of d' ''_id'' = Some k \<and> after = before(k \<mapsto> d'))"

definition updates_one :: "regex_engine \<Rightarrow> 's Collection \<Rightarrow> ('s \<Rightarrow> contents) \<Rightarrow> bool" where
  "updates_one rx C docs \<longleftrightarrow> (\<forall>f u s r s'. co_UpdateOne C f u s = (r, s') \<longrightarrow>
     (case r of
        Inr n \<Rightarrow> encodable (BDoc f) \<and> encodable (BDoc u) \<and>
          (if n = 0 then docs s' = docs s \<and> (\<forall>d \<in> ran (docs s). \<not> selects rx f d)
           else replaced rx f u (docs s) (docs s'))
      | Inl _ \<Rightarrow> docs s' = docs s \<or>
          encodable (BDoc f) \<and> encodable (BDoc u) \<and> replaced rx f u (docs s) (docs s')))"

definition deletes_one :: "regex_engine \<Rightarrow> 's Collection \<Rightarrow> ('s \<Rightarrow> contents) \<Rightarrow> bool" where
  "deletes_one rx C docs \<longleftrightarrow> (\<forall>f s r s'. co_DeleteOne C f s = (r, s') \<longrightarrow>
     (let gone = (\<exists>k d. docs s k = Some d \<and> selects rx f d \<and> docs s' = (docs s)(k := None)) in
      case r of
        Inr n \<Rightarrow> if n = 0 then docs s' = docs s \<and> (\<forall>d \<in> ran (docs s). \<not> selects rx f d) else gone
      | Inl _ \<Rightarrow> docs s' = docs s \<or> gone))"

definition collection_contract :: "regex_engine \<Rightarrow> 's Collection \<Rightarrow> ('s \<Rightarrow> contents) \<Rightarrow> bool" where
  "collection_contract rx C docs \<longleftrightarrow> filed_by_id docs \<and> reads_one rx C docs \<and> reads_many rx C docs \<and>
     inserts_one C docs \<and> updates_one rx C docs \<and> deletes_one rx C docs \<and>
     (\<forall>k u. co_UpdateByID C k u = co_UpdateOne C [(''_id'', k)] u)"

end
