(* ===== verification/Mongo_Players.thy ===== *)
theory Mongo_Players
  imports Mongo
begin

text \<open>
  The MongoDB repositories against the in-memory ones: a relation \<open>stands\<close> between a collection and a
  map of accounts or clans, and that every call of the player repository keeps it, whatever the driver
  answers within its contract.
\<close>

section \<open>Collections standing for a map\<close>

definition stands :: "(document \<Rightarrow> 'a option) \<Rightarrow> contents \<Rightarrow> (string \<Rightarrow> 'a option) \<Rightarrow> bool" where
  "stands read docs m \<longleftrightarrow> (\<forall>k d. docs k = Some d \<longrightarrow> (\<exists>n. k = BString n) \<and> read d \<noteq> None) \<and>
     (\<forall>n. m n = Option.bind (docs (BString n)) read)"

text \<open>The reply of the store and its effect, or an error of the driver with or without the effect.\<close>

definition driver_error :: "go_error + 'b \<Rightarrow> bool" where
  "driver_error r \<longleftrightarrow> (\<exists>n. r = Inl (ErrDriver n))"

lemma driver_error_simps [simp]: "driver_error (Inl (driver_err e))" "driver_error (Inl (ErrDriver n))"
    "driver_error (Inl decode_failed)" "\<not> driver_error (Inr a)"
  by (cases e; simp add: driver_error_def decode_failed_def)+

lemma standsD:
  assumes "stands read docs m" and "docs k = Some d"
  obtains n a where "k = BString n" and "read d = Some a" and "m n = Some a"
  using assms by (fastforce simp: stands_def)

lemma stands_None: "stands read docs m \<Longrightarrow> docs (BString n) = None \<longleftrightarrow> m n = None"
  by (cases "docs (BString n)") (force simp: stands_def)+

lemma stands_Some: "stands read docs m \<Longrightarrow> m n = Some a \<longleftrightarrow> (\<exists>d. docs (BString n) = Some d \<and> read d = Some a)"
  by (force simp: stands_def bind_eq_Some_conv)

lemma stands_put:
  "stands read docs m \<Longrightarrow> read d = Some a \<Longrightarrow> stands read (docs(BString n \<mapsto> d)) (m(n \<mapsto> a))"
  by (auto simp: stands_def)

lemma stands_remove: "stands read docs m \<Longrightarrow> stands read (docs(BString n := None)) (m(n := None))"
  by (auto simp: stands_def)

section \<open>Selection by id and by field\<close>

lemma path_id: "path_of ''_id'' = [''_id'']" "path_of ''name'' = [''name'']" "path_of ''mark'' = [''mark'']"
    "path_of ''point'' = [''point'']" "path_of ''cash'' = [''cash'']"
    "path_of ''applicants.steam_id'' = [''applicants'', ''steam_id'']"
  by (simp_all add: path_of_def)

lemma reach_field: "reach [k] (BDoc d) = (case map_of d k of None \<Rightarrow> [] | Some v \<Rightarrow> reach [] v)"
  by simp

lemma selects_simps: "selects rx [] d"
    "selects rx ((p, c) # f) d \<longleftrightarrow> condition_holds rx c (reach (path_of p) (BDoc d)) \<and> selects rx f d"
  by (simp_all add: selects_def)

lemma selects_id:
  "map_of d ''_id'' = Some (BString j) \<Longrightarrow> selects rx ((''_id'', BString k) # f) d \<longleftrightarrow> j = k \<and> selects rx f d"
  by (auto simp: selects_simps path_id)

section \<open>One call\<close>

lemma contract_parts:
  assumes "collection_contract rx C docs"
  shows "docs s k = Some d \<Longrightarrow> map_of d ''_id'' = Some k" "reads_one rx C docs" "reads_many rx C docs"
    "inserts_one C docs" "updates_one rx C docs" "deletes_one rx C docs"
    "co_UpdateByID C k u = co_UpdateOne C [(''_id'', k)] u"
    "docs s k = Some d \<Longrightarrow> encodable (BDoc d)"
  using assms by (auto simp: collection_contract_def filed_by_id_def)

lemma decode_one_outcome:
  assumes C: "collection_contract rx C docs" and S: "stands own (docs s) m"
    and own: "\<And>d a. own d = Some a \<Longrightarrow> read d = Some a"
    and call: "decode_one C read f s = (r, s')"
  shows "docs s' = docs s"
    and "driver_error r \<or>
      (\<exists>n d a. r = Inr (Some a) \<and> docs s (BString n) = Some d \<and> selects rx f d \<and> own d = Some a \<and> m n = Some a) \<or>
      (r = Inr None \<and> (\<forall>n d. docs s (BString n) = Some d \<longrightarrow> \<not> selects rx f d))"
proof -
  obtain x t where x: "co_FindOne C f s = (x, t)" by force
  note R = contract_parts(2) [OF C, unfolded reads_one_def, rule_format, OF x]
  have t: "s' = t" using call x by (auto simp: decode_one_def split: sum.splits driver_error.splits option.splits)
  show "docs s' = docs s" using R t by simp
  show "driver_error r \<or>
      (\<exists>n d a. r = Inr (Some a) \<and> docs s (BString n) = Some d \<and> selects rx f d \<and> own d = Some a \<and> m n = Some a) \<or>
      (r = Inr None \<and> (\<forall>n d. docs s (BString n) = Some d \<longrightarrow> \<not> selects rx f d))"
  proof (cases x)
    case (Inl e)
    then show ?thesis using call x R
      by (cases e) (auto simp: decode_one_def ran_def)
  next
    case (Inr d)
    with R obtain k where k: "docs s k = Some d" and sel: "selects rx f d" by (auto simp: ran_def)
    from standsD [OF S k] obtain n a where "k = BString n" "own d = Some a" "m n = Some a" .
    with own call x Inr k sel show ?thesis by (auto simp: decode_one_def)
  qed
qed

lemma update_outcome:
  assumes C: "collection_contract rx C docs" and S: "stands read (docs s) m"
    and call: "co_UpdateOne C ((''_id'', BString k) # f) u s = (r, s')"
    and keep: "\<And>d a. docs s (BString k) = Some d \<Longrightarrow> read d = Some a \<Longrightarrow> selects rx f d \<Longrightarrow>
      encodable (BDoc f) \<Longrightarrow> \<exists>d'. apply_update u d = Some d' \<and> read d' = Some (g a)"
  defines "m' \<equiv> m(k := map_option g (m k))"
  shows "(case r of
      Inl _ \<Rightarrow> stands read (docs s') m \<or>
        stands read (docs s') m' \<and> (\<exists>d. docs s (BString k) = Some d \<and> selects rx f d)
    | Inr n \<Rightarrow> encodable (BDoc f) \<and>
        (if n = 0 then stands read (docs s') m \<and> (\<forall>d. docs s (BString k) = Some d \<longrightarrow> \<not> selects rx f d)
         else stands read (docs s') m' \<and> (\<exists>d. docs s (BString k) = Some d \<and> selects rx f d)))"
proof -
  let ?f = "(''_id'', BString k) # f"
  note U = contract_parts(5) [OF C, unfolded updates_one_def, rule_format, OF call]
  have sel: "selects rx ?f d \<longleftrightarrow> j = k \<and> selects rx f d" if "docs s (BString j) = Some d" for j d
    using selects_id contract_parts(1) [OF C that] by blast
  have rep: "stands read (docs s') m' \<and> (\<exists>d. docs s (BString k) = Some d \<and> selects rx f d)"
    if rep: "replaced rx ?f u (docs s) (docs s')" and enc: "encodable (BDoc f)"
  proof -
    from rep obtain j d d' where j: "docs s j = Some d" "selects rx ?f d" "apply_update u d = Some d'"
      "docs s' = (docs s)(j \<mapsto> d')" by (auto simp: replaced_def)
    from standsD [OF S j(1)] obtain n a where a: "j = BString n" "read d = Some a" "m n = Some a" .
    with j sel have "n = k" "selects rx f d" by auto
    with keep [of d a] j a enc have "read d' = Some (g a)" by auto
    with stands_put [OF S, of d' "g a" k] j a \<open>n = k\<close> \<open>selects rx f d\<close> show ?thesis by (auto simp: m'_def)
  qed
  have enc: "encodable (BDoc ?f) \<Longrightarrow> encodable (BDoc f)" by simp
  have none: "\<forall>d. docs s (BString k) = Some d \<longrightarrow> \<not> selects rx f d"
    if "\<forall>d \<in> ran (docs s). \<not> selects rx ?f d"
    using that sel by (auto simp: ran_def)
  show ?thesis
  proof (cases r)
    case (Inl e)
    then show ?thesis using U S rep enc by auto
  next
    case (Inr n)
    then show ?thesis using U S rep enc none by (auto split: if_splits)
  qed
qed

text \<open>A write to one document: done, or reported as failed with or without its effect.\<close>

definition written :: "(document \<Rightarrow> 'a option) \<Rightarrow> contents \<Rightarrow> (string \<Rightarrow> 'a option) \<Rightarrow> (string \<Rightarrow> 'a option) \<Rightarrow> go_error + 'b \<Rightarrow> go_error + 'b \<Rightarrow> bool" where
  "written read docs m m' r0 r \<longleftrightarrow>
     (r = r0 \<and> stands read docs m') \<or> (driver_error r \<and> (stands read docs m \<or> stands read docs m'))"

lemma no_such_key:
  assumes "stands read (docs s) m" and "\<forall>d. docs s (BString k) = Some d \<longrightarrow> False"
  shows "m(k := map_option g (m k)) = m"
proof -
  have "m k = None" using assms by (simp add: stands_def)
  then show ?thesis by (simp add: fun_upd_idem)
qed

lemma discard_outcome:
  assumes C: "collection_contract rx C docs" and S: "stands read (docs s) m"
    and call: "discard (co_UpdateByID C (BString k) u) s = (r, s')"
    and keep: "\<And>d a. read d = Some a \<Longrightarrow> \<exists>d'. apply_update u d = Some d' \<and> read d' = Some (g a)"
  shows "written read (docs s') m (m(k := map_option g (m k))) (Inr ()) r"
proof -
  obtain x t where x: "co_UpdateOne C [(''_id'', BString k)] u s = (x, t)" by force
  note U = update_outcome [where g = g, OF C S x]
  have sel: "selects rx [] d" for d by (simp add: selects_def)
  from call x have r: "s' = t" "(\<exists>e. x = Inl e \<and> r = Inl (driver_err e)) \<or> (\<exists>n. x = Inr n \<and> r = Inr ())"
    by (auto simp: discard_def contract_parts(7) [OF C] split: sum.splits)
  show ?thesis
  proof (cases x)
    case (Inl e)
    then show ?thesis using U keep r by (auto simp: written_def)
  next
    case (Inr n)
    then show ?thesis using U keep r sel no_such_key [of read docs s m k g] S
      by (cases "n = 0") (auto simp: written_def)
  qed
qed

lemma set_outcome:
  assumes C: "collection_contract rx C docs" and S: "stands read (docs s) m"
    and call: "set_fields C k fs s = (r, s')"
    and keep: "\<And>d a. read d = Some a \<Longrightarrow> read (fold (\<lambda>(k, v). AList.update k v) fs d) = Some (g a)"
  shows "written read (docs s') m (m(k := map_option g (m k))) (Inr ()) r"
  using discard_outcome [OF C S, of k _ r s' g] call keep by (simp add: set_fields_def)

lemma insert_outcome:
  assumes C: "collection_contract rx C docs" and S: "stands read (docs s) m"
    and id: "map_of d ''_id'' = Some (BString k)" and d: "read d = Some a"
    and call: "insert_one C e d s = (r, s')"
  shows "written read (docs s') m (if m k = None then m(k \<mapsto> a) else m) (if m k = None then Inr () else Inl e) r"
proof -
  obtain x t where x: "co_InsertOne C d s = (x, t)" by force
  note I = contract_parts(4) [OF C, unfolded inserts_one_def, rule_format, OF id x]
  note put = stands_put [OF S d, of k] and free = stands_None [OF S, of k]
  show ?thesis
  proof (cases x)
    case (Inl f)
    then show ?thesis using I put free S call x
      by (cases f) (auto simp: insert_one_def written_def Let_def split: if_splits)
  next
    case (Inr u)
    then show ?thesis using I put free call x by (auto simp: insert_one_def written_def Let_def)
  qed
qed

section \<open>Accounts\<close>

lemma read_player_iff:
  "read_player d = Some p \<longleftrightarrow>
     get_string (map_of d ''_id'') = Some (p_SteamID p) \<and> get_string (map_of d ''name'') = Some (p_Name p) \<and>
     get_word (map_of d ''exp'') = Some (p_Exp p) \<and> get_word (map_of d ''level'') = Some (p_Level p) \<and>
     get_word (map_of d ''point'') = Some (p_Point p) \<and> get_word (map_of d ''cash'') = Some (p_Cash p) \<and>
     get_list (\<lambda>v. get_doc read_item (Some v)) (map_of d ''inventory'') = Some (p_Inventory p) \<and>
     get_list (\<lambda>v. get_doc read_equipped (Some v)) (map_of d ''loadout'') = Some (p_Loadout p) \<and>
     get_list (\<lambda>v. get_doc read_attached (Some v)) (map_of d ''attachments'') = Some (p_Attachments p) \<and>
     get_doc read_records (map_of d ''records'') = Some (p_Records p) \<and>
     get_string (map_of d ''clan_name'') = Some (p_ClanName p) \<and>
     get_list (\<lambda>v. get_doc read_friend (Some v)) (map_of d ''friends'') = Some (p_Friends p) \<and>
     get_list (\<lambda>v. get_doc read_request (Some v)) (map_of d ''friend_requests'') = Some (p_FriendRequests p) \<and>
     get_time (map_of d ''created_at'') = Some (p_CreatedAt p) \<and>
     get_time (map_of d ''last_login'') = Some (p_LastLogin p)"
  by (cases p) (auto simp: read_player_def bind_eq_Some_conv)

lemma read_player_put:
  assumes "read_player d = Some p"
  shows "read_player (AList.update ''last_login'' (put_time t) d) = Some (p\<lparr>p_LastLogin := whole_ms t\<rparr>)"
    "read_player (AList.update ''name'' (BString n) d) = Some (p\<lparr>p_Name := n\<rparr>)"
    "read_player (AList.update ''clan_name'' (BString n) d) = Some (p\<lparr>p_ClanName := n\<rparr>)"
    "read_player (AList.delete ''clan_name'' d) = Some (p\<lparr>p_ClanName := []\<rparr>)"
    "read_player (AList.update ''loadout'' (put_list (\<lambda>e. BDoc (equipped_document e)) l) d) = Some (p\<lparr>p_Loadout := l\<rparr>)"
    "read_player (AList.update ''attachments'' (put_list (\<lambda>e. BDoc (attached_document e)) a) d) = Some (p\<lparr>p_Attachments := a\<rparr>)"
    "read_player (AList.update ''inventory'' (put_list (\<lambda>e. BDoc (item_document e)) i) d) = Some (p\<lparr>p_Inventory := map ms_item i\<rparr>)"
    "read_player (AList.update ''friends'' (put_list (\<lambda>e. BDoc (friend_document e)) f) d) = Some (p\<lparr>p_Friends := map ms_friend f\<rparr>)"
    "read_player (AList.update ''friend_requests'' (put_list (\<lambda>e. BDoc (request_document e)) q) d) = Some (p\<lparr>p_FriendRequests := map ms_request q\<rparr>)"
    "0 \<le> b \<Longrightarrow> b < 2 ^ 64 \<Longrightarrow> read_player (AList.update ''point'' (BInt b) d) = Some (p\<lparr>p_Point := word_of_int b\<rparr>)"
    "0 \<le> b \<Longrightarrow> b < 2 ^ 64 \<Longrightarrow> read_player (AList.update ''cash'' (BInt b) d) = Some (p\<lparr>p_Cash := word_of_int b\<rparr>)"
  using assms unfolding read_player_iff by (simp_all add: update_conv' delete_conv')

text \<open>An account's document as the repositories write it has its name in it, even an empty one.\<close>

definition player_of :: "document \<Rightarrow> Player option" where
  "player_of d = (case map_of d ''name'' of Some (BString n) \<Rightarrow> read_player d | _ \<Rightarrow> None)"

lemma player_of_iff: "player_of d = Some p \<longleftrightarrow> map_of d ''name'' = Some (BString (p_Name p)) \<and> read_player d = Some p"
  by (auto simp: player_of_def read_player_iff split: option.splits bson.splits)

lemma player_of_document: "player_of (player_document p) = Some (ms_player p)"
  by (simp add: player_of_iff) (simp add: player_document_def ms_player_def)

lemmas player_of_put = player_of_iff read_player_put update_conv' delete_conv'

text \<open>The calls of \<open>PlayerRepository\<close> and their replies.\<close>

datatype player_call =
    DoFind string | DoFindMany "string list" | DoCreate Player | DoTouch string time
  | DoSaveLoadout string Loadout | DoCommit string "InventoryItem list" Wallet u64
  | DoSetName string string | DoFindByName string | DoSaveSocial string "Friend list" "FriendRequest list"
  | DoSetClanName string string | DoSaveAttachments string Attachments

datatype player_reply = Done | Applied bool | Found "Player option" | FoundMany "(string \<times> Player) list"

definition io_map :: "('a \<Rightarrow> 'b) \<Rightarrow> ('e, 'w, 'a) io \<Rightarrow> ('e, 'w, 'b) io" where
  "io_map f m w = (case m w of (r, w') \<Rightarrow> (map_sum id f r, w'))"

primrec call_players :: "'w PlayerRepository \<Rightarrow> player_call \<Rightarrow> (go_error, 'w, player_reply) io" where
  "call_players R (DoFind k) = io_map Found (pr_Find R k)"
| "call_players R (DoFindMany ks) = io_map FoundMany (pr_FindMany R ks)"
| "call_players R (DoCreate p) = io_map (\<lambda>_. Done) (pr_Create R p)"
| "call_players R (DoTouch k t) = io_map (\<lambda>_. Done) (pr_Touch R k t)"
| "call_players R (DoSaveLoadout k l) = io_map (\<lambda>_. Done) (pr_SaveLoadout R k l)"
| "call_players R (DoCommit k i w c) = io_map Applied (pr_CommitInventory R k i w c)"
| "call_players R (DoSetName k n) = io_map (\<lambda>_. Done) (pr_SetName R k n)"
| "call_players R (DoFindByName n) = io_map Found (pr_FindByName R n)"
| "call_players R (DoSaveSocial k f q) = io_map (\<lambda>_. Done) (pr_SaveSocial R k f q)"
| "call_players R (DoSetClanName k n) = io_map (\<lambda>_. Done) (pr_SetClanName R k n)"
| "call_players R (DoSaveAttachments k a) = io_map (\<lambda>_. Done) (pr_SaveAttachments R k a)"

text \<open>The same call with its dates cut to milliseconds; a charge names one of the two wallets.\<close>

fun ms_player_call :: "player_call \<Rightarrow> player_call" where
  "ms_player_call (DoCreate p) = DoCreate (ms_player p)"
| "ms_player_call (DoTouch k t) = DoTouch k (whole_ms t)"
| "ms_player_call (DoCommit k i w c) = DoCommit k (map ms_item i) w c"
| "ms_player_call (DoSaveSocial k f q) = DoSaveSocial k (map ms_friend f) (map ms_request q)"
| "ms_player_call c = c"

fun names_wallet :: "player_call \<Rightarrow> bool" where
  "names_wallet (DoCommit k i w c) \<longleftrightarrow> w \<noteq> WalletNone \<or> c = 0"
| "names_wallet _ \<longleftrightarrow> True"

text \<open>Which of several accounts with one name \<open>FindByName\<close> gives is not determined.\<close>

fun same_found :: "player_call \<Rightarrow> db \<Rightarrow> go_error + player_reply \<Rightarrow> go_error + player_reply \<Rightarrow> bool" where
  "same_found (DoFindByName n) w r0 r \<longleftrightarrow> (\<exists>q0 q. r0 = Inr (Found q0) \<and> r = Inr (Found q) \<and> (q0 = None \<longleftrightarrow> q = None) \<and>
     (\<forall>p. q = Some p \<longrightarrow> db_player w (p_SteamID p) = Some p \<and> p_Name p = n))"
| "same_found (DoFindMany ks) w r0 r \<longleftrightarrow> (\<exists>m0 m. r0 = Inr (FoundMany m0) \<and> r = Inr (FoundMany m) \<and> map_of m0 = map_of m)"
| "same_found _ w r0 r \<longleftrightarrow> r = r0"

definition players_follow :: "('s \<Rightarrow> contents) \<Rightarrow> player_call \<Rightarrow> db \<Rightarrow> 's \<Rightarrow> go_error + player_reply \<Rightarrow> bool" where
  "players_follow docs c w s' r \<longleftrightarrow>
     (case call_players mem_player_repo (ms_player_call c) w of (r0, w') \<Rightarrow>
        (same_found c w r0 r \<and> stands player_of (docs s') (db_player w')) \<or>
        (driver_error r \<and> (stands player_of (docs s') (db_player w) \<or> stands player_of (docs s') (db_player w'))))"

lemma db_player_update: "db_player (update_player k g w) = (db_player w)(k := map_option g (db_player w k))"
  by (rule ext) (simp add: db_defs)

lemma follow_write:
  assumes mem: "call_players mem_player_repo (ms_player_call c) w = (Inr Done, update_player k g w)"
    and not_read: "\<And>r0 r. same_found c w r0 r \<longleftrightarrow> r = r0"
    and W: "written player_of (docs s') (db_player w) ((db_player w)(k := map_option g (db_player w k))) (Inr ()) r"
  shows "players_follow docs c w s' (map_sum id (\<lambda>_. Done) r)"
  using W by (auto simp: players_follow_def mem not_read written_def db_player_update driver_error_def)

lemma follow_set:
  assumes C: "collection_contract rx C docs" and S: "stands player_of (docs s) (db_player w)"
    and call: "call_players (mongo_player_repo C) c s = (r, s')"
    and mongo: "call_players (mongo_player_repo C) c = io_map (\<lambda>_. Done) (set_fields C k fs)"
    and mem: "call_players mem_player_repo (ms_player_call c) w = (Inr Done, update_player k g w)"
    and not_read: "\<And>r0 r. same_found c w r0 r \<longleftrightarrow> r = r0"
    and keep: "\<And>d p. player_of d = Some p \<Longrightarrow>
      player_of (fold (\<lambda>(k, v). AList.update k v) fs d) = Some (g p)"
  shows "players_follow docs c w s' r"
proof -
  obtain x where x: "set_fields C k fs s = (x, s')" "r = map_sum id (\<lambda>_. Done) x"
    using call by (auto simp: mongo io_map_def split: prod.splits)
  have "written player_of (docs s') (db_player w) ((db_player w)(k := map_option g (db_player w k))) (Inr ()) x"
    using set_outcome [where g = g, OF C S x(1)] keep by blast
  with follow_write [OF mem not_read, of docs s' x] x(2) show ?thesis by simp
qed

lemmas mongo_player_defs = mongo_player_repo_def mongo_Find_def mongo_FindMany_def mongo_Create_def
  mongo_Touch_def mongo_SaveLoadout_def mongo_SaveAttachments_def mongo_FindByName_def
  mongo_SaveSocial_def mongo_SetName_def mongo_SetClanName_def mongo_CommitInventory_def

lemma follow_saves:
  assumes C: "collection_contract rx C docs" and S: "stands player_of (docs s) (db_player w)"
  shows
    "call_players (mongo_player_repo C) (DoTouch k t) s = (r, s') \<Longrightarrow> players_follow docs (DoTouch k t) w s' r"
    "call_players (mongo_player_repo C) (DoSaveLoadout k l) s = (r, s') \<Longrightarrow> players_follow docs (DoSaveLoadout k l) w s' r"
    "call_players (mongo_player_repo C) (DoSaveAttachments k a) s = (r, s') \<Longrightarrow> players_follow docs (DoSaveAttachments k a) w s' r"
    "call_players (mongo_player_repo C) (DoSetName k n) s = (r, s') \<Longrightarrow> players_follow docs (DoSetName k n) w s' r"
    "call_players (mongo_player_repo C) (DoSaveSocial k f q) s = (r, s') \<Longrightarrow> players_follow docs (DoSaveSocial k f q) w s' r"
proof -
  note eval = mongo_player_defs mem_defs io_map_def player_of_put
  show "call_players (mongo_player_repo C) (DoTouch k t) s = (r, s') \<Longrightarrow> players_follow docs (DoTouch k t) w s' r"
    by (erule follow_set [OF C S, where k = k and fs = "[(''last_login'', put_time t)]"
      and g = "\<lambda>p. p\<lparr>p_LastLogin := whole_ms t\<rparr>"]) (simp_all add: eval)
  show "call_players (mongo_player_repo C) (DoSaveLoadout k l) s = (r, s') \<Longrightarrow> players_follow docs (DoSaveLoadout k l) w s' r"
    by (erule follow_set [OF C S, where k = k and g = "\<lambda>p. p\<lparr>p_Loadout := l\<rparr>"
      and fs = "[(''loadout'', put_list (\<lambda>e. BDoc (equipped_document e)) l)]"]) (simp_all add: eval)
  show "call_players (mongo_player_repo C) (DoSaveAttachments k a) s = (r, s') \<Longrightarrow> players_follow docs (DoSaveAttachments k a) w s' r"
    by (erule follow_set [OF C S, where k = k and g = "\<lambda>p. p\<lparr>p_Attachments := a\<rparr>"
      and fs = "[(''attachments'', put_list (\<lambda>e. BDoc (attached_document e)) a)]"]) (simp_all add: eval)
  show "call_players (mongo_player_repo C) (DoSetName k n) s = (r, s') \<Longrightarrow> players_follow docs (DoSetName k n) w s' r"
    by (erule follow_set [OF C S, where k = k and g = "\<lambda>p. p\<lparr>p_Name := n\<rparr>"
      and fs = "[(''name'', BString n)]"]) (simp_all add: eval)
  show "call_players (mongo_player_repo C) (DoSaveSocial k f q) s = (r, s') \<Longrightarrow> players_follow docs (DoSaveSocial k f q) w s' r"
    by (erule follow_set [OF C S, where k = k
      and g = "\<lambda>p. p\<lparr>p_Friends := map ms_friend f, p_FriendRequests := map ms_request q\<rparr>"
      and fs = "[(''friends'', put_list (\<lambda>x. BDoc (friend_document x)) f),
        (''friend_requests'', put_list (\<lambda>x. BDoc (request_document x)) q)]"]) (simp_all add: eval)
qed

lemma follow_clan_name:
  assumes C: "collection_contract rx C docs" and S: "stands player_of (docs s) (db_player w)"
    and call: "call_players (mongo_player_repo C) (DoSetClanName k n) s = (r, s')"
  shows "players_follow docs (DoSetClanName k n) w s' r"
proof -
  let ?u = "if n = [] then [(''$unset'', BDoc [(''clan_name'', BString [])])]
    else [(''$set'', BDoc [(''clan_name'', BString n)])]"
  obtain x where x: "discard (co_UpdateByID C (BString k) ?u) s = (x, s')" "r = map_sum id (\<lambda>_. Done) x"
    using call by (auto simp: mongo_player_defs io_map_def split: prod.splits)
  have "written player_of (docs s') (db_player w)
      ((db_player w)(k := map_option (\<lambda>p. p\<lparr>p_ClanName := n\<rparr>) (db_player w k))) (Inr ()) x"
    by (rule discard_outcome [OF C S x(1)]) (simp add: player_of_put)
  then show ?thesis unfolding x(2)
    by (intro follow_write [where g = "\<lambda>p. p\<lparr>p_ClanName := n\<rparr>" and k = k])
      (simp_all add: mem_defs io_map_def)
qed

lemma follow_create:
  assumes C: "collection_contract rx C docs" and S: "stands player_of (docs s) (db_player w)"
    and call: "call_players (mongo_player_repo C) (DoCreate p) s = (r, s')"
  shows "players_follow docs (DoCreate p) w s' r"
proof -
  obtain x where x: "insert_one C ErrAlreadyExists (player_document p) s = (x, s')" "r = map_sum id (\<lambda>_. Done) x"
    using call by (auto simp: mongo_player_defs io_map_def split: prod.splits)
  have id: "map_of (player_document p) ''_id'' = Some (BString (p_SteamID p))"
    by (simp add: player_document_def)
  have "db_player (insert_player q w) = (db_player w)(p_SteamID q \<mapsto> q)" for q
    by (simp add: db_defs update_conv')
  moreover have "p_SteamID (ms_player p) = p_SteamID p" by (simp add: ms_player_def)
  ultimately show ?thesis using insert_outcome [OF C S id player_of_document x(1)] unfolding x(2)
    by (cases "db_player w (p_SteamID p)")
      (auto simp: players_follow_def written_def mem_player_repo_def mem_Create_def io_map_def driver_error_def)
qed

lemma player_found:
  assumes C: "collection_contract rx C docs" and S: "stands player_of (docs s) m"
    and call: "decode_one C read_player f s = (r, s')"
  shows "docs s' = docs s"
    and "driver_error r \<or>
      (\<exists>n d a. r = Inr (Some a) \<and> docs s (BString n) = Some d \<and> selects rx f d \<and> player_of d = Some a \<and> m n = Some a) \<or>
      (r = Inr None \<and> (\<forall>n d. docs s (BString n) = Some d \<longrightarrow> \<not> selects rx f d))"
  by (rule decode_one_outcome [OF C S _ call], simp add: player_of_iff)+

lemma follow_find:
  assumes C: "collection_contract rx C docs" and S: "stands player_of (docs s) (db_player w)"
    and call: "call_players (mongo_player_repo C) (DoFind k) s = (r, s')"
  shows "players_follow docs (DoFind k) w s' r"
proof -
  obtain x where x: "decode_one C read_player [(''_id'', BString k)] s = (x, s')" "r = map_sum id Found x"
    using call by (auto simp: mongo_player_defs io_map_def split: prod.splits)
  have sel: "selects rx [(''_id'', BString k)] d \<longleftrightarrow> j = k" if "docs s (BString j) = Some d" for j d
    using selects_id [OF contract_parts(1) [OF C that], of rx k "[]"] by (simp add: selects_simps)
  have "driver_error x \<or> x = Inr (db_player w k)"
  proof -
    have "db_player w k = None" if "\<forall>n d. docs s (BString n) = Some d \<longrightarrow> \<not> selects rx [(''_id'', BString k)] d"
      using that sel stands_None [OF S] by (metis not_None_eq)
    with player_found(2) [OF C S x(1)] sel show ?thesis by (elim disjE exE conjE) auto
  qed
  with player_found(1) [OF C S x(1)] S show ?thesis
    by (auto simp: x(2) players_follow_def mem_defs io_map_def driver_error_def)
qed

lemma follow_find_name:
  assumes C: "collection_contract rx C docs" and S: "stands player_of (docs s) (db_player w)" and ok: "db_ok w"
    and call: "call_players (mongo_player_repo C) (DoFindByName n) s = (r, s')"
  shows "players_follow docs (DoFindByName n) w s' r"
proof -
  obtain x where x: "decode_one C read_player [(''name'', BString n)] s = (x, s')" "r = map_sum id Found x"
    using call by (auto simp: mongo_player_defs io_map_def split: prod.splits)
  obtain q0 where mem: "mem_FindByName n w = (Inr q0, w)"
    and q0: "\<And>p. q0 = Some p \<Longrightarrow> db_player w (p_SteamID p) = Some p \<and> p_Name p = n"
    and none: "q0 = None \<Longrightarrow> (\<forall>k p. db_player w k = Some p \<longrightarrow> p_Name p \<noteq> n)"
    using mem_by_name [OF ok] by blast
  have sel: "selects rx [(''name'', BString n)] d \<longleftrightarrow> p_Name p = n" if "player_of d = Some p" for d p
    using that by (auto simp: player_of_iff selects_simps path_id)
  have key: "p_SteamID p = k" if "db_player w k = Some p" for k p
    using ok that by (auto simp: db_ok_def db_player_def dest: filed_key)
  have "driver_error x \<or> (\<exists>q. x = Inr q \<and> (q0 = None \<longleftrightarrow> q = None) \<and>
      (\<forall>p. q = Some p \<longrightarrow> db_player w (p_SteamID p) = Some p \<and> p_Name p = n))"
    using player_found(2) [OF C S x(1)]
  proof (elim disjE exE conjE)
    fix k d p
    assume p: "x = Inr (Some p)" "selects rx [(''name'', BString n)] d" "player_of d = Some p" "db_player w k = Some p"
    with none sel key show ?thesis by (cases q0) auto
  next
    assume "x = Inr None" and no: "\<forall>k d. docs s (BString k) = Some d \<longrightarrow> \<not> selects rx [(''name'', BString n)] d"
    have "q0 = None"
    proof (rule ccontr)
      assume "q0 \<noteq> None"
      with q0 obtain p where "db_player w (p_SteamID p) = Some p" "p_Name p = n" by blast
      with stands_Some [OF S] no sel show False by metis
    qed
    with \<open>x = Inr None\<close> show ?thesis by simp
  qed simp
  with player_found(1) [OF C S x(1)] S mem show ?thesis
    by (auto simp: x(2) players_follow_def mem_player_repo_def io_map_def driver_error_def)
qed

lemma map_of_fold_update:
  "(\<And>p. p \<in> set ps \<Longrightarrow> M (p_SteamID p) = Some p) \<Longrightarrow>
    map_of (fold (\<lambda>p found. AList.update (p_SteamID p) p found) ps m) k =
      (if k \<in> p_SteamID ` set ps then M k else map_of m k)"
  by (induction ps arbitrary: m) (auto simp: update_conv')

lemma those_map_total:
  "(\<And>x. x \<in> set xs \<Longrightarrow> f x \<noteq> None) \<Longrightarrow>
    \<exists>ys. those (map f xs) = Some ys \<and> set ys = {y. \<exists>x \<in> set xs. f x = Some y}"
  by (induction xs) fastforce+

lemma many_outcome:
  assumes C: "collection_contract rx C docs" and S: "stands own (docs s) m"
    and own: "\<And>d a. own d = Some a \<Longrightarrow> read d = Some a"
    and call: "decode_all C read f None s = (r, s')"
  shows "docs s' = docs s \<and> (driver_error r \<or> (\<exists>as. r = Inr as \<and>
    set as = {a. \<exists>k d. docs s (BString k) = Some d \<and> selects rx f d \<and> own d = Some a}))"
proof -
  obtain x t where x: "co_Find C f None s = (x, t)" by force
  note R = contract_parts(3) [OF C, unfolded reads_many_def, rule_format, OF x]
  show ?thesis
  proof (cases x)
    case (Inl e)
    then show ?thesis using call x R by (auto simp: decode_all_def)
  next
    case (Inr ds)
    with R have ds: "set ds = {d \<in> ran (docs s). selects rx f d}" "docs t = docs s" by auto
    have "read d \<noteq> None" if "d \<in> set ds" for d
    proof -
      from that ds obtain k where k: "docs s k = Some d" by (auto simp: ran_def)
      from standsD [OF S k] obtain n a where "k = BString n" "own d = Some a" "m n = Some a" .
      with own show ?thesis by simp
    qed
    then obtain as where as: "those (map read ds) = Some as" "set as = {a. \<exists>d \<in> set ds. read d = Some a}"
      using those_map_total [of ds read] by blast
    have "set as = {a. \<exists>k d. docs s (BString k) = Some d \<and> selects rx f d \<and> own d = Some a}"
    proof (rule set_eqI, rule iffI)
      fix a assume "a \<in> set as"
      then obtain d k where d: "docs s k = Some d" "selects rx f d" "read d = Some a"
        using as ds by (auto simp: ran_def)
      from standsD [OF S d(1)] obtain n b where b: "k = BString n" "own d = Some b" "m n = Some b" .
      with own d have "own d = Some a" by simp
      with d b show "a \<in> {a. \<exists>k d. docs s (BString k) = Some d \<and> selects rx f d \<and> own d = Some a}" by blast
    next
      fix a assume "a \<in> {a. \<exists>k d. docs s (BString k) = Some d \<and> selects rx f d \<and> own d = Some a}"
      then obtain k d where d: "docs s (BString k) = Some d" "selects rx f d" "own d = Some a" by blast
      then have "d \<in> set ds" using ds by (simp add: ranI)
      with own [OF d(3)] show "a \<in> set as" unfolding as(2) by blast
    qed
    with call x Inr as ds show ?thesis by (auto simp: decode_all_def)
  qed
qed

lemma follow_find_many:
  assumes C: "collection_contract rx C docs" and S: "stands player_of (docs s) (db_player w)" and ok: "db_ok w"
    and call: "call_players (mongo_player_repo C) (DoFindMany ks) s = (r, s')"
  shows "players_follow docs (DoFindMany ks) w s' r"
proof -
  let ?f = "[(''_id'', BDoc [(''$in'', BArray (map BString ks))])]"
  obtain m0 where mem: "mem_FindMany ks w = (Inr m0, w)"
    and m0: "map_of m0 k = (if k \<in> set ks then db_player w k else None)" for k
    using mem_find_many by blast
  have key: "p_SteamID p = k" if "db_player w k = Some p" for k p
    using ok that by (auto simp: db_ok_def db_player_def dest: filed_key)
  have sel: "selects rx ?f d \<longleftrightarrow> k \<in> set ks" if "docs s (BString k) = Some d" for k d
    using contract_parts(1) [OF C that] by (auto simp: selects_simps path_id operator_holds_def)
  show ?thesis
  proof (cases "ks = []")
    case True
    have "map_of m0 = map_of []" using m0 True by (simp add: fun_eq_iff)
    with True mem S call show ?thesis
      by (auto simp: players_follow_def mongo_player_defs mem_player_repo_def io_map_def io_eval)
  next
    case False
    obtain x t where x: "decode_all C read_player ?f None s = (x, t)" by force
    have "docs t = docs s \<and> (driver_error x \<or> (\<exists>as. x = Inr as \<and>
        set as = {a. \<exists>k d. docs s (BString k) = Some d \<and> selects rx ?f d \<and> player_of d = Some a}))"
      by (rule many_outcome [OF C S _ x]) (simp add: player_of_iff)
    moreover have "{a. \<exists>k d. docs s (BString k) = Some d \<and> selects rx ?f d \<and> player_of d = Some a} =
        {p. \<exists>k \<in> set ks. db_player w k = Some p}"
      using sel stands_Some [OF S] by blast
    ultimately have t: "docs t = docs s"
      and ps: "driver_error x \<or> (\<exists>ps. x = Inr ps \<and> set ps = {p. \<exists>k \<in> set ks. db_player w k = Some p})"
      by simp_all
    have map_ps: "map_of (fold (\<lambda>p found. AList.update (p_SteamID p) p found) ps []) = map_of m0"
      if "set ps = {p. \<exists>k \<in> set ks. db_player w k = Some p}" for ps
    proof (rule ext)
      fix k
      have "db_player w (p_SteamID p) = Some p" if "p \<in> set ps" for p
        using that \<open>set ps = _\<close> key by fastforce
      moreover have "k \<in> p_SteamID ` set ps \<longleftrightarrow> k \<in> set ks \<and> db_player w k \<noteq> None"
        using that key by force
      ultimately show "map_of (fold (\<lambda>p found. AList.update (p_SteamID p) p found) ps []) k = map_of m0 k"
        by (subst map_of_fold_update [where M = "db_player w"]) (auto simp: m0)
    qed
    from False call x have "s' = t"
        "r = map_sum id (\<lambda>ps. FoundMany (fold (\<lambda>p found. AList.update (p_SteamID p) p found) ps [])) x"
      by (auto simp: mongo_player_defs io_map_def io_eval split: sum.splits prod.splits)
    with ps map_ps t S mem show ?thesis
      by (auto simp: players_follow_def mem_player_repo_def io_map_def driver_error_def)
  qed
qed

text \<open>A charge: the filter tests the balance, the update takes the price off it.\<close>

definition balance_of :: "Player \<Rightarrow> string \<Rightarrow> u64" where
  "balance_of p field = (if field = ''cash'' then p_Cash p else p_Point p)"

lemma read_balance:
  "read_player d = Some p \<Longrightarrow> field \<in> {''cash'', ''point''} \<Longrightarrow> get_word (map_of d field) = Some (balance_of p field)"
  by (auto simp: read_player_iff balance_of_def)

lemma get_word_int: "get_word (Some (BInt i)) = Some w \<Longrightarrow> i = uint w"
  by (auto simp: unsigned_of_int take_bit_int_eq_self split: if_splits)

lemma selects_balance:
  assumes "read_player d = Some p" and f: "field \<in> {''cash'', ''point''}" and "0 < price"
  shows "selects rx [(field, BDoc [(''$gte'', put_word price)])] d \<longleftrightarrow> price \<le> balance_of p field"
    and "price \<le> balance_of p field \<Longrightarrow> map_of d field = Some (BInt (uint (balance_of p field)))"
proof -
  have path: "path_of field = [field]" using f by (auto simp: path_id)
  have v: "map_of d field = Some (BInt (uint (balance_of p field))) \<or>
      balance_of p field = 0 \<and> (map_of d field = None \<or> map_of d field = Some BNull)"
    using read_balance [OF assms(1) f]
    by (cases "map_of d field" rule: get_word.cases) (auto simp del: get_word.simps(1) dest: get_word_int)
  have "\<not> price \<le> 0" using \<open>0 < price\<close> by simp
  with v show "selects rx [(field, BDoc [(''$gte'', put_word price)])] d \<longleftrightarrow> price \<le> balance_of p field"
    and "price \<le> balance_of p field \<Longrightarrow> map_of d field = Some (BInt (uint (balance_of p field)))"
    by (auto simp: selects_simps path operator_holds_def put_word_def word_le_def)
qed

lemma small_price:
  fixes price :: u64
  assumes "uint price < 2 ^ 63"
  shows "wrap64 (- sint price) = - uint price"
proof -
  have "sint price = uint price"
    unfolding sint_uint using assms
    by (intro signed_take_bit_int_eq_self) (simp_all add: order_trans [of _ "0 :: int"])
  moreover have "wrap64 (- uint price) = - uint price"
    using assms uint_ge_0 [of price] by (intro wrap64_id) linarith+
  ultimately show ?thesis by simp
qed

lemma charge_document:
  assumes p: "player_of d = Some p" and w: "wallet \<noteq> WalletNone" and le: "price \<le> Balance p wallet"
    and pos: "0 < price" and small: "uint price < 2 ^ 63"
    and stored: "encodable (BDoc d)"
  shows "\<exists>d'. apply_update [(''$set'', BDoc [(''inventory'', put_list (\<lambda>i. BDoc (item_document i)) items)]),
      (''$inc'', BDoc [(walletField wallet, BInt (wrap64 (- sint price)))])] d = Some d' \<and>
    player_of d' = Some ((Debit p wallet price)\<lparr>p_Inventory := map ms_item items\<rparr>)"
proof -
  let ?field = "walletField wallet"
  have f: "?field \<in> {''cash'', ''point''}" by (simp add: walletField_def)
  have b: "balance_of p ?field = Balance p wallet"
    using w by (simp add: balance_of_def walletField_def Balance_def)
  have "read_player d = Some p" using p by (simp add: player_of_iff)
  from selects_balance(2) [OF this f pos] le b
  have d: "map_of d ?field = Some (BInt (uint (Balance p wallet)))" by simp
  have bal: "uint (Balance p wallet) < 2 ^ 63"
    using stored map_of_SomeD [OF d] by force
  have rest: "uint (Balance p wallet) - uint price = uint (Balance p wallet - price)"
    using le by (simp add: word_le_def uint_sub_if')
  have range: "- (2 ^ 63) \<le> uint (Balance p wallet - price)" "uint (Balance p wallet - price) < 2 ^ 63"
    using rest bal uint_ge_0 [of price] uint_ge_0 [of "Balance p wallet - price"] by linarith+
  show ?thesis using p d rest range w
    by (cases wallet)
      (simp_all add: small_price [OF small] walletField_def Balance_def player_of_put update_conv')
qed

lemma follow_commit:
  assumes C: "collection_contract rx C docs" and S: "stands player_of (docs s) (db_player w)"
    and wallet: "names_wallet (DoCommit k items wallet price)"
    and call: "call_players (mongo_player_repo C) (DoCommit k items wallet price) s = (r, s')"
  shows "players_follow docs (DoCommit k items wallet price) w s' r"
proof -
  let ?g = "\<lambda>p. (Debit p wallet price)\<lparr>p_Inventory := map ms_item items\<rparr>"
  let ?f = "if price > 0 then [(walletField wallet, BDoc [(''$gte'', put_word price)])] else []"
  let ?u = "(''$set'', BDoc [(''inventory'', put_list (\<lambda>i. BDoc (item_document i)) items)]) #
    (if price > 0 then [(''$inc'', BDoc [(walletField wallet, BInt (wrap64 (- sint price)))])] else [])"
  let ?m' = "(db_player w)(k := map_option ?g (db_player w k))"
  obtain x where x: "co_UpdateOne C ((''_id'', BString k) # ?f) ?u s = (x, s')"
    and r: "r = (case x of Inl e \<Rightarrow> Inl (driver_err e) | Inr n \<Rightarrow> Inr (Applied (n > 0)))"
    using call by (auto simp: mongo_player_defs io_map_def Let_def split: sum.splits prod.splits)
  have sel: "selects rx ?f d \<longleftrightarrow> \<not> (price > 0 \<and> Balance p wallet < price)" if "player_of d = Some p" for d p
  proof (cases "price > 0")
    case True
    then have "balance_of p (walletField wallet) = Balance p wallet"
      using wallet by (simp add: balance_of_def walletField_def Balance_def)
    with True that selects_balance(1) [of d p "walletField wallet" price rx] show ?thesis
      by (auto simp: player_of_iff walletField_def)
  qed (simp add: selects_simps)
  have keep: "\<exists>d'. apply_update ?u d = Some d' \<and> player_of d' = Some (?g p)"
    if d: "docs s (BString k) = Some d" and p: "player_of d = Some p" and s: "selects rx ?f d" and e: "encodable (BDoc ?f)" for d p
  proof (cases "price > 0")
    case True
    have "price \<le> Balance p wallet" using sel [OF p] s True by auto
    moreover have "uint price < 2 ^ 63" using e True by (simp add: put_word_def)
    ultimately show ?thesis
      using True charge_document [OF p _ _ _ _ contract_parts(8) [OF C d], of wallet price items] wallet by auto
  next
    case False
    then have "price = 0" by (simp add: word_gt_0)
    moreover have "Debit p wallet 0 = p" by (cases wallet) simp_all
    ultimately show ?thesis using p by (simp add: player_of_put)
  qed
  note U = update_outcome [where g = ?g, OF C S x keep]
  have mem: "mem_CommitInventory k (map ms_item items) wallet price w =
    (case db_player w k of None \<Rightarrow> (Inr False, w)
     | Some p \<Rightarrow> if price > 0 \<and> Balance p wallet < price then (Inr False, w) else (Inr True, update_player k ?g w))"
    by (rule mem_commit)
  have at_key: "db_player w k = Some p \<longleftrightarrow> (\<exists>d. docs s (BString k) = Some d \<and> player_of d = Some p)" for p
    by (rule stands_Some [OF S])
  have refused: "\<exists>p. player_of d = Some p \<and> db_player w k = Some p \<and> (selects rx ?f d \<longleftrightarrow> \<not> (price > 0 \<and> Balance p wallet < price))"
    if "docs s (BString k) = Some d" for d
    using standsD [OF S that] sel by (metis bson.inject(1))
  have absent: "db_player w k = None" if "docs s (BString k) = None"
    using stands_None [OF S] that by simp
  show ?thesis
  proof (cases x)
    case (Inl e)
    with U refused show ?thesis
      by (cases "docs s (BString k)")
        (auto simp: r players_follow_def mem mem_player_repo_def io_map_def db_player_update)
  next
    case (Inr n)
    then show ?thesis using U refused absent
      by (cases "docs s (BString k)")
        (auto simp: r players_follow_def mem mem_player_repo_def io_map_def db_player_update split: if_splits)
  qed
qed

lemma follow_players:
  assumes C: "collection_contract rx C docs" and S: "stands player_of (docs s) (db_player w)" and ok: "db_ok w"
    and wallet: "names_wallet c" and call: "call_players (mongo_player_repo C) c s = (r, s')"
  shows "players_follow docs c w s' r"
proof (cases c)
  case (DoCommit k items wallet price)
  with follow_commit [OF C S] wallet call show ?thesis by blast
qed (insert call, (hypsubst,
   erule follow_saves [OF C S] follow_clan_name [OF C S] follow_create [OF C S] follow_find [OF C S]
     follow_find_name [OF C S ok] follow_find_many [OF C S ok])+)

end
