(* ===== verification/Mongo_Clans.thy ===== *)
theory Mongo_Clans
  imports Mongo_Players
begin

text \<open>
  Every call of the MongoDB clan repository keeps the relation between its collection and the clans of
  the in-memory store.
\<close>

section \<open>Clans\<close>

lemma read_clan_iff:
  "read_clan d = Some c \<longleftrightarrow>
     get_string (map_of d ''_id'') = Some (c_Name c) \<and> get_mark (map_of d ''mark'') = Some (c_Mark c) \<and>
     get_word (map_of d ''mark_extra'') = Some (c_MarkExtra c) \<and> get_word (map_of d ''level'') = Some (c_Level c) \<and>
     get_word (map_of d ''member_capacity'') = Some (c_MemberCapacity c) \<and>
     get_string (map_of d ''master'') = Some (c_Master c) \<and>
     get_list (\<lambda>v. get_doc read_member (Some v)) (map_of d ''members'') = Some (c_Members c) \<and>
     get_list (\<lambda>v. get_doc read_applicant (Some v)) (map_of d ''applicants'') = Some (c_Applicants c) \<and>
     get_doc read_clan_record (map_of d ''records'') = Some (c_Records c) \<and>
     get_time (map_of d ''created_at'') = Some (c_CreatedAt c)"
  by (cases c) (auto simp: read_clan_def bind_eq_Some_conv)

text \<open>A clan's document as the repositories write it has a full mark and the account of every applicant.\<close>

definition names_account :: "bson \<Rightarrow> bool" where
  "names_account v \<longleftrightarrow>
     (case v of BDoc e \<Rightarrow> (case map_of e ''steam_id'' of Some (BString _) \<Rightarrow> True | _ \<Rightarrow> False) | _ \<Rightarrow> False)"

definition applicants_named :: "bson option \<Rightarrow> bool" where
  "applicants_named v \<longleftrightarrow> (case v of Some (BArray xs) \<Rightarrow> list_all names_account xs | _ \<Rightarrow> True)"

definition clan_of :: "document \<Rightarrow> Clan option" where
  "clan_of d = do {
      c \<leftarrow> read_clan d;
      (if map_of d ''mark'' = Some (put_mark (c_Mark c)) \<and> applicants_named (map_of d ''applicants'')
       then Some c else None) }"

lemma clan_of_iff: "clan_of d = Some c \<longleftrightarrow> read_clan d = Some c \<and>
    map_of d ''mark'' = Some (put_mark (c_Mark c)) \<and> applicants_named (map_of d ''applicants'')"
  by (auto simp: clan_of_def bind_eq_Some_conv)

lemma applicants_named_put [simp]: "applicants_named (Some (put_list (\<lambda>a. BDoc (applicant_document a)) as))"
  by (simp add: applicants_named_def put_list_def list_all_iff names_account_def applicant_document_def)

lemma clan_of_document: "clan_of (clan_document c) = Some (ms_clan c)"
proof -
  have "map_of (clan_document c) ''mark'' = Some (put_mark (c_Mark c))" by (simp add: clan_document_def)
  moreover have "applicants_named (map_of (clan_document c) ''applicants'')"
    by (simp add: clan_document_def del: map_of_append) (simp add: applicants_named_def)
  ultimately show ?thesis by (simp add: clan_of_iff) (simp add: ms_clan_def)
qed

lemma clan_of_put:
  assumes "clan_of d = Some c"
  shows
    "clan_of (AList.update ''mark_extra'' (put_word e) (AList.update ''mark'' (put_mark m) d)) = Some (c\<lparr>c_Mark := m, c_MarkExtra := e\<rparr>)"
    "clan_of (AList.update ''applicants'' (put_list (\<lambda>a. BDoc (applicant_document a)) as) d) = Some (c\<lparr>c_Applicants := map ms_applicant as\<rparr>)"
    "clan_of (AList.update ''members'' (put_list (\<lambda>a. BDoc (member_document a)) ms) d) = Some (c\<lparr>c_Members := ms\<rparr>)"
    "clan_of (AList.update ''master'' (BString n) d) = Some (c\<lparr>c_Master := n\<rparr>)"
  using assms unfolding clan_of_iff read_clan_iff by (simp_all add: update_conv')

text \<open>The calls of \<open>ClanRepository\<close> except the search by name.\<close>

datatype clan_call =
    DoFindClan string | DoCreateClan Clan | DoSaveApplicants string "ClanApplicant list"
  | DoSaveMembers string "ClanMember list" | DoSaveRoster string "ClanMember list" "ClanApplicant list"
  | DoSaveLeadership string string "ClanMember list" | DoFindByApplicant string | DoFindByMark mark string
  | DoSaveMark string mark u16 | DoDelete string

primrec call_clans :: "'w ClanRepository \<Rightarrow> clan_call \<Rightarrow> (go_error, 'w, Clan option) io" where
  "call_clans R (DoFindClan n) = cr_Find R n"
| "call_clans R (DoCreateClan c) = io_map (\<lambda>_. None) (cr_Create R c)"
| "call_clans R (DoSaveApplicants n as) = io_map (\<lambda>_. None) (cr_SaveApplicants R n as)"
| "call_clans R (DoSaveMembers n ms) = io_map (\<lambda>_. None) (cr_SaveMembers R n ms)"
| "call_clans R (DoSaveRoster n ms as) = io_map (\<lambda>_. None) (cr_SaveRoster R n ms as)"
| "call_clans R (DoSaveLeadership n k ms) = io_map (\<lambda>_. None) (cr_SaveLeadership R n k ms)"
| "call_clans R (DoFindByApplicant k) = cr_FindByApplicant R k"
| "call_clans R (DoFindByMark m x) = cr_FindByMark R m x"
| "call_clans R (DoSaveMark n m e) = io_map (\<lambda>_. None) (cr_SaveMark R n m e)"
| "call_clans R (DoDelete n) = io_map (\<lambda>_. None) (cr_Delete R n)"

fun ms_clan_call :: "clan_call \<Rightarrow> clan_call" where
  "ms_clan_call (DoCreateClan c) = DoCreateClan (ms_clan c)"
| "ms_clan_call (DoSaveApplicants n as) = DoSaveApplicants n (map ms_applicant as)"
| "ms_clan_call (DoSaveRoster n ms as) = DoSaveRoster n ms (map ms_applicant as)"
| "ms_clan_call c = c"

text \<open>
  Which of several matching clans the two searches give is not determined. \<open>FindByMark\<close> with no name
  to leave out would differ for a clan whose name is empty.
\<close>

fun wanted :: "clan_call \<Rightarrow> Clan \<Rightarrow> bool" where
  "wanted (DoFindByApplicant k) c \<longleftrightarrow> k \<in> ap_SteamID ` set (c_Applicants c)"
| "wanted (DoFindByMark m x) c \<longleftrightarrow> c_Name c \<noteq> x \<and> c_Mark c = m"
| "wanted _ c \<longleftrightarrow> False"

fun searches :: "clan_call \<Rightarrow> bool" where
  "searches (DoFindByApplicant k) \<longleftrightarrow> True"
| "searches (DoFindByMark m x) \<longleftrightarrow> True"
| "searches _ \<longleftrightarrow> False"

definition same_clan_found :: "clan_call \<Rightarrow> db \<Rightarrow> go_error + Clan option \<Rightarrow> go_error + Clan option \<Rightarrow> bool" where
  "same_clan_found c w r0 r \<longleftrightarrow>
     (if searches c then \<exists>q0 q. r0 = Inr q0 \<and> r = Inr q \<and> (q0 = None \<longleftrightarrow> q = None) \<and>
        (\<forall>a. q = Some a \<longrightarrow> db_clan w (c_Name a) = Some a \<and> wanted c a)
      else r = r0)"

fun leaves_out_named :: "db \<Rightarrow> clan_call \<Rightarrow> bool" where
  "leaves_out_named w (DoFindByMark m x) \<longleftrightarrow> x \<noteq> [] \<or> db_clan w [] = None"
| "leaves_out_named w _ \<longleftrightarrow> True"

definition clans_follow :: "(nat \<Rightarrow> nat) \<Rightarrow> ('s \<Rightarrow> contents) \<Rightarrow> clan_call \<Rightarrow> db \<Rightarrow> 's \<Rightarrow> go_error + Clan option \<Rightarrow> bool" where
  "clans_follow lower_rune docs c w s' r \<longleftrightarrow>
     (case call_clans (mem_clan_repo lower_rune) (ms_clan_call c) w of (r0, w') \<Rightarrow>
        (same_clan_found c w r0 r \<and> stands clan_of (docs s') (db_clan w')) \<or>
        (driver_error r \<and> (stands clan_of (docs s') (db_clan w) \<or> stands clan_of (docs s') (db_clan w'))))"

lemma delete_outcome:
  assumes C: "collection_contract rx C docs" and S: "stands own (docs s) m"
    and call: "discard (co_DeleteOne C [(''_id'', BString k)]) s = (r, s')"
  shows "written own (docs s') m (m(k := None)) (Inr ()) r"
proof -
  obtain x t where x: "co_DeleteOne C [(''_id'', BString k)] s = (x, t)" by force
  note D = contract_parts(6) [OF C, unfolded deletes_one_def, rule_format, OF x]
  have sel: "selects rx [(''_id'', BString k)] d \<longleftrightarrow> j = k" if "docs s (BString j) = Some d" for j d
    using selects_id [OF contract_parts(1) [OF C that], of rx k "[]"] by (simp add: selects_simps)
  have gone: "stands own (docs t) (m(k := None))"
    if "docs s j = Some d" "selects rx [(''_id'', BString k)] d" "docs t = (docs s)(j := None)" for j d
  proof -
    from standsD [OF S that(1)] obtain n a where "j = BString n" "own d = Some a" "m n = Some a" .
    with that sel stands_remove [OF S, of k] show ?thesis by auto
  qed
  have absent: "m(k := None) = m" if "\<forall>d \<in> ran (docs s). \<not> selects rx [(''_id'', BString k)] d"
  proof -
    have "m k = None"
    proof (rule ccontr)
      assume "m k \<noteq> None"
      with stands_Some [OF S] obtain d where "docs s (BString k) = Some d" by blast
      with sel that show False by (auto simp: ran_def)
    qed
    then show ?thesis by (simp add: fun_upd_idem)
  qed
  from call x have r: "s' = t" "(\<exists>e. x = Inl e \<and> r = Inl (driver_err e)) \<or> (\<exists>n. x = Inr n \<and> r = Inr ())"
    by (auto simp: discard_def split: sum.splits)
  show ?thesis
  proof (cases x)
    case (Inl e)
    with D gone r S show ?thesis by (auto simp: written_def Let_def)
  next
    case (Inr n)
    with D gone absent r S show ?thesis by (cases "n = 0") (auto simp: written_def Let_def)
  qed
qed

lemma db_clan_update: "db_clan (update_clan k g w) = (db_clan w)(k := map_option g (db_clan w k))"
  by (rule ext) (simp add: db_defs)

lemma follow_clan_write:
  assumes mem: "call_clans (mem_clan_repo lower_rune) (ms_clan_call c) w = (Inr None, w')"
    and not_read: "\<not> searches c"
    and W: "written clan_of (docs s') (db_clan w) (db_clan w') (Inr ()) x"
  shows "clans_follow lower_rune docs c w s' (map_sum id (\<lambda>_. None) x)"
  using W by (auto simp: clans_follow_def same_clan_found_def mem not_read written_def driver_error_def)

lemma follow_clan_set:
  assumes C: "collection_contract rx C docs" and S: "stands clan_of (docs s) (db_clan w)"
    and call: "call_clans (mongo_clan_repo C) c s = (r, s')"
    and mongo: "call_clans (mongo_clan_repo C) c = io_map (\<lambda>_. None) (set_fields C k fs)"
    and mem: "call_clans (mem_clan_repo lower_rune) (ms_clan_call c) w = (Inr None, update_clan k g w)"
    and not_read: "\<not> searches c"
    and keep: "\<And>d a. clan_of d = Some a \<Longrightarrow>
      clan_of (fold (\<lambda>(k, v). AList.update k v) fs d) = Some (g a)"
  shows "clans_follow lower_rune docs c w s' r"
proof -
  obtain x where x: "set_fields C k fs s = (x, s')" "r = map_sum id (\<lambda>_. None) x"
    using call by (auto simp: mongo io_map_def split: prod.splits)
  have "written clan_of (docs s') (db_clan w) ((db_clan w)(k := map_option g (db_clan w k))) (Inr ()) x"
    using set_outcome [where g = g, OF C S x(1)] keep by blast
  with follow_clan_write [OF mem not_read, of docs s' x] x(2) show ?thesis by (simp add: db_clan_update)
qed

lemmas mongo_clan_defs = mongo_clan_repo_def mongo_clan_Find_def mongo_clan_Create_def
  mongo_clan_FindByMark_def mongo_clan_SaveMark_def mongo_clan_Delete_def mongo_clan_FindByApplicant_def
  mongo_clan_SaveApplicants_def mongo_clan_SaveMembers_def mongo_clan_SaveRoster_def
  mongo_clan_SaveLeadership_def

lemma follow_clan_saves:
  assumes C: "collection_contract rx C docs" and S: "stands clan_of (docs s) (db_clan w)"
  shows
    "call_clans (mongo_clan_repo C) (DoSaveApplicants n as) s = (r, s') \<Longrightarrow> clans_follow lr docs (DoSaveApplicants n as) w s' r"
    "call_clans (mongo_clan_repo C) (DoSaveMembers n ms) s = (r, s') \<Longrightarrow> clans_follow lr docs (DoSaveMembers n ms) w s' r"
    "call_clans (mongo_clan_repo C) (DoSaveRoster n ms as) s = (r, s') \<Longrightarrow> clans_follow lr docs (DoSaveRoster n ms as) w s' r"
    "call_clans (mongo_clan_repo C) (DoSaveLeadership n k ms) s = (r, s') \<Longrightarrow> clans_follow lr docs (DoSaveLeadership n k ms) w s' r"
    "call_clans (mongo_clan_repo C) (DoSaveMark n m e) s = (r, s') \<Longrightarrow> clans_follow lr docs (DoSaveMark n m e) w s' r"
proof -
  note eval = mongo_clan_defs mem_clan_defs io_map_def clan_of_put
  let ?as = "(''applicants'', put_list (\<lambda>a. BDoc (applicant_document a)) as)"
    and ?ms = "(''members'', put_list (\<lambda>m. BDoc (member_document m)) ms)"
  show "call_clans (mongo_clan_repo C) (DoSaveApplicants n as) s = (r, s') \<Longrightarrow> clans_follow lr docs (DoSaveApplicants n as) w s' r"
    by (erule follow_clan_set [OF C S, where k = n and fs = "[?as]"
      and g = "\<lambda>c. c\<lparr>c_Applicants := map ms_applicant as\<rparr>"]) (simp_all add: eval)
  show "call_clans (mongo_clan_repo C) (DoSaveMembers n ms) s = (r, s') \<Longrightarrow> clans_follow lr docs (DoSaveMembers n ms) w s' r"
    by (erule follow_clan_set [OF C S, where k = n and fs = "[?ms]"
      and g = "\<lambda>c. c\<lparr>c_Members := ms\<rparr>"]) (simp_all add: eval)
  show "call_clans (mongo_clan_repo C) (DoSaveRoster n ms as) s = (r, s') \<Longrightarrow> clans_follow lr docs (DoSaveRoster n ms as) w s' r"
    by (erule follow_clan_set [OF C S, where k = n and fs = "[?ms, ?as]"
      and g = "\<lambda>c. c\<lparr>c_Members := ms, c_Applicants := map ms_applicant as\<rparr>"]) (simp_all add: eval)
  show "call_clans (mongo_clan_repo C) (DoSaveLeadership n k ms) s = (r, s') \<Longrightarrow> clans_follow lr docs (DoSaveLeadership n k ms) w s' r"
    by (erule follow_clan_set [OF C S, where k = n and fs = "[(''master'', BString k), ?ms]"
      and g = "\<lambda>c. c\<lparr>c_Master := k, c_Members := ms\<rparr>"]) (simp_all add: eval)
  show "call_clans (mongo_clan_repo C) (DoSaveMark n m e) s = (r, s') \<Longrightarrow> clans_follow lr docs (DoSaveMark n m e) w s' r"
    by (erule follow_clan_set [OF C S, where k = n and fs = "[(''mark'', put_mark m), (''mark_extra'', put_word e)]"
      and g = "\<lambda>c. c\<lparr>c_Mark := m, c_MarkExtra := e\<rparr>"]) (simp_all add: eval)
qed

lemma follow_clan_create:
  assumes C: "collection_contract rx C docs" and S: "stands clan_of (docs s) (db_clan w)"
    and call: "call_clans (mongo_clan_repo C) (DoCreateClan c) s = (r, s')"
  shows "clans_follow lr docs (DoCreateClan c) w s' r"
proof -
  obtain x where x: "insert_one C ErrClanExists (clan_document c) s = (x, s')" "r = map_sum id (\<lambda>_. None) x"
    using call by (auto simp: mongo_clan_defs io_map_def split: prod.splits)
  have id: "map_of (clan_document c) ''_id'' = Some (BString (c_Name c))"
    by (simp add: clan_document_def)
  have "db_clan (insert_clan q w) = (db_clan w)(c_Name q \<mapsto> q)" for q
    by (simp add: db_defs update_conv')
  moreover have "c_Name (ms_clan c) = c_Name c" by (simp add: ms_clan_def)
  ultimately show ?thesis using insert_outcome [OF C S id clan_of_document x(1)] unfolding x(2)
    by (cases "db_clan w (c_Name c)") (auto simp: clans_follow_def same_clan_found_def written_def
      mem_clan_repo_def mem_clan_Create_def io_map_def driver_error_def)
qed

lemma follow_clan_delete:
  assumes C: "collection_contract rx C docs" and S: "stands clan_of (docs s) (db_clan w)"
    and call: "call_clans (mongo_clan_repo C) (DoDelete n) s = (r, s')"
  shows "clans_follow lr docs (DoDelete n) w s' r"
proof -
  obtain x where x: "discard (co_DeleteOne C [(''_id'', BString n)]) s = (x, s')" "r = map_sum id (\<lambda>_. None) x"
    using call by (auto simp: mongo_clan_defs io_map_def split: prod.splits)
  have "db_clan (delete_clan n w) = (db_clan w)(n := None)"
    by (rule ext) (simp add: db_defs delete_conv')
  with delete_outcome [OF C S x(1)] show ?thesis unfolding x(2)
    by (intro follow_clan_write [where w' = "delete_clan n w"])
      (simp_all add: mem_clan_repo_def mem_clan_Delete_def io_map_def)
qed

lemma clan_found:
  assumes C: "collection_contract rx C docs" and S: "stands clan_of (docs s) m"
    and call: "decode_one C read_clan f s = (r, s')"
  shows "docs s' = docs s"
    and "driver_error r \<or>
      (\<exists>n d a. r = Inr (Some a) \<and> docs s (BString n) = Some d \<and> selects rx f d \<and> clan_of d = Some a \<and> m n = Some a) \<or>
      (r = Inr None \<and> (\<forall>n d. docs s (BString n) = Some d \<longrightarrow> \<not> selects rx f d))"
  by (rule decode_one_outcome [OF C S _ call], simp add: clan_of_iff)+

lemma follow_clan_find:
  assumes C: "collection_contract rx C docs" and S: "stands clan_of (docs s) (db_clan w)"
    and call: "call_clans (mongo_clan_repo C) (DoFindClan n) s = (r, s')"
  shows "clans_follow lr docs (DoFindClan n) w s' r"
proof -
  have x: "decode_one C read_clan [(''_id'', BString n)] s = (r, s')"
    using call by (simp add: mongo_clan_defs)
  have sel: "selects rx [(''_id'', BString n)] d \<longleftrightarrow> j = n" if "docs s (BString j) = Some d" for j d
    using selects_id [OF contract_parts(1) [OF C that], of rx n "[]"] by (simp add: selects_simps)
  have "db_clan w n = None" if "\<forall>j d. docs s (BString j) = Some d \<longrightarrow> \<not> selects rx [(''_id'', BString n)] d"
    using that sel stands_None [OF S] by (metis not_None_eq)
  with clan_found(2) [OF C S x] sel have "driver_error r \<or> r = Inr (db_clan w n)"
    by (elim disjE exE conjE) auto
  with clan_found(1) [OF C S x] S show ?thesis
    by (auto simp: clans_follow_def same_clan_found_def mem_clan_defs driver_error_def)
qed

text \<open>Both searches: the clan found is one of the wanted ones, and none is found only if there is none.\<close>

lemma follow_search:
  assumes C: "collection_contract rx C docs" and S: "stands clan_of (docs s) (db_clan w)" and ok: "db_ok w"
    and c: "searches c" and same: "ms_clan_call c = c"
    and call: "decode_one C read_clan f s = (r, s')"
    and mem: "\<exists>q. call_clans (mem_clan_repo lr) c w = (Inr q, w) \<and>
      (\<forall>a. q = Some a \<longrightarrow> db_clan w (c_Name a) = Some a \<and> wanted c a) \<and>
      (q = None \<longrightarrow> (\<forall>n a. db_clan w n = Some a \<longrightarrow> \<not> wanted c a))"
    and sel: "\<And>n d a. docs s (BString n) = Some d \<Longrightarrow> db_clan w n = Some a \<Longrightarrow> clan_of d = Some a \<Longrightarrow>
      selects rx f d \<longleftrightarrow> wanted c a"
  shows "clans_follow lr docs c w s' r"
proof -
  have key: "c_Name a = n" if "db_clan w n = Some a" for n a
    using ok that by (auto simp: db_ok_def db_clan_def dest: filed_key)
  obtain q0 where q0: "call_clans (mem_clan_repo lr) c w = (Inr q0, w)"
      "\<And>a. q0 = Some a \<Longrightarrow> db_clan w (c_Name a) = Some a \<and> wanted c a"
      "q0 = None \<Longrightarrow> \<forall>n a. db_clan w n = Some a \<longrightarrow> \<not> wanted c a"
    using mem by blast
  have "driver_error r \<or> (\<exists>q. r = Inr q \<and> (q0 = None \<longleftrightarrow> q = None) \<and>
      (\<forall>a. q = Some a \<longrightarrow> db_clan w (c_Name a) = Some a \<and> wanted c a))"
    using clan_found(2) [OF C S call]
  proof (elim disjE exE conjE)
    fix n d a
    assume "r = Inr (Some a)" "docs s (BString n) = Some d" "selects rx f d" "clan_of d = Some a" "db_clan w n = Some a"
    with q0(3) sel key show ?thesis by (cases q0) auto
  next
    assume r: "r = Inr None" and no: "\<forall>n d. docs s (BString n) = Some d \<longrightarrow> \<not> selects rx f d"
    have "q0 = None"
    proof (rule ccontr)
      assume "q0 \<noteq> None"
      with q0(2) obtain a where a: "db_clan w (c_Name a) = Some a" "wanted c a" by blast
      with stands_Some [OF S] obtain d where "docs s (BString (c_Name a)) = Some d" "clan_of d = Some a" by blast
      with a no sel show False by blast
    qed
    with r show ?thesis by simp
  qed simp
  with clan_found(1) [OF C S call] S q0(1) c show ?thesis
    by (auto simp: clans_follow_def same_clan_found_def same driver_error_def)
qed

lemma put_mark_eq [simp]: "put_mark m = put_mark n \<longleftrightarrow> m = n"
  by (metis option.inject read_clan_parts(4))

lemma selects_mark:
  assumes "clan_of d = Some a"
  shows "selects rx ((''mark'', put_mark m) # f) d \<longleftrightarrow> c_Mark a = m \<and> selects rx f d"
proof -
  have arr: "\<exists>xs. put_mark k = BArray (map put_sint xs)" for k
    by (cases k) (simp only: put_mark_def put_list_def prod.case bson.inject, blast)
  then obtain xs where xs: "put_mark (c_Mark a) = BArray (map put_sint xs)" by blast
  have holds: "condition_holds rx (put_mark m) vs \<longleftrightarrow> put_mark m \<in> set vs" for vs
    using arr [of m] by auto
  have "put_mark m \<notin> set (map put_sint xs)"
    using arr [of m] by (auto simp: put_sint_def)
  moreover have "reach (path_of ''mark'') (BDoc d) = put_mark (c_Mark a) # map put_sint xs"
    using assms by (simp add: clan_of_iff path_id xs)
  ultimately show ?thesis by (auto simp: selects_simps holds)
qed

lemma read_applicant_account:
  "read_applicant e = Some x \<Longrightarrow> get_string (map_of e ''steam_id'') = Some (ap_SteamID x)"
  by (auto simp: read_applicant_def bind_eq_Some_conv)

lemma reach_applicants:
  "those (map (\<lambda>v. get_doc read_applicant (Some v)) xs) = Some as \<Longrightarrow> list_all names_account xs \<Longrightarrow>
    set (reach [''steam_id''] (BArray xs)) = (BString \<circ> ap_SteamID) ` set as"
proof (induction xs arbitrary: as)
  case (Cons v xs)
  then obtain e k where v: "v = BDoc e" "map_of e ''steam_id'' = Some (BString k)"
    by (auto simp: names_account_def split: bson.splits option.splits)
  with Cons.prems obtain x as' where as: "as = x # as'" "read_applicant e = Some x"
    "those (map (\<lambda>v. get_doc read_applicant (Some v)) xs) = Some as'"
    by (auto split: option.splits)
  from read_applicant_account [OF as(2)] v have "ap_SteamID x = k" by simp
  with v as Cons show ?case by simp
qed simp

lemma selects_applicant:
  assumes "clan_of d = Some a"
  shows "selects rx [(''applicants.steam_id'', BString k)] d \<longleftrightarrow> k \<in> ap_SteamID ` set (c_Applicants a)"
proof -
  have l: "get_list (\<lambda>v. get_doc read_applicant (Some v)) (map_of d ''applicants'') = Some (c_Applicants a)"
    and n: "applicants_named (map_of d ''applicants'')"
    using assms by (simp_all add: clan_of_iff read_clan_iff)
  have "set (reach [''applicants'', ''steam_id''] (BDoc d)) = (BString \<circ> ap_SteamID) ` set (c_Applicants a)"
  proof (cases "map_of d ''applicants''")
    case None
    with l show ?thesis by simp
  next
    case (Some v)
    then show ?thesis using l n reach_applicants
      by (cases v) (simp_all add: applicants_named_def del: reach.simps(3))
  qed
  then show ?thesis by (auto simp: selects_simps path_id)
qed

lemma follow_clans:
  assumes C: "collection_contract rx C docs" and S: "stands clan_of (docs s) (db_clan w)" and ok: "db_ok w"
    and named: "leaves_out_named w c" and call: "call_clans (mongo_clan_repo C) c s = (r, s')"
  shows "clans_follow lr docs c w s' r"
proof (cases c)
  case (DoFindByApplicant k)
  show ?thesis unfolding DoFindByApplicant
    by (rule follow_search [OF C S ok, where f = "[(''applicants.steam_id'', BString k)]"])
      (use call mem_by_applicant [OF ok, of k] in
        \<open>auto simp: DoFindByApplicant mongo_clan_defs mem_clan_repo_def selects_applicant\<close>)
next
  case (DoFindByMark m x)
  let ?f = "(''mark'', put_mark m) # (if x \<noteq> [] then [(''_id'', BDoc [(''$ne'', BString x)])] else [])"
  have key: "c_Name a = n" if "db_clan w n = Some a" for n a
    using ok that by (auto simp: db_ok_def db_clan_def dest: filed_key)
  have sel: "selects rx ?f d \<longleftrightarrow> wanted (DoFindByMark m x) a"
    if d: "docs s (BString n) = Some d" and n: "db_clan w n = Some a" and a: "clan_of d = Some a" for n d a
    using selects_mark [OF a] contract_parts(1) [OF C d] key [OF n] named n DoFindByMark
    by (auto simp: selects_simps path_id operator_holds_def)
  have mem: "\<exists>q. mem_clan_FindByMark m x w = (Inr q, w) \<and>
      (\<forall>a. q = Some a \<longrightarrow> db_clan w (c_Name a) = Some a \<and> c_Name a \<noteq> x \<and> c_Mark a = m) \<and>
      (q = None \<longrightarrow> (\<forall>n a. db_clan w n = Some a \<longrightarrow> c_Name a = x \<or> c_Mark a \<noteq> m))"
    using mem_by_mark [OF ok, of m x] key by blast
  show ?thesis unfolding DoFindByMark
    by (rule follow_search [OF C S ok, where f = ?f])
      (use call mem sel in \<open>auto simp: DoFindByMark mongo_clan_defs mem_clan_repo_def\<close>)
qed (insert call, (hypsubst,
   erule follow_clan_saves [OF C S] follow_clan_create [OF C S] follow_clan_find [OF C S] follow_clan_delete [OF C S])+)

text \<open>The search for a mark with no name to leave out finds a clan with this mark whenever there is one.\<close>

lemma unnamed_mark_search:
  assumes C: "collection_contract rx C docs" and S: "stands clan_of (docs s) (db_clan w)" and ok: "db_ok w"
    and call: "call_clans (mongo_clan_repo C) (DoFindByMark m []) s = (r, s')"
  shows "docs s' = docs s \<and> (driver_error r \<or> (\<exists>q. r = Inr q \<and>
    (q = None \<longleftrightarrow> (\<forall>n a. db_clan w n = Some a \<longrightarrow> c_Mark a \<noteq> m)) \<and>
    (\<forall>a. q = Some a \<longrightarrow> db_clan w (c_Name a) = Some a \<and> c_Mark a = m)))"
proof -
  have key: "c_Name a = n" if "db_clan w n = Some a" for n a
    using ok that by (auto simp: db_ok_def db_clan_def dest: filed_key)
  have x: "decode_one C read_clan [(''mark'', put_mark m)] s = (r, s')"
    using call by (simp add: mongo_clan_defs)
  have sel: "selects rx [(''mark'', put_mark m)] d \<longleftrightarrow> c_Mark a = m" if "clan_of d = Some a" for d a
    using selects_mark [OF that, of rx m "[]"] by (simp add: selects_simps)
  have "driver_error r \<or> (\<exists>q. r = Inr q \<and> (q = None \<longleftrightarrow> (\<forall>n a. db_clan w n = Some a \<longrightarrow> c_Mark a \<noteq> m)) \<and>
      (\<forall>a. q = Some a \<longrightarrow> db_clan w (c_Name a) = Some a \<and> c_Mark a = m))"
    using clan_found(2) [OF C S x]
  proof (elim disjE exE conjE)
    fix n d a
    assume "r = Inr (Some a)" "selects rx [(''mark'', put_mark m)] d" "clan_of d = Some a" "db_clan w n = Some a"
    with sel key show ?thesis by auto
  next
    assume r: "r = Inr None" and no: "\<forall>n d. docs s (BString n) = Some d \<longrightarrow> \<not> selects rx [(''mark'', put_mark m)] d"
    have "c_Mark a \<noteq> m" if "db_clan w n = Some a" for n a
      using iffD1 [OF stands_Some [OF S] that] no sel by blast
    with r show ?thesis by simp
  qed simp
  with clan_found(1) [OF C S x] show ?thesis by simp
qed

text \<open>
  The search by name: only clans whose name the pattern matches, at most \<open>limit\<close> of them, and all of
  them if they are fewer.
\<close>

lemma search_outcome:
  assumes C: "collection_contract rx C docs" and S: "stands clan_of (docs s) (db_clan w)" and ok: "db_ok w"
    and limit: "0 < limit" and call: "mongo_clan_SearchByName C name limit s = (r, s')"
  defines "fits \<equiv> {c. db_clan w (c_Name c) = Some c \<and> rx (''^'' @ QuoteMeta name) ''i'' (c_Name c)}"
  shows "docs s' = docs s \<and> (driver_error r \<or> (\<exists>cs. r = Inr cs \<and> set cs \<subseteq> fits \<and> int (length cs) \<le> limit \<and>
    (int (length cs) < limit \<longrightarrow> set cs = fits)))"
proof -
  let ?f = "[(''_id'', BDoc [(''$regex'', BString (''^'' @ QuoteMeta name)), (''$options'', BString ''i'')])]"
  obtain x t where x: "co_Find C ?f (Some limit) s = (x, t)" by force
  note R = contract_parts(3) [OF C, unfolded reads_many_def, rule_format, OF x]
  have key: "c_Name a = n" if "db_clan w n = Some a" for n a
    using ok that by (auto simp: db_ok_def db_clan_def dest: filed_key)
  have sel: "selects rx ?f d \<longleftrightarrow> rx (''^'' @ QuoteMeta name) ''i'' n" if "docs s (BString n) = Some d" for n d
    using contract_parts(1) [OF C that] by (auto simp: selects_simps path_id operator_holds_def)
  have stored: "\<exists>a. read_clan d = Some a \<and> (selects rx ?f d \<longleftrightarrow> a \<in> fits) \<and> db_clan w (c_Name a) = Some a"
    if "docs s k = Some d" for k d
  proof -
    from standsD [OF S that] obtain n a where a: "k = BString n" "clan_of d = Some a" "db_clan w n = Some a" .
    with key [OF a(3)] sel that show ?thesis by (auto simp: fits_def clan_of_iff)
  qed
  have image: "{a. \<exists>d \<in> {d \<in> ran (docs s). selects rx ?f d}. read_clan d = Some a} = fits"
  proof (rule set_eqI, rule iffI)
    fix a assume "a \<in> {a. \<exists>d \<in> {d \<in> ran (docs s). selects rx ?f d}. read_clan d = Some a}"
    then obtain k d where "docs s k = Some d" "selects rx ?f d" "read_clan d = Some a" by (auto simp: ran_def)
    with stored show "a \<in> fits" by fastforce
  next
    fix a assume a: "a \<in> fits"
    then obtain d where "docs s (BString (c_Name a)) = Some d" "clan_of d = Some a"
      using stands_Some [OF S] by (auto simp: fits_def)
    with a sel show "a \<in> {a. \<exists>d \<in> {d \<in> ran (docs s). selects rx ?f d}. read_clan d = Some a}"
      by (auto simp: ran_def clan_of_iff fits_def)
  qed
  show ?thesis
  proof (cases x)
    case (Inl e)
    then show ?thesis using call x R by (auto simp: mongo_clan_SearchByName_def decode_all_def)
  next
    case (Inr ds)
    with R limit have ds: "set ds \<subseteq> {d \<in> ran (docs s). selects rx ?f d}" "int (length ds) \<le> limit"
        "int (length ds) < limit \<Longrightarrow> set ds = {d \<in> ran (docs s). selects rx ?f d}" "docs t = docs s" by auto
    have "read_clan d \<noteq> None" if "d \<in> set ds" for d
      using that ds(1) stored by (fastforce simp: ran_def)
    then obtain cs where cs: "those (map read_clan ds) = Some cs" "set cs = {a. \<exists>d \<in> set ds. read_clan d = Some a}"
      using those_map_total [of ds read_clan] by blast
    have "length cs = length ds" using cs(1) by (induction ds arbitrary: cs) (auto split: option.splits)
    moreover have "set cs \<subseteq> fits" unfolding cs(2) using ds(1) image by blast
    moreover have "set cs = fits" if "int (length ds) < limit" using cs(2) ds(3) [OF that] image by simp
    ultimately show ?thesis using call x Inr ds cs by (auto simp: mongo_clan_SearchByName_def decode_all_def)
  qed
qed

end
