(* ===== verification/Mongo_Properties.thy ===== *)
theory Mongo_Properties
  imports Mongo_Clans "HOL-Library.Sublist"
begin

text \<open>
  A collection that keeps the contract, as an association list of documents, and the two refinement
  properties: the MongoDB repositories answer and act as the in-memory ones.
\<close>

section \<open>A collection in memory\<close>

type_synonym rows = "(bson \<times> document) list"

definition well_filed :: "rows \<Rightarrow> bool" where
  "well_filed m \<longleftrightarrow> distinct (map fst m) \<and> (\<forall>(k, d) \<in> set m. map_of d ''_id'' = Some k \<and> encodable (BDoc d))"

definition stored_rows :: "rows \<Rightarrow> rows" where
  "stored_rows s = filter (\<lambda>(k, d). map_of d ''_id'' = Some k \<and> encodable (BDoc d)) (AList.clearjunk s)"

definition contents_of :: "rows \<Rightarrow> contents" where
  "contents_of s = map_of (stored_rows s)"

definition refuse_write :: "rows \<Rightarrow> (driver_error + 'a) \<times> rows" where
  "refuse_write s = (Inl (DriverFailure 0), s)"

definition list_collection :: "regex_engine \<Rightarrow> rows Collection" where
  "list_collection rx =
     (let update = (\<lambda>f u s.
        if \<not> (encodable (BDoc f) \<and> encodable (BDoc u)) then refuse_write s
        else case List.find (\<lambda>(k, d). selects rx f d) (stored_rows s) of
            None \<Rightarrow> (Inr 0, s)
          | Some (k, d) \<Rightarrow> (case apply_update u d of
                None \<Rightarrow> refuse_write s
              | Some d' \<Rightarrow> if map_of d' ''_id'' = Some k \<and> encodable (BDoc d')
                           then (Inr 1, AList.update k d' (stored_rows s)) else refuse_write s))
      in \<lparr>co_FindOne = (\<lambda>f s. (case List.find (\<lambda>(k, d). selects rx f d) (stored_rows s) of
             None \<Rightarrow> Inl ErrNoDocuments | Some (k, d) \<Rightarrow> Inr d, s)),
          co_Find = (\<lambda>f limit s. (let ds = filter (selects rx f) (map snd (stored_rows s))
             in Inr (case limit of None \<Rightarrow> ds | Some n \<Rightarrow> if n > 0 then take (nat n) ds else ds), s)),
          co_InsertOne = (\<lambda>d s. case map_of d ''_id'' of
             None \<Rightarrow> refuse_write s
           | Some k \<Rightarrow> if contents_of s k \<noteq> None then (Inl DuplicateKey, s)
                       else if encodable (BDoc d) then (Inr (), (k, d) # stored_rows s) else refuse_write s),
          co_UpdateOne = update,
          co_UpdateByID = (\<lambda>k. update [(''_id'', k)]),
          co_DeleteOne = (\<lambda>f s. case List.find (\<lambda>(k, d). selects rx f d) (stored_rows s) of
             None \<Rightarrow> (Inr 0, s)
           | Some (k, d) \<Rightarrow> (Inr 1, AList.delete k (stored_rows s)))\<rparr>)"

lemma stored_rows_filed: "well_filed (stored_rows s)"
  by (auto simp: well_filed_def stored_rows_def distinct_map_filter AList.distinct_clearjunk)

lemma stored_rows_id: "well_filed m \<Longrightarrow> stored_rows m = m"
  by (auto simp: well_filed_def stored_rows_def AList.distinct_clearjunk_id filter_id_conv split: prod.splits)

lemma contents_of_rows: "well_filed m \<Longrightarrow> contents_of m = map_of m"
  by (simp add: contents_of_def stored_rows_id)

lemma contents_in: "contents_of s k = Some d \<longleftrightarrow> (k, d) \<in> set (stored_rows s)"
  using stored_rows_filed [of s] by (simp add: contents_of_def well_filed_def map_of_eq_Some_iff)

lemma ran_contents: "ran (contents_of s) = snd ` set (stored_rows s)"
  by (force simp: ran_def contents_in)

lemma well_filed_cons: "well_filed m \<Longrightarrow> map_of m k = None \<Longrightarrow> map_of d ''_id'' = Some k \<Longrightarrow> encodable (BDoc d) \<Longrightarrow>
    well_filed ((k, d) # m)"
  by (auto simp: well_filed_def map_of_eq_None_iff)

lemma well_filed_update: "well_filed m \<Longrightarrow> map_of d ''_id'' = Some k \<Longrightarrow> encodable (BDoc d) \<Longrightarrow>
    well_filed (AList.update k d m)"
proof -
  assume m: "well_filed m" and d: "map_of d ''_id'' = Some k" "encodable (BDoc d)"
  have "set (AList.update k d m) \<subseteq> insert (k, d) (set m)" by (induction m) auto
  moreover have "distinct (map fst (AList.update k d m))"
    using m by (simp add: well_filed_def distinct_update)
  moreover have "case x of (j, e) \<Rightarrow> map_of e ''_id'' = Some j \<and> encodable (BDoc e)"
    if "x \<in> insert (k, d) (set m)" for x
    using that m d by (cases "x = (k, d)") (simp_all add: well_filed_def)
  ultimately show ?thesis unfolding well_filed_def by blast
qed

lemma well_filed_delete: "well_filed m \<Longrightarrow> well_filed (AList.delete k m)"
  by (auto simp: well_filed_def AList.delete_eq distinct_map_filter)

lemma find_rows: "List.find (\<lambda>(k, d). P d) (stored_rows s) = Some (k, d) \<Longrightarrow> contents_of s k = Some d \<and> P d"
  by (auto simp: find_Some_iff contents_in) (metis nth_mem)

lemma find_no_rows: "List.find (\<lambda>(k, d). P d) (stored_rows s) = None \<Longrightarrow> d \<in> ran (contents_of s) \<Longrightarrow> \<not> P d"
  by (auto simp: find_None_iff ran_contents)

lemma list_collection_reads: "reads_one rx (list_collection rx) contents_of"
  unfolding reads_one_def list_collection_def
  by (auto simp: Let_def ranI dest: find_rows find_no_rows split: option.splits)

lemma list_collection_reads_many: "reads_many rx (list_collection rx) contents_of"
proof -
  have d: "distinct (map snd (stored_rows s))" for s
    using stored_rows_filed [of s]
    by (auto simp: well_filed_def distinct_map inj_on_def split: prod.splits) (metis option.inject)
  show ?thesis unfolding reads_many_def list_collection_def using d
    by (auto simp: Let_def ran_contents dest: in_set_takeD split: option.splits)
qed

lemma list_collection_inserts: "inserts_one (list_collection rx) contents_of"
proof -
  have "contents_of ((k, d) # stored_rows s) = (contents_of s)(k \<mapsto> d)"
    if "map_of d ''_id'' = Some k" "contents_of s k = None" "encodable (BDoc d)" for s k d
  proof -
    have "well_filed ((k, d) # stored_rows s)"
      using that well_filed_cons [OF stored_rows_filed] by (simp add: contents_of_def)
    then show ?thesis by (simp only: contents_of_rows) (simp add: contents_of_def)
  qed
  then show ?thesis unfolding inserts_one_def list_collection_def
    by (auto simp: Let_def refuse_write_def simp del: encodable.simps)
qed

lemma list_collection_updates: "updates_one rx (list_collection rx) contents_of"
proof -
  have "contents_of (AList.update k d (stored_rows s)) = (contents_of s)(k \<mapsto> d)"
    if "map_of d ''_id'' = Some k" "encodable (BDoc d)" for s k d
    using that well_filed_update [OF stored_rows_filed [of s]]
    by (simp add: contents_of_rows update_conv') (simp add: contents_of_def)
  then show ?thesis unfolding updates_one_def list_collection_def replaced_def
    by (auto simp: Let_def refuse_write_def simp del: encodable.simps dest: find_no_rows dest!: find_rows
      split: option.splits if_splits)
qed

lemma list_collection_deletes: "deletes_one rx (list_collection rx) contents_of"
proof -
  have "contents_of (AList.delete k (stored_rows s)) = (contents_of s)(k := None)" for s k
    using well_filed_delete [OF stored_rows_filed [of s]]
    by (simp add: contents_of_rows delete_conv') (simp add: contents_of_def)
  then show ?thesis unfolding deletes_one_def list_collection_def
    by (auto simp: Let_def dest: find_no_rows dest!: find_rows split: option.splits)
qed

lemma list_collection_contract: "collection_contract rx (list_collection rx) contents_of"
proof -
  have "map_of d ''_id'' = Some k \<and> encodable (BDoc d)" if "contents_of s k = Some d" for s k d
    using that stored_rows_filed [of s] unfolding contents_in well_filed_def by blast
  moreover have "co_UpdateByID (list_collection rx) k u = co_UpdateOne (list_collection rx) [(''_id'', k)] u" for k u
    by (simp add: list_collection_def Let_def)
  ultimately show ?thesis
    using list_collection_reads [of rx] list_collection_reads_many [of rx] list_collection_inserts [of rx]
      list_collection_updates [of rx] list_collection_deletes [of rx]
    unfolding collection_contract_def filed_by_id_def by blast
qed

lemma stands_empty: "stands own (contents_of []) (\<lambda>_. None)"
  by (simp add: stands_def contents_of_def stored_rows_def)

lemma stands_one:
  assumes "map_of d ''_id'' = Some (BString k)" and "encodable (BDoc d)" and "own d = Some a"
  shows "stands own (contents_of [(BString k, d)]) [k \<mapsto> a]"
proof -
  have "well_filed [(BString k, d)]" using assms(1,2) by (simp add: well_filed_def)
  then have "contents_of [(BString k, d)] = (contents_of [])(BString k \<mapsto> d)"
    using contents_of_rows [of "[]"] by (simp add: contents_of_rows well_filed_def)
  with stands_put [where read = own, OF stands_empty, of d a k] assms(3) show ?thesis by simp
qed

section \<open>Sequences of calls\<close>

fun run_players :: "'w PlayerRepository \<Rightarrow> player_call list \<Rightarrow> 'w \<Rightarrow> (go_error + player_reply) list \<times> 'w" where
  "run_players R [] w = ([], w)"
| "run_players R (c # cs) w =
     (case call_players R c w of (r, w') \<Rightarrow> (case run_players R cs w' of (rs, w'') \<Rightarrow> (r # rs, w'')))"

definition answered :: "player_call list \<Rightarrow> (go_error + player_reply) list \<Rightarrow> player_call list" where
  "answered cs rs = map fst (filter (\<lambda>(c, r). \<not> driver_error r) (zip cs rs))"

lemma Debit_key: "p_SteamID (Debit p wallet price) = p_SteamID p"
  by (cases wallet) simp_all

lemma mem_call_ok: "db_ok w \<Longrightarrow> db_ok (snd (call_players mem_player_repo c w))"
  by (cases c) (auto simp: mem_player_repo_def mem_commit mem_defs io_map_def Debit_key
    intro!: mem.ok_upd mem.ok_ins split: option.split)

lemma run_follows:
  assumes C: "collection_contract rx C docs"
  shows "stands player_of (docs s) (db_player w) \<Longrightarrow> db_ok w \<Longrightarrow> list_all names_wallet cs \<Longrightarrow>
    run_players (mongo_player_repo C) cs s = (rs, s') \<Longrightarrow>
    \<exists>cs'. subseq cs' cs \<and> subseq (answered cs rs) cs' \<and>
      stands player_of (docs s') (db_player (snd (run_players mem_player_repo (map ms_player_call cs') w)))"
proof (induction cs arbitrary: s w rs)
  case Nil
  then show ?case by (auto simp: answered_def intro!: exI [of _ "[]"])
next
  case (Cons c cs)
  obtain r t where t: "call_players (mongo_player_repo C) c s = (r, t)" by force
  obtain rs' where rs: "run_players (mongo_player_repo C) cs t = (rs', s')" "rs = r # rs'"
    using Cons.prems(4) t by (auto split: prod.splits)
  obtain r0 w' where w': "call_players mem_player_repo (ms_player_call c) w = (r0, w')" by force
  have ok': "db_ok w'" using mem_call_ok [OF Cons.prems(2), of "ms_player_call c"] w' by simp
  have "names_wallet c" "list_all names_wallet cs" using Cons.prems(3) by simp_all
  from follow_players [OF C Cons.prems(1,2) this(1) t] w'
  consider "stands player_of (docs t) (db_player w')" | "driver_error r" "stands player_of (docs t) (db_player w)"
    by (auto simp: players_follow_def)
  then show ?case
  proof cases
    case 1
    from Cons.IH [OF 1 ok' \<open>list_all _ cs\<close> rs(1)] obtain cs' where "subseq cs' cs" "subseq (answered cs rs') cs'"
      "stands player_of (docs s') (db_player (snd (run_players mem_player_repo (map ms_player_call cs') w')))" by blast
    then show ?thesis using rs(2) w'
      by (intro exI [of _ "c # cs'"]) (auto simp: answered_def split: prod.splits)
  next
    case 2
    from Cons.IH [OF 2(2) Cons.prems(2) \<open>list_all _ cs\<close> rs(1)] obtain cs' where "subseq cs' cs" "subseq (answered cs rs') cs'"
      "stands player_of (docs s') (db_player (snd (run_players mem_player_repo (map ms_player_call cs') w)))" by blast
    then show ?thesis using rs(2) 2(1) by (intro exI [of _ cs']) (auto simp: answered_def)
  qed
qed

section \<open>Examples\<close>

definition no_regex :: regex_engine where
  "no_regex p opts s = False"

definition example_account :: Player where
  "example_account = empty_player\<lparr>p_SteamID := ''7'', p_Name := ''A'', p_Point := 1000\<rparr>"

definition example_clan_row :: Clan where
  "example_clan_row = \<lparr>c_Name = ''N'', c_Mark = (1, 2, 3), c_MarkExtra = 0, c_Level = 1, c_MemberCapacity = 0,
     c_Master = ''7'', c_Members = [], c_Applicants = [], c_Records = no_clan_record, c_CreatedAt = zero_time\<rparr>"

lemma example_account_stands:
  "stands player_of (contents_of [(BString ''7'', player_document example_account)]) (db_player (insert_player example_account empty_db))"
proof -
  have "map_of (player_document example_account) ''_id'' = Some (BString ''7'')"
    by (simp add: player_document_def example_account_def)
  moreover have "encodable (BDoc (player_document example_account))"
    by (simp add: player_document_def example_account_def empty_player_def omitempty_def put_word_def
      put_time_def put_list_def records_document_def pvp_document_def pve_document_def hit_document_def no_records_def)
  moreover have "player_of (player_document example_account) = Some example_account"
    using player_of_document [of example_account] by (simp add: ms_player_def example_account_def empty_player_def)
  ultimately have "stands player_of (contents_of [(BString ''7'', player_document example_account)]) [''7'' \<mapsto> example_account]"
    by (rule stands_one)
  moreover have "db_player (insert_player example_account empty_db) = [''7'' \<mapsto> example_account]"
    by (auto simp: db_defs example_account_def empty_db_def)
  ultimately show ?thesis by simp
qed

lemma example_clan_stands:
  "stands clan_of (contents_of [(BString ''N'', clan_document example_clan_row)]) (db_clan (insert_clan example_clan_row empty_db))"
proof -
  have "map_of (clan_document example_clan_row) ''_id'' = Some (BString ''N'')"
    by (simp add: clan_document_def example_clan_row_def)
  moreover have "encodable (BDoc (clan_document example_clan_row))"
    by (simp add: clan_document_def example_clan_row_def omitempty_def put_mark_def
      clan_record_document_def no_clan_record_def)
  moreover have "clan_of (clan_document example_clan_row) = Some example_clan_row"
    using clan_of_document [of example_clan_row] by (simp add: ms_clan_def example_clan_row_def)
  ultimately have "stands clan_of (contents_of [(BString ''N'', clan_document example_clan_row)]) [''N'' \<mapsto> example_clan_row]"
    by (rule stands_one)
  moreover have "db_clan (insert_clan example_clan_row empty_db) = [''N'' \<mapsto> example_clan_row]"
    by (auto simp: db_defs example_clan_row_def empty_db_def)
  ultimately show ?thesis by simp
qed

lemma example_stores_ok: "db_ok (insert_player example_account empty_db)" "db_ok (insert_clan example_clan_row empty_db)"
  by (simp_all add: db_ok_def filed_def insert_player_def insert_clan_def empty_db_def)

section \<open>The properties\<close>

text \<open>
  C2. Every call of the MongoDB player repository, on a collection that stands for the accounts of the in-memory
  repository, gives the reply of the in-memory repository for the same call with dates in whole
  milliseconds, and leaves a collection that stands for its store; or it reports an error of the
  driver, and the call has had its effect or none. The only calls left out charge a price to no wallet.
\<close>

theorem mongo_accounts_refine:
  assumes "collection_contract rx C docs" and "stands player_of (docs s) (db_player w)" and "db_ok w"
    and "names_wallet c" and "call_players (mongo_player_repo C) c s = (r, s')"
  shows "case call_players mem_player_repo (ms_player_call c) w of (r0, w') \<Rightarrow>
      (same_found c w r0 r \<and> stands player_of (docs s') (db_player w')) \<or>
      (driver_error r \<and> (stands player_of (docs s') (db_player w) \<or> stands player_of (docs s') (db_player w')))"
  using follow_players [OF assms] by (simp add: players_follow_def)

theorem mongo_accounts_refine_witness:
  "\<exists>r s'. call_players (mongo_player_repo (list_collection no_regex)) (DoCommit ''7'' [] WalletPoint 300)
      [(BString ''7'', player_document example_account)] = (r, s') \<and>
    (r = Inr (Applied True) \<and>
       stands player_of (contents_of s') [''7'' \<mapsto> example_account\<lparr>p_Point := 700\<rparr>] \<or> driver_error r)"
proof -
  let ?c = "DoCommit ''7'' [] WalletPoint 300"
  obtain r s' where call: "call_players (mongo_player_repo (list_collection no_regex)) ?c
      [(BString ''7'', player_document example_account)] = (r, s')" by force
  have mem: "call_players mem_player_repo (ms_player_call ?c) (insert_player example_account empty_db) =
      (Inr (Applied True), update_player ''7'' (\<lambda>p. (Debit p WalletPoint 300)\<lparr>p_Inventory := []\<rparr>) (insert_player example_account empty_db))"
    by (simp add: mem_player_repo_def mem_commit io_map_def db_defs empty_db_def example_account_def empty_player_def Balance_def)
  have "db_player (update_player ''7'' (\<lambda>p. (Debit p WalletPoint 300)\<lparr>p_Inventory := []\<rparr>) (insert_player example_account empty_db)) =
      [''7'' \<mapsto> example_account\<lparr>p_Point := 700\<rparr>]"
    by (auto simp: db_defs empty_db_def example_account_def empty_player_def)
  with mongo_accounts_refine [OF list_collection_contract example_account_stands example_stores_ok(1) _ call] mem call
  show ?thesis by auto
qed

text \<open>
  C30. After any sequence of calls the collection of accounts stands for the in-memory store after the same
  calls, except that some calls that reported an error of the driver may be missing.
\<close>

theorem mongo_runs_refine:
  assumes "collection_contract rx C docs" and "stands player_of (docs s) (db_player w)" and "db_ok w"
    and "list_all names_wallet cs" and "run_players (mongo_player_repo C) cs s = (rs, s')"
  shows "\<exists>cs'. subseq cs' cs \<and> subseq (answered cs rs) cs' \<and>
    stands player_of (docs s') (db_player (snd (run_players mem_player_repo (map ms_player_call cs') w)))"
  using run_follows [OF assms] .

theorem mongo_runs_refine_witness:
  "\<exists>rs s' cs'. run_players (mongo_player_repo (list_collection no_regex)) [DoSetName ''7'' ''B'', DoFindByName ''B'']
      [(BString ''7'', player_document example_account)] = (rs, s') \<and> subseq cs' [DoSetName ''7'' ''B'', DoFindByName ''B''] \<and>
    stands player_of (contents_of s') (db_player (snd (run_players mem_player_repo (map ms_player_call cs')
      (insert_player example_account empty_db))))"
proof -
  let ?cs = "[DoSetName ''7'' ''B'', DoFindByName ''B'']"
  obtain rs s' where run: "run_players (mongo_player_repo (list_collection no_regex)) ?cs
      [(BString ''7'', player_document example_account)] = (rs, s')" by force
  have "list_all names_wallet ?cs" by simp
  from mongo_runs_refine [OF list_collection_contract example_account_stands example_stores_ok(1) this run]
  show ?thesis using run by blast
qed

text \<open>
  C24. Every call of the MongoDB clan repository except the search by name refines the in-memory call in
  the same sense; the searches by applicant and by mark find a wanted clan exactly when there is one.
  The exception is the search for a mark that leaves out no name, while a clan with the empty name
  exists: the in-memory search leaves that clan out, the MongoDB search finds a clan with the mark
  exactly when any clan has it. The stored clans stay as they are.
\<close>

theorem mongo_clans_refine:
  assumes "collection_contract rx C docs" and "stands clan_of (docs s) (db_clan w)" and "db_ok w"
    and "call_clans (mongo_clan_repo C) c s = (r, s')"
  shows "(leaves_out_named w c \<longrightarrow>
      (case call_clans (mem_clan_repo lower_rune) (ms_clan_call c) w of (r0, w') \<Rightarrow>
        (same_clan_found c w r0 r \<and> stands clan_of (docs s') (db_clan w')) \<or>
        (driver_error r \<and> (stands clan_of (docs s') (db_clan w) \<or> stands clan_of (docs s') (db_clan w'))))) \<and>
    (\<forall>m. c = DoFindByMark m [] \<longrightarrow> docs s' = docs s \<and> (driver_error r \<or> (\<exists>q. r = Inr q \<and>
      (q = None \<longleftrightarrow> (\<forall>n a. db_clan w n = Some a \<longrightarrow> c_Mark a \<noteq> m)) \<and>
      (\<forall>a. q = Some a \<longrightarrow> db_clan w (c_Name a) = Some a \<and> c_Mark a = m))))"
proof -
  have unnamed: "docs s' = docs s \<and> (driver_error r \<or> (\<exists>q. r = Inr q \<and>
      (q = None \<longleftrightarrow> (\<forall>n a. db_clan w n = Some a \<longrightarrow> c_Mark a \<noteq> m)) \<and>
      (\<forall>a. q = Some a \<longrightarrow> db_clan w (c_Name a) = Some a \<and> c_Mark a = m)))" if "c = DoFindByMark m []" for m
    by (rule unnamed_mark_search [OF assms(1-3)]) (use assms(4) that in hypsubst)
  show ?thesis
    by (intro conjI impI allI unnamed) (use follow_clans [OF assms(1-3) _ assms(4)] in \<open>auto simp: clans_follow_def\<close>)
qed

theorem mongo_clans_refine_witness:
  "\<exists>r s'. call_clans (mongo_clan_repo (list_collection no_regex)) (DoFindByMark (1, 2, 3) ''M'')
      [(BString ''N'', clan_document example_clan_row)] = (r, s') \<and> (r = Inr (Some example_clan_row) \<or> driver_error r)"
proof -
  let ?c = "DoFindByMark (1, 2, 3) ''M''" and ?w = "insert_clan example_clan_row empty_db"
  obtain r s' where call: "call_clans (mongo_clan_repo (list_collection no_regex)) ?c
      [(BString ''N'', clan_document example_clan_row)] = (r, s')" by force
  have mem: "call_clans (mem_clan_repo id) (ms_clan_call ?c) ?w = (Inr (Some example_clan_row), ?w)"
    by (simp add: mem_clan_defs insert_clan_def empty_db_def example_clan_row_def)
  have one: "db_clan ?w n = Some a \<Longrightarrow> a = example_clan_row" for n a
    by (auto simp: db_defs empty_db_def split: if_splits)
  from mongo_clans_refine [OF list_collection_contract example_clan_stands example_stores_ok(2) call, of id] mem
  have "(\<exists>a. r = Inr (Some a) \<and> db_clan ?w (c_Name a) = Some a) \<or> driver_error r"
    by (auto simp: same_clan_found_def)
  with one call show ?thesis by blast
qed


end
