(* ===== verification/Go_Url.thy ===== *)
theory Go_Url
  imports Catalog "HOL-Library.List_Lexorder" "HOL-Library.Char_ord"
begin

text \<open>
  The parts of Go's library the HTTP side uses: \<open>strings.Join\<close>, the query escaping, parsing and encoding of
  \<open>net/url\<close>, \<open>path.Base\<close>, \<open>path.Clean\<close> and \<open>path.Join\<close>, the escaping of \<open>encoding/xml\<close>, and the round trips of
  queries. A \<open>url.Values\<close> is an association list from keys to their values in order.
\<close>

section \<open>Strings\<close>

fun join_with :: "string \<Rightarrow> string list \<Rightarrow> string" where
  "join_with sep [] = []"
| "join_with sep [s] = s"
| "join_with sep (s # t # ts) = s @ sep @ join_with sep (t # ts)"

definition has_suffix :: "string \<Rightarrow> string \<Rightarrow> bool" where
  "has_suffix s suffix \<longleftrightarrow> length suffix \<le> length s \<and> drop (length s - length suffix) s = suffix"

text \<open>\<open>strings.Cut\<close>: what comes before and after the first separator.\<close>

fun cut_at :: "char \<Rightarrow> string \<Rightarrow> string \<times> string" where
  "cut_at sep [] = ([], [])"
| "cut_at sep (c # cs) = (if c = sep then ([], cs) else (case cut_at sep cs of (a, b) \<Rightarrow> (c # a, b)))"

section \<open>Query escaping\<close>

definition hex_digit :: "nat \<Rightarrow> char" where
  "hex_digit n = (if n < 10 then char_of (48 + n) else char_of (55 + n))"

definition hex_value :: "char \<Rightarrow> nat option" where
  "hex_value c = (let n = of_char c :: nat in
     if 48 \<le> n \<and> n \<le> 57 then Some (n - 48)
     else if 65 \<le> n \<and> n \<le> 70 then Some (n - 55)
     else if 97 \<le> n \<and> n \<le> 102 then Some (n - 87)
     else None)"

text \<open>Letters, digits, and the four marks \<open>-_.~\<close>.\<close>

definition unreserved :: "char \<Rightarrow> bool" where
  "unreserved c \<longleftrightarrow> (let n = of_char c :: nat in
     (97 \<le> n \<and> n \<le> 122) \<or> (65 \<le> n \<and> n \<le> 90) \<or> (48 \<le> n \<and> n \<le> 57) \<or> n = 45 \<or> n = 95 \<or> n = 46 \<or> n = 126)"

definition escape_char :: "char \<Rightarrow> string" where
  "escape_char c =
     (if unreserved c then [c]
      else if c = CHR '' '' then [CHR ''+'']
      else [CHR ''%'', hex_digit (of_char c div 16), hex_digit (of_char c mod 16)])"

definition QueryEscape :: "string \<Rightarrow> string" where
  "QueryEscape s = concat (map escape_char s)"

fun QueryUnescape :: "string \<Rightarrow> string option" where
  "QueryUnescape [] = Some []"
| "QueryUnescape (c # cs) =
     (if c = CHR ''%'' then
        (case cs of
           a # b # rest \<Rightarrow> (case (hex_value a, hex_value b) of
               (Some x, Some y) \<Rightarrow> map_option (\<lambda>s. char_of (x * 16 + y) # s) (QueryUnescape rest)
             | _ \<Rightarrow> None)
         | _ \<Rightarrow> None)
      else map_option (\<lambda>s. (if c = CHR ''+'' then CHR '' '' else c) # s) (QueryUnescape cs))"

section \<open>Queries\<close>

type_synonym url_values = "(string \<times> string list) list"

text \<open>One piece between two \<open>&\<close>; \<open>None\<close> for a piece that is skipped, with or without an error.\<close>

definition parse_pair :: "string \<Rightarrow> (string \<times> string) option" where
  "parse_pair piece =
     (if CHR '';'' \<in> set piece \<or> piece = [] then None
      else case cut_at (CHR ''='') piece of (k, v) \<Rightarrow>
        (case (QueryUnescape k, QueryUnescape v) of
           (Some k', Some v') \<Rightarrow> Some (k', v')
         | _ \<Rightarrow> None))"

definition query_pairs :: "string \<Rightarrow> (string \<times> string) list" where
  "query_pairs q = List.map_filter parse_pair (split_on (CHR ''&'') q)"

definition values_of :: "url_values \<Rightarrow> string \<Rightarrow> string list" where
  "values_of m k = (case map_of m k of None \<Rightarrow> [] | Some vs \<Rightarrow> vs)"

definition values_add :: "string \<times> string \<Rightarrow> url_values \<Rightarrow> url_values" where
  "values_add p m = AList.update (fst p) (values_of m (fst p) @ [snd p]) m"

text \<open>\<open>url.ParseQuery\<close>, whose error \<open>URL.Query\<close> drops.\<close>

definition ParseQuery :: "string \<Rightarrow> url_values" where
  "ParseQuery q = fold values_add (query_pairs q) []"

definition Values_Del :: "string \<Rightarrow> url_values \<Rightarrow> url_values" where
  "Values_Del k m = AList.delete k m"

definition encode_pair :: "string \<times> string \<Rightarrow> string" where
  "encode_pair p = QueryEscape (fst p) @ ''='' @ QueryEscape (snd p)"

definition sorted_pairs :: "url_values \<Rightarrow> (string \<times> string) list" where
  "sorted_pairs m = concat (map (\<lambda>k. map (Pair k) (values_of m k)) (sort (map fst m)))"

definition Values_Encode :: "url_values \<Rightarrow> string" where
  "Values_Encode m = join_with ''&'' (map encode_pair (sorted_pairs m))"

section \<open>Paths\<close>

definition strip_slashes :: "string \<Rightarrow> string" where
  "strip_slashes s = rev (dropWhile (\<lambda>c. c = CHR ''/'') (rev s))"

definition path_Base :: "string \<Rightarrow> string" where
  "path_Base s =
     (if s = [] then ''.''
      else let t = last (split_on (CHR ''/'') (strip_slashes s)) in if t = [] then ''/'' else t)"

text \<open>\<open>path.Clean\<close>: empty and \<open>.\<close> elements go, \<open>..\<close> takes the element before it away.\<close>

definition clean_step :: "bool \<Rightarrow> string list \<Rightarrow> string \<Rightarrow> string list" where
  "clean_step rooted done part =
     (if part = [] \<or> part = ''.'' then done
      else if part = ''..'' then
        (if done = [] \<or> last done = ''..'' then (if rooted then done else done @ [''..'']) else butlast done)
      else done @ [part])"

definition path_Clean :: "string \<Rightarrow> string" where
  "path_Clean p =
     (let rooted = (p \<noteq> [] \<and> hd p = CHR ''/'');
          r = join_with ''/'' (foldl (clean_step rooted) [] (split_on (CHR ''/'') p))
      in if rooted then CHR ''/'' # r else if r = [] then ''.'' else r)"

definition path_Join :: "string list \<Rightarrow> string" where
  "path_Join parts =
     (case filter (\<lambda>s. s \<noteq> []) parts of [] \<Rightarrow> [] | ps \<Rightarrow> path_Clean (join_with ''/'' ps))"

section \<open>XML attributes\<close>

text \<open>\<open>xml.EscapeString\<close>: rune by rune, with U+FFFD for bytes and runes XML does not allow.\<close>

definition in_xml_range :: "nat \<Rightarrow> bool" where
  "in_xml_range r \<longleftrightarrow> r = 9 \<or> r = 10 \<or> r = 13 \<or> (0x20 \<le> r \<and> r \<le> 0xD7FF) \<or> (0xE000 \<le> r \<and> r \<le> 0xFFFD) \<or>
     (0x10000 \<le> r \<and> r \<le> 0x10FFFF)"

definition xml_escape_chunk :: "nat \<times> string \<Rightarrow> string" where
  "xml_escape_chunk x = (case x of (r, bytes) \<Rightarrow>
     if r = 34 then ''&#34;'' else if r = 39 then ''&#39;'' else if r = 38 then ''&amp;''
     else if r = 60 then ''&lt;'' else if r = 62 then ''&gt;''
     else if r = 9 then ''&#x9;'' else if r = 10 then ''&#xA;'' else if r = 13 then ''&#xD;''
     else if \<not> in_xml_range r \<or> (r = rune_error \<and> length bytes = 1) then string_of_runes [rune_error]
     else bytes)"

definition xml_escape :: "string \<Rightarrow> string" where
  "xml_escape s = concat (map xml_escape_chunk (rune_chunks s))"

section \<open>Round trips\<close>

lemma hex_value_digit: "n < 16 \<Longrightarrow> hex_value (hex_digit n) = Some n"
  by (auto simp: hex_value_def hex_digit_def Let_def)

lemma hex_char: "(char_of (of_char c div 16 * 16 + of_char c mod 16 :: nat) :: char) = c"
  by simp

lemma reserved_chars: "\<not> unreserved (CHR ''%'')" "\<not> unreserved (CHR ''+'')" "\<not> unreserved (CHR ''&'')"
    "\<not> unreserved (CHR '';'')" "\<not> unreserved (CHR ''='')"
  by (simp_all add: unreserved_def)

lemma of_char_less: "(of_char c :: nat) < 256"
  by (rule nat_of_char_less_256)

lemma QueryUnescape_escape: "QueryUnescape (escape_char c @ t) = map_option ((#) c) (QueryUnescape t)"
proof -
  have n: "(of_char c div 16 :: nat) < 16" "(of_char c mod 16 :: nat) < 16"
    using of_char_less [of c] by (simp_all add: div_less_iff_less_mult)
  consider "unreserved c" | "\<not> unreserved c" "c = CHR '' ''" | "\<not> unreserved c" "c \<noteq> CHR '' ''" by blast
  then show ?thesis
  proof cases
    case 1
    with reserved_chars show ?thesis by (auto simp: escape_char_def)
  next
    case 2
    then show ?thesis by (simp add: escape_char_def)
  next
    case 3
    then show ?thesis using n
      by (simp add: escape_char_def hex_value_digit hex_char del: div_mult_mod_eq cong: option.case_cong)
  qed
qed

lemma QueryUnescape_QueryEscape: "QueryUnescape (QueryEscape s) = Some s"
proof (induction s)
  case (Cons c cs)
  then show ?case using QueryUnescape_escape [of c "QueryEscape cs"] by (simp add: QueryEscape_def)
qed (simp add: QueryEscape_def)

lemma hex_digit_range: "n < 16 \<Longrightarrow> unreserved (hex_digit n)"
  by (auto simp: unreserved_def hex_digit_def Let_def)

lemma escape_char_chars: "x \<in> set (escape_char c) \<Longrightarrow> x \<notin> {CHR ''&'', CHR '';'', CHR ''=''}"
proof -
  assume x: "x \<in> set (escape_char c)"
  have n: "(of_char c div 16 :: nat) < 16" "(of_char c mod 16 :: nat) < 16"
    using of_char_less [of c] by (simp_all add: div_less_iff_less_mult)
  with x have "unreserved x \<or> x = CHR ''+'' \<or> x = CHR ''%''"
    using hex_digit_range by (auto simp: escape_char_def split: if_splits)
  with reserved_chars show ?thesis by auto
qed

lemma QueryEscape_chars: "x \<in> set (QueryEscape s) \<Longrightarrow> x \<notin> {CHR ''&'', CHR '';'', CHR ''=''}"
  using escape_char_chars by (auto simp: QueryEscape_def)

lemma cut_at_absent: "sep \<notin> set a \<Longrightarrow> cut_at sep (a @ sep # b) = (a, b)"
  by (induction a) auto

lemma split_on_append: "split_on sep (a @ sep # b) = split_on sep a @ split_on sep b"
proof (induction a)
  case (Cons c cs)
  have "split_on sep cs \<noteq> []" by (induction cs) (auto split: list.splits)
  with Cons show ?case by (auto split: list.splits)
qed simp

lemma split_on_absent: "sep \<notin> set a \<Longrightarrow> split_on sep a = [a]"
  by (induction a) auto

lemma encode_pair_chars: "CHR ''&'' \<notin> set (encode_pair p)" "CHR '';'' \<notin> set (encode_pair p)" "encode_pair p \<noteq> []"
  using QueryEscape_chars [of "CHR ''&''"] QueryEscape_chars [of "CHR '';''"] by (auto simp: encode_pair_def)

lemma parse_encode_pair: "parse_pair (encode_pair p) = Some p"
proof -
  have "cut_at (CHR ''='') (encode_pair p) = (QueryEscape (fst p), QueryEscape (snd p))"
    using cut_at_absent [of "CHR ''=''" "QueryEscape (fst p)"] QueryEscape_chars [of "CHR ''=''" "fst p"]
    by (auto simp: encode_pair_def)
  then show ?thesis using encode_pair_chars [of p] by (simp add: parse_pair_def QueryUnescape_QueryEscape)
qed

lemma query_pairs_append: "query_pairs (a @ CHR ''&'' # b) = query_pairs a @ query_pairs b"
  by (simp add: query_pairs_def split_on_append List.map_filter_def)

lemma query_pairs_pair: "query_pairs (encode_pair p) = [p]"
  using encode_pair_chars by (simp add: query_pairs_def split_on_absent List.map_filter_def parse_encode_pair)

lemma query_pairs_Nil: "query_pairs [] = []"
  by (simp add: query_pairs_def List.map_filter_def parse_pair_def)

lemma query_pairs_parts: "query_pairs (join_with ''&'' xs) = concat (map query_pairs xs)"
  by (induction xs rule: induct_list012) (simp_all add: query_pairs_Nil query_pairs_append)

lemma query_pairs_join: "query_pairs (join_with ''&'' (map encode_pair ps)) = ps"
proof -
  have "map query_pairs (map encode_pair ps) = map (\<lambda>p. [p]) ps" by (simp add: query_pairs_pair)
  then show ?thesis by (simp only: query_pairs_parts) simp
qed

lemma values_of_fold: "values_of (fold values_add ps m) k = values_of m k @ map snd (filter (\<lambda>p. fst p = k) ps)"
  by (induction ps arbitrary: m) (auto simp: values_add_def values_of_def update_conv' split: option.splits)

lemma values_of_ParseQuery: "values_of (ParseQuery q) k = map snd (filter (\<lambda>p. fst p = k) (query_pairs q))"
  using values_of_fold [of "query_pairs q" "[]" k] by (simp add: ParseQuery_def values_of_def [of "[]"])

lemma distinct_ParseQuery: "distinct (map fst (ParseQuery q))"
proof -
  have "distinct (map fst m) \<Longrightarrow> distinct (map fst (fold values_add ps m))" for ps m
    by (induction ps arbitrary: m) (simp_all add: values_add_def distinct_update)
  then show ?thesis by (simp add: ParseQuery_def)
qed

lemma filter_sorted_pairs:
  assumes "distinct (map fst m)"
  shows "map snd (filter (\<lambda>p. fst p = k) (sorted_pairs m)) = values_of m k"
proof -
  have filt: "map snd (filter (\<lambda>p. fst p = k) (concat (map (\<lambda>k. map (Pair k) (f k)) ks))) =
      (if k \<in> set ks then f k else [])" if "distinct ks" for ks and f :: "string \<Rightarrow> string list"
    using that by (induction ks) (auto simp: filter_map comp_def filter_empty_conv)
  show ?thesis
  proof (cases "k \<in> fst ` set m")
    case True
    with filt [of "sort (map fst m)" "values_of m"] assms show ?thesis by (simp add: sorted_pairs_def)
  next
    case False
    then have "values_of m k = []" by (simp add: values_of_def map_of_eq_None_iff [THEN iffD2])
    with filt [of "sort (map fst m)" "values_of m"] assms show ?thesis by (simp add: sorted_pairs_def)
  qed
qed

text \<open>Parsing an encoded query gives every key its values.\<close>

theorem ParseQuery_Encode:
  "distinct (map fst m) \<Longrightarrow> values_of (ParseQuery (Values_Encode m)) k = values_of m k"
  by (simp add: values_of_ParseQuery Values_Encode_def query_pairs_join filter_sorted_pairs)

end
