(* ===== verification/Launcher.thy ===== *)
theory Launcher
  imports Go_Url Player_Service
begin

text \<open>
  The HTTP side: configuration/configuration.go, auth/auth.go, launcher/handlers, launcher/routes and
  healthcheck. What the web framework, the validation library, the page template, the embedded files and
  \<open>url.Parse\<close> contribute are arguments (\<open>web\<close>, \<open>Request\<close>); a handler gives the response it asks the
  framework for.
\<close>

section \<open>Configuration (configuration.go)\<close>

type_synonym env = "string \<Rightarrow> string option"

record AppConfig =
  ac_Port :: string
  ac_ApplicationEnv :: string
  ac_IsTesting :: bool
  ac_ServiceName :: string
  ac_LoginServerIP :: string
  ac_LoginServerPort :: string
  ac_MongoURI :: string
  ac_MongoDatabase :: string
  ac_StartingPoint :: u64
  ac_StartingCash :: u64

text \<open>\<open>contains\<close> is \<open>funk.Contains\<close>; \<open>required\<close> is the rule \<open>validation.Required\<close>.\<close>

definition IsDevelopmentEnvironment :: "(string list \<Rightarrow> string \<Rightarrow> bool) \<Rightarrow> AppConfig \<Rightarrow> bool" where
  "IsDevelopmentEnvironment contains c = contains [''TEST'', ''DEVELOPMENT'', ''STAGING''] (ac_ApplicationEnv c)"

definition AppConfig_Validate :: "(string \<Rightarrow> bool) \<Rightarrow> AppConfig \<Rightarrow> string list" where
  "AppConfig_Validate required c =
     (if required (ac_Port c) then [] else [''Port'']) @
     (if required (ac_ApplicationEnv c) then [] else [''ApplicationEnv''])"

definition GetEnvString :: "env \<Rightarrow> string \<Rightarrow> string" where
  "GetEnvString env key = (case env key of Some v \<Rightarrow> v | None \<Rightarrow> [])"

definition GetEnvStringOr :: "env \<Rightarrow> string \<Rightarrow> string \<Rightarrow> string" where
  "GetEnvStringOr env key fallback = (let v = GetEnvString env key in if v \<noteq> [] then v else fallback)"

text \<open>\<open>strconv.ParseUint(s, 10, 64)\<close> without an error, and \<open>strconv.ParseBool\<close>.\<close>

definition ParseUint64_ok :: "string \<Rightarrow> u64 option" where
  "ParseUint64_ok s =
     (if s = [] \<or> \<not> list_all (\<lambda>c. digit_value c \<noteq> None) s then None
      else let n = foldl (\<lambda>n c. n * 10 + the (digit_value c)) 0 s in if n < 2 ^ 64 then Some (word_of_nat n) else None)"

definition ParseBool :: "string \<Rightarrow> bool option" where
  "ParseBool s =
     (if s \<in> {''1'', ''t'', ''T'', ''true'', ''TRUE'', ''True''} then Some True
      else if s \<in> {''0'', ''f'', ''F'', ''false'', ''FALSE'', ''False''} then Some False
      else None)"

definition GetEnvUint64Or :: "env \<Rightarrow> string \<Rightarrow> u64 \<Rightarrow> u64" where
  "GetEnvUint64Or env key fallback =
     (let v = GetEnvString env key in
      if v \<noteq> [] then (case ParseUint64_ok v of Some n \<Rightarrow> n | None \<Rightarrow> fallback) else fallback)"

definition GetEnvBool :: "env \<Rightarrow> string \<Rightarrow> bool" where
  "GetEnvBool env key =
     (case env key of
        Some v \<Rightarrow> (case ParseBool v of Some b \<Rightarrow> b | None \<Rightarrow> False)
      | None \<Rightarrow> False)"

text \<open>\<open>dotenv\<close> is what \<open>godotenv.Load\<close> makes of the environment; its error is only printed.\<close>

definition load_config :: "(env \<Rightarrow> env) \<Rightarrow> (string \<Rightarrow> bool) \<Rightarrow> env \<Rightarrow> AppConfig \<times> string list" where
  "load_config dotenv required env0 =
     (let env = dotenv env0;
          c = \<lparr>ac_Port = GetEnvString env ''PORT'',
            ac_ApplicationEnv = GetEnvString env ''APPLICATION_ENV'',
            ac_IsTesting = GetEnvBool env ''TESTING'',
            ac_ServiceName = GetEnvString env ''SERVICE_NAME'',
            ac_LoginServerIP = GetEnvStringOr env ''LOGIN_SERVER_IP'' ''127.0.0.1'',
            ac_LoginServerPort = GetEnvStringOr env ''LOGIN_SERVER_PORT'' ''30003'',
            ac_MongoURI = GetEnvStringOr env ''MONGODB_URI'' ''mongodb://localhost:27017'',
            ac_MongoDatabase = GetEnvStringOr env ''MONGODB_DATABASE'' ''fear_online'',
            ac_StartingPoint = GetEnvUint64Or env ''STARTING_POINT'' 50000,
            ac_StartingCash = GetEnvUint64Or env ''STARTING_CASH'' 50000\<rparr>
      in (c, AppConfig_Validate required c))"

section \<open>Steam authentication (auth.go)\<close>

record AuthResult =
  ar_OK :: bool
  ar_SteamID :: string

type_synonym authenticator = "string \<Rightarrow> string \<Rightarrow> string + AuthResult"

definition Mock_Authenticate :: authenticator where
  "Mock_Authenticate steamID sessionTicket =
     (if steamID = [] then Inr \<lparr>ar_OK = False, ar_SteamID = []\<rparr>
      else Inr \<lparr>ar_OK = True, ar_SteamID = steamID\<rparr>)"

section \<open>Requests and responses\<close>

record Request =
  rq_query :: "string \<Rightarrow> string"
  rq_originalURL :: string
  rq_baseURL :: string
  rq_wildcard :: string

text \<open>\<open>c.Query(key, default)\<close>: the default stands for a missing or empty parameter.\<close>

definition query_or :: "Request \<Rightarrow> string \<Rightarrow> string \<Rightarrow> string" where
  "query_or c key fallback = (let v = rq_query c key in if v = [] then fallback else v)"

text \<open>A content type is the framework's default, the one it has for a file extension, or a header value.\<close>

datatype content_type = DefaultType | TypeOf string | Header string

datatype response =
    SendStatus nat
  | SendText nat content_type string
  | SendBytes content_type "byte list"
  | Redirect string nat

definition StatusOK :: nat where "StatusOK = 200"
definition StatusFound :: nat where "StatusFound = 302"
definition StatusBadRequest :: nat where "StatusBadRequest = 400"
definition StatusUnauthorized :: nat where "StatusUnauthorized = 401"
definition StatusNotFound :: nat where "StatusNotFound = 404"
definition StatusInternalServerError :: nat where "StatusInternalServerError = 500"
definition StatusBadGateway :: nat where "StatusBadGateway = 502"

lemmas statuses = StatusOK_def StatusFound_def StatusBadRequest_def StatusUnauthorized_def
  StatusNotFound_def StatusInternalServerError_def StatusBadGateway_def

text \<open>
  What other libraries contribute: the rules for a SteamID (an error text or none), the page template,
  the embedded files, the raw query of a parsed URL with the way to print it with another one, and the
  Unicode lower-casing of one rune.
\<close>

record parsed_url =
  pu_RawQuery :: string
  pu_print :: "string \<Rightarrow> string"

record web =
  wb_validate :: "string \<Rightarrow> string option"
  wb_template :: "(string \<times> string) list \<Rightarrow> string option"
  wb_asset :: "string \<Rightarrow> byte list option"
  wb_parse :: "string \<Rightarrow> parsed_url option"
  wb_lower :: "nat \<Rightarrow> nat"

record 'w Handler =
  ha_authenticator :: authenticator
  ha_config :: AppConfig
  ha_players :: "'w PlayerService"

section \<open>Login pages (launcher\_handler.go, oauth\_request.go)\<close>

definition launcherAuthCode :: string where
  "launcherAuthCode = ''0123456789abcdef0123456789abcdef0123456789abcdef0123456789abcdef''"

record oauthLoginRequest =
  ol_SteamID :: string
  ol_SessionTicket :: string

definition oauthLoginRequest_Validate :: "web \<Rightarrow> oauthLoginRequest \<Rightarrow> string option" where
  "oauthLoginRequest_Validate wb r = wb_validate wb (ol_SteamID r)"

definition appendStateAndCode :: "string \<Rightarrow> string \<Rightarrow> string \<Rightarrow> string" where
  "appendStateAndCode existing state code =
     join_with ''&''
       ((if existing \<noteq> [] then [existing] else []) @
        (if state \<noteq> [] then [''state='' @ QueryEscape state] else []) @
        [''code='' @ QueryEscape code])"

definition codeRedirectURL :: "string \<Rightarrow> string \<Rightarrow> string" where
  "codeRedirectURL state code = ''/content_only_launcher?'' @ appendStateAndCode [] state code"

definition buildRedirectURL :: "web \<Rightarrow> string \<Rightarrow> string \<Rightarrow> string \<Rightarrow> string" where
  "buildRedirectURL wb rawTarget state code =
     (case wb_parse wb rawTarget of
        None \<Rightarrow> rawTarget
      | Some target \<Rightarrow>
          let query = Values_Del ''state'' (Values_Del ''code'' (ParseQuery (pu_RawQuery target)))
          in pu_print target (appendStateAndCode (Values_Encode query) state code))"

definition authComplete :: "web \<Rightarrow> string \<Rightarrow> string \<Rightarrow> response" where
  "authComplete wb state code =
     (case wb_template wb
        [(''CallbackQuery'', ''state='' @ QueryEscape state @ ''&code='' @ QueryEscape code),
         (''State'', state), (''Code'', code)] of
        None \<Rightarrow> SendStatus StatusInternalServerError
      | Some page \<Rightarrow> SendText StatusOK (Header ''text/html; charset=utf-8'') page)"

text \<open>\<open>now\<close> and \<open>now'\<close> are the two readings of the clock in \<open>LoginBySteam\<close>.\<close>

definition OAuth :: "'w Handler \<Rightarrow> web \<Rightarrow> time \<Rightarrow> time \<Rightarrow> Request \<Rightarrow> 'w \<Rightarrow> response \<times> 'w" where
  "OAuth h wb now now' c w =
     (let request = \<lparr>ol_SteamID = rq_query c ''steam_id'', ol_SessionTicket = rq_query c ''steam_session_ticket''\<rparr> in
      case oauthLoginRequest_Validate wb request of
        Some err \<Rightarrow> (SendText StatusBadRequest DefaultType err, w)
      | None \<Rightarrow> (case ha_authenticator h (ol_SteamID request) (ol_SessionTicket request) of
          Inl err \<Rightarrow> (SendStatus StatusBadGateway, w)
        | Inr result \<Rightarrow>
            if \<not> ar_OK result then (SendStatus StatusUnauthorized, w)
            else (case LoginBySteam (ha_players h) (ar_SteamID result) now now' w of
                (Inl err, w') \<Rightarrow> (SendStatus StatusInternalServerError, w')
              | (Inr account, w') \<Rightarrow>
                  let state = rq_query c ''state'';
                      target = (let t = rq_query c ''redirect_uri'' in if t = [] then rq_query c ''redirect_url'' else t)
                  in if target \<noteq> []
                     then (Redirect (buildRedirectURL wb target state launcherAuthCode) StatusFound, w')
                     else (authComplete wb state launcherAuthCode, w'))))"

definition Callback :: "web \<Rightarrow> Request \<Rightarrow> response" where
  "Callback wb c =
     (let code = query_or c ''code'' launcherAuthCode;
          state = query_or c ''state'' ''xyz''
      in if code \<noteq> launcherAuthCode \<or> \<not> has_suffix (rq_originalURL c) (''code='' @ QueryEscape code)
         then Redirect (codeRedirectURL state launcherAuthCode) StatusFound
         else authComplete wb state launcherAuthCode)"

definition Code2Token :: "Request \<Rightarrow> response" where
  "Code2Token c =
     Redirect (codeRedirectURL (query_or c ''state'' ''xyz'') (query_or c ''code'' launcherAuthCode)) StatusFound"

definition Notice :: response where
  "Notice = SendText StatusOK (TypeOf ''html'') ''<html><body><h1>FEAR Online</h1></body></html>''"

definition quotes :: "string \<Rightarrow> string" where
  "quotes s = CHR 0x22 # s @ [CHR 0x22]"

definition SocialSuccess :: response where
  "SocialSuccess = SendText StatusOK (TypeOf ''html'')
     (''<!doctype html><html><head><meta charset='' @ quotes ''utf-8'' @
      ''><title>success</title></head><body><script>window.name='' @ quotes ''success'' @
      '';document.title='' @ quotes ''success'' @
      '';setTimeout(function(){try{window.close();}catch(e){}},500);</script>success</body></html>'')"

definition SocialRedirect :: response where
  "SocialRedirect = Redirect ''/social_success?success=1'' StatusFound"

definition OK :: response where
  "OK = SendText StatusOK DefaultType ''OK''"

section \<open>The launcher configuration (config\_xml.go)\<close>

definition launcherClientID :: string where
  "launcherClientID = ''652064e22d0ba471c6e7befe6fc91c650519e6f1c''"

definition launcherVersion :: string where
  "launcherVersion = ''201412051458''"

text \<open>The attributes of \<open>launcherConfigXML\<close> in their order, with the values \<open>ConfigXML\<close> gives them.\<close>

definition launcherConfig :: "AppConfig \<Rightarrow> string \<Rightarrow> (string \<times> string) list" where
  "launcherConfig config base =
     [(''Language'', ''en''),
      (''LauncherUrl'', base @ ''/LivePatch/Launcher/''),
      (''LauncherVersion'', launcherVersion),
      (''LauncherDataPathRoot'', ''LauncherData'' @ [CHR 0x5C]),
      (''LauncherHttpDownloadPath'', ''Temp'' @ [CHR 0x5C]),
      (''LauncherTorrentDownloadPath'', ''pd'' @ [CHR 0x5C]),
      (''LauncherNoticeUrl'', base @ ''/fogame/notice''),
      (''ClientName'', ''Fear Online Client''),
      (''ClientUrlRoot'', base @ ''/LivePatch/ClientFear/''),
      (''ClientRoot'', ''FEAR_Online'' @ [CHR 0x5C]),
      (''ClientExePath'', ''FEAR_Online'' @ [CHR 0x5C] @ ''Engine.exe''),
      (''LoginUrl'', base @ ''/dialog/oauth?response_type=code&state=xyz'' @
          ''&scope=scope_general,scope_billing&lang=en'' @ ''&client_id='' @ launcherClientID @
          ''&redirect_uri='' @ base @ ''/content_only_launcher&''),
      (''VolumeSound'', ''90''),
      (''VolumeBGM'', ''90''),
      (''Development'', ''1''),
      (''VersionType'', ''1''),
      (''PB'', ''AE''),
      (''UIPB'', []),
      (''DEDI'', ''1''),
      (''LoginServerIP'', ac_LoginServerIP config),
      (''LoginServerPort'', ac_LoginServerPort config),
      (''CompareDir'', ''Game'' @ [CHR 0x5C] @ ''Worlds'' @ [CHR 0x5C]),
      (''AuthUrl'', base @ ''/dialog/oauth/authorize?response_type=code'' @ ''&client_id='' @ launcherClientID @
          ''&state=xyz&redirect_url='' @ base @ ''/code2token.php&''),
      (''SocialUrl'', base @ ''/social_connect/steam/connect/callback/redirect''),
      (''SteamNoticeUrl'', base @ ''/fogame/steam_notice'')]"

text \<open>\<open>xml.Marshal\<close> of a struct that has only attributes.\<close>

definition xml_element :: "string \<Rightarrow> (string \<times> string) list \<Rightarrow> string" where
  "xml_element name attrs =
     ''<'' @ name @ concat (map (\<lambda>(k, v). '' '' @ k @ ''='' @ quotes (xml_escape v)) attrs) @
     ''></'' @ name @ ''>''"

definition utf16LEWithBOM :: "string \<Rightarrow> byte list" where
  "utf16LEWithBOM s =
     [0xFF, 0xFE] @ concat (map (\<lambda>unit. [ucast unit, ucast (drop_bit 8 unit)]) (utf16_encode (runes_of_string s)))"

definition xmlHeader :: string where
  "xmlHeader = ''<?xml version='' @ quotes ''1.0'' @ '' encoding='' @ quotes ''utf-16'' @ ''?>''"

definition utf16XML :: content_type where
  "utf16XML = Header ''text/xml; charset=utf-16''"

definition crlf :: string where
  "crlf = [CHR 0x0D, CHR 0x0A]"

definition ConfigXML :: "AppConfig \<Rightarrow> Request \<Rightarrow> response" where
  "ConfigXML config c =
     (let encoded = xml_element ''LauncherConfig'' (launcherConfig config (rq_baseURL c))
      in SendBytes utf16XML (utf16LEWithBOM (xmlHeader @ crlf @ encoded @ crlf)))"

section \<open>Patch files (patch\_handler.go)\<close>

definition emptyContentsList :: string where
  "emptyContentsList = xmlHeader @ [CHR 0x0A] @ ''<FileDataList/>''"

definition emptyDeleteList :: string where
  "emptyDeleteList = xmlHeader @ [CHR 0x0A] @ ''<DeleteList/>''"

definition optionPatchListCSV :: string where
  "optionPatchListCSV = ''MapIndex,FileName,MapRecord,FileSize,FileTime'' @ crlf"

definition langBannerCSV :: string where
  "langBannerCSV = ''[Default]'' @ crlf @ ''bannerpath01='' @ crlf"

definition sendUTF16XML :: "string \<Rightarrow> response" where
  "sendUTF16XML xml = SendBytes utf16XML (utf16LEWithBOM xml)"

definition sendPatchAsset :: "web \<Rightarrow> string \<Rightarrow> content_type \<Rightarrow> response" where
  "sendPatchAsset wb name contentType =
     (case wb_asset wb name of
        None \<Rightarrow> SendStatus StatusNotFound
      | Some data \<Rightarrow> SendBytes contentType data)"

definition PatchFile :: "web \<Rightarrow> AppConfig \<Rightarrow> Request \<Rightarrow> response" where
  "PatchFile wb config c =
     (let requested = to_lower (wb_lower wb) (path_Base (rq_wildcard c)) in
      if requested = ''config.xml'' \<or> requested = ''config_t.xml'' then ConfigXML config c
      else if requested = ''contentslist.xml'' then sendUTF16XML emptyContentsList
      else if requested = ''deletelist.xml'' then sendUTF16XML emptyDeleteList
      else if requested = ''prerequisitelist.xml'' \<or> requested = ''steam_prerequisitelist.xml''
        then sendPatchAsset wb ''public/LivePatch/PrerequisiteList.xml'' utf16XML
      else if requested = ''optionpatchlist.csv'' then SendText StatusOK (TypeOf ''csv'') optionPatchListCSV
      else if requested = ''langbanner.csv'' then SendText StatusOK (TypeOf ''txt'') langBannerCSV
      else sendPatchAsset wb (path_Join [''public/LivePatch'', rq_wildcard c]) DefaultType)"

section \<open>Routes (launcher\_router.go)\<close>

datatype endpoint =
    To_PatchFile | To_OAuth | To_Callback | To_Code2Token | To_Notice | To_SocialSuccess
  | To_SocialRedirect | To_OK

datatype verb = Get | AnyVerb

definition launcher_routes :: "(verb \<times> string \<times> endpoint) list" where
  "launcher_routes =
     [(Get, ''/LivePatch/*'', To_PatchFile),
      (Get, ''/dialog/oauth'', To_OAuth),
      (Get, ''/dialog/oauth/authorize'', To_OAuth),
      (Get, ''/content_only_launcher'', To_Callback),
      (Get, ''/code2token.php'', To_Code2Token),
      (Get, ''/fogame/notice'', To_Notice),
      (Get, ''/fogame/steam_notice'', To_Notice),
      (Get, ''/news'', To_Notice),
      (Get, ''/contact'', To_Notice),
      (Get, ''/social_success'', To_SocialSuccess),
      (Get, ''/steam_success'', To_SocialSuccess),
      (AnyVerb, ''/social_connect/steam/connect/callback/redirect'', To_SocialRedirect),
      (AnyVerb, ''/redirect'', To_SocialRedirect),
      (AnyVerb, ''/auth'', To_OK),
      (AnyVerb, ''/login'', To_OK),
      (AnyVerb, ''/social'', To_OK)]"

definition endpoint_response :: "'w Handler \<Rightarrow> web \<Rightarrow> time \<Rightarrow> time \<Rightarrow> endpoint \<Rightarrow> Request \<Rightarrow> 'w \<Rightarrow> response \<times> 'w" where
  "endpoint_response h wb now now' e c w =
     (case e of
        To_PatchFile \<Rightarrow> (PatchFile wb (ha_config h) c, w)
      | To_OAuth \<Rightarrow> OAuth h wb now now' c w
      | To_Callback \<Rightarrow> (Callback wb c, w)
      | To_Code2Token \<Rightarrow> (Code2Token c, w)
      | To_Notice \<Rightarrow> (Notice, w)
      | To_SocialSuccess \<Rightarrow> (SocialSuccess, w)
      | To_SocialRedirect \<Rightarrow> (SocialRedirect, w)
      | To_OK \<Rightarrow> (OK, w))"

end
