(* ===== verification/Launcher_Properties.thy ===== *)
theory Launcher_Properties
  imports Launcher Player_Properties Wire
begin

text \<open>
  What the HTTP side guarantees: the login page keeps the query of the address it returns to and adds one
  state and one code, the launcher's callback settles after one redirect, only an authenticated SteamID
  reaches the accounts, and the generated files are well-formed.
\<close>

section \<open>Example arguments\<close>

definition example_web :: web where
  "example_web = \<lparr>wb_validate = (\<lambda>s. if s = [] then Some ''SteamID: cannot be blank.'' else None),
     wb_template = (\<lambda>data. Some ''done''), wb_asset = (\<lambda>name. None),
     wb_parse = (\<lambda>s. Some \<lparr>pu_RawQuery = ''a=1&code=x'', pu_print = (\<lambda>q. ''/code2token.php?'' @ q)\<rparr>),
     wb_lower = id\<rparr>"

definition request_for :: "string \<Rightarrow> Request" where
  "request_for url = \<lparr>rq_query = (\<lambda>k. case values_of (ParseQuery (snd (cut_at (CHR ''?'') url))) k of [] \<Rightarrow> [] | v # _ \<Rightarrow> v),
     rq_originalURL = url, rq_baseURL = ''http://localhost'', rq_wildcard = []\<rparr>"

definition example_handler :: "db Handler" where
  "example_handler = \<lparr>ha_authenticator = Mock_Authenticate,
     ha_config = fst (load_config id (\<lambda>s. s \<noteq> []) (\<lambda>_. None)), ha_players = mem_service sample_catalog 0 0\<rparr>"

section \<open>Queries\<close>

lemma append_pairs:
  "query_pairs (appendStateAndCode existing state code) =
    query_pairs existing @ (if state = [] then [] else [(''state'', state)]) @ [(''code'', code)]"
proof -
  have esc: "QueryEscape ''state'' = ''state''" "QueryEscape ''code'' = ''code''"
    by (simp_all add: QueryEscape_def escape_char_def unreserved_def)
  have pair: "query_pairs (''state='' @ QueryEscape v) = [(''state'', v)]"
    "query_pairs (''code='' @ QueryEscape v) = [(''code'', v)]" for v
    using query_pairs_pair [of "(''state'', v)"] query_pairs_pair [of "(''code'', v)"] esc
    by (simp_all add: encode_pair_def)
  show ?thesis unfolding appendStateAndCode_def query_pairs_parts using pair
    by (auto simp: query_pairs_Nil simp del: append_Cons)
qed

lemma Values_Del_values: "values_of (Values_Del d m) k = (if k = d then [] else values_of m k)"
  by (simp add: values_of_def Values_Del_def delete_conv')

lemma distinct_Del: "distinct (map fst m) \<Longrightarrow> distinct (map fst (Values_Del d m))"
  by (simp add: Values_Del_def distinct_delete)

text \<open>
  C28. The address the login page sends the browser back to has the query of the requested address with
  every old \<open>state\<close> and \<open>code\<close> replaced by the given ones, and every other parameter keeps its values
  in order.
\<close>

theorem redirect_carries_code:
  assumes "wb_parse wb rawTarget = Some target"
  shows "\<exists>q. buildRedirectURL wb rawTarget state code = pu_print target q \<and>
    values_of (ParseQuery q) k =
      (if k = ''code'' then [code]
       else if k = ''state'' then (if state = [] then [] else [state])
       else values_of (ParseQuery (pu_RawQuery target)) k)"
proof -
  let ?m = "Values_Del ''state'' (Values_Del ''code'' (ParseQuery (pu_RawQuery target)))"
  have "values_of (ParseQuery (Values_Encode ?m)) k = values_of ?m k"
    by (intro ParseQuery_Encode distinct_Del distinct_ParseQuery)
  then have "values_of (ParseQuery (appendStateAndCode (Values_Encode ?m) state code)) k =
      (if k = ''code'' then [code] else if k = ''state'' then (if state = [] then [] else [state])
       else values_of (ParseQuery (pu_RawQuery target)) k)"
    by (auto simp: values_of_ParseQuery append_pairs Values_Del_values)
  with assms show ?thesis by (auto simp: buildRedirectURL_def Let_def)
qed

lemma redirect_carries_code_witness:
  "\<exists>q. buildRedirectURL example_web ''/code2token.php?a=1&code=x'' ''s'' ''c'' = ''/code2token.php?'' @ q \<and>
    values_of (ParseQuery q) ''code'' = [''c'']"
  using redirect_carries_code [of example_web "''/code2token.php?a=1&code=x''" _ "''s''" "''c''" "''code''"]
  by (simp add: example_web_def)

text \<open>
  What the framework reads as a parameter is its first value in the query of the requested address.
\<close>

definition reads_query :: "Request \<Rightarrow> bool" where
  "reads_query c \<longleftrightarrow> (\<forall>k. rq_query c k =
     (case values_of (ParseQuery (snd (cut_at (CHR ''?'') (rq_originalURL c)))) k of [] \<Rightarrow> [] | v # _ \<Rightarrow> v))"

lemma code_redirect_query: "snd (cut_at (CHR ''?'') (codeRedirectURL state code)) = appendStateAndCode [] state code"
  by (simp add: codeRedirectURL_def)

lemma has_suffix_append: "has_suffix (a @ b) b"
  by (simp add: has_suffix_def)

lemma code_redirect_suffix: "has_suffix (codeRedirectURL state code) (''code='' @ QueryEscape code)"
proof (cases "state = []")
  case True
  then show ?thesis
    using has_suffix_append [of "''/content_only_launcher?''" "''code='' @ QueryEscape code"]
    by (simp add: codeRedirectURL_def appendStateAndCode_def)
next
  case False
  then show ?thesis
    using has_suffix_append [of "''/content_only_launcher?state='' @ QueryEscape state @ ''&''" "''code='' @ QueryEscape code"]
    by (simp add: codeRedirectURL_def appendStateAndCode_def)
qed

lemma redirected_parameters:
  assumes "reads_query c" and "rq_originalURL c = codeRedirectURL state code"
  shows "rq_query c ''code'' = code" and "rq_query c ''state'' = state"
  using assms by (auto simp: reads_query_def code_redirect_query values_of_ParseQuery append_pairs query_pairs_Nil)

text \<open>
  C29. A callback answers with the final page or with one redirect: a client that follows the redirect
  gets the final page, with the state it came with and the launcher's own code.
\<close>

theorem callback_settles:
  assumes "Callback wb c = Redirect url status" and "rq_originalURL c' = url" and "reads_query c'"
  shows "Callback wb c' = authComplete wb (query_or c ''state'' ''xyz'') launcherAuthCode"
proof -
  let ?state = "query_or c ''state'' ''xyz''"
  have url: "url = codeRedirectURL ?state launcherAuthCode"
    using assms(1) by (auto simp: Callback_def authComplete_def Let_def split: if_splits option.splits)
  have "?state \<noteq> []" by (simp add: query_or_def Let_def)
  moreover have "launcherAuthCode \<noteq> []" by (simp add: launcherAuthCode_def)
  ultimately show ?thesis
    using redirected_parameters [OF assms(3)] code_redirect_suffix [of ?state launcherAuthCode] assms(2) url
    by (simp add: Callback_def query_or_def)
qed

lemma callback_settles_witness:
  "Callback example_web (request_for (codeRedirectURL ''xyz'' launcherAuthCode)) = authComplete example_web ''xyz'' launcherAuthCode"
proof -
  let ?c = "request_for ''/content_only_launcher''"
  have q: "rq_query ?c k = []" for k
    by (simp add: request_for_def values_of_ParseQuery query_pairs_Nil)
  have "\<not> has_suffix (rq_originalURL ?c) (''code='' @ QueryEscape launcherAuthCode)"
    by (simp add: request_for_def has_suffix_def launcherAuthCode_def QueryEscape_def escape_char_def unreserved_def)
  then have "Callback example_web ?c = Redirect (codeRedirectURL ''xyz'' launcherAuthCode) StatusFound"
    using q by (simp add: Callback_def query_or_def)
  from callback_settles [OF this, of "request_for (codeRedirectURL ''xyz'' launcherAuthCode)"] q show ?thesis
    by (simp add: reads_query_def query_or_def) (simp add: request_for_def)
qed

section \<open>Logging in\<close>

text \<open>
  C26. On the in-memory accounts a request to the login page either is refused with status 400, 502 or 401 and
  changes nothing, or carries a SteamID that passed the validation and that the authenticator confirmed: then
  that account exists afterwards, no other account has changed, and the answer is the redirect to the
  requested address or the final page.
\<close>

theorem OAuth_accounts:
  assumes h: "ha_players h = mem_service cat pt cs" and run: "OAuth h wb now now' c w = (resp, w')"
  shows "w' = w \<and> (resp = SendStatus StatusBadGateway \<or> resp = SendStatus StatusUnauthorized \<or>
      (\<exists>err. resp = SendText StatusBadRequest DefaultType err)) \<or>
    (\<exists>result. wb_validate wb (rq_query c ''steam_id'') = None \<and>
      ha_authenticator h (rq_query c ''steam_id'') (rq_query c ''steam_session_ticket'') = Inr result \<and> ar_OK result \<and>
      db_player w' (ar_SteamID result) \<noteq> None \<and>
      (\<forall>k. k \<noteq> ar_SteamID result \<longrightarrow> db_player w' k = db_player w k) \<and>
      ((\<exists>target. resp = Redirect (buildRedirectURL wb target (rq_query c ''state'') launcherAuthCode) StatusFound) \<or>
       resp = authComplete wb (rq_query c ''state'') launcherAuthCode))"
proof -
  have players: "ps_players (ha_players h) = mem_player_repo" by (simp add: h)
  have login: "\<exists>p w1. LoginBySteam (ha_players h) k now now' w = (Inr p, w1) \<and> db_player w1 = (db_player w)(k \<mapsto> p)" for k
    using mem.login_known [OF players, of w k _ now now'] mem.login_unknown [OF players, of w k now now']
    by (cases "db_player w k") blast+
  show ?thesis
  proof (cases "wb_validate wb (rq_query c ''steam_id'')")
    case (Some err)
    with run show ?thesis by (auto simp: OAuth_def oauthLoginRequest_Validate_def)
  next
    case valid: None
    show ?thesis
    proof (cases "ha_authenticator h (rq_query c ''steam_id'') (rq_query c ''steam_session_ticket'')")
      case (Inl err)
      with run valid show ?thesis by (simp add: OAuth_def oauthLoginRequest_Validate_def)
    next
      case (Inr result)
      obtain p w1 where "LoginBySteam (ha_players h) (ar_SteamID result) now now' w = (Inr p, w1)"
        "db_player w1 = (db_player w)(ar_SteamID result \<mapsto> p)" using login by blast
      with run valid Inr show ?thesis
        by (auto simp: OAuth_def oauthLoginRequest_Validate_def Let_def split: if_splits)
    qed
  qed
qed

lemma OAuth_accounts_witness:
  "\<exists>resp w'. OAuth example_handler example_web 5 5 (request_for ''/dialog/oauth?steam_id=7'') empty_db = (resp, w') \<and>
    db_player w' ''7'' \<noteq> None \<and> (\<forall>k. k \<noteq> ''7'' \<longrightarrow> db_player w' k = None)"
proof -
  obtain resp w' where run: "OAuth example_handler example_web 5 5 (request_for ''/dialog/oauth?steam_id=7'') empty_db = (resp, w')"
    by force
  have id: "rq_query (request_for ''/dialog/oauth?steam_id=7'') ''steam_id'' = ''7''"
    by (simp add: request_for_def values_of_ParseQuery query_pairs_def List.map_filter_def parse_pair_def)
  have "ha_players example_handler = mem_service sample_catalog 0 0" by (simp add: example_handler_def)
  have "\<not> (resp = SendStatus StatusBadGateway \<or> resp = SendStatus StatusUnauthorized \<or>
      (\<exists>err. resp = SendText StatusBadRequest DefaultType err))"
    using run by (auto simp: OAuth_def id oauthLoginRequest_Validate_def example_web_def example_handler_def
      Mock_Authenticate_def authComplete_def statuses Let_def split: prod.splits sum.splits if_splits)
  with OAuth_accounts [OF \<open>ha_players example_handler = _\<close> run] run show ?thesis
    by (auto simp: id example_handler_def Mock_Authenticate_def empty_db_def db_player_def)
qed

section \<open>Files\<close>

fun words_le :: "byte list \<Rightarrow> u16 list" where
  "words_le (a # b # bs) = le16 a b # words_le bs"
| "words_le _ = []"

lemma words_le_units: "words_le (concat (map (\<lambda>unit. [ucast unit, ucast (drop_bit 8 unit)]) us)) = us"
  by (induction us) (simp_all add: le16_bytes)

text \<open>
  A patch file is a byte-order mark followed by text whose little-endian UTF-16 decoding gives the
  runes of the string that was sent.
\<close>

theorem utf16_file_decodes:
  "\<exists>bytes. utf16LEWithBOM s = 0xFF # 0xFE # bytes \<and> utf16_decode (words_le bytes) = runes_of_string s"
  by (simp add: utf16LEWithBOM_def words_le_units utf16_roundtrip runes_of_string_scalar)

text \<open>Escaped attribute values contain no quote and no angle bracket, whatever the host header was.\<close>

lemma decode_rune_width:
  "decode_rune a bs = (r, w) \<Longrightarrow> (w = 1 \<and> (r = a \<or> r = rune_error)) \<or>
    (2 \<le> w \<and> w - 1 \<le> length bs \<and> 0x80 \<le> a \<and> (\<forall>b \<in> set (take (w - 1) bs). 0x80 \<le> b))"
  by (auto simp: decode_rune_def decode2_def decode3_def decode4_def is_cont_def second3_def second4_def
    split: if_splits list.splits)

lemma rune_chunk_bytes:
  "(r, b) \<in> set (rune_chunks s) \<Longrightarrow> (\<exists>c. b = [c] \<and> (r = of_char c \<or> r = rune_error)) \<or>
    (\<forall>c \<in> set b. 0x80 \<le> (of_char c :: nat))"
proof (induction s rule: rune_chunks.induct)
  case (2 c cs)
  obtain r' w where d: "decode_rune (of_char c) (map of_char cs) = (r', w)" by force
  note W = decode_rune_width [OF d] and IH = 2(1) [OF d [symmetric] refl]
  have "r = r' \<and> b = take w (c # cs) \<or> (r, b) \<in> set (rune_chunks (drop (w - 1) cs))" using 2(2) d by auto
  then consider "r = r'" "b = take w (c # cs)" | "(r, b) \<in> set (rune_chunks (drop (w - 1) cs))" by blast
  then show ?case
  proof cases
    case 1
    from W show ?thesis
    proof (elim disjE conjE)
      assume w: "2 \<le> w" and h: "0x80 \<le> (of_char c :: nat)" and t: "\<forall>b \<in> set (take (w - 1) (map of_char cs)). 0x80 \<le> (b :: nat)"
      have "b = c # take (w - 1) cs" using 1 w by (cases w) simp_all
      with h t show ?thesis by (auto simp: take_map)
    qed (use 1 in simp_all)
  next
    case 2
    then show ?thesis by (rule IH)
  qed
qed simp

lemma xml_escape_safe: "c \<in> set (xml_escape s) \<Longrightarrow> c \<notin> {CHR ''<'', CHR ''>'', CHR 0x22, CHR 0x27}"
proof -
  assume "c \<in> set (xml_escape s)"
  then obtain r b where rb: "(r, b) \<in> set (rune_chunks s)" and c: "c \<in> set (xml_escape_chunk (r, b))"
    by (auto simp: xml_escape_def)
  have err: "c \<notin> {CHR ''<'', CHR ''>'', CHR 0x22, CHR 0x27}" if "c \<in> set (string_of_runes [rune_error])"
  proof -
    have "(of_char c :: nat) \<in> {239, 191, 189}"
      using that by (auto simp: string_of_runes_def encode_rune_def rune_error_def is_scalar_def Let_def)
    then show ?thesis by auto
  qed
  show ?thesis
  proof (cases "r \<in> {34, 39, 38, 60, 62, 9, 10, 13}")
    case True
    with c show ?thesis by (auto simp: xml_escape_chunk_def)
  next
    case False
    show ?thesis
    proof (cases "\<not> in_xml_range r \<or> (r = rune_error \<and> length b = 1)")
      case True
      with False c err show ?thesis by (simp add: xml_escape_chunk_def split: if_splits)
    next
      case ok: False
      with False c have "c \<in> set b" by (auto simp: xml_escape_chunk_def)
      with rune_chunk_bytes [OF rb] ok False show ?thesis by auto
    qed
  qed
qed

text \<open>The wildcard of a patch file can name an embedded file outside of the LivePatch directory.\<close>

lemma PatchFile_leaves_LivePatch:
  "rq_wildcard c = ''../authcomplete.html'' \<Longrightarrow>
    PatchFile wb config c = sendPatchAsset wb ''public/authcomplete.html'' DefaultType"
  by (simp add: PatchFile_def path_Base_def strip_slashes_def path_Join_def path_Clean_def clean_step_def
    to_lower_def ascii_lower_def Let_def)

section \<open>Configuration\<close>

text \<open>The server starts exactly with a port and an environment name; everything else has a default.\<close>

lemma load_config_ok:
  assumes "\<And>s. required s \<longleftrightarrow> s \<noteq> []"
  shows "snd (load_config dotenv required env) = [] \<longleftrightarrow>
      GetEnvString (dotenv env) ''PORT'' \<noteq> [] \<and> GetEnvString (dotenv env) ''APPLICATION_ENV'' \<noteq> []"
    and "ac_LoginServerIP (fst (load_config dotenv required env)) \<noteq> []"
    and "ac_MongoURI (fst (load_config dotenv required env)) \<noteq> []"
  by (auto simp: load_config_def AppConfig_Validate_def Let_def assms GetEnvStringOr_def)

lemma starting_balance_default:
  "ParseUint64_ok (GetEnvString (dotenv env) ''STARTING_POINT'') = None \<Longrightarrow>
    ac_StartingPoint (fst (load_config dotenv required env)) = 50000"
  by (simp add: load_config_def GetEnvUint64Or_def Let_def)

end
