(* ===== verification/Go_Json.thy ===== *)
theory Go_Json
  imports Go_Url
begin

text \<open>
  What the program uses of \<open>encoding/json\<close>: objects of strings and booleans, written compactly or
  indented, and a reader for the format as RFC 8259 defines it, by which the encoder is measured.
\<close>

section \<open>Writing strings\<close>

definition json_hex :: "nat \<Rightarrow> char" where
  "json_hex n = (if n < 10 then char_of (48 + n) else char_of (87 + n))"

text \<open>
  One rune with the bytes it was read from, as \<open>json.Marshal\<close> writes it: the HTML characters and
  the two line separators are escaped, and a byte that is not UTF-8 becomes U+FFFD.
\<close>

definition json_escape_chunk :: "nat \<times> string \<Rightarrow> string" where
  "json_escape_chunk x = (case x of (r, bytes) \<Rightarrow>
     if r = 34 \<or> r = 92 then CHR 0x5C # bytes
     else if r = 10 then [CHR 0x5C, CHR ''n'']
     else if r = 13 then [CHR 0x5C, CHR ''r'']
     else if r = 9 then [CHR 0x5C, CHR ''t'']
     else if r < 32 \<or> r = 60 \<or> r = 62 \<or> r = 38 then CHR 0x5C # ''u00'' @ [json_hex (r div 16), json_hex (r mod 16)]
     else if r = rune_error \<and> length bytes = 1 then CHR 0x5C # ''ufffd''
     else if r = 0x2028 \<or> r = 0x2029 then CHR 0x5C # ''u202'' @ [json_hex (r mod 16)]
     else bytes)"

definition json_string :: "string \<Rightarrow> string" where
  "json_string s = CHR 0x22 # concat (map json_escape_chunk (rune_chunks s)) @ [CHR 0x22]"

datatype json_value = JString string | JBool bool

definition json_value_text :: "json_value \<Rightarrow> string" where
  "json_value_text v = (case v of JString s \<Rightarrow> json_string s | JBool b \<Rightarrow> if b then ''true'' else ''false'')"

type_synonym json_object = "(string \<times> json_value) list"

section \<open>Writing objects\<close>

definition json_Marshal :: "json_object \<Rightarrow> string" where
  "json_Marshal members =
     CHR ''{'' # join_with '','' (map (\<lambda>(k, v). json_string k @ '':'' @ json_value_text v) members) @ ''}''"

definition newline :: string where
  "newline = [CHR 0x0A]"

definition json_MarshalIndent :: "string \<Rightarrow> json_object \<Rightarrow> string" where
  "json_MarshalIndent indent members =
     (if members = [] then ''{}''
      else CHR ''{'' # newline @ indent
        @ join_with ('','' @ newline @ indent) (map (\<lambda>(k, v). json_string k @ '': '' @ json_value_text v) members)
        @ newline @ ''}'')"

section \<open>Reading\<close>

definition skip_ws :: "string \<Rightarrow> string" where
  "skip_ws s = dropWhile (\<lambda>c. c \<in> {CHR 0x20, CHR 0x0A, CHR 0x0D, CHR 0x09}) s"

definition expect :: "char \<Rightarrow> string \<Rightarrow> string option" where
  "expect c s = (case skip_ws s of x # rest \<Rightarrow> if x = c then Some rest else None | [] \<Rightarrow> None)"

fun simple_escape :: "char \<Rightarrow> char option" where
  "simple_escape c =
     (if c = CHR 0x22 \<or> c = CHR 0x5C \<or> c = CHR ''/'' then Some c
      else if c = CHR ''b'' then Some (CHR 0x08) else if c = CHR ''f'' then Some (CHR 0x0C)
      else if c = CHR ''n'' then Some (CHR 0x0A) else if c = CHR ''r'' then Some (CHR 0x0D)
      else if c = CHR ''t'' then Some (CHR 0x09) else None)"

definition hex_rune :: "char \<Rightarrow> char \<Rightarrow> char \<Rightarrow> char \<Rightarrow> nat option" where
  "hex_rune a b c d = (case (hex_value a, hex_value b, hex_value c, hex_value d) of
     (Some w, Some x, Some y, Some z) \<Rightarrow> Some (w * 4096 + x * 256 + y * 16 + z) | _ \<Rightarrow> None)"

text \<open>The rest of a string after its opening quote: its text, and what follows the closing quote.\<close>

fun read_chars :: "string \<Rightarrow> (string \<times> string) option" where
  "read_chars [] = None"
| "read_chars (c # cs) =
     (if c = CHR 0x22 then Some ([], cs)
      else if c = CHR 0x5C then
        (case cs of
           [] \<Rightarrow> None
         | e # rest \<Rightarrow>
             if e = CHR ''u'' then
               (case rest of
                  h1 # h2 # h3 # h4 # rest' \<Rightarrow> (case hex_rune h1 h2 h3 h4 of
                      None \<Rightarrow> None
                    | Some r \<Rightarrow> map_option (\<lambda>(t, out). (string_of_runes [r] @ t, out)) (read_chars rest'))
                | _ \<Rightarrow> None)
             else (case simple_escape e of
                  None \<Rightarrow> None
                | Some x \<Rightarrow> map_option (\<lambda>(t, out). (x # t, out)) (read_chars rest)))
      else if of_char c < (32 :: nat) then None
      else map_option (\<lambda>(t, out). (c # t, out)) (read_chars cs))"

definition read_value :: "string \<Rightarrow> (json_value \<times> string) option" where
  "read_value s = (case skip_ws s of
     [] \<Rightarrow> None
   | c # rest \<Rightarrow>
       if c = CHR 0x22 then map_option (\<lambda>(t, out). (JString t, out)) (read_chars rest)
       else if take 4 (c # rest) = ''true'' then Some (JBool True, drop 4 (c # rest))
       else if take 5 (c # rest) = ''false'' then Some (JBool False, drop 5 (c # rest))
       else None)"

definition read_member :: "string \<Rightarrow> ((string \<times> json_value) \<times> string) option" where
  "read_member s =
     Option.bind (expect (CHR 0x22) s) (\<lambda>s.
     Option.bind (read_chars s) (\<lambda>(k, s).
     Option.bind (expect (CHR '':'') s) (\<lambda>s.
     map_option (\<lambda>(v, s). ((k, v), s)) (read_value s))))"

text \<open>The members of an object; every member takes characters, so their number is bounded by the length.\<close>

fun read_members :: "nat \<Rightarrow> string \<Rightarrow> (json_object \<times> string) option" where
  "read_members 0 s = None"
| "read_members (Suc n) s =
     Option.bind (read_member s) (\<lambda>(m, s). case skip_ws s of
         c # rest \<Rightarrow>
           if c = CHR '','' then map_option (\<lambda>(ms, out). (m # ms, out)) (read_members n rest)
           else if c = CHR ''}'' then Some ([m], rest) else None
       | [] \<Rightarrow> None)"

text \<open>An object with at least one member.\<close>

definition read_object :: "string \<Rightarrow> (json_object \<times> string) option" where
  "read_object s = Option.bind (expect (CHR ''{'') s) (\<lambda>s. read_members (length s) s)"

section \<open>The runes of a string and the bytes they were read from\<close>

text \<open>The text a string stands for: bytes that are not UTF-8 replaced by U+FFFD.\<close>

definition valid_text :: "string \<Rightarrow> string" where
  "valid_text s = string_of_runes (runes_of_string s)"

fun valid_value :: "json_value \<Rightarrow> json_value" where
  "valid_value (JString s) = JString (valid_text s)"
| "valid_value (JBool b) = JBool b"

lemma low64: "z < 64 \<Longrightarrow> (q * 64 + z) div 64 = q" "z < 64 \<Longrightarrow> (q * 64 + z) mod 64 = z" for q z :: nat
  by simp_all

lemma digits64:
  fixes w x y z :: nat
  assumes b: "x < 64" "y < 64" "z < 64"
  shows "(y * 64 + z) mod 64 = z" "(y * 64 + z) div 64 = y"
    "(x * 4096 + y * 64 + z) mod 64 = z" "(x * 4096 + y * 64 + z) div 64 mod 64 = y" "(x * 4096 + y * 64 + z) div 4096 = x"
    "(w * 262144 + x * 4096 + y * 64 + z) mod 64 = z" "(w * 262144 + x * 4096 + y * 64 + z) div 64 mod 64 = y"
    "(w * 262144 + x * 4096 + y * 64 + z) div 4096 mod 64 = x" "(w * 262144 + x * 4096 + y * 64 + z) div 262144 = w"
proof -
  have three: "x * 4096 + y * 64 + z = (x * 64 + y) * 64 + z" and four: "w * 262144 + x * 4096 + y * 64 + z = ((w * 64 + x) * 64 + y) * 64 + z"
    by simp_all
  have deep: "n div 4096 = n div 64 div 64" "n div 262144 = n div 64 div 64 div 64" for n :: nat
    by (simp_all add: div_mult2_eq [symmetric])
  show "(y * 64 + z) mod 64 = z" "(y * 64 + z) div 64 = y" using low64 b by blast+
  show "(x * 4096 + y * 64 + z) mod 64 = z" "(x * 4096 + y * 64 + z) div 64 mod 64 = y" "(x * 4096 + y * 64 + z) div 4096 = x"
    unfolding three deep by (simp_all only: low64 b)
  show "(w * 262144 + x * 4096 + y * 64 + z) mod 64 = z" "(w * 262144 + x * 4096 + y * 64 + z) div 64 mod 64 = y"
    "(w * 262144 + x * 4096 + y * 64 + z) div 4096 mod 64 = x" "(w * 262144 + x * 4096 + y * 64 + z) div 262144 = w"
    unfolding four deep by (simp_all only: low64 b)
qed

lemma cont_E:
  assumes "is_cont b"
  obtains x where "b = 0x80 + x" "x < 64"
proof -
  have "b = 0x80 + (b - 0x80)" "b - 0x80 < 64" using assms by (auto simp: is_cont_def)
  then show ?thesis using that by blast
qed

lemma decode2_bytes:
  assumes "decode2 a bs = (r, w)" "w \<noteq> 1" "0xC2 \<le> a" "a \<le> 0xDF"
  shows "(\<forall>b \<in> set (take w (a # bs)). 0x80 \<le> b) \<and> encode_rune r = take w (a # bs)"
proof -
  obtain b cs where bs: "bs = b # cs" "is_cont b" and r: "r = (a - 0xC0) * 64 + (b - 0x80)" "w = 2"
    using assms(1,2) by (auto simp: decode2_def split: list.splits if_splits)
  obtain y where y: "b = 0x80 + y" "y < 64" using bs(2) by (rule cont_E)
  define x where "x = a - 0xC0"
  have x: "a = 0xC0 + x" "2 \<le> x" "x < 32" using assms(3,4) by (simp_all add: x_def)
  have n: "r = x * 64 + y" using r x y by simp
  have "\<not> r < 128" "r < 2048" using n x y(2) by linarith+
  then have "encode_rune r = [0xC0 + r div 64, 0x80 + r mod 64]" by (simp add: encode_rune_def is_scalar_def)
  then show ?thesis using n x y r(2) bs(1) low64 [OF y(2), of x] by simp
qed

lemma decode3_bytes:
  assumes "decode3 a bs = (r, w)" "w \<noteq> 1" "0xE0 \<le> a" "a \<le> 0xEF"
  shows "(\<forall>b \<in> set (take w (a # bs)). 0x80 \<le> b) \<and> encode_rune r = take w (a # bs)"
proof -
  obtain b c cs where bs: "bs = b # c # cs" "second3 a b" "is_cont c" and r: "r = (a - 0xE0) * 4096 + (b - 0x80) * 64 + (c - 0x80)" "w = 3"
    using assms(1,2) by (auto simp: decode3_def split: list.splits if_splits)
  obtain z where z: "c = 0x80 + z" "z < 64" using bs(3) by (rule cont_E)
  have "is_cont b" using bs(2) by (auto simp: second3_def is_cont_def split: if_splits)
  then obtain y where y: "b = 0x80 + y" "y < 64" by (rule cont_E)
  define x where "x = a - 0xE0"
  have x: "a = 0xE0 + x" "x < 64" using assms(3,4) by (simp_all add: x_def)
  have n: "r = x * 4096 + y * 64 + z" using r x y z by simp
  have "x = 0 \<Longrightarrow> 32 \<le> y" using bs(2) by (simp add: second3_def x y split: if_splits)
  then have "\<not> r < 2048" "r < 65536" using n x y(2) z(2) assms(4) by (cases "x = 0"; linarith)+
  moreover have "is_scalar r" using decode3_scalar [OF assms(3,4), of bs] assms(1) by simp
  ultimately have "encode_rune r = [0xE0 + r div 4096, 0x80 + (r div 64) mod 64, 0x80 + r mod 64]" by (simp add: encode_rune_def)
  then have "encode_rune r = [a, b, c]" unfolding n using digits64(3-5) [OF x(2) y(2) z(2)] x(1) y(1) z(1) by (simp only:)
  then show ?thesis using x y z r(2) bs(1) by simp
qed

lemma decode4_bytes:
  assumes "decode4 a bs = (r, w)" "w \<noteq> 1" "0xF0 \<le> a" "a \<le> 0xF4"
  shows "(\<forall>b \<in> set (take w (a # bs)). 0x80 \<le> b) \<and> encode_rune r = take w (a # bs)"
proof -
  obtain b c d cs where bs: "bs = b # c # d # cs" "second4 a b" "is_cont c" "is_cont d"
    and r: "r = (a - 0xF0) * 262144 + (b - 0x80) * 4096 + (c - 0x80) * 64 + (d - 0x80)" "w = 4"
    using assms(1,2) by (auto simp: decode4_def split: list.splits if_splits)
  obtain z where z: "d = 0x80 + z" "z < 64" using bs(4) by (rule cont_E)
  obtain y where y: "c = 0x80 + y" "y < 64" using bs(3) by (rule cont_E)
  have "is_cont b" using bs(2) by (auto simp: second4_def is_cont_def split: if_splits)
  then obtain x where x: "b = 0x80 + x" "x < 64" by (rule cont_E)
  define v where "v = a - 0xF0"
  have v: "a = 0xF0 + v" using assms(3) by (simp add: v_def)
  have n: "r = v * 262144 + x * 4096 + y * 64 + z" using r v x y z by simp
  have "v = 0 \<Longrightarrow> 16 \<le> x" using bs(2) by (simp add: second4_def v x split: if_splits)
  then have "\<not> r < 65536" using n by (cases "v = 0"; linarith)
  moreover have "is_scalar r" using decode4_scalar [OF assms(3,4), of bs] assms(1) by simp
  ultimately have "encode_rune r = [0xF0 + r div 262144, 0x80 + (r div 4096) mod 64, 0x80 + (r div 64) mod 64, 0x80 + r mod 64]"
    by (simp add: encode_rune_def)
  then have "encode_rune r = [a, b, c, d]" unfolding n using digits64(6-9) [OF x(2) y(2) z(2)] v x(1) y(1) z(1) by (simp only:)
  then show ?thesis using v x y z r(2) bs(1) by simp
qed

lemma decoded_bytes:
  assumes "decode_rune a bs = (r, w)"
  shows "(a < 0x80 \<and> r = a \<and> w = 1) \<or> (r = rune_error \<and> w = 1 \<and> 0x80 \<le> a) \<or>
    ((\<forall>b \<in> set (take w (a # bs)). 0x80 \<le> b) \<and> encode_rune r = take w (a # bs))"
proof -
  have forms: "w = 1 \<Longrightarrow> r = rune_error" if "decode2 a bs = (r, w) \<or> decode3 a bs = (r, w) \<or> decode4 a bs = (r, w)"
    using that by (auto simp: decode2_def decode3_def decode4_def split: list.splits if_splits)
  consider "a < 0x80" "r = a" "w = 1" | "0xC2 \<le> a" "a \<le> 0xDF" "decode2 a bs = (r, w)" | "0xE0 \<le> a" "a \<le> 0xEF" "decode3 a bs = (r, w)"
    | "0xF0 \<le> a" "a \<le> 0xF4" "decode4 a bs = (r, w)" | "0x80 \<le> a" "r = rune_error" "w = 1"
    using assms unfolding decode_rune_def by (auto split: if_splits)
  then show ?thesis
  proof cases
    case 2
    then show ?thesis using decode2_bytes [of a bs r w] forms by (cases "w = 1") simp_all
  next
    case 3
    then show ?thesis using decode3_bytes [of a bs r w] forms by (cases "w = 1") simp_all
  next
    case 4
    then show ?thesis using decode4_bytes [of a bs r w] forms by (cases "w = 1") simp_all
  qed simp_all
qed

lemma chunk_cases:
  assumes "(r, bs) \<in> set (rune_chunks s)"
  obtains (Ascii) c where "bs = [c]" "r = of_char c" "r < 0x80"
  | (Invalid) "length bs = 1" "r = rune_error"
  | (Utf8) "\<forall>c \<in> set bs. 0x80 \<le> (of_char c :: nat)" "bs = map char_of (encode_rune r)"
  using assms
proof (induction s arbitrary: thesis rule: rune_chunks.induct)
  case (2 c cs)
  obtain r' w where d: "decode_rune (of_char c) (map of_char cs) = (r', w)" by fastforce
  show ?case
  proof (cases "(r, bs) \<in> set (rune_chunks (drop (w - 1) cs))")
    case True
    then show ?thesis using 2(1) [OF d [symmetric] refl] 2(2-4) by blast
  next
    case False
    then have x: "r = r'" "bs = take w (c # cs)" using 2(5) d by auto
    have map_bs: "map of_char bs = take w (of_char c # map of_char cs)" unfolding x(2) by (metis list.simps(9) take_map)
    from decoded_bytes [OF d] show ?thesis
    proof (elim disjE conjE)
      assume "of_char c < (0x80 :: nat)" "r' = of_char c" "w = 1"
      then show ?thesis using 2(2) x by simp
    next
      assume "r' = rune_error" "w = 1"
      then show ?thesis using 2(3) x by simp
    next
      assume big: "\<forall>b \<in> set (take w (of_char c # map of_char cs)). (0x80 :: nat) \<le> b"
        and e: "encode_rune r' = take w (of_char c # map of_char cs)"
      have "map char_of (map of_char bs :: nat list) = bs" by (simp add: comp_def)
      then have "bs = map char_of (encode_rune r)" unfolding x(1) e map_bs [symmetric] by simp
      moreover have "\<forall>c \<in> set bs. 0x80 \<le> (of_char c :: nat)" using big unfolding map_bs [symmetric] by simp
      ultimately show ?thesis using 2(4) by blast
    qed
  qed
qed simp

lemma runes_chunks: "runes_of_string s = map fst (rune_chunks s)"
  unfolding runes_of_string_def
  by (induction s rule: rune_chunks.induct) (auto simp: Let_def drop_map split: prod.split)

lemma valid_text_chunks: "valid_text s = concat (map (\<lambda>x. string_of_runes [fst x]) (rune_chunks s))"
  by (simp add: valid_text_def runes_chunks string_of_runes_def map_concat comp_def)

lemma hex_value_json: "n < 16 \<Longrightarrow> hex_value (json_hex n) = Some n"
  by (auto simp: hex_value_def json_hex_def Let_def)

lemma hex_rune_byte: "r < 256 \<Longrightarrow> hex_rune (CHR ''0'') (CHR ''0'') (json_hex (r div 16)) (json_hex (r mod 16)) = Some r"
  by (simp add: hex_rune_def hex_value_json) (simp add: hex_value_def)

section \<open>What is written is read back\<close>

lemma ascii_text: "r < 0x80 \<Longrightarrow> r = of_char c \<Longrightarrow> string_of_runes [r] = [c]"
  by (simp add: string_of_runes_def encode_rune_def is_scalar_def)

lemma read_literal:
  "\<forall>c \<in> set bs. 0x80 \<le> (of_char c :: nat) \<Longrightarrow> read_chars (bs @ rest) = map_option (\<lambda>(t, out). (bs @ t, out)) (read_chars rest)"
proof (induction bs)
  case Nil
  then show ?case by (cases "read_chars rest") auto
next
  case (Cons c bs)
  then have "c \<noteq> CHR 0x22" "c \<noteq> CHR 0x5C" "\<not> of_char c < (32 :: nat)" by auto
  then show ?case using Cons by (cases "read_chars rest") auto
qed

lemma marks: "char_of (34 :: nat) = CHR 0x22" "char_of (92 :: nat) = CHR 0x5C" "char_of (10 :: nat) = CHR 0x0A"
    "char_of (13 :: nat) = CHR 0x0D" "char_of (9 :: nat) = CHR 0x09"
  by code_simp+

lemma read_ascii:
  assumes r: "r = of_char c" "r < 0x80"
  shows "read_chars (json_escape_chunk (r, [c]) @ rest) = map_option (\<lambda>(t, out). (string_of_runes [r] @ t, out)) (read_chars rest)"
proof -
  have eq: "c = char_of r" using r(1) by simp
  consider "r = 34 \<or> r = 92" | "r = 10" | "r = 13" | "r = 9"
    | "r < 32 \<or> r = 60 \<or> r = 62 \<or> r = 38" "r \<notin> {10, 13, 9}"
    | "32 \<le> r" "r \<notin> {34, 92, 60, 62, 38}" by auto linarith
  then show ?thesis
  proof cases
    case 5
    then have "json_escape_chunk (r, [c]) = CHR 0x5C # ''u00'' @ [json_hex (r div 16), json_hex (r mod 16)]"
      by (auto simp: json_escape_chunk_def)
    then show ?thesis using hex_rune_byte [of r] r(2) by simp
  next
    case 6
    then have "json_escape_chunk (r, [c]) = [c]" "c \<noteq> CHR 0x22" "c \<noteq> CHR 0x5C"
      using r by (auto simp: json_escape_chunk_def rune_error_def)
    then show ?thesis using 6(1) r ascii_text [OF r(2,1)] by simp
  qed (use ascii_text [OF r(2,1)] in \<open>auto simp: json_escape_chunk_def eq marks\<close>)
qed

lemma read_chunk:
  assumes "x \<in> set (rune_chunks s)"
  shows "read_chars (json_escape_chunk x @ rest) = map_option (\<lambda>(t, out). (string_of_runes [fst x] @ t, out)) (read_chars rest)"
proof -
  obtain r bs where x: "x = (r, bs)" by fastforce
  from assms have "(r, bs) \<in> set (rune_chunks s)" by (simp add: x)
  then show ?thesis
  proof (cases rule: chunk_cases)
    case (Ascii c)
    then show ?thesis using read_ascii [of r c rest] by (simp add: x)
  next
    case Invalid
    then show ?thesis by (simp add: x json_escape_chunk_def rune_error_def hex_rune_def hex_value_def)
  next
    case Utf8
    have r: "\<not> r < 0x80"
    proof
      assume "r < 0x80"
      then have "encode_rune r = [r]" by (simp add: encode_rune_def is_scalar_def)
      then show False using Utf8 \<open>r < 0x80\<close> by simp
    qed
    have "length (encode_rune rune_error) = 3" by (simp add: encode_rune_def rune_error_def is_scalar_def)
    then have "\<not> (r = rune_error \<and> length bs = 1)" using Utf8 by auto
    moreover have "string_of_runes [r] = bs" using Utf8 by (simp add: string_of_runes_def)
    ultimately show ?thesis
      using r read_literal [OF Utf8(1)]
      by (auto simp: x json_escape_chunk_def hex_rune_def hex_value_def json_hex_def)
  qed
qed

lemma read_json_string: "read_chars (concat (map json_escape_chunk (rune_chunks s)) @ CHR 0x22 # rest) = Some (valid_text s, rest)"
proof -
  have "read_chars (concat (map json_escape_chunk xs) @ CHR 0x22 # rest) = Some (concat (map (\<lambda>x. string_of_runes [fst x]) xs), rest)"
    if "set xs \<subseteq> set (rune_chunks s)" for xs
    using that
  proof (induction xs)
    case (Cons x xs)
    then have "x \<in> set (rune_chunks s)" by simp
    from read_chunk [OF this] show ?case using Cons by simp
  qed simp
  then show ?thesis by (simp add: valid_text_chunks)
qed

definition blank :: "string \<Rightarrow> bool" where
  "blank ws \<longleftrightarrow> set ws \<subseteq> {CHR 0x20, CHR 0x0A, CHR 0x0D, CHR 0x09}"

lemma skip_blank [simp]: "blank ws \<Longrightarrow> skip_ws (ws @ s) = skip_ws s"
  by (induction ws) (auto simp: skip_ws_def blank_def)

lemma skip_mark: "c \<notin> {CHR 0x20, CHR 0x0A, CHR 0x0D, CHR 0x09} \<Longrightarrow> skip_ws (c # s) = c # s"
  by (simp add: skip_ws_def)

lemma blanks: "blank []" "blank newline" "blank (newline @ ws) = blank ws" "blank (CHR 0x20 # ws) = blank ws"
  by (simp_all add: blank_def newline_def)

lemma read_json_value:
  assumes "blank ws"
  shows "read_value (ws @ json_value_text v @ rest) = Some (valid_value v, rest)"
proof (cases v)
  case (JString s)
  then show ?thesis using assms
    by (simp add: read_value_def json_value_text_def json_string_def skip_mark read_json_string)
next
  case (JBool b)
  then show ?thesis using assms by (cases b) (simp_all add: read_value_def json_value_text_def skip_mark)
qed

lemma read_json_member:
  assumes "blank ws" and "blank ws'"
  shows "read_member (ws @ json_string k @ CHR '':'' # ws' @ json_value_text v @ rest) = Some ((valid_text k, valid_value v), rest)"
  using assms by (simp add: read_member_def expect_def json_string_def skip_mark read_json_string read_json_value)

lemma read_json_members:
  assumes ws: "blank ws" "blank ws'" "blank ws2"
  shows "ms \<noteq> [] \<Longrightarrow> length ms \<le> n \<Longrightarrow>
    read_members n (ws @ join_with ('','' @ ws) (map (\<lambda>(k, v). json_string k @ CHR '':'' # ws' @ json_value_text v) ms) @ ws2 @ CHR ''}'' # rest) =
      Some (map (\<lambda>(k, v). (valid_text k, valid_value v)) ms, rest)"
proof (induction ms arbitrary: n)
  case (Cons m ms)
  obtain k v where m: "m = (k, v)" by fastforce
  obtain n' where n: "n = Suc n'" using Cons.prems(2) by (cases n) auto
  show ?case
  proof (cases ms)
    case Nil
    then show ?thesis using ws by (simp add: m n read_json_member skip_mark)
  next
    case (Cons x xs)
    then show ?thesis using Cons.IH [of n'] Cons.prems(2) ws by (simp add: m n read_json_member skip_mark)
  qed
qed simp

lemma length_join: "length ms \<le> length (join_with sep (map f ms) @ CHR ''}'' # rest)" if "\<And>x. f x \<noteq> []"
proof -
  have "length ms \<le> length (join_with sep (map f ms))"
  proof (induction ms)
    case (Cons m ms)
    have "1 \<le> length (f m)" using that by (cases "f m") auto
    then show ?case using Cons by (cases ms) auto
  qed simp
  then show ?thesis by simp
qed

text \<open>Both layouts of a non-empty object read back to its members, whatever follows it.\<close>

lemma read_json_object:
  assumes "members \<noteq> []" and "blank indent"
  shows "read_object (json_Marshal members @ rest) = Some (map (\<lambda>(k, v). (valid_text k, valid_value v)) members, rest)"
    and "read_object (json_MarshalIndent indent members @ rest) = Some (map (\<lambda>(k, v). (valid_text k, valid_value v)) members, rest)"
proof -
  let ?text = "\<lambda>ws (k, v). json_string k @ CHR '':'' # ws @ json_value_text v"
  have len: "length members \<le> length (join_with sep (map (?text ws) members) @ CHR ''}'' # rest)" for sep ws
    by (rule length_join) (simp add: json_string_def split: prod.split)
  show "read_object (json_Marshal members @ rest) = Some (map (\<lambda>(k, v). (valid_text k, valid_value v)) members, rest)"
    using read_json_members [of "[]" "[]" "[]" members, OF _ _ _ assms(1)] len [of "'',''" "[]"]
    by (simp add: read_object_def json_Marshal_def expect_def skip_mark blanks del: read_members.simps)
  show "read_object (json_MarshalIndent indent members @ rest) = Some (map (\<lambda>(k, v). (valid_text k, valid_value v)) members, rest)"
    using read_json_members [of "newline @ indent" "[CHR 0x20]" newline members, OF _ _ _ assms(1)]
      len [of "'','' @ newline @ indent" "[CHR 0x20]"] assms
    by (simp add: read_object_def json_MarshalIndent_def expect_def skip_mark blanks del: read_members.simps)
qed

end
