(* ===== verification/Logging.thy ===== *)
theory Logging
  imports Launcher Go_Json Go_Hash
begin

text \<open>
  The log (pkg/logger/logger.go), the request logger (middlewares) and the health check, whose
  handlers write to it. A reading of the clock is a point in time with the offset of the local zone
  in seconds; what \<open>fmt.Print\<close> has written is the string the operations append to.
\<close>

section \<open>The clock (pkg/clock)\<close>

type_synonym timestamp = "time \<times> int"

definition digit_char :: "int \<Rightarrow> char" where
  "digit_char n = char_of (48 + n)"

definition two_digits :: "int \<Rightarrow> string" where
  "two_digits n = [digit_char (n div 10 mod 10), digit_char (n mod 10)]"

definition RFC3339 :: "timestamp \<Rightarrow> string" where
  "RFC3339 stamp = (case stamp of (t, offset) \<Rightarrow>
     let t = t + offset * second; s = t div second mod 86400; minutes = \<bar>offset\<bar> div 60 in
     case go_date t of (y, m, d) \<Rightarrow>
       two_digits (y div 100) @ two_digits y @ ''-'' @ two_digits m @ ''-'' @ two_digits d @ ''T'' @
       two_digits (s div 3600) @ '':'' @ two_digits (s div 60 mod 60) @ '':'' @ two_digits (s mod 60) @
       (if offset = 0 then ''Z''
        else (if offset < 0 then ''-'' else ''+'') @ two_digits (minutes div 60) @ '':'' @ two_digits (minutes mod 60)))"

text \<open>\<open>clock.Mock\<close>: 2021-02-21 01:10:30 UTC.\<close>

definition mock_timestamp :: timestamp where
  "mock_timestamp = (unix_epoch + 1613869830 * second, 0)"

lemma digit_chars [simp]:
  "digit_char 0 = CHR ''0''" "digit_char 1 = CHR ''1''" "digit_char 2 = CHR ''2''" "digit_char 3 = CHR ''3''" "digit_char 4 = CHR ''4''"
  "digit_char 5 = CHR ''5''" "digit_char 6 = CHR ''6''" "digit_char 7 = CHR ''7''" "digit_char 8 = CHR ''8''" "digit_char 9 = CHR ''9''"
  by (simp_all add: digit_char_def char_of_def)

lemma mock_clock: "RFC3339 mock_timestamp = ''2021-02-21T01:10:30Z''"
proof -
  define t where "t = fst mock_timestamp"
  have "t = 63749466630 * second" by (simp add: t_def mock_timestamp_def unix_epoch_def)
  then have days: "t div (86400 * second) = 737841" and clock: "t div second mod 86400 = 4230" by (simp_all add: second_def)
  have year: "year_of_days 737841 = 2021" by (simp add: year_of_days_def)
  have "month_day 1 (month_lengths 2021) (737841 - year_start 2021) = (2, 21)"
    by (simp add: year_start_def month_lengths_def leap_year_def)
  then have date: "go_date t = (2021, 2, 21)" by (simp add: go_date_def Let_def days year)
  have "RFC3339 (t, 0) = ''2021-02-21T01:10:30Z''" by (simp add: RFC3339_def Let_def date clock two_digits_def)
  moreover have "mock_timestamp = (t, 0)" by (simp add: t_def mock_timestamp_def)
  ultimately show ?thesis by simp
qed

section \<open>Messages\<close>

type_synonym LogLevelEnum = string

definition LogLevelEmergency :: LogLevelEnum where "LogLevelEmergency = ''EMERGENCY''"
definition LogLevelError :: LogLevelEnum where "LogLevelError = ''ERROR''"
definition LogLevelWarn :: LogLevelEnum where "LogLevelWarn = ''WARN''"
definition LogLevelInfo :: LogLevelEnum where "LogLevelInfo = ''INFO''"
definition LogLevelDebug :: LogLevelEnum where "LogLevelDebug = ''DEBUG''"
definition LogLevelTrace :: LogLevelEnum where "LogLevelTrace = ''TRACE''"

text \<open>The context is nil or the text \<open>fmt.Sprintf("%s", ...)\<close> makes of it.\<close>

record LogMessageOptions =
  lo_GlobalEventName :: string
  lo_Context :: "string option"

definition no_options :: LogMessageOptions where
  "no_options = \<lparr>lo_GlobalEventName = [], lo_Context = None\<rparr>"

record LogMessage =
  lm_GlobalEventTimestamp :: string
  lm_GlobalEventName :: string
  lm_Level :: LogLevelEnum
  lm_Context :: string
  lm_Message :: string
  lm_ServiceName :: string
  lm_SessionID :: string
  lm_TraceID :: string

record Logger =
  lg_SessionID :: string
  lg_ServiceName :: string
  lg_TraceID :: string
  lg_IsDevelopmentEnvironment :: bool

definition Logger_New :: "string \<Rightarrow> bool \<Rightarrow> Logger" where
  "Logger_New serviceName isDevelopment =
     \<lparr>lg_SessionID = [], lg_ServiceName = serviceName, lg_TraceID = [], lg_IsDevelopmentEnvironment = isDevelopment\<rparr>"

text \<open>The struct as \<open>json.Marshal\<close> sees it, by its tags.\<close>

definition omitempty :: "string \<Rightarrow> string \<Rightarrow> json_object" where
  "omitempty key v = (if v = [] then [] else [(key, JString v)])"

definition message_members :: "LogMessage \<Rightarrow> json_object" where
  "message_members m =
     [(''global_event_timestamp'', JString (lm_GlobalEventTimestamp m))] @
     omitempty ''global_event_name'' (lm_GlobalEventName m) @
     [(''level'', JString (lm_Level m))] @
     omitempty ''context'' (lm_Context m) @
     [(''message'', JString (lm_Message m)), (''service_name'', JString (lm_ServiceName m))] @
     omitempty ''session_id'' (lm_SessionID m) @
     omitempty ''trace_id'' (lm_TraceID m)"

definition log_message :: "Logger \<Rightarrow> timestamp \<Rightarrow> string \<Rightarrow> LogLevelEnum \<Rightarrow> LogMessageOptions \<Rightarrow> LogMessage" where
  "log_message logger now message level opts =
     (let logMessage = \<lparr>lm_GlobalEventTimestamp = RFC3339 now, lm_GlobalEventName = [], lm_Level = level, lm_Context = [],
            lm_Message = message, lm_ServiceName = lg_ServiceName logger, lm_SessionID = lg_SessionID logger,
            lm_TraceID = lg_TraceID logger\<rparr>;
          logMessage = (if lo_GlobalEventName opts \<noteq> []
            then logMessage\<lparr>lm_GlobalEventName := lo_GlobalEventName opts\<rparr> else logMessage)
      in case lo_Context opts of
           None \<Rightarrow> logMessage
         | Some context \<Rightarrow> if context \<noteq> [] then logMessage\<lparr>lm_Context := context\<rparr> else logMessage)"

text \<open>The encoder has an error result; an object of strings always marshals.\<close>

definition FormatMessage :: "Logger \<Rightarrow> timestamp \<Rightarrow> string \<Rightarrow> LogLevelEnum \<Rightarrow> LogMessageOptions \<Rightarrow> string + string" where
  "FormatMessage logger now message level opts =
     (let logMessage = message_members (log_message logger now message level opts);
          marshal = (\<lambda>m. Inr (json_Marshal m) :: string + string);
          marshalIndent = (\<lambda>m. Inr (json_MarshalIndent ''    '' m) :: string + string)
      in if lg_IsDevelopmentEnvironment logger
         then (case marshalIndent logMessage of Inl err \<Rightarrow> Inl err | Inr text \<Rightarrow> Inr text)
         else (case marshal logMessage of Inl err \<Rightarrow> Inl err | Inr text \<Rightarrow> Inr text))"

section \<open>Logging\<close>

definition Log :: "Logger \<Rightarrow> timestamp \<Rightarrow> string \<Rightarrow> LogLevelEnum \<Rightarrow> LogMessageOptions \<Rightarrow> string \<Rightarrow> string" where
  "Log logger now message level opts out =
     (case FormatMessage logger now message level opts of
        Inl err \<Rightarrow> out @ err @ newline
      | Inr formattedMessage \<Rightarrow> out @ formattedMessage)"

definition EmergencyWithOptions :: "Logger \<Rightarrow> timestamp \<Rightarrow> string \<Rightarrow> LogMessageOptions \<Rightarrow> string \<Rightarrow> string" where
  "EmergencyWithOptions logger now message opts = Log logger now message LogLevelEmergency opts"

definition Emergency :: "Logger \<Rightarrow> timestamp \<Rightarrow> string \<Rightarrow> string \<Rightarrow> string" where
  "Emergency logger now message = Log logger now message LogLevelEmergency no_options"

definition ErrorWithOptions :: "Logger \<Rightarrow> timestamp \<Rightarrow> string \<Rightarrow> LogMessageOptions \<Rightarrow> string \<Rightarrow> string" where
  "ErrorWithOptions logger now message opts = Log logger now message LogLevelError opts"

definition Error :: "Logger \<Rightarrow> timestamp \<Rightarrow> string \<Rightarrow> string \<Rightarrow> string" where
  "Error logger now message = Log logger now message LogLevelError no_options"

definition WarnWithOptions :: "Logger \<Rightarrow> timestamp \<Rightarrow> string \<Rightarrow> LogMessageOptions \<Rightarrow> string \<Rightarrow> string" where
  "WarnWithOptions logger now message opts = Log logger now message LogLevelWarn opts"

definition Warn :: "Logger \<Rightarrow> timestamp \<Rightarrow> string \<Rightarrow> string \<Rightarrow> string" where
  "Warn logger now message = Log logger now message LogLevelWarn no_options"

definition InfoWithOptions :: "Logger \<Rightarrow> timestamp \<Rightarrow> string \<Rightarrow> LogMessageOptions \<Rightarrow> string \<Rightarrow> string" where
  "InfoWithOptions logger now message opts = Log logger now message LogLevelInfo opts"

definition Info :: "Logger \<Rightarrow> timestamp \<Rightarrow> string \<Rightarrow> string \<Rightarrow> string" where
  "Info logger now message = Log logger now message LogLevelInfo no_options"

text \<open>Debug and trace messages are for development only.\<close>

definition DebugWithOptions :: "Logger \<Rightarrow> timestamp \<Rightarrow> string \<Rightarrow> LogMessageOptions \<Rightarrow> string \<Rightarrow> string" where
  "DebugWithOptions logger now message opts out =
     (if \<not> lg_IsDevelopmentEnvironment logger then out else Log logger now message LogLevelDebug opts out)"

definition Debug :: "Logger \<Rightarrow> timestamp \<Rightarrow> string \<Rightarrow> string \<Rightarrow> string" where
  "Debug logger now message out =
     (if \<not> lg_IsDevelopmentEnvironment logger then out else Log logger now message LogLevelDebug no_options out)"

definition TraceWithOptions :: "Logger \<Rightarrow> timestamp \<Rightarrow> string \<Rightarrow> LogMessageOptions \<Rightarrow> string \<Rightarrow> string" where
  "TraceWithOptions logger now message opts out =
     (if \<not> lg_IsDevelopmentEnvironment logger then out else Log logger now message LogLevelTrace opts out)"

definition Trace :: "Logger \<Rightarrow> timestamp \<Rightarrow> string \<Rightarrow> string \<Rightarrow> string" where
  "Trace logger now message out =
     (if \<not> lg_IsDevelopmentEnvironment logger then out else Log logger now message LogLevelTrace no_options out)"

section \<open>The request logger (request\_logger.go)\<close>

fun Itoa :: "nat \<Rightarrow> string" where
  "Itoa n = (if n < 10 then [digit_char (int n)] else Itoa (n div 10) @ [digit_char (int (n mod 10))])"

text \<open>\<open>next\<close> runs the rest of the request: its error, and the status of the response by then.\<close>

definition RequestLogger :: "Logger \<Rightarrow> timestamp \<Rightarrow> string \<Rightarrow> string \<Rightarrow> ('w \<Rightarrow> ('e option \<times> nat) \<times> 'w) \<Rightarrow>
    'w \<times> string \<Rightarrow> 'e option \<times> 'w \<times> string" where
  "RequestLogger logger now method url next = (\<lambda>(w, out).
     case next w of ((err, status), w) \<Rightarrow>
       (err, w, Info logger now (method @ '' '' @ url @ '' -> '' @ Itoa status) out))"

section \<open>Health check (health\_check\_handler.go, health\_check\_router.go)\<close>

definition GetStatus :: "Logger \<Rightarrow> timestamp \<Rightarrow> AppConfig \<Rightarrow> string \<Rightarrow> json_object \<times> string" where
  "GetStatus logger now config out =
     ([(''serviceName'', JString (ac_ServiceName config)), (''status'', JString ''OK''),
       (''environment'', JString (ac_ApplicationEnv config))],
      Info logger now ''Executing Health Check...'' out)"

definition Alive :: json_object where
  "Alive = [(''alive'', JBool True)]"

text \<open>A Go map is written with its keys in order.\<close>

definition json_map :: "json_object \<Rightarrow> json_object" where
  "json_map members = map (\<lambda>k. (k, the (map_of members k))) (sort (map fst members))"

definition send_json :: "json_object \<Rightarrow> response" where
  "send_json members = SendText StatusOK (Header ''application/json'') (json_Marshal (json_map members))"

definition health_routes :: "Logger \<Rightarrow> AppConfig \<Rightarrow> (string \<times> (timestamp \<Rightarrow> string \<Rightarrow> response \<times> string)) list" where
  "health_routes logger config =
     [(''/health-check'', \<lambda>now out. (case GetStatus logger now config out of (m, out) \<Rightarrow> (send_json m, out))),
      (''/alive'', \<lambda>now out. (send_json Alive, out))]"

section \<open>Reading a log\<close>

text \<open>The objects of a log, one after the other; there can be no more of them than characters.\<close>

fun read_log :: "nat \<Rightarrow> string \<Rightarrow> json_object list option" where
  "read_log n s =
     (if skip_ws s = [] then Some []
      else case n of
          0 \<Rightarrow> None
        | Suc n \<Rightarrow> Option.bind (read_object s) (\<lambda>(members, rest). map_option ((#) members) (read_log n rest)))"

declare read_log.simps [simp del] Itoa.simps [simp del]

definition valid_members :: "json_object \<Rightarrow> json_object" where
  "valid_members members = map (\<lambda>(k, v). (valid_text k, valid_value v)) members"

definition log_text :: "Logger \<Rightarrow> LogMessage \<Rightarrow> string" where
  "log_text logger m =
     (if lg_IsDevelopmentEnvironment logger then json_MarshalIndent ''    '' (message_members m) else json_Marshal (message_members m))"

lemma Log_text: "Log logger now message level opts out = out @ log_text logger (log_message logger now message level opts)"
  by (simp add: Log_def FormatMessage_def log_text_def Let_def)

lemma read_log_text: "read_object (log_text logger m @ rest) = Some (valid_members (message_members m), rest)"
proof -
  have "message_members m \<noteq> []" by (simp add: message_members_def)
  then show ?thesis
    using read_json_object [of "message_members m" "''    ''"] by (simp add: log_text_def blank_def valid_members_def)
qed

lemma log_text_start: "skip_ws (log_text logger m @ rest) \<noteq> []"
  by (simp add: log_text_def json_Marshal_def json_MarshalIndent_def skip_mark)

type_synonym log_entry = "timestamp \<times> string \<times> LogLevelEnum \<times> LogMessageOptions"

definition write_log :: "Logger \<Rightarrow> log_entry list \<Rightarrow> string \<Rightarrow> string" where
  "write_log logger entries = fold (\<lambda>(now, message, level, opts). Log logger now message level opts) entries"

lemma write_log_text:
  "write_log logger entries out = out @ concat (map (\<lambda>(now, message, level, opts). log_text logger (log_message logger now message level opts)) entries)"
  by (induction entries arbitrary: out) (auto simp: write_log_def Log_text)

text \<open>The objects of a log are the members of its messages, and these are what was passed to \<open>Log\<close>.\<close>

lemma read_log_written:
  "read_log (length entries) (write_log logger entries []) =
     Some (map (\<lambda>(now, message, level, opts). valid_members (message_members (log_message logger now message level opts))) entries)"
proof (induction entries)
  case Nil
  then show ?case by (simp add: write_log_def skip_ws_def read_log.simps)
next
  case (Cons e entries)
  then show ?case
    using log_text_start read_log_text
    by (cases e) (simp add: write_log_text read_log.simps [of "Suc _"])
qed

lemma valid_text_plain:
  assumes "list_all plain_char s"
  shows "valid_text s = s"
proof -
  have "map char_of (encode_rune (of_char c)) = [c]" if "plain_char c" for c
    using that by (simp add: plain_char_iff encode_rune_def is_scalar_def)
  with assms have "map char_of (concat (map (\<lambda>c. encode_rune (of_char c)) s)) = s"
    by (induction s) auto
  then show ?thesis
    by (simp add: valid_text_def runes_chunks rune_chunks_plain [OF assms] string_of_runes_def comp_def)
qed

lemma plain_keys:
  "valid_text ''global_event_timestamp'' = ''global_event_timestamp''" "valid_text ''global_event_name'' = ''global_event_name''"
  "valid_text ''level'' = ''level''" "valid_text ''context'' = ''context''" "valid_text ''message'' = ''message''"
  "valid_text ''service_name'' = ''service_name''" "valid_text ''session_id'' = ''session_id''" "valid_text ''trace_id'' = ''trace_id''"
  by (rule valid_text_plain, simp)+

lemma written_members:
  "valid_members (message_members (log_message logger now message level opts)) =
       [(''global_event_timestamp'', JString (valid_text (RFC3339 now)))] @
       (if lo_GlobalEventName opts = [] then [] else [(''global_event_name'', JString (valid_text (lo_GlobalEventName opts)))]) @
       [(''level'', JString (valid_text level))] @
       (case lo_Context opts of None \<Rightarrow> [] | Some text \<Rightarrow> if text = [] then [] else [(''context'', JString (valid_text text))]) @
       [(''message'', JString (valid_text message)), (''service_name'', JString (valid_text (lg_ServiceName logger)))] @
       (if lg_SessionID logger = [] then [] else [(''session_id'', JString (valid_text (lg_SessionID logger)))]) @
       (if lg_TraceID logger = [] then [] else [(''trace_id'', JString (valid_text (lg_TraceID logger)))])"
  by (cases "lo_Context opts") (simp_all add: valid_members_def message_members_def log_message_def omitempty_def plain_keys Let_def)

text \<open>
  C27. A log reads back to what was written to it, one object per call and in order, in both layouts
  and although nothing separates the objects: each with its time, its level, its message and the
  name of the service, and with the event name, the context, the session and the trace that are
  given. Whatever a message, a name or a context contains, such as text a client chose, it ends up
  inside the member it was logged in and can neither forge another member nor another entry. It is
  read back as it was written where it is UTF-8; each byte that is not becomes U+FFFD.
\<close>

theorem log_reads_back:
  "read_log (length entries) (write_log logger entries []) =
     Some (map (\<lambda>(now, message, level, opts).
       [(''global_event_timestamp'', JString (valid_text (RFC3339 now)))] @
       (if lo_GlobalEventName opts = [] then [] else [(''global_event_name'', JString (valid_text (lo_GlobalEventName opts)))]) @
       [(''level'', JString (valid_text level))] @
       (case lo_Context opts of None \<Rightarrow> [] | Some text \<Rightarrow> if text = [] then [] else [(''context'', JString (valid_text text))]) @
       [(''message'', JString (valid_text message)), (''service_name'', JString (valid_text (lg_ServiceName logger)))] @
       (if lg_SessionID logger = [] then [] else [(''session_id'', JString (valid_text (lg_SessionID logger)))]) @
       (if lg_TraceID logger = [] then [] else [(''trace_id'', JString (valid_text (lg_TraceID logger)))])) entries)"
  using read_log_written [of entries logger] by (simp only: written_members)

text \<open>Outside development the two quiet levels write nothing.\<close>

lemma production_log:
  assumes "\<not> lg_IsDevelopmentEnvironment logger"
  shows "Debug logger now message out = out" "DebugWithOptions logger now message opts out = out"
    "Trace logger now message out = out" "TraceWithOptions logger now message opts out = out"
  using assms by (simp_all add: Debug_def DebugWithOptions_def Trace_def TraceWithOptions_def)

end
