(* ===== verification/Startup.thy ===== *)
theory Startup
  imports Logging Game_Server Mongo
begin

text \<open>
  From the environment to a running server and back (cmd/fear-online-server/main.go,
  database/database.go, and the construction, the listener and the end of the \<open>Server\<close> of
  proudnet/server.go). The operating system, the MongoDB driver and the random key are arguments.
\<close>

section \<open>The database (database.go)\<close>

text \<open>
  The driver: \<open>'c\<close> are its clients and \<open>'d\<close> its databases. A failing call gives its error text.
\<close>

record ('c, 'd) driver =
  dr_Connect :: "string \<Rightarrow> string + 'c"
  dr_Ping :: "'c \<Rightarrow> string option"
  dr_Database :: "'c \<Rightarrow> string \<Rightarrow> 'd"
  dr_Collection :: "'d \<Rightarrow> string \<Rightarrow> db Collection"
  dr_Disconnect :: "'c \<Rightarrow> string option"

record ('c, 'd) Database =
  db_client :: 'c
  db_database :: 'd

definition Database_Connect :: "('c, 'd) driver \<Rightarrow> string \<Rightarrow> string \<Rightarrow> string + ('c, 'd) Database" where
  "Database_Connect dr uri name =
     (case dr_Connect dr uri of
        Inl err \<Rightarrow> Inl err
      | Inr client \<Rightarrow>
          (case dr_Ping dr client of
             Some err \<Rightarrow> Inl err
           | None \<Rightarrow> Inr \<lparr>db_client = client, db_database = dr_Database dr client name\<rparr>))"

definition Database_Collection :: "('c, 'd) driver \<Rightarrow> ('c, 'd) Database \<Rightarrow> string \<Rightarrow> db Collection" where
  "Database_Collection dr d name = dr_Collection dr (db_database d) name"

definition Database_Disconnect :: "('c, 'd) driver \<Rightarrow> ('c, 'd) Database \<Rightarrow> string option" where
  "Database_Disconnect dr d = dr_Disconnect dr (db_client d)"

section \<open>The game server's listener (server.go)\<close>

text \<open>\<open>Server\<close> without the parts that are the hub of a running server: where it is reached, and its listener.\<close>

record 'l Listening =
  sv_keyPair :: KeyPair
  sv_host :: string
  sv_port :: u16
  sv_listener :: "'l option"

definition NewServer :: "KeyPair \<Rightarrow> string \<Rightarrow> u16 \<Rightarrow> 'l Listening" where
  "NewServer kp h p = \<lparr>sv_keyPair = kp, sv_host = h, sv_port = p, sv_listener = None\<rparr>"

text \<open>\<open>net.Listen("tcp", addr)\<close> and the listener's \<open>Close\<close> are arguments; the accept loop ends when its listener fails.\<close>

definition Server_Listen :: "(string \<Rightarrow> string + 'l) \<Rightarrow> string \<Rightarrow> 'l Listening \<Rightarrow> string option \<times> 'l Listening" where
  "Server_Listen listen addr s =
     (case listen addr of
        Inl err \<Rightarrow> (Some err, s)
      | Inr listener \<Rightarrow> (None, s\<lparr>sv_listener := Some listener\<rparr>))"

definition Server_Close :: "('l \<Rightarrow> string option) \<Rightarrow> 'l Listening \<Rightarrow> string option" where
  "Server_Close close s = (case sv_listener s of None \<Rightarrow> None | Some listener \<Rightarrow> close listener)"

section \<open>Starting (main.go)\<close>

record ('c, 'd, 'l) outside =
  os_env :: env
  os_dotenv :: "env \<Rightarrow> env"
  os_required :: "string \<Rightarrow> bool"
  os_contains :: "string list \<Rightarrow> string \<Rightarrow> bool"
  os_driver :: "('c, 'd) driver"
  os_files :: "string \<Rightarrow> string list list option"
  os_GenerateKeyPair :: "string + KeyPair"
  os_listen :: "string \<Rightarrow> string + 'l"
  os_address :: "conn \<Rightarrow> string option"
  os_cipher :: new_cipher
  os_now :: "nat \<Rightarrow> time"
  os_lower :: "nat \<Rightarrow> nat"
  os_logClock :: "nat \<Rightarrow> timestamp"

datatype fatal =
    ConfigInvalid "string list"
  | MongoUnreachable string string
  | CatalogFailed
  | KeyPairFailed string
  | PortInvalid string
  | ListenFailed string string

record ('c, 'd, 'l) running =
  up_config :: AppConfig
  up_logger :: Logger
  up_database :: "('c, 'd) Database"
  up_server :: "'l Listening"
  up_conf :: conf
  up_launcher :: "db Launcher.Handler"
  up_hub :: "db \<Rightarrow> hub"

definition general_channel :: "AppConfig \<Rightarrow> u16 \<Rightarrow> Channel" where
  "general_channel config loginPort =
     \<lparr>ch_ServerID = 1001, ch_ID = 1, ch_Kind = 1, ch_Name = ''Z_General'', ch_Host = ac_LoginServerIP config,
      ch_Port = loginPort, ch_MaxUsers = 100\<rparr>"

text \<open>The services over the two collections, and what the handler groups are constructed with.\<close>

definition server_conf :: "('c, 'd, 'l) outside \<Rightarrow> AppConfig \<Rightarrow> ('c, 'd) Database \<Rightarrow> Catalog \<Rightarrow> u16 \<Rightarrow> conf" where
  "server_conf os config d gameCatalog loginPort =
     (let playerRepo = mongo_player_repo (Database_Collection (os_driver os) d ''players'');
          clanRepo = mongo_clan_repo (Database_Collection (os_driver os) d ''clans'')
      in \<lparr>cf_players = \<lparr>ps_players = playerRepo, ps_catalog = gameCatalog,
             ps_startingPoint = ac_StartingPoint config, ps_startingCash = ac_StartingCash config\<rparr>,
          cf_clans = \<lparr>cs_clans = clanRepo, cs_players = playerRepo\<rparr>,
          cf_friends = \<lparr>fs_players = playerRepo\<rparr>,
          cf_catalog = gameCatalog,
          cf_channels = [general_channel config loginPort],
          cf_gameHost = ac_LoginServerIP config,
          cf_gamePort = loginPort,
          cf_address = os_address os, cf_cipher = os_cipher os, cf_now = os_now os, cf_lower = os_lower os\<rparr>)"

text \<open>
  \<open>log.Fatal\<close> ends the process with the reason as its message; what was logged before stays. The
  calls are made in this order, so the first that fails decides.
\<close>

definition main_start :: "('c, 'd, 'l) outside \<Rightarrow> (fatal, string, ('c, 'd, 'l) running) io" where
  "main_start os =
     (case load_config (os_dotenv os) (os_required os) (os_env os) of (config, invalid) \<Rightarrow>
      if invalid \<noteq> [] then io_fail (ConfigInvalid invalid) else
      let logger = Logger_New (ac_ServiceName config) (IsDevelopmentEnvironment (os_contains os) config);
          now = os_logClock os
      in case Database_Connect (os_driver os) (ac_MongoURI config) (ac_MongoDatabase config) of
        Inl err \<Rightarrow> io_fail (MongoUnreachable (ac_MongoURI config) err)
      | Inr d \<Rightarrow>
      (case Load (os_files os) of
        None \<Rightarrow> io_fail CatalogFailed
      | Some gameCatalog \<Rightarrow>
      io_seq (io_set (Info logger (now 0) ''catalog loaded: items, maps, rewards, classes, recipes''))
      (case os_GenerateKeyPair os of
        Inl err \<Rightarrow> io_fail (KeyPairFailed err)
      | Inr kp \<Rightarrow>
      if \<not> Atoi_ok (ac_LoginServerPort config) then io_fail (PortInvalid (ac_LoginServerPort config)) else
      let loginPort = word_of_int (Atoi (ac_LoginServerPort config));
          cf = server_conf os config d gameCatalog loginPort;
          addr = CHR '':'' # ac_LoginServerPort config
      in case Server_Listen (os_listen os) addr (NewServer kp (ac_LoginServerIP config) loginPort) of
        (Some err, _) \<Rightarrow> io_fail (ListenFailed (ac_LoginServerPort config) err)
      | (None, server) \<Rightarrow>
      io_seq (io_set (Info logger (now 1) (''ProudNet game-login server listening on port '' @ ac_LoginServerPort config)))
      (io_seq (io_set (Info logger (now 2) (''FEAR Online Server listening on port '' @ ac_Port config)))
      (io_ret \<lparr>up_config = config, up_logger = logger, up_database = d, up_server = server, up_conf = cf,
         up_launcher = \<lparr>ha_authenticator = Mock_Authenticate, ha_config = config, ha_players = cf_players cf\<rparr>,
         up_hub = new_hub\<rparr>)))))"

text \<open>The HTTP server's own end is only logged.\<close>

definition http_stopped :: "Logger \<Rightarrow> timestamp \<Rightarrow> string option \<Rightarrow> string \<Rightarrow> string" where
  "http_stopped logger now err out = (case err of None \<Rightarrow> out | Some e \<Rightarrow> Error logger now (''server stopped: '' @ e) out)"

section \<open>Stopping\<close>

text \<open>After the signal every part is closed, whatever the others report; \<open>shutdown\<close> is the result of \<open>app.Shutdown\<close>.\<close>

definition logged_failure :: "Logger \<Rightarrow> timestamp \<Rightarrow> string \<Rightarrow> string option \<Rightarrow> string \<Rightarrow> string" where
  "logged_failure logger now what err out = (case err of None \<Rightarrow> out | Some e \<Rightarrow> Error logger now (what @ e) out)"

definition main_stop :: "('c, 'd, 'l) outside \<Rightarrow> ('l \<Rightarrow> string option) \<Rightarrow> string option \<Rightarrow> ('c, 'd, 'l) running \<Rightarrow> string \<Rightarrow> string" where
  "main_stop os close shutdown up out =
     (let logger = up_logger up; now = os_logClock os;
          out = Info logger (now 3) ''shutting down...'' out;
          out = logged_failure logger (now 4) ''graceful shutdown failed: '' shutdown out;
          out = logged_failure logger (now 5) ''proudnet close failed: '' (Server_Close close (up_server up)) out
      in logged_failure logger (now 6) ''mongodb disconnect failed: '' (Database_Disconnect (os_driver os) (up_database up)) out)"

section \<open>Properties\<close>

text \<open>What a start relies on, in the order it is asked for: the reasons not to start.\<close>

definition unmet :: "('c, 'd, 'l) outside \<Rightarrow> AppConfig \<Rightarrow> fatal list" where
  "unmet os config =
     (let invalid = AppConfig_Validate (os_required os) config; port = ac_LoginServerPort config; uri = ac_MongoURI config
      in (if invalid = [] then [] else [ConfigInvalid invalid]) @
         (case Database_Connect (os_driver os) uri (ac_MongoDatabase config) of Inl err \<Rightarrow> [MongoUnreachable uri err] | Inr _ \<Rightarrow> []) @
         (case Load (os_files os) of None \<Rightarrow> [CatalogFailed] | Some _ \<Rightarrow> []) @
         (case os_GenerateKeyPair os of Inl err \<Rightarrow> [KeyPairFailed err] | Inr _ \<Rightarrow> []) @
         (if Atoi_ok port then [] else [PortInvalid port]) @
         (case os_listen os (CHR '':'' # port) of Inl err \<Rightarrow> [ListenFailed port err] | Inr _ \<Rightarrow> []))"

lemma config_fields:
  "snd (load_config dotenv required env) = AppConfig_Validate required (fst (load_config dotenv required env))"
  by (simp add: load_config_def Let_def)

text \<open>
  C25. The process ends with the first reason there is not to start: an invalid configuration, an
  unreachable MongoDB, a catalog that does not load, no key pair, a login port that is no number, a
  listener that does not open. With no such reason it comes up, and what comes up is the server the
  rest is about: the account, clan and friend services and the launcher work on the repository of the
  collection \<open>players\<close>, the clan service also on that of the collection \<open>clans\<close>, both of the configured
  database; services and handlers share the catalog that was loaded, and it is consistent; new accounts
  get the configured balances; the listener stands at the configured port, and the one channel that
  clients are told is the address of the server; no room or session exists yet.
\<close>

theorem startup_correct:
  "case unmet os (fst (load_config (os_dotenv os) (os_required os) (os_env os))) of
     reason # _ \<Rightarrow> fst (main_start os out) = Inl reason
   | [] \<Rightarrow> (\<exists>up config players clans.
       fst (main_start os out) = Inr up \<and>
       config = fst (load_config (os_dotenv os) (os_required os) (os_env os)) \<and> up_config up = config \<and>
       Database_Connect (os_driver os) (ac_MongoURI config) (ac_MongoDatabase config) = Inr (up_database up) \<and>
       players = dr_Collection (os_driver os) (db_database (up_database up)) ''players'' \<and>
       clans = dr_Collection (os_driver os) (db_database (up_database up)) ''clans'' \<and>
       ps_players (cf_players (up_conf up)) = mongo_player_repo players \<and>
       cs_players (cf_clans (up_conf up)) = mongo_player_repo players \<and>
       fs_players (cf_friends (up_conf up)) = mongo_player_repo players \<and>
       ps_players (ha_players (up_launcher up)) = mongo_player_repo players \<and>
       cs_clans (cf_clans (up_conf up)) = mongo_clan_repo clans \<and>
       Load (os_files os) = Some (cf_catalog (up_conf up)) \<and> catalog_ok (cf_catalog (up_conf up)) \<and>
       ps_catalog (cf_players (up_conf up)) = cf_catalog (up_conf up) \<and>
       ps_startingPoint (cf_players (up_conf up)) = ac_StartingPoint config \<and>
       ps_startingCash (cf_players (up_conf up)) = ac_StartingCash config \<and>
       (\<exists>l. os_listen os (CHR '':'' # ac_LoginServerPort config) = Inr l \<and> sv_listener (up_server up) = Some l) \<and>
       sv_host (up_server up) = ac_LoginServerIP config \<and>
       sv_port (up_server up) = word_of_int (Atoi (ac_LoginServerPort config)) \<and>
       map (\<lambda>ch. (ch_Host ch, ch_Port ch)) (cf_channels (up_conf up)) = [(sv_host (up_server up), sv_port (up_server up))] \<and>
       (cf_gameHost (up_conf up), cf_gamePort (up_conf up)) = (sv_host (up_server up), sv_port (up_server up)) \<and>
       up_hub up = new_hub)"
proof -
  obtain config invalid where c: "load_config (os_dotenv os) (os_required os) (os_env os) = (config, invalid)" by fastforce
  then have i: "invalid = AppConfig_Validate (os_required os) config" using config_fields by (metis fst_conv snd_conv)
  note defs = main_start_def unmet_def c i io_simps Let_def Server_Listen_def
  show ?thesis
    by (auto simp: defs NewServer_def server_conf_def general_channel_def Database_Collection_def Load_ok
        split: sum.splits option.splits if_splits)
qed

text \<open>An environment that names the HTTP port and the stage, with everything in reach.\<close>

definition idle_collection :: "db Collection" where
  "idle_collection = \<lparr>co_FindOne = (\<lambda>_. io_fail ErrNoDocuments), co_Find = (\<lambda>_ _. io_ret []), co_InsertOne = (\<lambda>_. io_ret ()),
     co_UpdateOne = (\<lambda>_ _. io_ret 0), co_UpdateByID = (\<lambda>_ _. io_ret 0), co_DeleteOne = (\<lambda>_. io_ret 0)\<rparr>"

definition sample_outside :: "(unit, string, string) outside" where
  "sample_outside = \<lparr>os_env = [''PORT'' \<mapsto> ''8080'', ''APPLICATION_ENV'' \<mapsto> ''TEST''], os_dotenv = id, os_required = (\<lambda>s. s \<noteq> []),
     os_contains = (\<lambda>xs x. x \<in> set xs),
     os_driver = \<lparr>dr_Connect = (\<lambda>_. Inr ()), dr_Ping = (\<lambda>_. None), dr_Database = (\<lambda>_ name. name),
       dr_Collection = (\<lambda>_ _. idle_collection), dr_Disconnect = (\<lambda>_. None)\<rparr>,
     os_files = (\<lambda>_. Some []), os_GenerateKeyPair = Inr \<lparr>DecryptOAEP = (\<lambda>_. None), PublicDER = []\<rparr>, os_listen = Inr,
     os_address = (\<lambda>_. None), os_cipher = (\<lambda>_. None), os_now = (\<lambda>_. 5), os_lower = id, os_logClock = (\<lambda>_. mock_timestamp)\<rparr>"

lemma startup_correct_witness:
  "\<exists>up. fst (main_start sample_outside []) = Inr up \<and> catalog_ok (cf_catalog (up_conf up)) \<and>
     map (\<lambda>ch. (ch_Host ch, ch_Port ch)) (cf_channels (up_conf up)) = [(sv_host (up_server up), sv_port (up_server up))]"
proof -
  let ?config = "fst (load_config (os_dotenv sample_outside) (os_required sample_outside) (os_env sample_outside))"
  have valid: "AppConfig_Validate (os_required sample_outside) ?config = []"
    by (simp add: sample_outside_def load_config_def AppConfig_Validate_def GetEnvString_def GetEnvStringOr_def Let_def)
  have port: "ac_LoginServerPort ?config = ''30003''"
    by (simp add: sample_outside_def load_config_def GetEnvString_def GetEnvStringOr_def Let_def)
  have "Atoi_ok ''30003''" by (simp add: Atoi_ok_def digit_value_def)
  moreover have "Load (\<lambda>_. Some []) = Some empty_catalog" by (simp add: Load_def each_row_def)
  ultimately have "unmet sample_outside ?config = []"
    unfolding unmet_def Let_def valid port by (simp add: sample_outside_def Database_Connect_def)
  with startup_correct [of sample_outside "[]"] show ?thesis by auto
qed

end
